(* ===== verification/Prelude.thy ===== *)
theory Prelude
  imports Main "HOL-Library.Word" "HOL-Library.Monad_Syntax"
begin

text \<open>
  Shared ground of the development: the C integer types, byte buffers, little-endian
  access to words, and the arithmetic of addresses and alignments on \<open>32 word\<close>.

  \<^item> A C object that the code addresses through a pointer is a store \<open>nat \<Rightarrow> byte\<close>
    (\<open>buf\<close>) together with the index the pointer stands at. Nothing in the type bounds
    the store, so "the code writes only inside its object" is a theorem about which indices
    of the store change, never an assumption of the model.
  \<^item> A function that may loop for ever, or that leaves the range in which C defines its
    result (an index outside a constant table), returns \<open>'a option\<close>; \<open>None\<close> is
    "the call does not return a value".
  \<^item> Return codes of type \<open>int32_t\<close> are \<open>int\<close>; where the code converts a
    \<open>uint32_t\<close> to \<open>int32_t\<close> the model applies \<open>sint\<close>.
\<close>

unbundle bit_operations_syntax

type_synonym u8 = "8 word"
type_synonym u16 = "16 word"
type_synonym u32 = "32 word"
type_synonym u64 = "64 word"

type_synonym buf = "nat \<Rightarrow> u8"

named_theorems addr_simps \<open>unsigned value of address and length expressions\<close>
named_theorems mem_simps \<open>reads of updated stores and of flash contents\<close>
named_theorems step_simps \<open>one step of a device or of a driver loop\<close>

section \<open>Tables and pointers\<close>

text \<open>Reading a constant table of the program: outside the table C defines no result.\<close>

definition table_get :: "'a list \<Rightarrow> nat \<Rightarrow> 'a option" where
  "table_get xs i = (if i < length xs then Some (xs ! i) else None)"

lemma table_get_Some: "table_get xs i = Some x \<longleftrightarrow> i < length xs \<and> xs ! i = x"
  by (auto simp: table_get_def)

text \<open>
  \<open>copy_bytes dst d src s n\<close> is the byte loop
  \<open>for (k = 0; k < n; k++) dst[d + k] = src[s + k]\<close>, and \<open>memcpy\<close>.
\<close>

primrec copy_bytes :: "buf \<Rightarrow> nat \<Rightarrow> buf \<Rightarrow> nat \<Rightarrow> nat \<Rightarrow> buf" where
  "copy_bytes dst d src s 0 = dst"
| "copy_bytes dst d src s (Suc n) = (copy_bytes dst d src s n)(d + n := src (s + n))"

lemma copy_bytes_apply [mem_simps]:
  "copy_bytes dst d src s n x = (if d \<le> x \<and> x < d + n then src (s + (x - d)) else dst x)"
  by (induction n) auto

lemma copy_bytes_outside: "x < d \<or> d + n \<le> x \<Longrightarrow> copy_bytes dst d src s n x = dst x"
  by (auto simp: copy_bytes_apply)

lemma copy_bytes_at: "k < n \<Longrightarrow> copy_bytes dst d src s n (d + k) = src (s + k)"
  by (simp add: copy_bytes_apply)

lemma copy_bytes_split:
  assumes "\<And>k. k < n \<Longrightarrow> f k = h k" and "\<And>k. k < m \<Longrightarrow> g k = h (n + k)"
  shows "copy_bytes (copy_bytes dst p f 0 n) (p + n) g 0 m = copy_bytes dst p h 0 (n + m)"
proof (rule ext)
  fix x
  have "g (x - (p + n)) = h (x - p)" if "p + n \<le> x" "x < p + n + m"
    using assms(2) [of "x - (p + n)"] that by simp
  moreover have "f (x - p) = h (x - p)" if "p \<le> x" "x < p + n" using assms(1) that by simp
  ultimately show "copy_bytes (copy_bytes dst p f 0 n) (p + n) g 0 m x = copy_bytes dst p h 0 (n + m) x"
    by (simp add: copy_bytes_apply)
qed

lemma copy_bytes_front:
  "copy_bytes (dst(d := src s)) (Suc d) src (Suc s) n = copy_bytes dst d src s (Suc n)"
proof (rule ext)
  fix x
  have "src (Suc s + (x - Suc d)) = src (s + (x - d))" if "Suc d \<le> x"
    using that by (simp add: Suc_diff_le [symmetric] Suc_diff_Suc)
  then show "copy_bytes (dst(d := src s)) (Suc d) src (Suc s) n x = copy_bytes dst d src s (Suc n) x"
    by (cases "x = d") (auto simp del: copy_bytes.simps simp: copy_bytes_apply)
qed

lemma copy_bytes_cong:
  "(\<And>k. k < n \<Longrightarrow> f (s + k) = g (t + k)) \<Longrightarrow> copy_bytes dst p f s n = copy_bytes dst p g t n"
  by (induction n) simp_all

section \<open>Little-endian bytes of machine words\<close>

definition byte_of :: "'a::len word \<Rightarrow> nat \<Rightarrow> u8" where
  "byte_of w k = ucast (drop_bit (8 * k) w)"

definition load32 :: "buf \<Rightarrow> nat \<Rightarrow> u32" where
  "load32 m a = ucast (m a) OR push_bit 8 (ucast (m (a + 1)))
              OR push_bit 16 (ucast (m (a + 2))) OR push_bit 24 (ucast (m (a + 3)))"

lemma byte_of_bit: "bit (byte_of w k) i \<longleftrightarrow> i < 8 \<and> bit w (8 * k + i)"
  by (auto simp: byte_of_def bit_simps dest: bit_imp_le_length)

lemma byte_of_load32 [mem_simps]:
  assumes "k < 4"
  shows "byte_of (load32 m a) k = m (a + k)"
proof (rule bit_word_eqI)
  fix i assume "i < LENGTH(8)"
  then have i: "i < 8" by simp
  have "k = 0 \<or> k = 1 \<or> k = 2 \<or> k = 3" using assms by auto
  then show "bit (byte_of (load32 m a) k) i = bit (m (a + k)) i"
    using i by (auto simp: byte_of_bit load32_def bit_simps numeral_3_eq_3 dest: bit_imp_le_length)
qed

text \<open>The bytes \<open>memcpy(&dst, &r_data, n)\<close> takes from a local \<open>uint32_t\<close>.\<close>

definition bytes32 :: "u32 \<Rightarrow> buf" where
  "bytes32 w = byte_of w"

lemma bytes32_load32 [mem_simps]: "k < 4 \<Longrightarrow> bytes32 (load32 m a) k = m (a + k)"
  by (simp add: bytes32_def byte_of_load32)

text \<open>
  \<open>memcpy(&dword, p, n)\<close> for a local \<open>uint64_t\<close>: the first \<open>n\<close> bytes come
  from \<open>p\<close>, the others keep the (indeterminate) content \<open>old\<close> of the local.
\<close>

definition bit_at64 :: "buf \<Rightarrow> nat \<Rightarrow> bool" where
  "bit_at64 f i = bit (f (i div 8)) (i mod 8)"

definition le64 :: "buf \<Rightarrow> u64" where
  "le64 f = horner_sum of_bool 2 (map (bit_at64 f) [0..<64])"

definition memcpy64 :: "u64 \<Rightarrow> buf \<Rightarrow> nat \<Rightarrow> nat \<Rightarrow> u64" where
  "memcpy64 old p o1 n = le64 (\<lambda>k. if k < n then p (o1 + k) else byte_of old k)"

lemma byte_of_le64:
  assumes "k < 8"
  shows "byte_of (le64 f) k = f k"
proof (rule bit_word_eqI)
  fix i assume "i < LENGTH(8)"
  then have i: "i < 8" by simp
  then have "8 * k + i < 64" using assms by simp
  then show "bit (byte_of (le64 f) k) i = bit (f k) i"
    using i by (simp add: byte_of_bit le64_def bit_horner_sum_bit_word_iff bit_at64_def)
qed

lemma byte_of_memcpy64 [mem_simps]:
  assumes "k < n" and "n \<le> 8"
  shows "byte_of (memcpy64 old p o1 n) k = p (o1 + k)"
  using assms by (simp add: memcpy64_def byte_of_le64)

section \<open>Flash contents\<close>

text \<open>
  Two operations on the contents of a NOR flash: programming can only clear bits,
  erasing sets every byte of the erased range to \<open>0xFF\<close>.
\<close>

definition flash_program :: "buf \<Rightarrow> nat \<Rightarrow> nat \<Rightarrow> buf \<Rightarrow> buf" where
  "flash_program m a n f = (\<lambda>x. if a \<le> x \<and> x < a + n then m x AND f (x - a) else m x)"

definition flash_erase :: "buf \<Rightarrow> nat \<Rightarrow> nat \<Rightarrow> buf" where
  "flash_erase m a n = (\<lambda>x. if a \<le> x \<and> x < a + n then 0xFF else m x)"

lemma program_erased: "flash_program (flash_erase m a n) b k f
     = (\<lambda>x. if b \<le> x \<and> x < b + k then (if a \<le> x \<and> x < a + n then f (x - b) else m x AND f (x - b))
            else flash_erase m a n x)"
proof -
  have "(0xFF :: u8) = -1" by simp
  then have "0xFF AND y = y" for y :: u8 by (simp only: and.left_neutral)
  then show ?thesis by (auto simp: flash_program_def flash_erase_def fun_eq_iff)
qed

lemma flash_program_0 [simp]: "flash_program m a 0 f = m"
  by (auto simp: flash_program_def fun_eq_iff)

lemma flash_program_append:
  "flash_program (flash_program m a n f) (a + n) k (\<lambda>i. f (n + i)) = flash_program m a (n + k) f"
  by (auto simp: flash_program_def fun_eq_iff)

lemma flash_program_cong:
  "(\<And>i. i < n \<Longrightarrow> f i = g i) \<Longrightarrow> flash_program m a n f = flash_program m a n g"
  by (auto simp: flash_program_def fun_eq_iff)

lemma flash_program_same:
  "(\<And>i. i < n \<Longrightarrow> f i = m (a + i)) \<Longrightarrow> flash_program m a n f = m"
  by (auto simp: flash_program_def fun_eq_iff)

lemma flash_program_erased:
  "(\<And>i. i < n \<Longrightarrow> m (a + i) = 0xFF) \<Longrightarrow> a \<le> x \<Longrightarrow> x < a + n \<Longrightarrow>
   flash_program m a n f x = f (x - a)"
proof -
  assume "\<And>i. i < n \<Longrightarrow> m (a + i) = 0xFF" and x: "a \<le> x" "x < a + n"
  then have "m (a + (x - a)) = 0xFF" by (metis add_less_imp_less_left le_add_diff_inverse)
  then have "m x = NOT 0" using x by simp
  then show ?thesis using x by (simp add: flash_program_def)
qed

lemma flash_erase_append:
  "flash_erase (flash_erase m a n) (a + n) k = flash_erase m a (n + k)"
  by (auto simp: flash_erase_def fun_eq_iff)

lemma flash_erase_0 [simp]: "flash_erase m a 0 = m"
  by (auto simp: flash_erase_def fun_eq_iff)

section \<open>Unsigned values of word expressions\<close>

lemma and_not_mask_shift: "x AND NOT (mask n) = push_bit n (drop_bit n x)" for x :: "'a::len word"
  by (rule bit_word_eqI) (auto simp: bit_simps)

lemma unat_and_not_mask: "unat (x AND NOT (mask n)) = unat x div 2 ^ n * 2 ^ n"
  for x :: "'a::len word"
proof -
  have "unat x div 2 ^ n * 2 ^ n < 2 ^ LENGTH('a)"
    using div_mult_mod_eq [of "unat x" "2 ^ n"] unsigned_less [of x, where 'a=nat]
    by (metis le_add1 le_less_trans)
  then show ?thesis
    unfolding and_not_mask_shift
    by (simp only: unsigned_push_bit_eq unat_drop_bit_eq)
       (simp add: push_bit_eq_mult drop_bit_eq_div take_bit_nat_eq_self)
qed

lemma unat_add32: "unat a + unat b < 2 ^ 32 \<Longrightarrow> unat (a + b) = unat a + unat b" for a b :: u32
  by (simp add: unat_word_ariths)

lemma unat_sub32: "b \<le> a \<Longrightarrow> unat (a - b) = unat a - unat b" for a b :: u32
  by (rule unat_sub)

lemma unat_mult32: "unat a * unat b < 2 ^ 32 \<Longrightarrow> unat (a * b) = unat a * unat b" for a b :: u32
  by (simp add: unat_word_ariths)

lemma unat_less32: "unat (a :: u32) < 2 ^ 32"
  using unsigned_less [of a, where 'a=nat] by simp

lemma u32_eq_of_nat: "unat (x :: u32) = n \<Longrightarrow> x = of_nat n"
  by auto

lemma unat_of_nat32: "n < 2 ^ 32 \<Longrightarrow> unat (of_nat n :: u32) = n"
  by (simp add: unat_of_nat)

lemma unat_of_nat8: "n < 256 \<Longrightarrow> unat (of_nat n :: u8) = n"
  by (simp add: unat_of_nat)

lemma unat_ucast_8_32 [simp]: "unat (ucast (i :: u8) :: u32) = unat i"
  by (simp add: unsigned_ucast_eq take_bit_nat_eq_self unsigned_less [THEN less_trans])

lemma unat_Suc32: "i < (lim :: u32) \<Longrightarrow> unat (i + 1) = Suc (unat i)"
  using unat_less32 [of lim] by (simp add: unat_add32 word_less_nat_alt)

lemma sint_of_small: "unat a < 2 ^ 31 \<Longrightarrow> sint a = int (unat a)" for a :: u32
proof -
  assume small: "unat a < 2 ^ 31"
  have "int (unat a) = uint a" by simp
  moreover have "int (unat a) < int (2 ^ 31)" using small by (simp only: of_nat_less_iff)
  moreover have "- (2 ^ 31) \<le> uint a" by (rule order_trans [of _ 0]) simp_all
  ultimately show ?thesis
    by (simp add: sint_uint signed_take_bit_int_eq_self)
qed

end
