(* ===== verification/Driver_Types.thy ===== *)
theory Driver_Types
  imports Prelude
begin

text \<open>
  \<open>Driver_Common.h\<close> and \<open>Driver_Flash.h\<close>: the CMSIS flash driver interface. The access
  struct of function pointers is a record of functions over the state \<open>'s\<close> of the device
  and everything behind it. \<open>ReadData\<close> takes the store and index its \<open>void *data\<close> points
  to and returns the store it leaves; \<open>cb_event\<close> is ignored by every driver of the
  repository and is left out; \<open>EraseChip\<close> is a null pointer everywhere.

  The locales \<open>cmsis_read\<close>, \<open>cmsis_erase\<close> and \<open>cmsis_flash\<close> are the contract that \<open>flash_map.c\<close> relies on.
\<close>

abbreviation (input) ARM_DRIVER_OK :: int where "ARM_DRIVER_OK \<equiv> 0"
abbreviation (input) ARM_DRIVER_ERROR :: int where "ARM_DRIVER_ERROR \<equiv> -1"
abbreviation (input) ARM_DRIVER_ERROR_UNSUPPORTED :: int where "ARM_DRIVER_ERROR_UNSUPPORTED \<equiv> -4"
abbreviation (input) ARM_DRIVER_ERROR_PARAMETER :: int where "ARM_DRIVER_ERROR_PARAMETER \<equiv> -5"

datatype ARM_POWER_STATE = ARM_POWER_OFF | ARM_POWER_LOW | ARM_POWER_FULL

record ARM_DRIVER_VERSION =
  api :: u16
  drv :: u16

definition ARM_DRIVER_VERSION_MAJOR_MINOR :: "u32 \<Rightarrow> u32 \<Rightarrow> u32" where
  "ARM_DRIVER_VERSION_MAJOR_MINOR major minor = push_bit 8 major OR minor"

record ARM_FLASH_INFO =
  sector_info :: "(u32 \<times> u32) list option"
  sector_count :: u32
  sector_size :: u32
  page_size :: u32
  program_unit :: u32
  erased_value :: u8

record ARM_FLASH_STATUS =
  busy :: bool
  error :: bool

record ARM_FLASH_CAPABILITIES =
  event_ready :: bool
  data_width :: nat
  erase_chip :: bool

record 's ARM_DRIVER_FLASH =
  GetVersion :: "unit \<Rightarrow> ARM_DRIVER_VERSION"
  GetCapabilities :: "unit \<Rightarrow> ARM_FLASH_CAPABILITIES"
  Initialize :: "'s \<Rightarrow> (int \<times> 's) option"
  Uninitialize :: "'s \<Rightarrow> (int \<times> 's) option"
  PowerControl :: "ARM_POWER_STATE \<Rightarrow> 's \<Rightarrow> (int \<times> 's) option"
  ReadData :: "u32 \<Rightarrow> buf \<Rightarrow> nat \<Rightarrow> u32 \<Rightarrow> 's \<Rightarrow> (int \<times> buf \<times> 's) option"
  ProgramData :: "u32 \<Rightarrow> buf \<Rightarrow> nat \<Rightarrow> u32 \<Rightarrow> 's \<Rightarrow> (int \<times> 's) option"
  EraseSector :: "u32 \<Rightarrow> 's \<Rightarrow> (int \<times> 's) option"
  EraseChip :: "('s \<Rightarrow> (int \<times> 's) option) option"
  GetStatus :: "unit \<Rightarrow> ARM_FLASH_STATUS"
  GetInfo :: "unit \<Rightarrow> ARM_FLASH_INFO"

text \<open>\<open>data_width_byte[]\<close>, the table both \<open>Driver_Flash.c\<close> and \<open>flash_map.c\<close> define.\<close>

definition data_width_byte :: "u32 list" where
  "data_width_byte = [1, 2, 4]"

lemma data_width_byte_2 [simp]: "table_get data_width_byte 2 = Some 4"
  by (simp add: table_get_def data_width_byte_def)

section \<open>The contract of a CMSIS flash driver\<close>

text \<open>
  A driver with 32-bit items whose addresses \<open>lo \<le> a < hi\<close> are flash with content
  \<open>mem s\<close>. Reading an aligned range inside the flash returns a non-negative code, fills
  exactly the destination range with the content and changes nothing in the flash.
\<close>

locale cmsis_read =
  fixes D :: "'s ARM_DRIVER_FLASH"
    and mem :: "'s \<Rightarrow> buf"
    and good :: "'s \<Rightarrow> bool"
    and lo :: nat
    and hi :: nat
  assumes width: "good s \<Longrightarrow> data_width (GetCapabilities D ()) = 2"
    and hi_bound: "good s \<Longrightarrow> hi < 2 ^ 32"
    and read_law:
    "good s \<Longrightarrow> 4 dvd unat a \<Longrightarrow> cnt \<noteq> 0 \<Longrightarrow> lo \<le> unat a \<Longrightarrow> unat a + 4 * unat cnt \<le> hi \<Longrightarrow>
     \<exists>r s'. ReadData D a dst p cnt s
              = Some (r, copy_bytes dst p (\<lambda>k. mem s (unat a + k)) 0 (4 * unat cnt), s')
          \<and> 0 \<le> r \<and> good s' \<and> mem s' = mem s"

text \<open>A driver that also erases uniform sectors.\<close>

locale cmsis_erase = cmsis_read +
  fixes sector :: nat
  assumes uniform: "good s \<Longrightarrow> sector_info (GetInfo D ()) = None"
    and sector_size_eq: "good s \<Longrightarrow> unat (sector_size (GetInfo D ())) = sector"
    and sector_pos: "good s \<Longrightarrow> 0 < sector"
    and erased_value_eq: "good s \<Longrightarrow> erased_value (GetInfo D ()) = 0xFF"
    and erase_law:
    "good s \<Longrightarrow> sector dvd unat a \<Longrightarrow> lo \<le> unat a \<Longrightarrow> unat a + sector \<le> hi \<Longrightarrow>
     \<exists>s'. EraseSector D a s = Some (0, s') \<and> good s'
        \<and> mem s' = flash_erase (mem s) (unat a) sector"

text \<open>A driver that also programs aligned units.\<close>

locale cmsis_flash = cmsis_erase +
  fixes unit_bytes :: nat
  assumes program_law:
    "good s \<Longrightarrow> unit_bytes dvd unat a \<Longrightarrow> unit_bytes dvd 4 * unat cnt \<Longrightarrow> cnt \<noteq> 0 \<Longrightarrow>
     lo \<le> unat a \<Longrightarrow> unat a + 4 * unat cnt \<le> hi \<Longrightarrow>
     \<exists>r s'. ProgramData D a src p cnt s = Some (r, s') \<and> 0 \<le> r \<and> good s'
          \<and> mem s' = flash_program (mem s) (unat a) (4 * unat cnt) (\<lambda>k. src (p + k))"

end
