(* ===== verification/Hw.thy ===== *)
theory Hw
  imports Prelude
begin

text \<open>
  The boundary to the board support package and the silicon, which are not part of the
  repository (\<open>bsplib/bsp\<close> is a submodule). Everything the code does to the outside
  is an event: a write or read of a memory-mapped register, a BSP macro or function. The
  state of the outside world is the list of all events so far, oldest first (\<open>hw\<close>), and
  a parameter \<open>B\<close> of every driver definition answers the reading events: \<open>resp B t\<close> is
  the value that the last event of \<open>t\<close> returned. Any deterministic device is such a
  function of the history; what a theorem needs to know about the device is a hypothesis
  about \<open>resp B\<close>. The numeric values of BSP macros are the parameter \<open>konst B\<close>.
\<close>

datatype fmc_reg = ISPCMD | ISPADDR | ISPDAT | ISPTRG | ISPSTS | MPDAT0 | MPDAT1

text \<open>The macros of the SPI and QSPI masters (\<open>SPI_SET_SS_LOW\<close>, \<open>SPI_WRITE_TX\<close>, ...).\<close>

datatype ser_op =
    SET_SS_LOW | SET_SS_HIGH
  | WRITE_TX u32 | READ_RX
  | IS_BUSY | GET_TX_FIFO_FULL_FLAG | GET_RX_FIFO_EMPTY_FLAG
  | ClearRxFIFO
  | ENABLE_QUAD_OUTPUT_MODE | ENABLE_QUAD_INPUT_MODE | DISABLE_QUAD_MODE

text \<open>
  \<open>DMA_Out bs\<close>: a DMA transfer fetches the bytes \<open>bs\<close> from memory. \<open>DMA_In k\<close> is a reading
  event: the byte number \<open>k\<close> that a DMA transfer stores.
\<close>

datatype ev =
    FMC_Wr fmc_reg u32 | FMC_Rd fmc_reg
  | RMC_Read u32 | RMC_ErrCode | RMC_Write u32 u32 | RMC_Erase u32
  | SPI ser_op | QSPI ser_op
  | Reg_Wr string u32 | Reg_Rd string
  | DMA_Out "u8 list" | DMA_In nat
  | Bsp string "string list"
  | Printf string

type_synonym hw = "ev list"

datatype bsp_const =
    FMC_ISPCMD_READ | FMC_ISPCMD_PROGRAM_64 | FMC_ISPCMD_PAGE_ERASE
  | FMC_ISPTRG_ISPGO_Msk | FMC_ISPSTS_ISPBUSY_Msk | FMC_ISPSTS_ISPFF_Msk
  | FMC_TIMEOUT_READ | FMC_TIMEOUT_WRITE | FMC_TIMEOUT_ERASE
  | FMC_APROM_BASE | FMC_APROM_SIZE | FMC_LDROM_BASE | FMC_LDROM_SIZE | FMC_FLASH_PAGE_SIZE
  | RMC_APROM_BASE | RMC_APROM_SIZE | RMC_LDROM_BASE | RMC_LDROM_SIZE | RMC_FLASH_PAGE_SIZE
  | SystemCoreClock | SPIM_DMM_SIZE
  | Konst string

record bsp =
  resp :: "hw \<Rightarrow> u32"
  konst :: "bsp_const \<Rightarrow> u32"

text \<open>A reading event: the event is appended, and its value is the response.\<close>

definition ask :: "bsp \<Rightarrow> ev \<Rightarrow> hw \<Rightarrow> u32 \<times> hw" where
  "ask B q t = (resp B (t @ [q]), t @ [q])"

lemma ask_simps [simp]: "fst (ask B q t) = resp B (t @ [q])" "snd (ask B q t) = t @ [q]"
  by (simp_all add: ask_def)

end
