(* ===== verification/Nvmc.thy ===== *)
theory Nvmc
  imports Hw
begin

text \<open>
  \<open>nvmc_drv.h\<close>: the interface between the CMSIS flash driver and the controller of the
  on-chip flash, a struct of function pointers that \<open>fmc_drv.c\<close> and \<open>rmc_drv.c\<close> fill in.
  The \<open>uint32_t *data\<close> argument of \<open>read\<close> is \<open>None\<close> for a null pointer and
  \<open>Some v\<close> for a pointer to a cell that holds \<open>v\<close>; the cell's final content is returned.

  The locale \<open>nvmc_device\<close> is the contract the CMSIS driver relies on.
\<close>

abbreviation (input) NVT_NVMC_OK :: int where "NVT_NVMC_OK \<equiv> 0"
abbreviation (input) NVT_NVMC_ERROR :: int where "NVT_NVMC_ERROR \<equiv> -1"
abbreviation (input) NVT_NVMC_TIMEOUT :: int where "NVT_NVMC_TIMEOUT \<equiv> -2"
abbreviation (input) NVT_NVMC_ISPFF :: int where "NVT_NVMC_ISPFF \<equiv> -3"
abbreviation (input) NVT_NVMC_PARAMETER :: int where "NVT_NVMC_PARAMETER \<equiv> -4"

record 's NVT_NVMC_T =
  nvmc_init :: "'s \<Rightarrow> (int \<times> 's) option"
  nvmc_read :: "u32 \<Rightarrow> u32 option \<Rightarrow> 's \<Rightarrow> (int \<times> u32 option \<times> 's) option"
  nvmc_program :: "u32 \<Rightarrow> u64 \<Rightarrow> 's \<Rightarrow> (int \<times> 's) option"
  nvmc_erase :: "u32 \<Rightarrow> 's \<Rightarrow> (int \<times> 's) option"

text \<open>
  Geometry of the two on-chip arrays. \<open>rmc\<close> is the build switch \<open>NVMC_TYPE_RMC == 1\<close>.
\<close>

definition NVT_NVMC_APROM_MEMORY_BASE :: "bsp \<Rightarrow> bool \<Rightarrow> u32" where
  "NVT_NVMC_APROM_MEMORY_BASE B rmc = (if rmc then konst B RMC_APROM_BASE else konst B FMC_APROM_BASE)"

definition NVT_NVMC_LDROM_MEMORY_BASE :: "bsp \<Rightarrow> bool \<Rightarrow> u32" where
  "NVT_NVMC_LDROM_MEMORY_BASE B rmc = (if rmc then konst B RMC_LDROM_BASE else konst B FMC_LDROM_BASE)"

definition NVT_NVMC_SECTOR_SIZE :: "bsp \<Rightarrow> bool \<Rightarrow> u32" where
  "NVT_NVMC_SECTOR_SIZE B rmc =
     (if rmc then konst B RMC_FLASH_PAGE_SIZE else konst B FMC_FLASH_PAGE_SIZE)"

definition NVT_NVMC_APROM_SECTOR_COUNT :: "bsp \<Rightarrow> bool \<Rightarrow> u32" where
  "NVT_NVMC_APROM_SECTOR_COUNT B rmc =
     (if rmc then konst B RMC_APROM_SIZE div konst B RMC_FLASH_PAGE_SIZE
      else konst B FMC_APROM_SIZE div konst B FMC_FLASH_PAGE_SIZE)"

definition NVT_NVMC_LDROM_SECTOR_COUNT :: "bsp \<Rightarrow> bool \<Rightarrow> u32" where
  "NVT_NVMC_LDROM_SECTOR_COUNT B rmc =
     (if rmc then konst B RMC_LDROM_SIZE div konst B RMC_FLASH_PAGE_SIZE
      else konst B FMC_LDROM_SIZE div konst B FMC_FLASH_PAGE_SIZE)"

definition NVT_NVMC_PROGRAM_UNIT :: "bool \<Rightarrow> u32" where
  "NVT_NVMC_PROGRAM_UNIT rmc = (if rmc then 4 else 8)"

section \<open>The contract of a flash controller\<close>

text \<open>
  \<open>mem s\<close> is the content of the flash in state \<open>s\<close>, \<open>good s\<close> says that the device
  is initialised and working, \<open>backed\<close> which addresses the array has. A unit of
  \<open>unit\<close> bytes is programmed at a time and a sector of \<open>sector\<close> bytes erased.
\<close>

locale nvmc_device =
  fixes N :: "'s NVT_NVMC_T"
    and mem :: "'s \<Rightarrow> buf"
    and good :: "'s \<Rightarrow> bool"
    and backed :: "nat \<Rightarrow> bool"
    and unit_bytes :: nat
    and sector :: nat
  assumes read_law:
    "good s \<Longrightarrow> 4 dvd unat a \<Longrightarrow> \<forall>k < 4. backed (unat a + k) \<Longrightarrow>
     \<exists>s'. nvmc_read N a (Some v) s = Some (0, Some (load32 (mem s) (unat a)), s')
        \<and> good s' \<and> mem s' = mem s"
    and program_law:
    "good s \<Longrightarrow> unit_bytes dvd unat a \<Longrightarrow> \<forall>k < unit_bytes. backed (unat a + k) \<Longrightarrow>
     \<exists>s'. nvmc_program N a d s = Some (0, s')
        \<and> good s' \<and> mem s' = flash_program (mem s) (unat a) unit_bytes (byte_of d)"
    and erase_law:
    "good s \<Longrightarrow> sector dvd unat a \<Longrightarrow> \<forall>k < sector. backed (unat a + k) \<Longrightarrow>
     \<exists>s'. nvmc_erase N a s = Some (0, s')
        \<and> good s' \<and> mem s' = flash_erase (mem s) (unat a) sector"

end
