(* ===== verification/Fmc_Drv.thy ===== *)
theory Fmc_Drv
  imports Nvmc
begin

text \<open>
  \<open>bl2/platform/common/fmc_drv.c\<close>: the flash memory controller. A command is issued by
  writing the command, address and data registers and setting \<open>ISPGO\<close>; the driver then
  polls \<open>ISPSTS\<close> until the busy flag drops or the counter runs out, and looks at the
  failure flag. Proved here: the polling loop stops after at most \<open>timeout + 1\<close> further
  polls, what each operation returns on every path, and, for a controller that completes its
  commands, the contract \<open>nvmc_device\<close>.
\<close>

section \<open>The driver\<close>

definition NVT_FMC_Init :: "bsp \<Rightarrow> hw \<Rightarrow> (int \<times> hw) option" where
  "NVT_FMC_Init B t =
     Some (NVT_NVMC_OK, t @ [Bsp ''FMC_Open'' [], Bsp ''FMC_ENABLE_AP_UPDATE'' [],
                            Bsp ''FMC_ENABLE_LD_UPDATE'' []])"

text \<open>
  \<open>while (FMC->ISPSTS & ISPBUSY) if (timeout_cnt-- <= 0) return TIMEOUT;\<close>
  The flag is true when the loop is left by the return.
\<close>

function fmc_wait :: "bsp \<Rightarrow> int \<Rightarrow> hw \<Rightarrow> bool \<times> hw" where
  "fmc_wait B cnt t =
     (let (sts, t1) = ask B (FMC_Rd ISPSTS) t
      in if sts AND konst B FMC_ISPSTS_ISPBUSY_Msk \<noteq> 0
         then (if cnt \<le> 0 then (True, t1) else fmc_wait B (cnt - 1) t1)
         else (False, t1))"
  by pat_completeness auto
termination
  by (relation "measure (\<lambda>(B, cnt, t). nat cnt)") auto

declare fmc_wait.simps [simp del]

text \<open>\<open>if (FMC->ISPSTS & ISPFF) { FMC->ISPSTS |= ISPFF; return NVT_NVMC_ISPFF; }\<close>\<close>

definition fmc_failed :: "bsp \<Rightarrow> hw \<Rightarrow> bool \<times> hw" where
  "fmc_failed B t =
     (let (sts, t1) = ask B (FMC_Rd ISPSTS) t
      in if sts AND konst B FMC_ISPSTS_ISPFF_Msk \<noteq> 0
         then (let (sts', t2) = ask B (FMC_Rd ISPSTS) t1
               in (True, t2 @ [FMC_Wr ISPSTS (sts' OR konst B FMC_ISPSTS_ISPFF_Msk)]))
         else (False, t1))"

definition fmc_timeout :: "bsp \<Rightarrow> bsp_const \<Rightarrow> int" where
  "fmc_timeout B c = sint (konst B c)"

definition NVT_FMC_Read ::
    "bsp \<Rightarrow> u32 \<Rightarrow> u32 option \<Rightarrow> hw \<Rightarrow> (int \<times> u32 option \<times> hw) option" where
  "NVT_FMC_Read B addr data t =
     (if data = None then Some (NVT_NVMC_PARAMETER, data, t)
      else
        let t = t @ [FMC_Wr ISPCMD (konst B FMC_ISPCMD_READ), FMC_Wr ISPADDR addr,
                     FMC_Wr ISPTRG (konst B FMC_ISPTRG_ISPGO_Msk)];
            (timeout, t) = fmc_wait B (fmc_timeout B FMC_TIMEOUT_READ) t
        in if timeout then Some (NVT_NVMC_TIMEOUT, data, t)
           else let (failed, t) = fmc_failed B t
                in if failed then Some (NVT_NVMC_ISPFF, data, t)
                   else let (v, t) = ask B (FMC_Rd ISPDAT) t
                        in Some (NVT_NVMC_OK, Some v, t))"

definition NVT_FMC_Program :: "bsp \<Rightarrow> u32 \<Rightarrow> u64 \<Rightarrow> hw \<Rightarrow> (int \<times> hw) option" where
  "NVT_FMC_Program B addr dword t =
     (let t = t @ [FMC_Wr ISPCMD (konst B FMC_ISPCMD_PROGRAM_64), FMC_Wr ISPADDR addr,
                   FMC_Wr MPDAT0 (ucast (dword AND 0xFFFFFFFF)),
                   FMC_Wr MPDAT1 (ucast (drop_bit 32 (dword AND 0xFFFFFFFF00000000))),
                   FMC_Wr ISPTRG (konst B FMC_ISPTRG_ISPGO_Msk)];
          (timeout, t) = fmc_wait B (fmc_timeout B FMC_TIMEOUT_WRITE) t
      in if timeout then Some (NVT_NVMC_TIMEOUT, t)
         else let (failed, t) = fmc_failed B t
              in Some (if failed then NVT_NVMC_ISPFF else NVT_NVMC_OK, t))"

definition NVT_FMC_Erase :: "bsp \<Rightarrow> u32 \<Rightarrow> hw \<Rightarrow> (int \<times> hw) option" where
  "NVT_FMC_Erase B addr t =
     (let t = t @ [FMC_Wr ISPCMD (konst B FMC_ISPCMD_PAGE_ERASE), FMC_Wr ISPADDR addr,
                   FMC_Wr ISPTRG (konst B FMC_ISPTRG_ISPGO_Msk)];
          (timeout, t) = fmc_wait B (fmc_timeout B FMC_TIMEOUT_ERASE) t
      in if timeout then Some (NVT_NVMC_TIMEOUT, t)
         else let (failed, t) = fmc_failed B t
              in Some (if failed then NVT_NVMC_ISPFF else NVT_NVMC_OK, t))"

text \<open>
  The struct of function pointers, and the four entry points \<open>NVT_NVMC_*\<close>, which call
  through it.
\<close>

definition NVT_FMC :: "bsp \<Rightarrow> hw NVT_NVMC_T" where
  "NVT_FMC B = \<lparr>nvmc_init = NVT_FMC_Init B, nvmc_read = NVT_FMC_Read B,
                nvmc_program = NVT_FMC_Program B, nvmc_erase = NVT_FMC_Erase B\<rparr>"

definition fmc_NVT_NVMC_Init :: "bsp \<Rightarrow> hw \<Rightarrow> (int \<times> hw) option" where
  "fmc_NVT_NVMC_Init B t = nvmc_init (NVT_FMC B) t"

definition fmc_NVT_NVMC_Read ::
    "bsp \<Rightarrow> u32 \<Rightarrow> u32 option \<Rightarrow> hw \<Rightarrow> (int \<times> u32 option \<times> hw) option" where
  "fmc_NVT_NVMC_Read B addr data t = nvmc_read (NVT_FMC B) addr data t"

definition fmc_NVT_NVMC_Program :: "bsp \<Rightarrow> u32 \<Rightarrow> u64 \<Rightarrow> hw \<Rightarrow> (int \<times> hw) option" where
  "fmc_NVT_NVMC_Program B addr dword t = nvmc_program (NVT_FMC B) addr dword t"

definition fmc_NVT_NVMC_Erase :: "bsp \<Rightarrow> u32 \<Rightarrow> hw \<Rightarrow> (int \<times> hw) option" where
  "fmc_NVT_NVMC_Erase B addr t = nvmc_erase (NVT_FMC B) addr t"

definition fmc_nvmc :: "bsp \<Rightarrow> hw NVT_NVMC_T" where
  "fmc_nvmc B = \<lparr>nvmc_init = fmc_NVT_NVMC_Init B, nvmc_read = fmc_NVT_NVMC_Read B,
                 nvmc_program = fmc_NVT_NVMC_Program B, nvmc_erase = fmc_NVT_NVMC_Erase B\<rparr>"

lemmas fmc_entry = fmc_nvmc_def NVT_FMC_def fmc_NVT_NVMC_Init_def fmc_NVT_NVMC_Read_def
  fmc_NVT_NVMC_Program_def fmc_NVT_NVMC_Erase_def

section \<open>The polling loop\<close>

definition polls :: "nat \<Rightarrow> hw" where
  "polls n = replicate n (FMC_Rd ISPSTS)"

lemma polls_Suc: "polls (Suc n) = FMC_Rd ISPSTS # polls n"
  by (simp add: polls_def)

lemma polls_0 [simp]: "polls 0 = []"
  by (simp add: polls_def)

lemma polls_snoc: "polls n @ [FMC_Rd ISPSTS] = polls (Suc n)"
  by (simp add: polls_def replicate_append_same)

lemma length_polls [simp]: "length (polls n) = n"
  by (simp add: polls_def)

abbreviation fmc_busy :: "bsp \<Rightarrow> hw \<Rightarrow> bool" where
  "fmc_busy B t \<equiv> resp B t AND konst B FMC_ISPSTS_ISPBUSY_Msk \<noteq> 0"

text \<open>The loop adds between one and \<open>cnt + 1\<close> polls, whatever the device answers.\<close>

lemma fmc_wait_trace:
  "\<exists>n. 1 \<le> n \<and> n \<le> Suc (nat cnt) \<and> snd (fmc_wait B cnt t) = t @ polls n
     \<and> (fst (fmc_wait B cnt t) \<longrightarrow> n = Suc (nat cnt))
     \<and> (fst (fmc_wait B cnt t) = fmc_busy B (t @ polls n))"
proof (induction B cnt t rule: fmc_wait.induct)
  case (1 B cnt t)
  let ?t1 = "t @ [FMC_Rd ISPSTS]"
  show ?case
  proof (cases "fmc_busy B ?t1 \<and> 0 < cnt")
    case True
    then obtain n where n: "1 \<le> n" "n \<le> Suc (nat (cnt - 1))"
      "snd (fmc_wait B (cnt - 1) ?t1) = ?t1 @ polls n"
      "fst (fmc_wait B (cnt - 1) ?t1) \<longrightarrow> n = Suc (nat (cnt - 1))"
      "fst (fmc_wait B (cnt - 1) ?t1) = fmc_busy B (?t1 @ polls n)"
      using "1.IH" [OF ask_def [symmetric], of "resp B ?t1" ?t1] by (auto simp: ask_def)
    moreover have "fmc_wait B cnt t = fmc_wait B (cnt - 1) ?t1"
      using True by (simp add: fmc_wait.simps [of B cnt t] ask_def)
    ultimately show ?thesis
      using True by (intro exI [of _ "Suc n"]) (auto simp: polls_Suc)
  next
    case False
    then show ?thesis
      by (intro exI [of _ 1]) (auto simp: fmc_wait.simps [of B cnt t] ask_def polls_Suc)
  qed
qed

text \<open>A device that is busy for \<open>n \<le> cnt\<close> polls and then free.\<close>

lemma fmc_wait_completes:
  assumes "\<And>k. k < n \<Longrightarrow> fmc_busy B (t @ polls (Suc k))"
    and "\<not> fmc_busy B (t @ polls (Suc n))"
    and "int n \<le> cnt \<or> n = 0"
  shows "fmc_wait B cnt t = (False, t @ polls (Suc n))"
  using assms
proof (induction n arbitrary: cnt t)
  case 0
  then show ?case by (simp add: fmc_wait.simps [of B cnt t] ask_def polls_Suc)
next
  case (Suc n)
  let ?t1 = "t @ [FMC_Rd ISPSTS]"
  have "fmc_wait B (cnt - 1) ?t1 = (False, ?t1 @ polls (Suc n))"
  proof (rule Suc.IH)
    fix k assume "k < n"
    then show "fmc_busy B (?t1 @ polls (Suc k))"
      using Suc.prems(1) [of "Suc k"] by (simp add: polls_Suc)
  next
    show "\<not> fmc_busy B (?t1 @ polls (Suc n))" using Suc.prems(2) by (simp add: polls_Suc)
    show "int n \<le> cnt - 1 \<or> n = 0" using Suc.prems(3) by auto
  qed
  moreover have "fmc_busy B ?t1" using Suc.prems(1) [of 0] by (simp add: polls_Suc)
  ultimately show ?case
    using Suc.prems(3) by (simp add: fmc_wait.simps [of B cnt t] ask_def polls_Suc)
qed

section \<open>A controller that completes its commands\<close>

text \<open>
  The documented behaviour of the controller, as a hypothesis on the responses. \<open>F\<close>
  says what the flash contains after a history (\<open>fd_mem\<close>), whether the controller is open
  (\<open>fd_ready\<close>) and which addresses exist (\<open>fd_backed\<close>). A command that is triggered
  keeps the busy flag up for some number \<open>n\<close> of polls that is below the time-out, then
  drops it with the failure flag clear; its effect is on the flash as documented: reading
  leaves it unchanged and puts the addressed word in \<open>ISPDAT\<close>, the 64-bit program
  command clears bits of eight bytes, page erase sets a page to \<open>0xFF\<close>.
\<close>

record fdev =
  fd_mem :: "hw \<Rightarrow> buf"
  fd_ready :: "hw \<Rightarrow> bool"
  fd_backed :: "nat \<Rightarrow> bool"

definition fmc_completes :: "bsp \<Rightarrow> int \<Rightarrow> hw \<Rightarrow> nat \<Rightarrow> bool" where
  "fmc_completes B T t n \<longleftrightarrow>
     (\<forall>k < n. fmc_busy B (t @ polls (Suc k))) \<and> \<not> fmc_busy B (t @ polls (Suc n))
     \<and> (int n \<le> T \<or> n = 0)
     \<and> resp B (t @ polls (Suc (Suc n))) AND konst B FMC_ISPSTS_ISPFF_Msk = 0"

definition fmc_cmd :: "bsp \<Rightarrow> bsp_const \<Rightarrow> u32 \<Rightarrow> hw \<Rightarrow> hw" where
  "fmc_cmd B c a ds = [FMC_Wr ISPCMD (konst B c), FMC_Wr ISPADDR a] @ ds
                     @ [FMC_Wr ISPTRG (konst B FMC_ISPTRG_ISPGO_Msk)]"

definition fmc_read_law :: "bsp \<Rightarrow> fdev \<Rightarrow> bool" where
  "fmc_read_law B F \<longleftrightarrow>
     (\<forall>t a. fd_ready F t \<longrightarrow> 4 dvd unat a \<longrightarrow> (\<forall>k < 4. fd_backed F (unat a + k)) \<longrightarrow>
       (\<exists>n. let t0 = t @ fmc_cmd B FMC_ISPCMD_READ a [];
                t1 = t0 @ polls (Suc (Suc n)) @ [FMC_Rd ISPDAT]
            in fmc_completes B (fmc_timeout B FMC_TIMEOUT_READ) t0 n
               \<and> resp B t1 = load32 (fd_mem F t) (unat a)
               \<and> fd_ready F t1 \<and> fd_mem F t1 = fd_mem F t))"

definition fmc_program_law :: "bsp \<Rightarrow> fdev \<Rightarrow> bool" where
  "fmc_program_law B F \<longleftrightarrow>
     (\<forall>t a d0 d1. fd_ready F t \<longrightarrow> 8 dvd unat a \<longrightarrow> (\<forall>k < 8. fd_backed F (unat a + k)) \<longrightarrow>
       (\<exists>n. let t0 = t @ fmc_cmd B FMC_ISPCMD_PROGRAM_64 a [FMC_Wr MPDAT0 d0, FMC_Wr MPDAT1 d1];
                t1 = t0 @ polls (Suc (Suc n))
            in fmc_completes B (fmc_timeout B FMC_TIMEOUT_WRITE) t0 n \<and> fd_ready F t1
               \<and> fd_mem F t1 = flash_program (fd_mem F t) (unat a) 8
                    (\<lambda>k. if k < 4 then byte_of d0 k else byte_of d1 (k - 4))))"

definition fmc_page :: "bsp \<Rightarrow> nat" where
  "fmc_page B = unat (konst B FMC_FLASH_PAGE_SIZE)"

definition fmc_erase_law :: "bsp \<Rightarrow> fdev \<Rightarrow> bool" where
  "fmc_erase_law B F \<longleftrightarrow>
     (\<forall>t a. fd_ready F t \<longrightarrow> fmc_page B dvd unat a \<longrightarrow>
            (\<forall>k < fmc_page B. fd_backed F (unat a + k)) \<longrightarrow>
       (\<exists>n. let t0 = t @ fmc_cmd B FMC_ISPCMD_PAGE_ERASE a [];
                t1 = t0 @ polls (Suc (Suc n))
            in fmc_completes B (fmc_timeout B FMC_TIMEOUT_ERASE) t0 n \<and> fd_ready F t1
               \<and> fd_mem F t1 = flash_erase (fd_mem F t) (unat a) (fmc_page B)))"

definition fmc_laws :: "bsp \<Rightarrow> fdev \<Rightarrow> bool" where
  "fmc_laws B F \<longleftrightarrow> fmc_read_law B F \<and> fmc_program_law B F \<and> fmc_erase_law B F"

text \<open>One completed command: the polling loop and the check of the failure flag.\<close>

lemma fmc_completes_wait [step_simps]:
  assumes "fmc_completes B T t n"
  shows "fmc_wait B T t = (False, t @ polls (Suc n))"
    and "fmc_failed B (t @ polls (Suc n)) = (False, t @ polls (Suc (Suc n)))"
proof -
  show "fmc_wait B T t = (False, t @ polls (Suc n))"
    using assms by (intro fmc_wait_completes) (auto simp: fmc_completes_def)
  have "resp B (t @ polls (Suc (Suc n))) AND konst B FMC_ISPSTS_ISPFF_Msk = 0"
    using assms by (simp add: fmc_completes_def)
  then show "fmc_failed B (t @ polls (Suc n)) = (False, t @ polls (Suc (Suc n)))"
    by (simp add: fmc_failed_def ask_def Let_def polls_snoc)
qed

text \<open>The two data registers hold the eight bytes of the double word.\<close>

lemma mpdat_bytes:
  fixes d :: u64
  assumes "k < 8"
  shows "(if k < 4 then byte_of (ucast (d AND 0xFFFFFFFF) :: u32) k
          else byte_of (ucast (drop_bit 32 (d AND 0xFFFFFFFF00000000)) :: u32) (k - 4)) = byte_of d k"
proof (rule bit_word_eqI)
  have lo: "(0xFFFFFFFF :: u64) = mask 32" by (simp add: mask_eq_exp_minus_1)
  have hi: "(0xFFFFFFFF00000000 :: u64) = push_bit 32 (mask 32)" by (simp add: mask_eq_exp_minus_1 push_bit_eq_mult)
  fix i assume "i < LENGTH(8)"
  then have i: "i < 8" by simp
  show "bit (if k < 4 then byte_of (ucast (d AND 0xFFFFFFFF) :: u32) k
          else byte_of (ucast (drop_bit 32 (d AND 0xFFFFFFFF00000000)) :: u32) (k - 4)) i = bit (byte_of d k) i"
  proof (cases "k < 4")
    case True
    then show ?thesis using i unfolding lo by (auto simp: byte_of_bit bit_simps)
  next
    case False
    then obtain j where j: "k = j + 4" by (metis add.commute le_Suc_ex not_less)
    then have "8 * j + i < 32" using assms i by simp
    moreover have "bit d (32 + (8 * j + i)) = bit d (8 * k + i)" using j by (simp add: algebra_simps)
    ultimately show ?thesis
      using i False j assms unfolding hi by (simp add: byte_of_bit bit_simps ac_simps)
  qed
qed

lemma fmc_read_ok:
  assumes "fmc_laws B F" "fd_ready F t" "4 dvd unat a" "\<forall>k < 4. fd_backed F (unat a + k)"
  shows "\<exists>t'. NVT_FMC_Read B a (Some v) t = Some (0, Some (load32 (fd_mem F t) (unat a)), t')
          \<and> fd_ready F t' \<and> fd_mem F t' = fd_mem F t"
proof -
  let ?t0 = "t @ fmc_cmd B FMC_ISPCMD_READ a []"
  from assms obtain n where n: "fmc_completes B (fmc_timeout B FMC_TIMEOUT_READ) ?t0 n"
    and r: "resp B (?t0 @ polls (Suc (Suc n)) @ [FMC_Rd ISPDAT]) = load32 (fd_mem F t) (unat a)"
      "fd_ready F (?t0 @ polls (Suc (Suc n)) @ [FMC_Rd ISPDAT])"
      "fd_mem F (?t0 @ polls (Suc (Suc n)) @ [FMC_Rd ISPDAT]) = fd_mem F t"
    unfolding fmc_laws_def fmc_read_law_def Let_def by blast
  have "NVT_FMC_Read B a (Some v) t
      = Some (0, Some (load32 (fd_mem F t) (unat a)), ?t0 @ polls (Suc (Suc n)) @ [FMC_Rd ISPDAT])"
    using fmc_completes_wait [OF n] r by (simp add: NVT_FMC_Read_def fmc_cmd_def ask_def)
  with r show ?thesis by blast
qed

lemma fmc_program_ok:
  assumes "fmc_laws B F" "fd_ready F t" "8 dvd unat a" "\<forall>k < 8. fd_backed F (unat a + k)"
  shows "\<exists>t'. NVT_FMC_Program B a d t = Some (0, t') \<and> fd_ready F t'
          \<and> fd_mem F t' = flash_program (fd_mem F t) (unat a) 8 (byte_of d)"
proof -
  let ?d0 = "ucast (d AND 0xFFFFFFFF) :: u32"
  let ?d1 = "ucast (drop_bit 32 (d AND 0xFFFFFFFF00000000)) :: u32"
  let ?t0 = "t @ fmc_cmd B FMC_ISPCMD_PROGRAM_64 a [FMC_Wr MPDAT0 ?d0, FMC_Wr MPDAT1 ?d1]"
  from assms obtain n where n: "fmc_completes B (fmc_timeout B FMC_TIMEOUT_WRITE) ?t0 n"
    and r: "fd_ready F (?t0 @ polls (Suc (Suc n)))"
      "fd_mem F (?t0 @ polls (Suc (Suc n))) = flash_program (fd_mem F t) (unat a) 8
         (\<lambda>k. if k < 4 then byte_of ?d0 k else byte_of ?d1 (k - 4))"
    unfolding fmc_laws_def fmc_program_law_def Let_def by blast
  have "NVT_FMC_Program B a d t = Some (0, ?t0 @ polls (Suc (Suc n)))"
    using fmc_completes_wait [OF n] by (simp add: NVT_FMC_Program_def fmc_cmd_def)
  moreover have "fd_mem F (?t0 @ polls (Suc (Suc n))) = flash_program (fd_mem F t) (unat a) 8 (byte_of d)"
    unfolding r(2) by (rule flash_program_cong) (rule mpdat_bytes)
  ultimately show ?thesis using r(1) by blast
qed

lemma fmc_erase_ok:
  assumes "fmc_laws B F" "fd_ready F t" "fmc_page B dvd unat a"
    "\<forall>k < fmc_page B. fd_backed F (unat a + k)"
  shows "\<exists>t'. NVT_FMC_Erase B a t = Some (0, t') \<and> fd_ready F t'
          \<and> fd_mem F t' = flash_erase (fd_mem F t) (unat a) (fmc_page B)"
proof -
  let ?t0 = "t @ fmc_cmd B FMC_ISPCMD_PAGE_ERASE a []"
  from assms obtain n where n: "fmc_completes B (fmc_timeout B FMC_TIMEOUT_ERASE) ?t0 n"
    and r: "fd_ready F (?t0 @ polls (Suc (Suc n)))"
      "fd_mem F (?t0 @ polls (Suc (Suc n))) = flash_erase (fd_mem F t) (unat a) (fmc_page B)"
    unfolding fmc_laws_def fmc_erase_law_def Let_def by blast
  have "NVT_FMC_Erase B a t = Some (0, ?t0 @ polls (Suc (Suc n)))"
    using fmc_completes_wait [OF n] by (simp add: NVT_FMC_Erase_def fmc_cmd_def)
  with r show ?thesis by blast
qed

text \<open>
  The contract of \<open>nvmc_device\<close>, discharged for the driver on every controller that
  behaves as documented.
\<close>

interpretation fmc: nvmc_device "fmc_nvmc B" "fd_mem F" "\<lambda>t. fmc_laws B F \<and> fd_ready F t"
  "fd_backed F" 8 "fmc_page B" for B F
proof unfold_locales
  fix t :: hw and a :: u32 and v :: u32 and d :: u64
  assume good: "fmc_laws B F \<and> fd_ready F t"
  { assume "4 dvd unat a" "\<forall>k < 4. fd_backed F (unat a + k)"
    with good fmc_read_ok show "\<exists>s'. nvmc_read (fmc_nvmc B) a (Some v) t =
        Some (0, Some (load32 (fd_mem F t) (unat a)), s')
        \<and> (fmc_laws B F \<and> fd_ready F s') \<and> fd_mem F s' = fd_mem F t"
      unfolding fmc_entry by auto }
  { assume "8 dvd unat a" "\<forall>k < 8. fd_backed F (unat a + k)"
    with good fmc_program_ok show "\<exists>s'. nvmc_program (fmc_nvmc B) a d t = Some (0, s')
        \<and> (fmc_laws B F \<and> fd_ready F s')
        \<and> fd_mem F s' = flash_program (fd_mem F t) (unat a) 8 (byte_of d)"
      unfolding fmc_entry by auto }
  { assume "fmc_page B dvd unat a" "\<forall>k < fmc_page B. fd_backed F (unat a + k)"
    with good fmc_erase_ok show "\<exists>s'. nvmc_erase (fmc_nvmc B) a t = Some (0, s')
        \<and> (fmc_laws B F \<and> fd_ready F s')
        \<and> fd_mem F s' = flash_erase (fd_mem F t) (unat a) (fmc_page B)"
      unfolding fmc_entry by auto }
qed

end
