(* ===== verification/Rmc_Drv.thy ===== *)
theory Rmc_Drv
  imports Fmc_Drv
begin

text \<open>
  \<open>bl2/platform/common/rmc_drv.c\<close>: the controller of the M2L31, driven through the BSP
  functions \<open>RMC_Read\<close>, \<open>RMC_Write\<close>, \<open>RMC_Erase\<close> and the BSP error variable
  \<open>g_RMC_i32ErrCode\<close>. Calls of these functions and reads of the variable are events;
  \<open>int32_t\<close> results are read with \<open>sint\<close>. Proved here: how results of the BSP are
  mapped to driver codes, and the contract \<open>nvmc_device\<close> with a program unit of 4 bytes.
\<close>

section \<open>The driver\<close>

definition NVT_RMC_Init :: "bsp \<Rightarrow> hw \<Rightarrow> (int \<times> hw) option" where
  "NVT_RMC_Init B t =
     Some (NVT_NVMC_OK, t @ [Bsp ''RMC_Open'' [], Bsp ''RMC_ENABLE_LD_UPDATE'' [],
                            Bsp ''RMC_ENABLE_AP_UPDATE'' []])"

text \<open>The cell is written before the error variable is read; a null \<open>data\<close> is dereferenced.\<close>

definition NVT_RMC_Read ::
    "bsp \<Rightarrow> u32 \<Rightarrow> u32 option \<Rightarrow> hw \<Rightarrow> (int \<times> u32 option \<times> hw) option" where
  "NVT_RMC_Read B addr data t =
     (let (v, t) = ask B (RMC_Read addr) t
      in if data = None then None
         else let (err, t) = ask B RMC_ErrCode t
              in if sint err \<noteq> 0 then Some (NVT_NVMC_ERROR, Some v, t)
                 else Some (NVT_NVMC_OK, Some v, t))"

definition NVT_RMC_Program :: "bsp \<Rightarrow> u32 \<Rightarrow> u64 \<Rightarrow> hw \<Rightarrow> (int \<times> hw) option" where
  "NVT_RMC_Program B addr dword t =
     (let (ret, t) = ask B (RMC_Write addr (ucast (dword AND 0xFFFFFFFF))) t
      in if sint ret = -1 then Some (NVT_NVMC_ERROR, t) else Some (NVT_NVMC_OK, t))"

definition NVT_RMC_Erase :: "bsp \<Rightarrow> u32 \<Rightarrow> hw \<Rightarrow> (int \<times> hw) option" where
  "NVT_RMC_Erase B addr t =
     (let (ret, t) = ask B (RMC_Erase addr) t
      in if sint ret = -2 then Some (NVT_NVMC_PARAMETER, t)
         else if sint ret = -1 then Some (NVT_NVMC_ERROR, t)
         else Some (NVT_NVMC_OK, t))"

definition NVT_RMC :: "bsp \<Rightarrow> hw NVT_NVMC_T" where
  "NVT_RMC B = \<lparr>nvmc_init = NVT_RMC_Init B, nvmc_read = NVT_RMC_Read B,
                nvmc_program = NVT_RMC_Program B, nvmc_erase = NVT_RMC_Erase B\<rparr>"

definition rmc_NVT_NVMC_Init :: "bsp \<Rightarrow> hw \<Rightarrow> (int \<times> hw) option" where
  "rmc_NVT_NVMC_Init B t = nvmc_init (NVT_RMC B) t"

definition rmc_NVT_NVMC_Read ::
    "bsp \<Rightarrow> u32 \<Rightarrow> u32 option \<Rightarrow> hw \<Rightarrow> (int \<times> u32 option \<times> hw) option" where
  "rmc_NVT_NVMC_Read B addr data t = nvmc_read (NVT_RMC B) addr data t"

definition rmc_NVT_NVMC_Program :: "bsp \<Rightarrow> u32 \<Rightarrow> u64 \<Rightarrow> hw \<Rightarrow> (int \<times> hw) option" where
  "rmc_NVT_NVMC_Program B addr dword t = nvmc_program (NVT_RMC B) addr dword t"

definition rmc_NVT_NVMC_Erase :: "bsp \<Rightarrow> u32 \<Rightarrow> hw \<Rightarrow> (int \<times> hw) option" where
  "rmc_NVT_NVMC_Erase B addr t = nvmc_erase (NVT_RMC B) addr t"

definition rmc_nvmc :: "bsp \<Rightarrow> hw NVT_NVMC_T" where
  "rmc_nvmc B = \<lparr>nvmc_init = rmc_NVT_NVMC_Init B, nvmc_read = rmc_NVT_NVMC_Read B,
                 nvmc_program = rmc_NVT_NVMC_Program B, nvmc_erase = rmc_NVT_NVMC_Erase B\<rparr>"

lemmas rmc_entry = rmc_nvmc_def NVT_RMC_def rmc_NVT_NVMC_Init_def rmc_NVT_NVMC_Read_def
  rmc_NVT_NVMC_Program_def rmc_NVT_NVMC_Erase_def

text \<open>
  The controller that is linked: \<open>NVMC_DRV_SRC\<close> in \<open>bl2/platform/CMakeLists.txt\<close> is
  \<open>rmc_drv.c\<close> for the M2L31 and \<open>fmc_drv.c\<close> otherwise.
\<close>

definition linked_nvmc :: "bsp \<Rightarrow> bool \<Rightarrow> hw NVT_NVMC_T" where
  "linked_nvmc B rmc = (if rmc then rmc_nvmc B else fmc_nvmc B)"

section \<open>A controller that completes its commands\<close>

text \<open>
  The documented behaviour of the BSP functions: reading returns the addressed word and
  leaves the error variable 0; writing returns 0 and clears bits of four bytes; erasing
  returns 0 and sets a page to \<open>0xFF\<close>.
\<close>

definition rmc_page :: "bsp \<Rightarrow> nat" where
  "rmc_page B = unat (konst B RMC_FLASH_PAGE_SIZE)"

definition rmc_laws :: "bsp \<Rightarrow> fdev \<Rightarrow> bool" where
  "rmc_laws B F \<longleftrightarrow>
     (\<forall>t a. fd_ready F t \<longrightarrow> 4 dvd unat a \<longrightarrow> (\<forall>k < 4. fd_backed F (unat a + k)) \<longrightarrow>
        resp B (t @ [RMC_Read a]) = load32 (fd_mem F t) (unat a)
        \<and> resp B (t @ [RMC_Read a, RMC_ErrCode]) = 0
        \<and> fd_ready F (t @ [RMC_Read a, RMC_ErrCode])
        \<and> fd_mem F (t @ [RMC_Read a, RMC_ErrCode]) = fd_mem F t)
   \<and> (\<forall>t a w. fd_ready F t \<longrightarrow> 4 dvd unat a \<longrightarrow> (\<forall>k < 4. fd_backed F (unat a + k)) \<longrightarrow>
        resp B (t @ [RMC_Write a w]) = 0 \<and> fd_ready F (t @ [RMC_Write a w])
        \<and> fd_mem F (t @ [RMC_Write a w]) = flash_program (fd_mem F t) (unat a) 4 (byte_of w))
   \<and> (\<forall>t a. fd_ready F t \<longrightarrow> rmc_page B dvd unat a \<longrightarrow>
        (\<forall>k < rmc_page B. fd_backed F (unat a + k)) \<longrightarrow>
        resp B (t @ [RMC_Erase a]) = 0 \<and> fd_ready F (t @ [RMC_Erase a])
        \<and> fd_mem F (t @ [RMC_Erase a]) = flash_erase (fd_mem F t) (unat a) (rmc_page B))"

lemma byte_of_low_word:
  fixes d :: u64
  assumes "k < 4"
  shows "byte_of (ucast (d AND 0xFFFFFFFF) :: u32) k = byte_of d k"
  using mpdat_bytes [of k d] assms by simp

lemma rmc_read_ok:
  assumes "rmc_laws B F" "fd_ready F t" "4 dvd unat a" "\<forall>k < 4. fd_backed F (unat a + k)"
  shows "\<exists>t'. NVT_RMC_Read B a (Some v) t = Some (0, Some (load32 (fd_mem F t) (unat a)), t')
          \<and> fd_ready F t' \<and> fd_mem F t' = fd_mem F t"
  using assms unfolding rmc_laws_def by (auto simp: NVT_RMC_Read_def ask_def)

lemma rmc_program_ok:
  assumes "rmc_laws B F" "fd_ready F t" "4 dvd unat a" "\<forall>k < 4. fd_backed F (unat a + k)"
  shows "\<exists>t'. NVT_RMC_Program B a d t = Some (0, t') \<and> fd_ready F t'
          \<and> fd_mem F t' = flash_program (fd_mem F t) (unat a) 4 (byte_of d)"
proof -
  have "flash_program (fd_mem F t) (unat a) 4 (byte_of (ucast (d AND 0xFFFFFFFF) :: u32))
      = flash_program (fd_mem F t) (unat a) 4 (byte_of d)"
    by (rule flash_program_cong) (rule byte_of_low_word)
  with assms show ?thesis unfolding rmc_laws_def by (auto simp: NVT_RMC_Program_def ask_def)
qed

lemma rmc_erase_ok:
  assumes "rmc_laws B F" "fd_ready F t" "rmc_page B dvd unat a"
    "\<forall>k < rmc_page B. fd_backed F (unat a + k)"
  shows "\<exists>t'. NVT_RMC_Erase B a t = Some (0, t') \<and> fd_ready F t'
          \<and> fd_mem F t' = flash_erase (fd_mem F t) (unat a) (rmc_page B)"
  using assms unfolding rmc_laws_def by (auto simp: NVT_RMC_Erase_def ask_def)

interpretation rmc: nvmc_device "rmc_nvmc B" "fd_mem F" "\<lambda>t. rmc_laws B F \<and> fd_ready F t"
  "fd_backed F" 4 "rmc_page B" for B F
proof unfold_locales
  fix t :: hw and a :: u32 and v :: u32 and d :: u64
  assume good: "rmc_laws B F \<and> fd_ready F t"
  { assume "4 dvd unat a" "\<forall>k < 4. fd_backed F (unat a + k)"
    with good rmc_read_ok show "\<exists>s'. nvmc_read (rmc_nvmc B) a (Some v) t =
        Some (0, Some (load32 (fd_mem F t) (unat a)), s')
        \<and> (rmc_laws B F \<and> fd_ready F s') \<and> fd_mem F s' = fd_mem F t"
      unfolding rmc_entry by auto }
  { assume "4 dvd unat a" "\<forall>k < 4. fd_backed F (unat a + k)"
    with good rmc_program_ok show "\<exists>s'. nvmc_program (rmc_nvmc B) a d t = Some (0, s')
        \<and> (rmc_laws B F \<and> fd_ready F s')
        \<and> fd_mem F s' = flash_program (fd_mem F t) (unat a) 4 (byte_of d)"
      unfolding rmc_entry by auto }
  { assume "rmc_page B dvd unat a" "\<forall>k < rmc_page B. fd_backed F (unat a + k)"
    with good rmc_erase_ok show "\<exists>s'. nvmc_erase (rmc_nvmc B) a t = Some (0, s')
        \<and> (rmc_laws B F \<and> fd_ready F s')
        \<and> fd_mem F s' = flash_erase (fd_mem F t) (unat a) (rmc_page B)"
      unfolding rmc_entry by auto }
qed

end
