(* ===== verification/Driver_Flash.thy ===== *)
theory Driver_Flash
  imports Driver_Types Rmc_Drv
begin

text \<open>
  \<open>bl2/platform/common/Driver_Flash.c\<close>, the part that drives the on-chip flash: range and
  alignment checks, the read and program loops over the controller's words, and the drivers
  \<open>Driver_FLASH0\<close> (APROM) and \<open>Driver_FLASH1\<close> (LDROM). \<open>N\<close> is the controller that is
  linked, \<open>ind\<close> the indeterminate content of uninitialised locals. The cache maintenance
  of \<open>clean_invalidate_dcacheline\<close> does not change what memory holds and is left out.

  Proved here: the driver over any controller that keeps the contract \<open>nvmc_device\<close>
  keeps the contract \<open>cmsis_flash\<close>; what the range check accepts; error propagation.
\<close>

record arm_flash_dev_t =
  memory_base :: u32
  data :: ARM_FLASH_INFO

definition DATA_WIDTH_ENUM_SIZE :: nat where "DATA_WIDTH_ENUM_SIZE = 3"

definition FlashStatus :: ARM_FLASH_STATUS where
  "FlashStatus = \<lparr>busy = False, error = False\<rparr>"

definition DriverVersion :: ARM_DRIVER_VERSION where
  "DriverVersion = \<lparr>api = ucast (ARM_DRIVER_VERSION_MAJOR_MINOR 2 3),
                    drv = ucast (ARM_DRIVER_VERSION_MAJOR_MINOR 1 0)\<rparr>"

definition DriverCapabilities :: ARM_FLASH_CAPABILITIES where
  "DriverCapabilities = \<lparr>event_ready = False, data_width = 2, erase_chip = True\<rparr>"

definition is_write_aligned :: "arm_flash_dev_t \<Rightarrow> u32 \<Rightarrow> int" where
  "is_write_aligned dev param = (if param mod program_unit (data dev) \<noteq> 0 then -1 else 0)"

definition is_sector_aligned :: "arm_flash_dev_t \<Rightarrow> u32 \<Rightarrow> int" where
  "is_sector_aligned dev off = (if off mod sector_size (data dev) \<noteq> 0 then -1 else 0)"

definition ARM_FLASH0_DEV :: "bsp \<Rightarrow> bool \<Rightarrow> arm_flash_dev_t" where
  "ARM_FLASH0_DEV B rmc =
     \<lparr>memory_base = NVT_NVMC_APROM_MEMORY_BASE B rmc,
      data = \<lparr>sector_info = None, sector_count = NVT_NVMC_APROM_SECTOR_COUNT B rmc,
              sector_size = NVT_NVMC_SECTOR_SIZE B rmc, page_size = NVT_NVMC_SECTOR_SIZE B rmc,
              program_unit = NVT_NVMC_PROGRAM_UNIT rmc, erased_value = 0xFF\<rparr>\<rparr>"

definition ARM_FLASH1_DEV :: "bsp \<Rightarrow> bool \<Rightarrow> arm_flash_dev_t" where
  "ARM_FLASH1_DEV B rmc =
     \<lparr>memory_base = NVT_NVMC_LDROM_MEMORY_BASE B rmc,
      data = \<lparr>sector_info = None, sector_count = NVT_NVMC_LDROM_SECTOR_COUNT B rmc,
              sector_size = NVT_NVMC_SECTOR_SIZE B rmc, page_size = NVT_NVMC_SECTOR_SIZE B rmc,
              program_unit = NVT_NVMC_PROGRAM_UNIT rmc, erased_value = 0xFF\<rparr>\<rparr>"

definition is_range_valid_internal :: "arm_flash_dev_t \<Rightarrow> u32 \<Rightarrow> int" where
  "is_range_valid_internal dev addr =
     (let flash_size = sector_count (data dev) * sector_size (data dev)
      in if addr - memory_base dev \<ge> flash_size then -1 else 0)"

definition is_range_valid_APROM :: "bsp \<Rightarrow> bool \<Rightarrow> u32 \<Rightarrow> int" where
  "is_range_valid_APROM B rmc addr = is_range_valid_internal (ARM_FLASH0_DEV B rmc) addr"

definition is_range_valid_LDROM :: "bsp \<Rightarrow> bool \<Rightarrow> u32 \<Rightarrow> int" where
  "is_range_valid_LDROM B rmc addr = is_range_valid_internal (ARM_FLASH1_DEV B rmc) addr"

definition ARM_Flash_GetVersion :: "unit \<Rightarrow> ARM_DRIVER_VERSION" where
  "ARM_Flash_GetVersion _ = DriverVersion"

definition ARM_Flash_GetCapabilities :: "unit \<Rightarrow> ARM_FLASH_CAPABILITIES" where
  "ARM_Flash_GetCapabilities _ = DriverCapabilities"

definition ARM_Flash_Initialize :: "'s NVT_NVMC_T \<Rightarrow> 's \<Rightarrow> (int \<times> 's) option" where
  "ARM_Flash_Initialize N s =
     (if data_width DriverCapabilities \<ge> DATA_WIDTH_ENUM_SIZE then Some (ARM_DRIVER_ERROR, s)
      else do { (_, s) \<leftarrow> nvmc_init N s; Some (ARM_DRIVER_OK, s) })"

definition ARM_Flash_Uninitialize :: "'s \<Rightarrow> (int \<times> 's) option" where
  "ARM_Flash_Uninitialize s = Some (ARM_DRIVER_OK, s)"

fun ARM_Flash_PowerControl :: "ARM_POWER_STATE \<Rightarrow> 's \<Rightarrow> (int \<times> 's) option" where
  "ARM_Flash_PowerControl ARM_POWER_FULL s = Some (ARM_DRIVER_OK, s)"
| "ARM_Flash_PowerControl _ s = Some (ARM_DRIVER_ERROR_UNSUPPORTED, s)"

definition ARM_Flash_EraseSector_Internal :: "'s NVT_NVMC_T \<Rightarrow> u32 \<Rightarrow> 's \<Rightarrow> (int \<times> 's) option" where
  "ARM_Flash_EraseSector_Internal N addr s =
     do { (ret, s) \<leftarrow> nvmc_erase N addr s;
          if ret \<noteq> NVT_NVMC_OK then Some (ARM_DRIVER_ERROR, s) else Some (ARM_DRIVER_OK, s) }"

definition ARM_Flash_EraseSector_APROM ::
    "bsp \<Rightarrow> bool \<Rightarrow> 's NVT_NVMC_T \<Rightarrow> u32 \<Rightarrow> 's \<Rightarrow> (int \<times> 's) option" where
  "ARM_Flash_EraseSector_APROM B rmc N addr s =
     (let rc = is_range_valid_APROM B rmc addr OR is_sector_aligned (ARM_FLASH0_DEV B rmc) addr
      in if rc \<noteq> 0 then Some (ARM_DRIVER_ERROR_PARAMETER, s)
         else do { (ret, s) \<leftarrow> ARM_Flash_EraseSector_Internal N addr s;
                   if ret \<noteq> ARM_DRIVER_OK then Some (ARM_DRIVER_ERROR, s)
                   else Some (ARM_DRIVER_OK, s) })"

definition ARM_Flash_EraseSector_LDROM ::
    "bsp \<Rightarrow> bool \<Rightarrow> 's NVT_NVMC_T \<Rightarrow> u32 \<Rightarrow> 's \<Rightarrow> (int \<times> 's) option" where
  "ARM_Flash_EraseSector_LDROM B rmc N addr s =
     (let rc = is_range_valid_LDROM B rmc addr OR is_sector_aligned (ARM_FLASH1_DEV B rmc) addr
      in if rc \<noteq> 0 then Some (ARM_DRIVER_ERROR_PARAMETER, s)
         else do { (ret, s) \<leftarrow> ARM_Flash_EraseSector_Internal N addr s;
                   if ret \<noteq> ARM_DRIVER_OK then Some (ARM_DRIVER_ERROR, s)
                   else Some (ARM_DRIVER_OK, s) })"

text \<open>
  The read loop takes a word at a time; \<open>p\<close> is where \<open>dest\<close> stands in the store, \<open>r_data\<close>
  the local the controller writes.
\<close>

function ARM_Flash_ReadData_loop ::
    "'s NVT_NVMC_T \<Rightarrow> u32 \<Rightarrow> buf \<Rightarrow> nat \<Rightarrow> u32 \<Rightarrow> u32 \<Rightarrow> 's \<Rightarrow> (int \<times> buf \<times> 's) option" where
  "ARM_Flash_ReadData_loop N addr dest p remain r_data s =
     (if remain > 0 then do {
        (ret, cell, s) \<leftarrow> nvmc_read N addr (Some r_data) s;
        r_data \<leftarrow> cell;
        if ret \<noteq> NVT_NVMC_OK then Some (ARM_DRIVER_ERROR, dest, s)
        else if remain > 4
        then ARM_Flash_ReadData_loop N (addr + 4) (copy_bytes dest p (bytes32 r_data) 0 4) (p + 4)
               (remain - 4) r_data s
        else Some (ARM_DRIVER_OK, copy_bytes dest p (bytes32 r_data) 0 (unat remain), s) }
      else Some (ARM_DRIVER_OK, dest, s))"
  by pat_completeness auto
termination
  by (relation "measure (\<lambda>(N, addr, dest, p, remain, r_data, s). unat remain)")
     (auto simp: unat_sub word_less_nat_alt word_le_nat_alt)

declare ARM_Flash_ReadData_loop.simps [simp del]

definition ARM_Flash_ReadData_Internal ::
    "buf \<Rightarrow> 's NVT_NVMC_T \<Rightarrow> u32 \<Rightarrow> buf \<Rightarrow> nat \<Rightarrow> u32 \<Rightarrow> 's \<Rightarrow> (int \<times> buf \<times> 's) option" where
  "ARM_Flash_ReadData_Internal ind N start_addr dst p sz s =
     ARM_Flash_ReadData_loop N start_addr dst p sz (load32 ind 0) s"

definition ARM_Flash_ReadData_APROM :: "bsp \<Rightarrow> bool \<Rightarrow> buf \<Rightarrow> 's NVT_NVMC_T \<Rightarrow>
    u32 \<Rightarrow> buf \<Rightarrow> nat \<Rightarrow> u32 \<Rightarrow> 's \<Rightarrow> (int \<times> buf \<times> 's) option" where
  "ARM_Flash_ReadData_APROM B rmc ind N addr dst p cnt s =
     do { w \<leftarrow> table_get data_width_byte (data_width DriverCapabilities);
          let sz = cnt * w;
          let rc = is_range_valid_APROM B rmc (addr + sz - 1);
          if rc \<noteq> 0 then Some (ARM_DRIVER_ERROR_PARAMETER, dst, s)
          else do { (ret, dst, s) \<leftarrow> ARM_Flash_ReadData_Internal ind N addr dst p sz s;
                    if ret \<noteq> ARM_DRIVER_OK then Some (ARM_DRIVER_ERROR, dst, s)
                    else Some (sint cnt, dst, s) } }"

definition ARM_Flash_ReadData_LDROM :: "bsp \<Rightarrow> bool \<Rightarrow> buf \<Rightarrow> 's NVT_NVMC_T \<Rightarrow>
    u32 \<Rightarrow> buf \<Rightarrow> nat \<Rightarrow> u32 \<Rightarrow> 's \<Rightarrow> (int \<times> buf \<times> 's) option" where
  "ARM_Flash_ReadData_LDROM B rmc ind N addr dst p cnt s =
     do { w \<leftarrow> table_get data_width_byte (data_width DriverCapabilities);
          let sz = cnt * w;
          let rc = is_range_valid_LDROM B rmc (addr + sz - 1);
          if rc \<noteq> 0 then Some (ARM_DRIVER_ERROR_PARAMETER, dst, s)
          else do { (ret, dst, s) \<leftarrow> ARM_Flash_ReadData_Internal ind N addr dst p sz s;
                    if ret \<noteq> ARM_DRIVER_OK then Some (ARM_DRIVER_ERROR, dst, s)
                    else Some (sint cnt, dst, s) } }"

text \<open>
  \<open>for (dst_offst = 0; dst_offst < sz; dst_offst += prog_unit)\<close>. \<open>dword\<close> is the local that
  \<open>memcpy\<close> fills with \<open>prog_unit\<close> bytes; \<open>src\<close> stands at index \<open>p\<close> of its store.
\<close>

partial_function (option) ARM_Flash_ProgramData_loop ::
    "'s NVT_NVMC_T \<Rightarrow> u32 \<Rightarrow> buf \<Rightarrow> nat \<Rightarrow> u32 \<Rightarrow> u32 \<Rightarrow> u32 \<Rightarrow> u32 \<Rightarrow> u64 \<Rightarrow> 's \<Rightarrow> (int \<times> 's) option"
where
  "ARM_Flash_ProgramData_loop N addr src p sz prog_unit dst_offst src_offst dword s =
     (if dst_offst < sz then do {
        let dword = memcpy64 dword src (p + unat src_offst) (unat prog_unit);
        (ret, s) \<leftarrow> nvmc_program N (addr + dst_offst) dword s;
        if ret \<noteq> NVT_NVMC_OK then Some (ARM_DRIVER_ERROR, s)
        else ARM_Flash_ProgramData_loop N addr src p sz prog_unit (dst_offst + prog_unit)
               (src_offst + prog_unit) dword s }
      else Some (ARM_DRIVER_OK, s))"

definition ARM_Flash_ProgramData_Internal :: "buf \<Rightarrow> 's NVT_NVMC_T \<Rightarrow>
    u32 \<Rightarrow> buf \<Rightarrow> nat \<Rightarrow> u32 \<Rightarrow> u32 \<Rightarrow> 's \<Rightarrow> (int \<times> 's) option" where
  "ARM_Flash_ProgramData_Internal ind N addr src p sz prog_unit s =
     ARM_Flash_ProgramData_loop N addr src p sz prog_unit 0 0 (le64 ind) s"

definition ARM_Flash_ProgramData_APROM :: "bsp \<Rightarrow> bool \<Rightarrow> buf \<Rightarrow> 's NVT_NVMC_T \<Rightarrow>
    u32 \<Rightarrow> buf \<Rightarrow> nat \<Rightarrow> u32 \<Rightarrow> 's \<Rightarrow> (int \<times> 's) option" where
  "ARM_Flash_ProgramData_APROM B rmc ind N addr src p cnt s =
     do { w \<leftarrow> table_get data_width_byte (data_width DriverCapabilities);
          let sz = cnt * w;
          let rc = is_range_valid_APROM B rmc (addr + sz - 1)
                   OR is_write_aligned (ARM_FLASH0_DEV B rmc) addr
                   OR is_write_aligned (ARM_FLASH0_DEV B rmc) sz;
          if rc \<noteq> 0 then Some (ARM_DRIVER_ERROR_PARAMETER, s)
          else do { (ret, s) \<leftarrow> ARM_Flash_ProgramData_Internal ind N addr src p sz
                                 (program_unit (data (ARM_FLASH0_DEV B rmc))) s;
                    if ret \<noteq> ARM_DRIVER_OK then Some (ARM_DRIVER_ERROR, s)
                    else Some (sint cnt, s) } }"

definition ARM_Flash_ProgramData_LDROM :: "bsp \<Rightarrow> bool \<Rightarrow> buf \<Rightarrow> 's NVT_NVMC_T \<Rightarrow>
    u32 \<Rightarrow> buf \<Rightarrow> nat \<Rightarrow> u32 \<Rightarrow> 's \<Rightarrow> (int \<times> 's) option" where
  "ARM_Flash_ProgramData_LDROM B rmc ind N addr src p cnt s =
     do { w \<leftarrow> table_get data_width_byte (data_width DriverCapabilities);
          let sz = cnt * w;
          let rc = is_range_valid_LDROM B rmc (addr + sz - 1)
                   OR is_write_aligned (ARM_FLASH1_DEV B rmc) addr
                   OR is_write_aligned (ARM_FLASH1_DEV B rmc) sz;
          if rc \<noteq> 0 then Some (ARM_DRIVER_ERROR_PARAMETER, s)
          else do { (ret, s) \<leftarrow> ARM_Flash_ProgramData_Internal ind N addr src p sz
                                 (program_unit (data (ARM_FLASH1_DEV B rmc))) s;
                    if ret \<noteq> ARM_DRIVER_OK then Some (ARM_DRIVER_ERROR, s)
                    else Some (sint cnt, s) } }"

definition ARM_Flash_GetStatus :: "unit \<Rightarrow> ARM_FLASH_STATUS" where
  "ARM_Flash_GetStatus _ = FlashStatus"

definition ARM_Flash_GetInfo_APROM :: "bsp \<Rightarrow> bool \<Rightarrow> unit \<Rightarrow> ARM_FLASH_INFO" where
  "ARM_Flash_GetInfo_APROM B rmc _ = data (ARM_FLASH0_DEV B rmc)"

definition ARM_Flash_GetInfo_LDROM :: "bsp \<Rightarrow> bool \<Rightarrow> unit \<Rightarrow> ARM_FLASH_INFO" where
  "ARM_Flash_GetInfo_LDROM B rmc _ = data (ARM_FLASH1_DEV B rmc)"

definition Driver_FLASH0 :: "bsp \<Rightarrow> bool \<Rightarrow> buf \<Rightarrow> 's NVT_NVMC_T \<Rightarrow> 's ARM_DRIVER_FLASH" where
  "Driver_FLASH0 B rmc ind N =
     \<lparr>GetVersion = ARM_Flash_GetVersion, GetCapabilities = ARM_Flash_GetCapabilities,
      Initialize = ARM_Flash_Initialize N, Uninitialize = ARM_Flash_Uninitialize,
      PowerControl = ARM_Flash_PowerControl,
      ReadData = ARM_Flash_ReadData_APROM B rmc ind N,
      ProgramData = ARM_Flash_ProgramData_APROM B rmc ind N,
      EraseSector = ARM_Flash_EraseSector_APROM B rmc N, EraseChip = None,
      GetStatus = ARM_Flash_GetStatus, GetInfo = ARM_Flash_GetInfo_APROM B rmc\<rparr>"

definition Driver_FLASH1 :: "bsp \<Rightarrow> bool \<Rightarrow> buf \<Rightarrow> 's NVT_NVMC_T \<Rightarrow> 's ARM_DRIVER_FLASH" where
  "Driver_FLASH1 B rmc ind N =
     \<lparr>GetVersion = ARM_Flash_GetVersion, GetCapabilities = ARM_Flash_GetCapabilities,
      Initialize = ARM_Flash_Initialize N, Uninitialize = ARM_Flash_Uninitialize,
      PowerControl = ARM_Flash_PowerControl,
      ReadData = ARM_Flash_ReadData_LDROM B rmc ind N,
      ProgramData = ARM_Flash_ProgramData_LDROM B rmc ind N,
      EraseSector = ARM_Flash_EraseSector_LDROM B rmc N, EraseChip = None,
      GetStatus = ARM_Flash_GetStatus, GetInfo = ARM_Flash_GetInfo_LDROM B rmc\<rparr>"

section \<open>The loops over the controller\<close>

context nvmc_device
begin

text \<open>Reading \<open>n\<close> words delivers the content of the range, and nothing beside it.\<close>

lemma read_loop:
  assumes "good s" "4 dvd unat a" "0 < n" "unat remain = 4 * n" "unat a + 4 * n < 2 ^ 32"
    "\<forall>k < 4 * n. backed (unat a + k)"
  shows "\<exists>s'. ARM_Flash_ReadData_loop N a dst p remain r s
            = Some (0, copy_bytes dst p (\<lambda>k. mem s (unat a + k)) 0 (4 * n), s')
          \<and> good s' \<and> mem s' = mem s"
  using assms
proof (induction n arbitrary: a dst p remain r s)
  case 0
  then show ?case by simp
next
  case (Suc n)
  let ?w = "load32 (mem s) (unat a)"
  have rem: "0 < remain" using Suc.prems(4) by (simp add: word_less_nat_alt)
  have "\<forall>k < 4. backed (unat a + k)" using Suc.prems(6) by auto
  from read_law [OF Suc.prems(1,2) this, of r] obtain s1 where
    s1: "nvmc_read N a (Some r) s = Some (0, Some ?w, s1)" "good s1" "mem s1 = mem s" by auto
  show ?case
  proof (cases "n = 0")
    case True
    then have "\<not> 4 < remain" and u: "unat remain = 4" using Suc.prems(4) by (simp_all add: word_less_nat_alt)
    moreover have "copy_bytes dst p (bytes32 ?w) 0 4 = copy_bytes dst p (\<lambda>k. mem s (unat a + k)) 0 4"
      by (rule copy_bytes_cong) (simp add: bytes32_load32)
    ultimately show ?thesis
      using rem s1 True by (subst ARM_Flash_ReadData_loop.simps) simp
  next
    case False
    then have big: "4 < remain" using Suc.prems(4) by (simp add: word_less_nat_alt)
    have a4: "unat (a + 4) = unat a + 4" using Suc.prems(5) by (simp add: unat_add32)
    have "unat (remain - 4) = 4 * n" using Suc.prems(4) big by (simp add: unat_sub32)
    moreover have "4 dvd unat (a + 4)" using a4 Suc.prems(2) by simp
    moreover have "\<forall>k < 4 * n. backed (unat (a + 4) + k)"
    proof (intro allI impI)
      fix k assume "k < 4 * n"
      then show "backed (unat (a + 4) + k)" using Suc.prems(6) a4 by (auto dest: spec [of _ "4 + k"] simp: add.assoc)
    qed
    moreover have "unat (a + 4) + 4 * n < 2 ^ 32" using a4 Suc.prems(5) by simp
    ultimately obtain s2 where s2: "ARM_Flash_ReadData_loop N (a + 4) (copy_bytes dst p (bytes32 ?w) 0 4)
         (p + 4) (remain - 4) ?w s1
         = Some (0, copy_bytes (copy_bytes dst p (bytes32 ?w) 0 4) (p + 4)
                      (\<lambda>k. mem s1 (unat (a + 4) + k)) 0 (4 * n), s2)"
      "good s2" "mem s2 = mem s1"
      using Suc.IH [of s1 "a + 4" "remain - 4"] s1(2) False by blast
    have "copy_bytes (copy_bytes dst p (bytes32 ?w) 0 4) (p + 4) (\<lambda>k. mem s1 (unat (a + 4) + k)) 0 (4 * n)
        = copy_bytes dst p (\<lambda>k. mem s (unat a + k)) 0 (4 + 4 * n)"
      by (rule copy_bytes_split) (simp_all add: bytes32_load32 s1(3) a4 ac_simps)
    then show ?thesis
      using rem big s1 s2 by (subst ARM_Flash_ReadData_loop.simps) simp
  qed
qed

text \<open>Programming \<open>n\<close> units, from the offset the loop has reached.\<close>

lemma program_loop:
  assumes "good s" "unit_bytes dvd unat a" "unit_bytes = unat pu" "0 < pu" "unit_bytes \<le> 8"
    "unat off + unit_bytes * n = unat sz" "unit_bytes dvd unat off"
    "unat a + unat sz < 2 ^ 32" "\<forall>k < unat sz. backed (unat a + k)"
  shows "\<exists>s'. ARM_Flash_ProgramData_loop N a src p sz pu off off dw s = Some (0, s') \<and> good s'
          \<and> mem s' = flash_program (mem s) (unat a + unat off) (unit_bytes * n)
                       (\<lambda>k. src (p + unat off + k))"
  using assms
proof (induction n arbitrary: off dw s)
  case 0
  then have "\<not> off < sz" by (simp add: word_less_nat_alt)
  then show ?case using 0 by (subst ARM_Flash_ProgramData_loop.simps) simp
next
  case (Suc n)
  let ?d = "memcpy64 dw src (p + unat off) (unat pu)"
  have pos: "0 < unit_bytes" using Suc.prems(3,4) by (simp add: word_less_nat_alt)
  have lt: "off < sz" using Suc.prems(6) pos by (simp add: word_less_nat_alt)
  have ao: "unat (a + off) = unat a + unat off"
    using Suc.prems(6,8) by (simp add: unat_add32)
  have "unit_bytes dvd unat (a + off)" using ao Suc.prems(2,7) by simp
  moreover have "\<forall>k < unit_bytes. backed (unat (a + off) + k)"
  proof (intro allI impI)
    fix k assume "k < unit_bytes"
    then have "unat off + k < unat sz" using Suc.prems(6) by simp
    then show "backed (unat (a + off) + k)" using Suc.prems(9) ao by (simp add: add.assoc)
  qed
  ultimately obtain s1 where s1: "nvmc_program N (a + off) ?d s = Some (0, s1)" "good s1"
    "mem s1 = flash_program (mem s) (unat a + unat off) unit_bytes (byte_of ?d)"
    using program_law [OF Suc.prems(1)] ao by metis
  have step: "unat (off + pu) = unat off + unit_bytes"
    using Suc.prems(3,6,8) by (simp add: unat_add32)
  obtain s2 where s2: "ARM_Flash_ProgramData_loop N a src p sz pu (off + pu) (off + pu) ?d s1 = Some (0, s2)"
    "good s2" "mem s2 = flash_program (mem s1) (unat a + unat (off + pu)) (unit_bytes * n)
       (\<lambda>k. src (p + unat (off + pu) + k))"
    using Suc.IH [of s1 "off + pu" ?d] Suc.prems s1(2) step by (auto simp: algebra_simps)
  have "flash_program (mem s) (unat a + unat off) unit_bytes (byte_of ?d)
      = flash_program (mem s) (unat a + unat off) unit_bytes (\<lambda>k. src (p + unat off + k))"
    by (rule flash_program_cong) (use Suc.prems(3,5) in \<open>simp add: byte_of_memcpy64\<close>)
  then have "mem s2 = flash_program (mem s) (unat a + unat off) (unit_bytes + unit_bytes * n)
      (\<lambda>k. src (p + unat off + k))"
    using s1(3) s2(3) step
      flash_program_append [of "mem s" "unat a + unat off" unit_bytes "\<lambda>k. src (p + unat off + k)"]
    by (simp add: ac_simps)
  then show ?case
    using lt s1(1) s2(1,2) by (subst ARM_Flash_ProgramData_loop.simps) simp
qed

end

section \<open>The drivers keep the CMSIS contract\<close>

text \<open>
  APROM and LDROM differ in the device record only; the common body of their operations.
\<close>

definition dev_read :: "arm_flash_dev_t \<Rightarrow> buf \<Rightarrow> 's NVT_NVMC_T \<Rightarrow>
    u32 \<Rightarrow> buf \<Rightarrow> nat \<Rightarrow> u32 \<Rightarrow> 's \<Rightarrow> (int \<times> buf \<times> 's) option" where
  "dev_read dev ind N addr dst p cnt s =
     (if is_range_valid_internal dev (addr + cnt * 4 - 1) \<noteq> 0
      then Some (ARM_DRIVER_ERROR_PARAMETER, dst, s)
      else do { (ret, dst, s) \<leftarrow> ARM_Flash_ReadData_Internal ind N addr dst p (cnt * 4) s;
                if ret \<noteq> ARM_DRIVER_OK then Some (ARM_DRIVER_ERROR, dst, s)
                else Some (sint cnt, dst, s) })"

definition dev_program :: "arm_flash_dev_t \<Rightarrow> buf \<Rightarrow> 's NVT_NVMC_T \<Rightarrow>
    u32 \<Rightarrow> buf \<Rightarrow> nat \<Rightarrow> u32 \<Rightarrow> 's \<Rightarrow> (int \<times> 's) option" where
  "dev_program dev ind N addr src p cnt s =
     (if is_range_valid_internal dev (addr + cnt * 4 - 1) \<noteq> 0
         \<or> is_write_aligned dev addr \<noteq> 0 \<or> is_write_aligned dev (cnt * 4) \<noteq> 0
      then Some (ARM_DRIVER_ERROR_PARAMETER, s)
      else do { (ret, s) \<leftarrow> ARM_Flash_ProgramData_Internal ind N addr src p (cnt * 4)
                              (program_unit (data dev)) s;
                if ret \<noteq> ARM_DRIVER_OK then Some (ARM_DRIVER_ERROR, s)
                else Some (sint cnt, s) })"

definition dev_erase :: "arm_flash_dev_t \<Rightarrow> 's NVT_NVMC_T \<Rightarrow> u32 \<Rightarrow> 's \<Rightarrow> (int \<times> 's) option" where
  "dev_erase dev N addr s =
     (if is_range_valid_internal dev addr \<noteq> 0 \<or> is_sector_aligned dev addr \<noteq> 0
      then Some (ARM_DRIVER_ERROR_PARAMETER, s)
      else do { (ret, s) \<leftarrow> ARM_Flash_EraseSector_Internal N addr s;
                if ret \<noteq> ARM_DRIVER_OK then Some (ARM_DRIVER_ERROR, s)
                else Some (ARM_DRIVER_OK, s) })"

lemma check_cases:
  "is_range_valid_internal dev a = 0 \<or> is_range_valid_internal dev a = -1"
  "is_write_aligned dev a = 0 \<or> is_write_aligned dev a = -1"
  "is_sector_aligned dev a = 0 \<or> is_sector_aligned dev a = -1"
  by (simp_all add: is_range_valid_internal_def is_write_aligned_def is_sector_aligned_def Let_def)

lemma check_or: "x = 0 \<or> x = -1 \<Longrightarrow> y = 0 \<or> y = -1 \<Longrightarrow> (x OR y \<noteq> 0) = (x \<noteq> 0 \<or> y \<noteq> (0::int))"
  by auto

lemma check_or3:
  "x = 0 \<or> x = -1 \<Longrightarrow> y = 0 \<or> y = -1 \<Longrightarrow> z = 0 \<or> z = -1 \<Longrightarrow>
   (x OR y OR z \<noteq> 0) = (x \<noteq> 0 \<or> y \<noteq> 0 \<or> z \<noteq> (0::int))"
  by auto

lemma read_eq_dev:
  "ARM_Flash_ReadData_APROM B rmc ind N = dev_read (ARM_FLASH0_DEV B rmc) ind N"
  "ARM_Flash_ReadData_LDROM B rmc ind N = dev_read (ARM_FLASH1_DEV B rmc) ind N"
  by (intro ext, simp add: ARM_Flash_ReadData_APROM_def ARM_Flash_ReadData_LDROM_def dev_read_def
      DriverCapabilities_def is_range_valid_APROM_def is_range_valid_LDROM_def Let_def)+

lemma program_eq_dev:
  "ARM_Flash_ProgramData_APROM B rmc ind N = dev_program (ARM_FLASH0_DEV B rmc) ind N"
  "ARM_Flash_ProgramData_LDROM B rmc ind N = dev_program (ARM_FLASH1_DEV B rmc) ind N"
  by (intro ext, simp only: ARM_Flash_ProgramData_APROM_def ARM_Flash_ProgramData_LDROM_def
      dev_program_def is_range_valid_APROM_def is_range_valid_LDROM_def Let_def
      check_or3 [OF check_cases(1) check_cases(2) check_cases(2)],
      simp add: DriverCapabilities_def)+

lemma erase_eq_dev:
  "ARM_Flash_EraseSector_APROM B rmc N = dev_erase (ARM_FLASH0_DEV B rmc) N"
  "ARM_Flash_EraseSector_LDROM B rmc N = dev_erase (ARM_FLASH1_DEV B rmc) N"
  by (intro ext, simp only: ARM_Flash_EraseSector_APROM_def ARM_Flash_EraseSector_LDROM_def
      dev_erase_def is_range_valid_APROM_def is_range_valid_LDROM_def Let_def
      check_or [OF check_cases(1) check_cases(3)])+

section \<open>The range check\<close>

definition dev_lo :: "arm_flash_dev_t \<Rightarrow> nat" where
  "dev_lo dev = unat (memory_base dev)"

definition dev_hi :: "arm_flash_dev_t \<Rightarrow> nat" where
  "dev_hi dev = unat (memory_base dev) + unat (sector_count (data dev)) * unat (sector_size (data dev))"

text \<open>
  For a device that lies below \<open>2 ^ 32\<close> the wrapping subtraction accepts exactly the
  addresses of the device.
\<close>

lemma is_range_valid_internal_iff:
  assumes "dev_hi dev \<le> 2 ^ 32" and "dev_hi dev - dev_lo dev < 2 ^ 32"
  shows "is_range_valid_internal dev a = 0 \<longleftrightarrow> dev_lo dev \<le> unat a \<and> unat a < dev_hi dev"
proof -
  let ?b = "memory_base dev" and ?c = "sector_count (data dev)" and ?z = "sector_size (data dev)"
  have size: "unat (?c * ?z) = unat ?c * unat ?z"
    using assms(2) by (intro unat_mult32) (simp add: dev_hi_def dev_lo_def)
  have "is_range_valid_internal dev a = 0 \<longleftrightarrow> unat (a - ?b) < unat ?c * unat ?z"
    by (simp add: is_range_valid_internal_def Let_def word_le_nat_alt size not_le)
  also have "\<dots> \<longleftrightarrow> dev_lo dev \<le> unat a \<and> unat a < dev_hi dev"
  proof (cases "?b \<le> a")
    case True
    then show ?thesis
      by (auto simp: unat_sub32 dev_lo_def dev_hi_def word_le_nat_alt)
  next
    case False
    then have lt: "unat a < unat ?b" by (simp add: word_le_nat_alt)
    then have "unat (a - ?b) = 2 ^ 32 + unat a - unat ?b"
      using unat_sub_if_size [of a ?b] unat_less32 [of ?b] by (simp add: word_le_nat_alt word_size)
    then show ?thesis
      using lt assms(1) unat_less32 [of a] by (auto simp: dev_lo_def dev_hi_def)
  qed
  finally show ?thesis .
qed

text \<open>What the geometry of a device has to satisfy for the contract.\<close>

definition dev_ok :: "arm_flash_dev_t \<Rightarrow> (nat \<Rightarrow> bool) \<Rightarrow> nat \<Rightarrow> nat \<Rightarrow> bool" where
  "dev_ok dev backed u sec \<longleftrightarrow>
     dev_hi dev < 2 ^ 32 \<and> unat (program_unit (data dev)) = u \<and> (u = 4 \<or> u = 8)
     \<and> unat (sector_size (data dev)) = sec \<and> 0 < sec \<and> sector_info (data dev) = None
     \<and> erased_value (data dev) = 0xFF \<and> (\<forall>x. dev_lo dev \<le> x \<longrightarrow> x < dev_hi dev \<longrightarrow> backed x)"

lemma dev_ok_range:
  assumes "dev_ok dev backed u sec"
  shows "is_range_valid_internal dev a = 0 \<longleftrightarrow> dev_lo dev \<le> unat a \<and> unat a < dev_hi dev"
  using assms by (intro is_range_valid_internal_iff) (auto simp: dev_ok_def)

text \<open>The transfer \<open>[a, a + 4 * cnt)\<close> of a request inside the device.\<close>

lemma transfer_arith:
  fixes a cnt :: u32
  assumes "unat a + 4 * unat cnt \<le> hi" "hi < 2 ^ 32" "cnt \<noteq> 0"
  shows "unat (cnt * 4) = 4 * unat cnt" "unat (a + cnt * 4 - 1) = unat a + 4 * unat cnt - 1"
    and "0 \<le> sint cnt"
proof -
  have c: "0 < unat cnt" using assms(3) by (simp add: unat_gt_0)
  show m: "unat (cnt * 4) = 4 * unat cnt" using assms by (simp add: unat_mult32)
  have "unat (a + cnt * 4) = unat a + 4 * unat cnt" using assms m by (simp add: unat_add32)
  then show "unat (a + cnt * 4 - 1) = unat a + 4 * unat cnt - 1"
    using c by (subst unat_sub32) (simp_all add: word_le_nat_alt)
  show "0 \<le> sint cnt" using assms by (subst sint_of_small) simp_all
qed

context nvmc_device
begin

lemma dev_read_law:
  assumes "good s" "dev_ok dev backed unit_bytes sector" "4 dvd unat a" "cnt \<noteq> 0"
    "dev_lo dev \<le> unat a" "unat a + 4 * unat cnt \<le> dev_hi dev"
  shows "\<exists>r s'. dev_read dev ind N a dst p cnt s
            = Some (r, copy_bytes dst p (\<lambda>k. mem s (unat a + k)) 0 (4 * unat cnt), s')
          \<and> 0 \<le> r \<and> good s' \<and> mem s' = mem s"
proof -
  have hi: "dev_hi dev < 2 ^ 32" and b: "\<forall>k < 4 * unat cnt. backed (unat a + k)"
    using assms(2,5,6) by (auto simp: dev_ok_def)
  note ar = transfer_arith [OF assms(6) hi assms(4)]
  have pos: "0 < unat cnt" using assms(4) by (simp add: unat_gt_0)
  have "dev_lo dev \<le> unat a + 4 * unat cnt - 1 \<and> unat a + 4 * unat cnt - 1 < dev_hi dev"
    using assms(5,6) pos by arith
  then have rg: "is_range_valid_internal dev (a + cnt * 4 - 1) = 0"
    by (simp only: dev_ok_range [OF assms(2)] ar(2))
  have "unat a + 4 * unat cnt < 2 ^ 32" using assms(6) hi by simp
  from read_loop [OF assms(1,3) pos ar(1) this b, of dst p "load32 ind 0"] obtain s' where
    "ARM_Flash_ReadData_Internal ind N a dst p (cnt * 4) s
       = Some (0, copy_bytes dst p (\<lambda>k. mem s (unat a + k)) 0 (4 * unat cnt), s')"
    "good s'" "mem s' = mem s"
    by (auto simp: ARM_Flash_ReadData_Internal_def)
  then show ?thesis using rg ar(3) by (simp add: dev_read_def)
qed

lemma dev_program_law:
  assumes "good s" "dev_ok dev backed unit_bytes sector" "unit_bytes dvd unat a"
    "unit_bytes dvd 4 * unat cnt" "cnt \<noteq> 0"
    "dev_lo dev \<le> unat a" "unat a + 4 * unat cnt \<le> dev_hi dev"
  shows "\<exists>r s'. dev_program dev ind N a src p cnt s = Some (r, s') \<and> 0 \<le> r \<and> good s'
          \<and> mem s' = flash_program (mem s) (unat a) (4 * unat cnt) (\<lambda>k. src (p + k))"
proof -
  let ?pu = "program_unit (data dev)"
  have hi: "dev_hi dev < 2 ^ 32" and b: "\<forall>k < unat (cnt * 4). backed (unat a + k)"
    and u: "unit_bytes = unat ?pu" "unit_bytes = 4 \<or> unit_bytes = 8"
    using assms(2,6,7) transfer_arith(1) [OF assms(7) _ assms(5)] by (auto simp: dev_ok_def)
  note ar = transfer_arith [OF assms(7) hi assms(5)]
  have "0 < unat cnt" using assms(5) by (simp add: unat_gt_0)
  then have "dev_lo dev \<le> unat a + 4 * unat cnt - 1 \<and> unat a + 4 * unat cnt - 1 < dev_hi dev"
    using assms(6,7) by arith
  then have rg: "is_range_valid_internal dev (a + cnt * 4 - 1) = 0"
    by (simp only: dev_ok_range [OF assms(2)] ar(2))
  have al: "is_write_aligned dev a = 0" "is_write_aligned dev (cnt * 4) = 0"
    using assms(3,4) ar(1) unfolding is_write_aligned_def u(1)
    by (simp_all add: word_arith_nat_mod dvd_eq_mod_eq_0)
  have pos: "0 < ?pu" "unit_bytes \<le> 8" using u by (auto simp: word_less_nat_alt)
  have e: "unat (0::u32) + unit_bytes * (unat (cnt * 4) div unit_bytes) = unat (cnt * 4)"
    using assms(4) ar(1) by simp
  have "unat a + unat (cnt * 4) < 2 ^ 32" using assms(7) hi ar(1) by simp
  from program_loop [OF assms(1,3) u(1) pos e _ this b, of src p "le64 ind"] obtain s' where
    "ARM_Flash_ProgramData_Internal ind N a src p (cnt * 4) ?pu s = Some (0, s')" "good s'"
    "mem s' = flash_program (mem s) (unat a) (4 * unat cnt) (\<lambda>k. src (p + k))"
    using assms(4) ar(1) by (auto simp: ARM_Flash_ProgramData_Internal_def)
  then show ?thesis using rg al ar(3) by (simp add: dev_program_def)
qed

lemma dev_erase_law:
  assumes "good s" "dev_ok dev backed unit_bytes sector" "sector dvd unat a"
    "dev_lo dev \<le> unat a" "unat a + sector \<le> dev_hi dev"
  shows "\<exists>s'. dev_erase dev N a s = Some (0, s') \<and> good s'
          \<and> mem s' = flash_erase (mem s) (unat a) sector"
proof -
  have z: "unat (sector_size (data dev)) = sector" "0 < sector"
    and b: "\<forall>k < sector. backed (unat a + k)"
    using assms(2,4,5) by (auto simp: dev_ok_def)
  have "is_range_valid_internal dev a = 0"
    using assms(4,5) z(2) by (simp add: dev_ok_range [OF assms(2)])
  moreover have "is_sector_aligned dev a = 0"
    using assms(3) unfolding is_sector_aligned_def
    by (simp add: word_arith_nat_mod dvd_eq_mod_eq_0 z(1))
  ultimately show ?thesis
    using erase_law [OF assms(1,3) b]
    by (auto simp: dev_erase_def ARM_Flash_EraseSector_Internal_def)
qed

lemma dev_contract:
  assumes "ReadData D = dev_read dev ind N" "ProgramData D = dev_program dev ind N"
    "EraseSector D = dev_erase dev N" "GetCapabilities D () = DriverCapabilities"
    "GetInfo D () = data dev"
  shows "cmsis_flash D mem (\<lambda>s. good s \<and> dev_ok dev backed unit_bytes sector)
           (dev_lo dev) (dev_hi dev) sector unit_bytes"
proof (unfold_locales, unfold assms)
  fix s :: 's and a cnt :: u32 and dst src :: buf and p :: nat
  assume g: "good s \<and> dev_ok dev backed unit_bytes sector"
  show "data_width DriverCapabilities = 2" by (simp add: DriverCapabilities_def)
  show "dev_hi dev < 2 ^ 32" "sector_info (data dev) = None" "unat (sector_size (data dev)) = sector"
    "0 < sector" "erased_value (data dev) = 0xFF"
    using g by (auto simp: dev_ok_def)
  { assume "4 dvd unat a" "cnt \<noteq> 0" "dev_lo dev \<le> unat a" "unat a + 4 * unat cnt \<le> dev_hi dev"
    from dev_read_law [OF conjunct1 [OF g] conjunct2 [OF g] this]
    show "\<exists>r s'. dev_read dev ind N a dst p cnt s
            = Some (r, copy_bytes dst p (\<lambda>k. mem s (unat a + k)) 0 (4 * unat cnt), s')
          \<and> 0 \<le> r \<and> (good s' \<and> dev_ok dev backed unit_bytes sector) \<and> mem s' = mem s"
      using g by blast }
  { assume "unit_bytes dvd unat a" "unit_bytes dvd 4 * unat cnt" "cnt \<noteq> 0"
      "dev_lo dev \<le> unat a" "unat a + 4 * unat cnt \<le> dev_hi dev"
    from dev_program_law [OF conjunct1 [OF g] conjunct2 [OF g] this]
    show "\<exists>r s'. dev_program dev ind N a src p cnt s = Some (r, s') \<and> 0 \<le> r
          \<and> (good s' \<and> dev_ok dev backed unit_bytes sector)
          \<and> mem s' = flash_program (mem s) (unat a) (4 * unat cnt) (\<lambda>k. src (p + k))"
      using g by blast }
  { assume "sector dvd unat a" "dev_lo dev \<le> unat a" "unat a + sector \<le> dev_hi dev"
    from dev_erase_law [OF conjunct1 [OF g] conjunct2 [OF g] this]
    show "\<exists>s'. dev_erase dev N a s = Some (0, s')
          \<and> (good s' \<and> dev_ok dev backed unit_bytes sector)
          \<and> mem s' = flash_erase (mem s) (unat a) sector"
      using g by blast }
qed

lemmas driver_fields = read_eq_dev program_eq_dev erase_eq_dev ARM_Flash_GetCapabilities_def
  ARM_Flash_GetInfo_APROM_def ARM_Flash_GetInfo_LDROM_def

lemma driver_flash0:
  "cmsis_flash (Driver_FLASH0 B rmc ind N) mem
     (\<lambda>s. good s \<and> dev_ok (ARM_FLASH0_DEV B rmc) backed unit_bytes sector)
     (dev_lo (ARM_FLASH0_DEV B rmc)) (dev_hi (ARM_FLASH0_DEV B rmc)) sector unit_bytes"
  by (rule dev_contract) (simp_all add: Driver_FLASH0_def driver_fields)

lemma driver_flash1:
  "cmsis_flash (Driver_FLASH1 B rmc ind N) mem
     (\<lambda>s. good s \<and> dev_ok (ARM_FLASH1_DEV B rmc) backed unit_bytes sector)
     (dev_lo (ARM_FLASH1_DEV B rmc)) (dev_hi (ARM_FLASH1_DEV B rmc)) sector unit_bytes"
  by (rule dev_contract) (simp_all add: Driver_FLASH1_def driver_fields)

end

text \<open>
  The two drivers over the FMC, and over the RMC of the M2L31. The interpretation of the
  contract on them discharges its laws for the code's own definitions.
\<close>

interpretation fmc_aprom: cmsis_flash "Driver_FLASH0 B False ind (fmc_nvmc B)" "fd_mem F"
  "\<lambda>t. (fmc_laws B F \<and> fd_ready F t)
       \<and> dev_ok (ARM_FLASH0_DEV B False) (fd_backed F) 8 (fmc_page B)"
  "dev_lo (ARM_FLASH0_DEV B False)" "dev_hi (ARM_FLASH0_DEV B False)" "fmc_page B" 8 for B F ind
  by (rule fmc.driver_flash0)

interpretation fmc_ldrom: cmsis_flash "Driver_FLASH1 B False ind (fmc_nvmc B)" "fd_mem F"
  "\<lambda>t. (fmc_laws B F \<and> fd_ready F t)
       \<and> dev_ok (ARM_FLASH1_DEV B False) (fd_backed F) 8 (fmc_page B)"
  "dev_lo (ARM_FLASH1_DEV B False)" "dev_hi (ARM_FLASH1_DEV B False)" "fmc_page B" 8 for B F ind
  by (rule fmc.driver_flash1)

interpretation rmc_aprom: cmsis_flash "Driver_FLASH0 B True ind (rmc_nvmc B)" "fd_mem F"
  "\<lambda>t. (rmc_laws B F \<and> fd_ready F t)
       \<and> dev_ok (ARM_FLASH0_DEV B True) (fd_backed F) 4 (rmc_page B)"
  "dev_lo (ARM_FLASH0_DEV B True)" "dev_hi (ARM_FLASH0_DEV B True)" "rmc_page B" 4 for B F ind
  by (rule rmc.driver_flash0)

end
