(* ===== verification/Flash_Map_Read.thy ===== *)
theory Flash_Map_Read
  imports Flash_Map
begin

text \<open>
  \<open>flash_area_read\<close> over any driver that keeps \<open>cmsis_read\<close>: for every offset and length
  inside the area it succeeds and the destination receives exactly the bytes of the flash.
\<close>

text \<open>The documented behaviour of \<open>boot_u32_safe_add\<close>.\<close>

definition safe_add_spec :: "(u32 \<Rightarrow> u32 \<Rightarrow> u32 option) \<Rightarrow> bool" where
  "safe_add_spec safe_add \<longleftrightarrow>
     (\<forall>a b. safe_add a b = (if unat a + unat b < 2 ^ 32 then Some (a + b) else None))"

text \<open>An area of a device with the addresses \<open>lo \<le> a < hi\<close>, made of whole items.\<close>

definition area_ok :: "'s flash_area \<Rightarrow> 's ARM_DRIVER_FLASH \<Rightarrow> nat \<Rightarrow> nat \<Rightarrow> bool" where
  "area_ok A D lo hi \<longleftrightarrow> fa_driver A = D \<and> 4 dvd unat (fa_off A) \<and> 4 dvd unat (fa_size A)
     \<and> lo \<le> unat (fa_off A) \<and> unat (fa_off A) + unat (fa_size A) \<le> hi"

lemma FLOOR_ALIGN_pow2: "unat (FLOOR_ALIGN x (2 ^ n)) = unat x div 2 ^ n * 2 ^ n"
  by (simp add: FLOOR_ALIGN_def flip: mask_eq_decr_exp) (rule unat_and_not_mask)

lemma FLOOR_ALIGN_4 [addr_simps]: "unat (FLOOR_ALIGN x 4) = unat x div 4 * 4"
  using FLOOR_ALIGN_pow2 [of x 2] by simp

lemma FLOOR_ALIGN_8 [addr_simps]: "unat (FLOOR_ALIGN x 8) = unat x div 8 * 8"
  using FLOOR_ALIGN_pow2 [of x 3] by simp

lemma is_range_valid_iff:
  assumes "safe_add_spec safe_add"
  shows "is_range_valid safe_add (Some A) off len \<longleftrightarrow> unat off + unat len \<le> unat (fa_size A)"
  using assms unat_less32 [of "fa_size A"]
  by (auto simp: is_range_valid_def safe_add_spec_def word_less_nat_alt unat_add32 not_less)

lemma is_range_valid_None [simp]: "\<not> is_range_valid safe_add None off len"
  by (simp add: is_range_valid_def)

text \<open>The remainder of the offset in its item.\<close>

lemma off_minus_floor4:
  "unat (off - FLOOR_ALIGN off 4) = unat off mod 4"
proof -
  have "FLOOR_ALIGN off 4 \<le> off" by (simp add: word_le_nat_alt FLOOR_ALIGN_4)
  then show ?thesis
    by (simp add: unat_sub32 FLOOR_ALIGN_4 minus_div_mult_eq_mod)
qed

lemma floor4_neq: "FLOOR_ALIGN off 4 \<noteq> off \<longleftrightarrow> unat off mod 4 \<noteq> 0"
proof -
  have "FLOOR_ALIGN off 4 = off \<longleftrightarrow> off - FLOOR_ALIGN off 4 = 0" by auto
  then show ?thesis by (simp add: off_minus_floor4 [symmetric] unat_eq_0)
qed

text \<open>How many bytes the first part delivers.\<close>

definition head_len :: "nat \<Rightarrow> nat \<Rightarrow> nat" where
  "head_len off len = (if off mod 4 = 0 then 0 else min (4 - off mod 4) len)"

lemma head_len_bounds: "head_len off len \<le> len" "head_len off len < 4"
  "head_len off len < len \<Longrightarrow> 4 dvd off + head_len off len"
proof -
  show "head_len off len \<le> len" "head_len off len < 4" by (auto simp: head_len_def)
  assume "head_len off len < len"
  then have h: "head_len off len = (if off mod 4 = 0 then 0 else 4 - off mod 4)"
    by (auto simp: head_len_def)
  have "(off + (4 - off mod 4)) mod 4 = 0 \<or> off mod 4 = 0" by presburger
  then show "4 dvd off + head_len off len" unfolding h by auto
qed

lemma read_length_value:
  assumes "unat off + unat len < 2 ^ 32"
  shows "unat (if off - FLOOR_ALIGN off 4 + len \<ge> 4 then 4 - (off - FLOOR_ALIGN off 4) else len)
       = min (4 - unat off mod 4) (unat len)"
proof -
  let ?m = "off - FLOOR_ALIGN off 4"
  have m: "unat ?m = unat off mod 4" by (rule off_minus_floor4)
  have "unat off mod 4 \<le> unat off" by (rule mod_less_eq_dividend)
  with assms have "unat ?m + unat len < 2 ^ 32" unfolding m by linarith
  then have sum: "unat (?m + len) = unat off mod 4 + unat len" by (simp add: unat_add32 m)
  have "?m \<le> 4" by (simp add: word_le_nat_alt m)
  then have sub: "unat (4 - ?m) = 4 - unat off mod 4" by (simp add: unat_sub32 m)
  show ?thesis
    using sum sub by (auto simp: word_le_nat_alt min_def)
qed

context cmsis_read
begin

text \<open>Content of the area from its offset \<open>off\<close>.\<close>

abbreviation (input) area_bytes :: "'s \<Rightarrow> 's flash_area \<Rightarrow> u32 \<Rightarrow> buf" where
  "area_bytes s A off \<equiv> (\<lambda>k. mem s (unat (fa_off A) + unat off + k))"

text \<open>One request of the driver at offset \<open>n\<close> of the area.\<close>

lemma read_request:
  assumes g: "good s" and A: "area_ok A D lo hi" and x: "unat x = unat (fa_off A) + n" and "4 dvd n"
    and c: "cnt \<noteq> 0" and fin: "n + 4 * unat cnt \<le> unat (fa_size A)"
  shows "\<exists>r s'. ReadData (fa_driver A) x dst p cnt s
      = Some (r, copy_bytes dst p (\<lambda>k. mem s (unat (fa_off A) + n + k)) 0 (4 * unat cnt), s')
      \<and> 0 \<le> r \<and> good s' \<and> mem s' = mem s"
proof -
  have "4 dvd unat x" using A x \<open>4 dvd n\<close> by (simp add: area_ok_def)
  moreover have "lo \<le> unat x" "unat x + 4 * unat cnt \<le> hi" using A fin x by (auto simp: area_ok_def)
  ultimately have "\<exists>r s'. ReadData D x dst p cnt s
      = Some (r, copy_bytes dst p (\<lambda>k. mem s (unat x + k)) 0 (4 * unat cnt), s')
      \<and> 0 \<le> r \<and> good s' \<and> mem s' = mem s"
    by (intro read_law [OF g _ c])
  then show ?thesis using A unfolding x by (simp add: area_ok_def)
qed

lemma read_head:
  assumes g: "good s" and A: "area_ok A D lo hi" and len: "unat off + unat len \<le> unat (fa_size A)"
  shows "\<exists>r tb s'. flash_area_read_head ind A off dst len 4 s
      = Some (r, of_nat (head_len (unat off) (unat len)),
              copy_bytes dst 0 (area_bytes s A off) 0 (head_len (unat off) (unat len)), tb,
              len - of_nat (head_len (unat off) (unat len)), s')
    \<and> 0 \<le> r \<and> good s' \<and> mem s' = mem s"
proof (cases "unat off mod 4 = 0")
  case True
  then have "FLOOR_ALIGN off 4 = off" using floor4_neq [of off] by simp
  with True g show ?thesis by (simp add: flash_area_read_head_def head_len_def)
next
  case False
  let ?f = "FLOOR_ALIGN off 4" and ?h = "head_len (unat off) (unat len)"
  have D: "fa_driver A = D" and al: "4 dvd unat (fa_off A)" "4 dvd unat (fa_size A)" "lo \<le> unat (fa_off A)"
    "unat (fa_off A) + unat (fa_size A) \<le> hi" using A by (auto simp: area_ok_def)
  have f: "unat ?f = unat off div 4 * 4" by (rule FLOOR_ALIGN_4)
  have "unat off < unat (fa_size A) \<or> unat off = unat (fa_size A)" using len by linarith
  moreover have "unat off \<noteq> unat (fa_size A)" using False al(2) by (metis dvd_imp_mod_0)
  ultimately have "unat off < unat (fa_size A)" by blast
  then have fin: "unat ?f + 4 \<le> unat (fa_size A)" using al(2) unfolding f by presburger
  have a: "unat (fa_off A + ?f) = unat (fa_off A) + unat ?f"
    using al(4) fin hi_bound [OF g] by (intro unat_add32) linarith
  from read_request [OF g A a _ _, of 1 ind 0] fin f obtain r s' where
    rd: "ReadData D (fa_off A + ?f) ind 0 1 s
      = Some (r, copy_bytes ind 0 (\<lambda>k. mem s (unat (fa_off A) + unat ?f + k)) 0 4, s')"
    "0 \<le> r" "good s'" "mem s' = mem s" unfolding D by auto
  let ?rl = "if off - ?f + len \<ge> 4 then 4 - (off - ?f) else len"
  have rl: "unat ?rl = ?h"
    using False len unat_less32 [of "fa_size A"] by (subst read_length_value) (auto simp: head_len_def)
  have h4: "?h \<le> 4 - unat off mod 4" "?h < 4"
    using False head_len_bounds(2) by (auto simp: head_len_def)
  have "?rl = of_nat ?h" using rl by (rule u32_eq_of_nat)
  moreover have "ucast ?rl = (of_nat ?h :: u8)"
    unfolding \<open>?rl = of_nat ?h\<close> using h4(2) by (intro word_unat_eq_iff [THEN iffD2]) (simp add: unsigned_ucast_eq unat_of_nat take_bit_nat_eq_self)
  moreover have "copy_bytes dst 0 (copy_bytes ind 0 (\<lambda>k. mem s (unat (fa_off A) + unat ?f + k)) 0 4) (unat (off - ?f)) ?h
      = copy_bytes dst 0 (area_bytes s A off) 0 ?h"
  proof (rule copy_bytes_cong)
    fix k assume "k < ?h"
    then have "unat off mod 4 + k < 4" using h4(1) by simp
    moreover have e: "mem s (unat (fa_off A) + unat ?f + (unat off mod 4 + k)) = mem s (unat (fa_off A) + unat off + k)"
      unfolding f by (rule arg_cong [where f = "mem s"]) simp
    ultimately show "copy_bytes ind 0 (\<lambda>k. mem s (unat (fa_off A) + unat ?f + k)) 0 4 (unat (off - ?f) + k)
        = mem s (unat (fa_off A) + unat off + (0 + k))"
      by (simp only: copy_bytes_apply off_minus_floor4 add_0 diff_zero le0 simp_thms if_True e)
  qed
  ultimately show ?thesis
    using rd False floor4_neq [of off] rl unfolding flash_area_read_head_def D by (auto simp: Let_def)
qed

lemma read_items:
  assumes g: "good s" and A: "area_ok A D lo hi" and fin: "unat off + h + unat rem \<le> unat (fa_size A)"
    and i: "unat i = h" and al: "rem \<noteq> 0 \<Longrightarrow> 4 dvd unat off + h" and r0: "0 \<le> ret"
  shows "\<exists>r s'. flash_area_read_items A off i (copy_bytes dst 0 (area_bytes s A off) 0 h) rem 4 ret s
      = Some (r, copy_bytes dst 0 (area_bytes s A off) 0 (h + 4 * (unat rem div 4)),
              of_nat (unat rem mod 4), s')
    \<and> 0 \<le> r \<and> good s' \<and> mem s' = mem s"
proof -
  let ?q = "rem div 4"
  have q: "unat ?q = unat rem div 4" by (simp add: unat_div_distrib)
  have q4: "unat (?q * 4) = unat rem div 4 * 4" unfolding q [symmetric]
    using unat_less32 [of rem] q by (intro unat_mult32 [THEN trans]) auto
  have "?q * 4 \<le> rem" by (simp add: word_le_nat_alt q4)
  then have left: "rem - ?q * 4 = of_nat (unat rem mod 4)"
    by (intro u32_eq_of_nat) (simp add: minus_div_mult_eq_mod unat_mod_distrib)
  show ?thesis
  proof (cases "rem \<noteq> 0 \<and> ?q \<noteq> 0")
    case False
    then have "unat rem div 4 = 0" using q by (auto simp: unat_eq_0 [symmetric])
    moreover from this have "rem = of_nat (unat rem mod 4)"
      by (intro u32_eq_of_nat) (simp add: div_eq_0_iff)
    ultimately show ?thesis using False g r0 by (auto simp: flash_area_read_items_def Let_def)
  next
    case True
    let ?x = "fa_off A + off + ucast i"
    have b: "unat (fa_off A) + unat (fa_size A) < 2 ^ 32"
      using A hi_bound [OF g] by (simp add: area_ok_def)
    have "unat (fa_off A + off) = unat (fa_off A) + unat off" using b fin by (intro unat_add32) linarith
    then have x: "unat ?x = unat (fa_off A) + (unat off + h)"
      using b fin i by (subst unat_add32) auto
    have "unat off + h + 4 * unat ?q \<le> unat (fa_size A)" using fin q by simp
    from read_request [OF g A x al [OF conjunct1 [OF True]] conjunct2 [OF True] this,
        of "copy_bytes dst 0 (area_bytes s A off) 0 h" h] obtain r s' where
      rd: "ReadData (fa_driver A) ?x (copy_bytes dst 0 (area_bytes s A off) 0 h) h ?q s
        = Some (r, copy_bytes (copy_bytes dst 0 (area_bytes s A off) 0 h) h
                    (\<lambda>k. mem s (unat (fa_off A) + (unat off + h) + k)) 0 (4 * unat ?q), s')"
      "0 \<le> r" "good s'" "mem s' = mem s" by auto
    have "copy_bytes (copy_bytes dst 0 (area_bytes s A off) 0 h) (0 + h)
            (\<lambda>k. mem s (unat (fa_off A) + (unat off + h) + k)) 0 (4 * unat ?q)
        = copy_bytes dst 0 (area_bytes s A off) 0 (h + 4 * unat ?q)"
      by (rule copy_bytes_split) (simp_all add: ac_simps)
    with rd i left True show ?thesis by (simp add: flash_area_read_items_def Let_def q)
  qed
qed

lemma read_tail:
  assumes g: "good s" and A: "area_ok A D lo hi"
    and fin: "unat off + h + 4 * unat q + unat rem \<le> unat (fa_size A)"
    and i: "unat i = h" and al: "rem \<noteq> 0 \<Longrightarrow> 4 dvd unat off + h" and small: "unat rem < 4"
    and r0: "0 \<le> ret"
  shows "\<exists>r s'. flash_area_read_tail A off i q
           (copy_bytes dst 0 (area_bytes s A off) 0 (h + 4 * unat q)) tb rem 4 ret s
      = Some (r, copy_bytes dst 0 (area_bytes s A off) 0 (h + 4 * unat q + unat rem), s')
    \<and> 0 \<le> r \<and> good s' \<and> mem s' = mem s"
proof (cases "rem = 0")
  case True
  then show ?thesis using g r0 by (simp add: flash_area_read_tail_def)
next
  case False
  let ?n = "h + 4 * unat q" and ?x = "fa_off A + off + ucast i + q * 4"
  have D: "4 dvd unat (fa_size A)" and b: "unat (fa_off A) + unat (fa_size A) < 2 ^ 32"
    using A hi_bound [OF g] by (auto simp: area_ok_def)
  have al': "4 dvd unat off + ?n" using al [OF False] by (simp add: add.assoc [symmetric])
  have "unat off + ?n < unat (fa_size A)" using fin False by (simp add: unat_gt_0 [symmetric])
  then have fin4: "unat off + ?n + 4 \<le> unat (fa_size A)" using al' D by presburger
  have q4: "unat (q * 4) = 4 * unat q" using fin4 b by (subst unat_mult32) auto
  have n: "unat (ucast i + q * 4 :: u32) = ?n" using fin4 b i q4 by (subst unat_add32) auto
  have "unat (fa_off A + off) = unat (fa_off A) + unat off" using b fin by (intro unat_add32) linarith
  then have "unat (fa_off A + off + (ucast i + q * 4)) = unat (fa_off A) + (unat off + ?n)"
    using b fin4 n by (subst unat_add32) auto
  then have x: "unat ?x = unat (fa_off A) + (unat off + ?n)" by (simp add: add.assoc)
  from read_request [OF g A x al', of 1 tb 0] fin4 obtain r s' where
    rd: "ReadData (fa_driver A) ?x tb 0 1 s
      = Some (r, copy_bytes tb 0 (\<lambda>k. mem s (unat (fa_off A) + (unat off + ?n) + k)) 0 4, s')"
    "0 \<le> r" "good s'" "mem s' = mem s" by auto
  have "copy_bytes (copy_bytes dst 0 (area_bytes s A off) 0 ?n) (0 + ?n)
          (copy_bytes tb 0 (\<lambda>k. mem s (unat (fa_off A) + (unat off + ?n) + k)) 0 4) 0 (unat rem)
      = copy_bytes dst 0 (area_bytes s A off) 0 (?n + unat rem)"
    by (rule copy_bytes_split) (use small in \<open>auto simp: copy_bytes_apply ac_simps\<close>)
  with rd n False show ?thesis by (simp add: flash_area_read_tail_def)
qed

text \<open>The whole read.\<close>

lemma flash_area_read_ok:
  assumes g: "good s" and A: "area_ok A D lo hi" and sa: "safe_add_spec safe_add"
    and len: "unat off + unat len \<le> unat (fa_size A)"
  shows "\<exists>s'. flash_area_read safe_add ind (Some A) off dst len s
      = Some (0, copy_bytes dst 0 (area_bytes s A off) 0 (unat len), s')
    \<and> good s' \<and> mem s' = mem s"
proof -
  let ?h = "head_len (unat off) (unat len)" and ?f = "area_bytes s A off"
  note hb = head_len_bounds [of "unat off" "unat len"]
  have D: "fa_driver A = D" using A by (simp add: area_ok_def)
  have valid: "is_range_valid safe_add (Some A) off len" using len by (simp add: is_range_valid_iff [OF sa])
  obtain r1 tb s1 where f1: "flash_area_read_head ind A off dst len 4 s
      = Some (r1, of_nat ?h, copy_bytes dst 0 ?f 0 ?h, tb, len - of_nat ?h, s1)"
    "0 \<le> r1" "good s1" "mem s1 = mem s"
    using read_head [OF g A len] by blast
  let ?rem = "len - of_nat ?h"
  have oh: "unat (of_nat ?h :: u32) = ?h" "unat (of_nat ?h :: u8) = ?h"
    using hb(2) by (simp_all add: unat_of_nat32 unat_of_nat8)
  have rem: "unat ?rem = unat len - ?h" using hb(1) oh by (subst unat_sub32) (simp_all add: word_le_nat_alt)
  have al: "4 dvd unat off + ?h" if "?rem \<noteq> 0"
  proof (rule hb(3))
    have "0 < unat ?rem" using that by (simp only: unat_gt_0 not_False_eq_True)
    then show "?h < unat len" unfolding rem by simp
  qed
  have fin: "unat off + ?h + unat ?rem \<le> unat (fa_size A)" using len rem hb(1) by simp
  obtain r2 s2 where f2: "flash_area_read_items A off (of_nat ?h) (copy_bytes dst 0 ?f 0 ?h) ?rem 4 r1 s1
      = Some (r2, copy_bytes dst 0 ?f 0 (?h + 4 * (unat ?rem div 4)), of_nat (unat ?rem mod 4), s2)"
    "0 \<le> r2" "good s2" "mem s2 = mem s"
    using read_items [OF f1(3) A fin oh(2) al f1(2), of dst] f1(4) by auto
  have m: "unat (of_nat (unat ?rem mod 4) :: u32) = unat ?rem mod 4" by (simp add: unat_of_nat32)
  have q: "unat (?rem div 4) = unat ?rem div 4" by (simp add: unat_div_distrib)
  have fin2: "unat off + ?h + 4 * unat (?rem div 4) + unat (of_nat (unat ?rem mod 4) :: u32)
      \<le> unat (fa_size A)" using fin mult_div_mod_eq [of 4 "unat ?rem"] unfolding m q by linarith
  have al2: "4 dvd unat off + ?h" if "(of_nat (unat ?rem mod 4) :: u32) \<noteq> 0"
    using that by (intro al) auto
  obtain r3 s3 where f3: "flash_area_read_tail A off (of_nat ?h) (?rem div 4)
        (copy_bytes dst 0 ?f 0 (?h + 4 * unat (?rem div 4))) tb (of_nat (unat ?rem mod 4)) 4 r2 s2
      = Some (r3, copy_bytes dst 0 ?f 0 (?h + 4 * unat (?rem div 4) + unat (of_nat (unat ?rem mod 4) :: u32)), s3)"
    "0 \<le> r3" "good s3" "mem s3 = mem s"
    using read_tail [OF f2(3) A fin2 oh(2) al2 _ f2(2), of dst tb] f2(4) m by auto
  have "?h + 4 * unat (?rem div 4) + unat (of_nat (unat ?rem mod 4) :: u32) = unat len"
    unfolding m q using rem hb(1) mult_div_mod_eq [of 4 "unat ?rem"] by linarith
  with f3 have f3x: "flash_area_read_tail A off (of_nat ?h) (?rem div 4)
        (copy_bytes dst 0 ?f 0 (?h + 4 * unat (?rem div 4))) tb (of_nat (unat ?rem mod 4)) 4 r2 s2
      = Some (r3, copy_bytes dst 0 ?f 0 (unat len), s3)" by simp
  show ?thesis
    unfolding flash_area_read_def
    using valid width [OF g] D f1 f2 f3x f3(2-4) by (simp add: q)
qed

end

end
