(* ===== verification/Flash_Map_Write.thy ===== *)
theory Flash_Map_Write
  imports Flash_Map_Read
begin

text \<open>
  \<open>flash_area_write\<close> with the program unit of 8 bytes that every layout defines, over any
  driver that keeps \<open>cmsis_flash\<close> with units that divide 8. \<open>write_image\<close> says what the
  code programs into the requested range; the bytes around it in the first and the last
  unit are programmed with their own content and stay as they are.
\<close>

section \<open>Arithmetic of program units\<close>

text \<open>
  For a request at offset \<open>n\<close> of length \<open>len\<close>: \<open>unit_fill n\<close> bytes complete the first unit
  when the offset is not aligned, \<open>unit_mid\<close> bytes form whole units after it, and
  \<open>unit_pad\<close> bytes follow the end in the last unit.
\<close>

definition unit_fill :: "nat \<Rightarrow> nat" where
  "unit_fill n = (8 - n mod 8) mod 8"

definition unit_first :: "nat \<Rightarrow> nat \<Rightarrow> nat" where
  "unit_first n len = min (unit_fill n) len"

definition unit_mid :: "nat \<Rightarrow> nat \<Rightarrow> nat" where
  "unit_mid n len = (len - unit_fill n) div 8 * 8"

definition unit_pad :: "nat \<Rightarrow> nat \<Rightarrow> nat" where
  "unit_pad n len = (8 - (n + len) mod 8) mod 8"

text \<open>The whole units after an incomplete first one are taken from the start of \<open>src\<close> again.\<close>

definition write_image :: "nat \<Rightarrow> nat \<Rightarrow> buf \<Rightarrow> buf" where
  "write_image n len src =
     (\<lambda>k. if unit_fill n \<le> k \<and> k < unit_fill n + unit_mid n len then src (k - unit_fill n) else src k)"

lemma unit_fill_aligned: "8 dvd n \<Longrightarrow> unit_fill n = 0"
  by (simp add: unit_fill_def dvd_eq_mod_eq_0)

lemma unit_fill_unaligned: "\<not> 8 dvd n \<Longrightarrow> unit_fill n = 8 - n mod 8"
  by (simp add: unit_fill_def dvd_eq_mod_eq_0)

lemma write_image_aligned: "8 dvd n \<Longrightarrow> write_image n len src = src"
  by (simp add: write_image_def unit_fill_aligned fun_eq_iff)

lemma write_image_short: "len < unit_fill n + 8 \<Longrightarrow> write_image n len src = src"
proof -
  assume "len < unit_fill n + 8"
  then have "unit_mid n len = 0" by (simp add: unit_mid_def div_eq_0_iff)
  then show ?thesis by (auto simp: write_image_def fun_eq_iff)
qed

lemma unit_pad_eq: "unit_pad n len = (if (n + len) mod 8 = 0 then 0 else 8 - (n + len) mod 8)"
  by (simp add: unit_pad_def)

lemma unit_pad_less: "unit_pad n len < 8"
  by (simp add: unit_pad_def)

lemma ceil8_nat: "(m + 7) div 8 * 8 = m + (if m mod 8 = 0 then 0 else 8 - m mod 8)" for m :: nat
proof -
  obtain q r where m: "m = 8 * q + r" "r < 8"
    by (metis mod_less_divisor mult_div_mod_eq zero_less_numeral)
  have "(8 * q + r + 7) div 8 = q + (r + 7) div 8" by simp
  moreover have "(r + 7) div 8 = (if r = 0 then 0 else 1)" using m(2) by auto
  ultimately show ?thesis using m by simp
qed

lemma fill8_nat: "8 dvd m + (if m mod 8 = 0 then 0 else 8 - m mod 8)" for m :: nat
  using ceil8_nat [of m] by (metis dvd_triv_right)

lemma unit_end: "8 dvd n + len + unit_pad n len"
  unfolding unit_pad_eq by (rule fill8_nat)

lemma unit_fill_end: "8 dvd n + unit_fill n"
  using fill8_nat [of n] by (simp add: unit_fill_def split: if_splits)

lemma ceil_pad:
  assumes "n mod 8 + len + 7 < 2 ^ 32"
  shows "unat (CEILING_ALIGN (of_nat (n mod 8 + len)) 8) = n mod 8 + len + unit_pad n len"
proof -
  have "CEILING_ALIGN (of_nat (n mod 8 + len)) 8 = FLOOR_ALIGN (of_nat (n mod 8 + len + 7)) 8"
    by (simp add: CEILING_ALIGN_def FLOOR_ALIGN_def)
  also have "unat \<dots> = (n mod 8 + len + 7) div 8 * 8"
    using assms by (simp only: FLOOR_ALIGN_8 unat_of_nat32)
  also have "\<dots> = n mod 8 + len + unit_pad n len"
    using ceil8_nat [of "n mod 8 + len"] unfolding unit_pad_eq by (simp only: mod_add_left_eq)
  finally show ?thesis .
qed

lemma unit_pad_of_short:
  assumes "n mod 8 \<noteq> 0" "len \<le> 8 - n mod 8"
  shows "unit_pad n len = 8 - (n mod 8 + len)"
proof -
  have "(n + len) mod 8 = (n mod 8 + len) mod 8" by (simp only: mod_add_left_eq)
  moreover have "n mod 8 < 8" by simp
  ultimately show ?thesis using assms unfolding unit_pad_eq
    by (cases "n mod 8 + len = 8") (auto simp: mod_less)
qed

lemma off_minus_floor8: "unat (off - FLOOR_ALIGN off 8) = unat off mod 8"
proof -
  have "FLOOR_ALIGN off 8 \<le> off" by (simp add: word_le_nat_alt FLOOR_ALIGN_8)
  then show ?thesis by (simp add: unat_sub32 FLOOR_ALIGN_8 minus_div_mult_eq_mod)
qed

section \<open>The padding loops\<close>

lemma pad_loop_eq:
  assumes "unat lim - unat i = a" "unat jlim - unat j = b"
  shows "pad_loop dst i lim src j jlim
       = (copy_bytes dst (unat i) src (unat j) (min a b), i + of_nat (min a b), j + of_nat (min a b))"
  using assms
proof (induction dst i lim src j jlim arbitrary: a b rule: pad_loop.induct)
  case (1 dst i lim src j jlim)
  show ?case
  proof (cases "i < lim \<and> j < jlim")
    case True
    then have u: "unat (i + 1) = Suc (unat i)" "unat (j + 1) = Suc (unat j)"
      by (auto intro: unat_Suc32)
    obtain a' b' where ab: "a = Suc a'" "b = Suc b'"
      using True "1.prems" by (metis word_less_nat_alt Suc_diff_Suc)
    then have "unat lim - unat (i + 1) = a'" "unat jlim - unat (j + 1) = b'" using "1.prems" u by auto
    from "1.IH" [OF True this] show ?thesis
      using True u copy_bytes_front [of dst "unat i" src "unat j" "min a' b'"]
      by (simp add: pad_loop.simps [of dst i] ab add.assoc fun_upd_def del: copy_bytes.simps)
  next
    case False
    then have "min a b = 0" using "1.prems" by (auto simp: word_less_nat_alt)
    then show ?thesis using False by (subst pad_loop.simps) (simp only: if_False, simp)
  qed
qed

lemma pad_loop_fill:
  assumes "a + L = 8"
  shows "pad_loop dst (of_nat a) 8 lp 0 (of_nat L) = (copy_bytes dst a lp 0 L, 8, of_nat L)"
proof -
  have u: "unat (of_nat a :: u32) = a" "unat (of_nat L :: u32) = L"
    using assms by (simp_all add: unat_of_nat32)
  have e: "of_nat a + of_nat L = (8 :: u32)" using assms by (metis of_nat_add of_nat_numeral)
  have "unat (8 :: u32) - unat (of_nat a :: u32) = L" using assms u by simp
  from pad_loop_eq [OF this, of "of_nat L" 0 L dst lp] show ?thesis by (simp add: u e)
qed

text \<open>Programming a unit that holds its own content outside the requested part.\<close>

lemma flash_program_merge:
  assumes "\<And>k. k < u \<Longrightarrow> f k = (if h \<le> k \<and> k < h + n then src (k - h) else m (a + k))" "h + n \<le> u"
  shows "flash_program m a u f = flash_program m (a + h) n src"
proof (rule ext)
  fix x
  show "flash_program m a u f x = flash_program m (a + h) n src x"
  proof (cases "a \<le> x \<and> x < a + u")
    case True
    then obtain k where k: "x = a + k" "k < u" by (metis add_less_cancel_left le_Suc_ex)
    then show ?thesis using assms(1) [OF k(2)] by (auto simp: flash_program_def)
  next
    case False
    then show ?thesis using assms(2) by (auto simp: flash_program_def)
  qed
qed

section \<open>The parts of the write\<close>

definition area_ok8 :: "'s flash_area \<Rightarrow> 's ARM_DRIVER_FLASH \<Rightarrow> nat \<Rightarrow> nat \<Rightarrow> bool" where
  "area_ok8 A D lo hi \<longleftrightarrow> area_ok A D lo hi \<and> 8 dvd unat (fa_off A) \<and> 8 dvd unat (fa_size A)"

context cmsis_flash
begin

lemma program_request:
  assumes g: "good s" and A: "area_ok8 A D lo hi" and u: "unit_bytes dvd 8"
    and x: "unat x = unat (fa_off A) + n" and n: "8 dvd n" and c: "unat cnt = 2 * q" "q \<noteq> 0"
    and fin: "n + 8 * q \<le> unat (fa_size A)"
  shows "\<exists>r s'. ProgramData D x src p cnt s = Some (r, s') \<and> 0 \<le> r \<and> good s'
      \<and> mem s' = flash_program (mem s) (unat (fa_off A) + n) (8 * q) (\<lambda>k. src (p + k))"
proof -
  have "8 dvd unat x" using A x n by (simp add: area_ok8_def)
  then have "unit_bytes dvd unat x" "unit_bytes dvd 4 * unat cnt"
    using u c by (auto intro: dvd_trans)
  moreover have "cnt \<noteq> 0" using c by auto
  moreover have "lo \<le> unat x" "unat x + 4 * unat cnt \<le> hi"
    using A fin x c by (auto simp: area_ok8_def area_ok_def)
  ultimately show ?thesis using program_law [OF g, of x cnt src p] x c(1) by auto
qed

text \<open>The first unit, when the offset is not aligned.\<close>

lemma write_first:
  assumes g: "good s" and A: "area_ok8 A D lo hi" and u: "unit_bytes dvd 8"
    and len: "unat off + unat len \<le> unat (fa_size A)"
    and h: "h = unat off mod 8" "h \<noteq> 0" and L: "L = unit_pad (unat off) (unat len)"
    and ap: "\<And>k. k < h \<Longrightarrow> ap k = mem s (unat (fa_off A) + (unat off - h + k))"
    and lp: "\<And>k. k < L \<Longrightarrow> lp k = mem s (unat (fa_off A) + (unat off + unat len + k))"
  shows "\<exists>ap' s'. flash_area_write_first 8 A (FLOOR_ALIGN off 8) src len (of_nat h) ap (of_nat L) lp 4 s
      = Some (0, of_nat (unit_first (unat off) (unat len)), ap', s') \<and> good s'
      \<and> mem s' = flash_program (mem s) (unat (fa_off A) + unat off)
           (unit_first (unat off) (unat len)) src"
proof -
  let ?n = "unat len" and ?e = "8 - h" and ?b = "unat (fa_off A)" and ?f = "unat off - h"
  have h8: "h < 8" using h(1) by simp
  then have uh: "unat (of_nat h :: u32) = h" by (simp add: unat_of_nat32)
  have L8: "L < 8" unfolding L by (rule unit_pad_less)
  then have uL: "unat (of_nat L :: u32) = L" by (simp add: unat_of_nat32)
  have e: "unit_first (unat off) ?n = min ?e ?n"
    using h by (simp add: unit_first_def unit_fill_unaligned dvd_eq_mod_eq_0)
  have ho: "h \<le> unat off" using h(1) by simp
  let ?m = "min ?e ?n"
  let ?ap1 = "copy_bytes ap h src 0 ?m"
  have p1: "pad_loop ap (of_nat h) 8 src 0 len = (?ap1, of_nat (h + ?m), of_nat ?m)"
    using pad_loop_eq [of 8 "of_nat h" ?e len 0 ?n ap src] uh by simp
  have ui: "unat (of_nat (h + ?m) :: u32) = h + ?m" using h8 by (intro unat_of_nat32) (auto simp: min_def)
  have um: "unat (of_nat ?m :: u32) = ?m" using h8 by (intro unat_of_nat32) (auto simp: min_def)
  have full: "of_nat ?m = len \<longleftrightarrow> ?n \<le> ?e" by (auto simp: word_unat_eq_iff um)
  obtain ap2 where ap2: "flash_area_write_first 8 A (FLOOR_ALIGN off 8) src len (of_nat h) ap (of_nat L) lp 4 s
        = do { (ret, s) \<leftarrow> ProgramData (fa_driver A) (fa_off A + FLOOR_ALIGN off 8) ap2 0 2 s;
               Some (if ret < 0 then -1 else 0, of_nat ?m, ap2, s) }"
      "\<And>k. k < 8 \<Longrightarrow> ap2 k = (if h \<le> k \<and> k < h + ?m then src (k - h) else mem s (?b + ?f + k))"
  proof (cases "?n \<le> ?e")
    case False
    have "of_nat (h + ?m) = (8 :: u32)" using False h8 by (simp add: min_def del: of_nat_add)
    moreover have "?ap1 k = (if h \<le> k \<and> k < h + ?m then src (k - h) else mem s (?b + ?f + k))" if "k < 8" for k
      using that False ap [of k] by (auto simp: copy_bytes_apply min_def add.assoc)
    ultimately show thesis
      using False h(2) uh p1 full by (intro that [of ?ap1]) (auto simp: flash_area_write_first_def unat_eq_0 [symmetric])
  next
    case True
    note True0 = True
    then have Lv: "L = 8 - (h + ?n)"
      using unit_pad_of_short [of "unat off" ?n] h unfolding L by simp
    let ?ap2 = "copy_bytes ?ap1 (h + ?n) lp 0 L"
    have mn: "?m = ?n" using True by (simp add: min_def)
    have "h + ?n + L = 8" using True Lv h8 by auto
    then have p2: "pad_loop ?ap1 (of_nat (h + ?m)) 8 lp 0 (of_nat L) = (?ap2, 8, of_nat L)"
      unfolding mn by (rule pad_loop_fill)
    have "?ap2 k = (if h \<le> k \<and> k < h + ?m then src (k - h) else mem s (?b + ?f + k))" if k: "k < 8" for k
    proof (cases "k < h + ?n")
      case True
      then show ?thesis using ap [of k] \<open>?n \<le> ?e\<close> by (auto simp: copy_bytes_apply min_def add.assoc)
    next
      case False
      then obtain j where j: "k = h + ?n + j" by (metis le_Suc_ex not_less)
      moreover have "h + ?n + L = 8" using True0 Lv h8 by simp
      moreover have "j < L" using calculation j k by simp
      moreover have "?f + k = unat off + ?n + j" using j ho by simp
      ultimately show ?thesis
        using lp [of j] by (simp only: copy_bytes_at add_0) (simp add: add.assoc)
    qed
    then show thesis
      using True h(2) uh p1 p2 full
      by (intro that [of ?ap2]) (auto simp: flash_area_write_first_def unat_eq_0 [symmetric])
  qed
  have "?f + 8 * 1 \<le> unat (fa_size A)"
  proof -
    have "8 dvd ?f" "8 dvd unat (fa_size A)" using h(1) A by (auto simp: area_ok8_def minus_mod_eq_mult_div)
    moreover have "?f < unat (fa_size A)" using h ho len by linarith
    ultimately show ?thesis by presburger
  qed
  moreover have "unat (fa_off A + FLOOR_ALIGN off 8) = ?b + ?f"
  proof -
    have "unat (FLOOR_ALIGN off 8) = ?f" using h(1) by (simp add: FLOOR_ALIGN_8 minus_mod_eq_div_mult)
    then show ?thesis using A hi_bound [OF g] len by (subst unat_add32) (auto simp: area_ok8_def area_ok_def)
  qed
  moreover have "8 dvd ?f" using h(1) by (simp add: minus_mod_eq_mult_div)
  ultimately obtain r s' where r: "ProgramData D (fa_off A + FLOOR_ALIGN off 8) ap2 0 2 s = Some (r, s')"
    "0 \<le> r" "good s'" "mem s' = flash_program (mem s) (?b + ?f) 8 ap2"
    using program_request [OF g A u, of "fa_off A + FLOOR_ALIGN off 8" ?f 2 1 ap2 0] by auto
  have "mem s' = flash_program (mem s) (?b + ?f + h) ?m src"
    unfolding r(4) using h8 by (intro flash_program_merge ap2(2)) auto
  then show ?thesis using ap2(1) r A e ho by (auto simp: area_ok8_def area_ok_def add.assoc)
qed

text \<open>The whole units: programmed from the start of \<open>src\<close>.\<close>

lemma write_units:
  assumes g: "good s" and A: "area_ok8 A D lo hi" and u: "unit_bytes dvd 8"
    and len: "unat off + unat len \<le> unat (fa_size A)"
    and w: "unat w = unit_fill (unat off)" "unat w \<le> unat len"
    and M: "M = unit_mid (unat off) (unat len)"
  shows "\<exists>s'. flash_area_write_units 8 A off src len w 4 s = Some (0, of_nat (unat w + M), s')
      \<and> good s' \<and> mem s' = flash_program (mem s) (unat (fa_off A) + (unat off + unat w)) M src"
proof -
  let ?z = "FLOOR_ALIGN (len - w) 8"
  have "unat (len - w) = unat len - unat w" using w(2) by (simp add: unat_sub32 word_le_nat_alt)
  then have z: "unat ?z = M" unfolding M unit_mid_def w(1) [symmetric] by (simp add: FLOOR_ALIGN_8)
  have M8: "M = 8 * (M div 8)" "unat w + M \<le> unat len" using w unfolding M unit_mid_def by auto
  have ow: "8 dvd unat off + unat w" unfolding w(1) by (rule unit_fill_end)
  show ?thesis
  proof (cases "M = 0")
    case True
    then have "?z = 0" using z by (simp add: unat_eq_0)
    then show ?thesis using True g by (simp add: flash_area_write_units_def Let_def)
  next
    case False
    have D: "fa_driver A = D" and b: "unat (fa_off A) + unat (fa_size A) < 2 ^ 32"
      using A hi_bound [OF g] by (auto simp: area_ok8_def area_ok_def)
    have x: "unat (fa_off A + off + w) = unat (fa_off A) + (unat off + unat w)"
      using b len w(2) by (simp add: unat_add32)
    have c: "unat (?z div 4) = 2 * (M div 8)" "M div 8 \<noteq> 0"
      using z M8(1) False by (auto simp: unat_div_distrib)
    have "unat off + unat w + 8 * (M div 8) \<le> unat (fa_size A)" using M8 len by linarith
    from program_request [OF g A u x ow c this, of src 0] M8(1) obtain r s' where
      r: "ProgramData D (fa_off A + off + w) src 0 (?z div 4) s = Some (r, s')" "0 \<le> r" "good s'"
      "mem s' = flash_program (mem s) (unat (fa_off A) + (unat off + unat w)) M src" by auto
    have "w + ?z = of_nat (unat w + M)"
      using M8(2) unat_less32 [of len] z by (intro u32_eq_of_nat) (simp add: unat_add32)
    moreover have "?z > 0" using z False by (simp add: word_less_nat_alt)
    ultimately show ?thesis using r D by (simp add: flash_area_write_units_def Let_def)
  qed
qed

text \<open>The last unit: the rest of \<open>src\<close> and the content that follows it.\<close>

lemma write_last:
  assumes g: "good s" and A: "area_ok8 A D lo hi" and u: "unit_bytes dvd 8"
    and len: "unat off + unat len + L \<le> unat (fa_size A)"
    and L: "L = unit_pad (unat off) (unat len)" and w: "unat w \<le> unat len"
    and wo: "8 dvd unat off + unat w" "unat len < unat w + 8"
    and al: "unat aligned_len = unat off mod 8 + unat len + L"
    and h: "unat h = unat off mod 8"
    and lp: "\<And>k. k < L \<Longrightarrow> lp k = mem s (unat (fa_off A) + (unat off + unat len + k))"
  shows "\<exists>s'. flash_area_write_last 8 A off src len aligned_len w h ap (of_nat L) lp 4 s = Some (0, s')
      \<and> good s' \<and> mem s' = flash_program (mem s) (unat (fa_off A) + (unat off + unat w))
                            (unat len - unat w) (\<lambda>k. src (unat w + k))"
proof -
  let ?r = "unat len - unat w"
  have rm: "(unat off + unat len) mod 8 = ?r mod 8"
    using mod_add_cong [of "unat off + unat w" 8 0 ?r ?r] wo(1) w by (simp add: dvd_eq_mod_eq_0)
  have r8: "?r < 8" using wo(2) w by linarith
  then have Lr: "L = (if ?r = 0 then 0 else 8 - ?r)" unfolding L unit_pad_eq rm by simp
  show ?thesis
  proof (cases "?r = 0")
    case True
    then show ?thesis using Lr g by (simp add: flash_area_write_last_def Let_def)
  next
    case False
    have sum: "?r + L = 8" "L < 8" "L \<noteq> 0" using False Lr r8 by auto
    have D: "fa_driver A = D" and b: "unat (fa_off A) + unat (fa_size A) < 2 ^ 32"
      using A hi_bound [OF g] by (auto simp: area_ok8_def area_ok_def)
    have uL: "unat (of_nat L :: u32) = L" using sum by (intro unat_of_nat32) simp
    then have L0: "(of_nat L :: u32) \<noteq> 0" using sum by auto
    let ?ap1 = "copy_bytes ap 0 src (unat w) ?r" and ?ap2 = "copy_bytes (copy_bytes ap 0 src (unat w) ?r) ?r lp 0 L"
    have lw: "w + of_nat ?r = len" using w by (simp add: word_unat_eq_iff unat_of_nat32 unat_add32 unat_less32 le_less_trans [OF diff_le_self unat_less32])
    have p1: "pad_loop ap 0 8 src w len = (?ap1, of_nat ?r, len)"
      using pad_loop_eq [of 8 0 8 len w ?r ap src] r8 lw by (simp add: min_def)
    have p2: "pad_loop ?ap1 (of_nat ?r) 8 lp 0 (of_nat L) = (?ap2, 8, of_nat L)"
      using sum(1) by (rule pad_loop_fill)
    have x: "unat (fa_off A + off + w) = unat (fa_off A) + (unat off + unat w)"
      using b len w by (simp add: unat_add32)
    have fin: "unat off + unat w + 8 * 1 \<le> unat (fa_size A)" using len sum w by linarith
    from program_request [OF g A u x wo(1), of 2 1 ?ap2 0] fin obtain r s' where
      r: "ProgramData D (fa_off A + off + w) ?ap2 0 2 s = Some (r, s')" "0 \<le> r" "good s'"
      "mem s' = flash_program (mem s) (unat (fa_off A) + (unat off + unat w)) 8 ?ap2" by auto
    have "mem s' = flash_program (mem s) (unat (fa_off A) + (unat off + unat w) + 0) ?r (\<lambda>k. src (unat w + k))"
      unfolding r(4)
    proof (rule flash_program_merge)
      fix k :: nat assume k: "k < 8"
      show "?ap2 k = (if 0 \<le> k \<and> k < 0 + ?r then src (unat w + (k - 0))
          else mem s (unat (fa_off A) + (unat off + unat w) + k))"
      proof (cases "k < ?r")
        case False
        then obtain j where j: "k = ?r + j" by (metis le_Suc_ex not_less)
        moreover have "j < L" using j k sum(1) by linarith
        moreover have "unat off + unat w + (?r + j) = unat off + unat len + j" using w by simp
        ultimately show ?thesis using lp [of j] False by (simp only: copy_bytes_at add_0 add.assoc if_False simp_thms)
      qed (simp add: copy_bytes_apply)
    qed (use r8 in simp)
    moreover have "aligned_len = h + w + 8"
      using al h sum w len b unfolding word_unat_eq_iff
      by (subst unat_add32; simp add: unat_add32)
    ultimately show ?thesis
      using L0 p1 p2 r D by (simp add: flash_area_write_last_def Let_def)
  qed
qed

section \<open>The whole write\<close>

lemma write_image_parts:
  fixes n len :: nat
  defines "e \<equiv> unit_fill n" and "M \<equiv> unit_mid n len"
  assumes "e \<le> len"
  shows "flash_program (flash_program (flash_program m a e src) (a + e) M src)
           (a + (e + M)) (len - (e + M)) (\<lambda>k. src (e + M + k))
         = flash_program m a len (write_image n len src)"
proof -
  let ?g = "write_image n len src"
  have le: "e + M \<le> len" using assms(3) by (simp add: M_def unit_mid_def e_def)
  have "flash_program m a e src = flash_program m a e ?g"
    by (rule flash_program_cong) (simp add: write_image_def e_def)
  moreover have "flash_program m' (a + e) M src = flash_program m' (a + e) M (\<lambda>k. ?g (e + k))" for m'
    by (rule flash_program_cong) (simp add: write_image_def e_def M_def)
  moreover have "flash_program m' (a + (e + M)) (len - (e + M)) (\<lambda>k. src (e + M + k))
      = flash_program m' (a + (e + M)) (len - (e + M)) (\<lambda>k. ?g (e + M + k))" for m'
    by (rule flash_program_cong) (simp add: write_image_def e_def M_def)
  ultimately show ?thesis using le by (simp add: flash_program_append)
qed

lemma write_body:
  assumes g: "good s" and A: "area_ok8 A D lo hi" and u: "unit_bytes dvd 8"
    and len: "unat off + unat len + L \<le> unat (fa_size A)"
    and h: "h = unat off mod 8" and L: "L = unit_pad (unat off) (unat len)"
    and al: "unat aligned_len = unat off mod 8 + unat len + L"
    and ap: "\<And>k. k < h \<Longrightarrow> ap k = mem s (unat (fa_off A) + (unat off - h + k))"
    and lp: "\<And>k. k < L \<Longrightarrow> lp k = mem s (unat (fa_off A) + (unat off + unat len + k))"
  shows "\<exists>s'. (do {
       (rc, src_written_idx, add_padding, s) \<leftarrow>
         flash_area_write_first 8 A (FLOOR_ALIGN off 8) src len (of_nat h) ap (of_nat L) lp 4 s;
       if rc \<noteq> 0 then Some (-1, s) else
       if src_written_idx < len then do {
         (rc, src_written_idx, s) \<leftarrow> flash_area_write_units 8 A off src len src_written_idx 4 s;
         if rc \<noteq> 0 then Some (-1, s)
         else flash_area_write_last 8 A off src len aligned_len src_written_idx (of_nat h)
                add_padding (of_nat L) lp 4 s }
       else Some (0, s) }) = Some (0, s') \<and> good s'
     \<and> mem s' = flash_program (mem s) (unat (fa_off A) + unat off) (unat len)
                  (write_image (unat off) (unat len) src)"
proof -
  let ?o = "unat off" and ?n = "unat len" and ?b = "unat (fa_off A)"
  let ?e = "unit_fill ?o" and ?w = "unit_first ?o ?n" and ?M = "unit_mid ?o ?n"
  have "?w < 2 ^ 32" using unat_less32 [of len] by (simp add: unit_first_def min_less_iff_disj)
  then have uw: "unat (of_nat ?w :: u32) = ?w" by (rule unat_of_nat32)
  have h32: "unat (of_nat h :: u32) = ?o mod 8" unfolding h by (intro unat_of_nat32) simp
  have "?e = 0" if "h = 0" using that h by (simp add: unit_fill_aligned dvd_eq_mod_eq_0)
  then have w0: "?w = 0" if "h = 0" using that by (simp add: unit_first_def)
  obtain ap' s1 where f: "flash_area_write_first 8 A (FLOOR_ALIGN off 8) src len (of_nat h) ap (of_nat L) lp 4 s
      = Some (0, of_nat ?w, ap', s1)" "good s1" "mem s1 = flash_program (mem s) (?b + ?o) ?w src"
  proof (cases "h = 0")
    case True
    then show thesis using that [of ap s] w0 g by (simp add: flash_area_write_first_def)
  next
    case False
    with write_first [OF g A u _ h False L ap lp] len show thesis using that by auto
  qed
  show ?thesis
  proof (cases "?w < ?n")
    case False
    then have "?n \<le> ?e" "?w = ?n" by (auto simp: unit_first_def)
    then have "write_image ?o ?n src = src" "\<not> of_nat ?w < len"
      using uw by (auto simp: write_image_short word_less_nat_alt)
    then show ?thesis using f \<open>?w = ?n\<close> by simp
  next
    case True
    then have e: "?w = ?e" "?e \<le> ?n" by (auto simp: unit_first_def)
    obtain s2 where s2: "flash_area_write_units 8 A off src len (of_nat ?w) 4 s1 = Some (0, of_nat (?e + ?M), s2)"
      "good s2" "mem s2 = flash_program (mem s1) (?b + (?o + ?e)) ?M src"
      using write_units [OF f(2) A u, of off len "of_nat ?w" ?M src] len uw e by auto
    have le: "?e + ?M \<le> ?n" "?n < ?e + ?M + 8" using e(2) by (auto simp: unit_mid_def)
    then have "unat (of_nat (?e + ?M) :: u32) = ?e + ?M"
      using unat_less32 [of len] by (intro unat_of_nat32) linarith
    moreover have "8 dvd ?o + (?e + ?M)"
      using unit_fill_end [of ?o] by (simp add: unit_mid_def add.assoc [symmetric])
    moreover have "lp k = mem s2 (?b + (?o + ?n + k))" if "k < L" for k
      using lp [OF that] le e by (simp add: s2(3) f(3) flash_program_def)
    ultimately obtain s3 where s3: "flash_area_write_last 8 A off src len aligned_len (of_nat (?e + ?M)) (of_nat h)
          ap' (of_nat L) lp 4 s2 = Some (0, s3)" "good s3"
      "mem s3 = flash_program (mem s2) (?b + (?o + (?e + ?M))) (?n - (?e + ?M)) (\<lambda>k. src (?e + ?M + k))"
      using write_last [OF s2(2) A u len L, of "of_nat (?e + ?M)" aligned_len "of_nat h" lp src ap'] le al h32
      by auto
    have "mem s3 = flash_program (mem s) (?b + ?o) ?n (write_image ?o ?n src)"
      using write_image_parts [OF e(2), of "mem s" "?b + ?o" src]
      unfolding s3(3) s2(3) f(3) e(1) by (simp add: add.assoc)
    moreover have "of_nat ?w < len" using True uw by (simp add: word_less_nat_alt)
    ultimately show ?thesis using f(1) s2(1) s3(1,2) by simp
  qed
qed

lemma flash_area_write_ok:
  assumes g: "good s" and A: "area_ok8 A D lo hi" and u: "unit_bytes dvd 8"
    and sa: "safe_add_spec safe_add" and len: "unat off + unat len \<le> unat (fa_size A)"
  shows "\<exists>s'. flash_area_write safe_add 8 ind (Some A) off src len s = Some (0, s') \<and> good s'
    \<and> mem s' = flash_program (mem s) (unat (fa_off A) + unat off) (unat len)
                  (write_image (unat off) (unat len) src)"
proof -
  let ?o = "unat off" and ?n = "unat len" and ?h = "unat off mod 8" and ?f = "FLOOR_ALIGN off 8"
  let ?L = "unit_pad ?o ?n" and ?a = "CEILING_ALIGN (len + (off - FLOOR_ALIGN off 8)) 8"
  have A4: "area_ok A D lo hi" and D: "fa_driver A = D" and s8: "8 dvd unat (fa_size A)"
    and b: "unat (fa_off A) + unat (fa_size A) < 2 ^ 32"
    using A hi_bound [OF g] by (auto simp: area_ok8_def area_ok_def)
  have f: "unat ?f = ?o - ?h" by (simp add: FLOOR_ALIGN_8 minus_mod_eq_div_mult)
  have ho: "?h \<le> ?o" by (rule mod_less_eq_dividend)
  have hw: "off - ?f = of_nat ?h" by (rule u32_eq_of_nat) (rule off_minus_floor8)
  have fin: "?o + ?n + ?L \<le> unat (fa_size A)"
    using unit_end [of ?o ?n] s8 len unit_pad_less [of ?o ?n] by presburger
  have "unat (fa_size A) < 2 ^ 32 - 7"
  proof -
    obtain k where k: "unat (fa_size A) = 8 * k" using s8 by (elim dvdE)
    then have "8 * k < 8 * 2 ^ 29" using b by simp
    then show ?thesis unfolding k by simp
  qed
  then have "?h + ?n + 7 < 2 ^ 32" using len ho by linarith
  from ceil_pad [OF this] have al: "unat ?a = ?h + ?n + ?L"
    unfolding hw by (simp add: add.commute)
  have Lw: "?a - len - of_nat ?h = of_nat ?L"
    unfolding u32_eq_of_nat [OF al] by simp
  have ol: "unat (off + len) = ?o + ?n" using b len by (intro unat_add32) linarith
  have uh: "unat (of_nat ?h :: u32) = ?h" by (intro unat_of_nat32) simp
  have uL: "unat (of_nat ?L :: u32) = ?L"
    using unit_pad_less [of ?o ?n] by (intro unat_of_nat32) simp
  obtain s1 where r1: "flash_area_read safe_add ind (Some A) ?f ind (of_nat ?h) s
      = Some (0, copy_bytes ind 0 (area_bytes s A ?f) 0 ?h, s1)" "good s1" "mem s1 = mem s"
    using flash_area_read_ok [OF g A4 sa, of ?f "of_nat ?h" ind ind] uh f ho len by auto
  obtain s2 where r2: "flash_area_read safe_add ind (Some A) (off + len) ind (of_nat ?L) s1
      = Some (0, copy_bytes ind 0 (area_bytes s A (off + len)) 0 ?L, s2)" "good s2" "mem s2 = mem s"
    using flash_area_read_ok [OF r1(2) A4 sa, of "off + len" "of_nat ?L" ind ind] uL ol fin r1(3) by auto
  have v: "is_range_valid safe_add (Some A) off len" "is_range_valid safe_add (Some A) ?f ?a"
    using len fin f al ho by (simp_all add: is_range_valid_iff [OF sa])
  have pa: "copy_bytes ind 0 (area_bytes s A ?f) 0 ?h k = mem s2 (unat (fa_off A) + (?o - ?h + k))"
    if "k < ?h" for k using that r2(3) f by (simp add: copy_bytes_apply add.assoc)
  have pb: "copy_bytes ind 0 (area_bytes s A (off + len)) 0 ?L k
      = mem s2 (unat (fa_off A) + (?o + ?n + k))"
    if "k < ?L" for k using that r2(3) ol by (simp add: copy_bytes_apply add.assoc)
  note body = write_body [OF r2(2) A u fin refl refl al pa pb, of src]
  have "table_get data_width_byte (data_width (GetCapabilities (fa_driver A) ())) = Some 4"
    using width [OF g] D by simp
  then show ?thesis
    using body v r1(1) r2 unfolding flash_area_write_def Let_def hw Lw [unfolded hw] by simp
qed

end

section \<open>A write of whole units\<close>

text \<open>
  A request of whole program units at a unit boundary is one call of \<open>ProgramData\<close>, after two
  reads of no bytes; this needs only the contract \<open>cmsis_read\<close>.
\<close>

context cmsis_read
begin

lemma write_whole_units:
  assumes g: "good s" and A: "area_ok A D lo hi" and sa: "safe_add_spec safe_add"
    and len: "unat off + unat len \<le> unat (fa_size A)" "len \<noteq> 0" and al: "8 dvd unat off" "8 dvd unat len"
    and prog: "\<And>s1. good s1 \<Longrightarrow> mem s1 = mem s \<Longrightarrow>
      \<exists>s'. ProgramData D (fa_off A + off) src 0 (len div 4) s1 = Some (0, s') \<and> Q s'"
  shows "\<exists>s'. flash_area_write safe_add 8 ind (Some A) off src len s = Some (0, s') \<and> Q s'"
proof -
  have D: "fa_driver A = D" using A by (simp add: area_ok_def)
  have fl: "FLOOR_ALIGN off 8 = off" "FLOOR_ALIGN len 8 = len" "CEILING_ALIGN len 8 = len"
  proof -
    have F: "FLOOR_ALIGN x 8 = x" if "8 dvd unat x" for x
      using FLOOR_ALIGN_8 [of x] that by (simp add: word_unat_eq_iff)
    show "FLOOR_ALIGN off 8 = off" "FLOOR_ALIGN len 8 = len" using F al by simp_all
    have "unat len < 2 ^ 32 - 7"
    proof -
      obtain k where k: "unat len = 8 * k" using al(2) by (elim dvdE)
      then have "8 * k < 8 * 2 ^ 29" using unat_less32 [of len] by simp
      then show ?thesis unfolding k by simp
    qed
    then have "unat (len + 7) = unat len + 7" by (simp add: unat_add32)
    moreover have "(unat len + 7) div 8 * 8 = unat len" using ceil8_nat [of "unat len"] al(2) by (simp add: dvd_eq_mod_eq_0)
    ultimately have "unat (FLOOR_ALIGN (len + 7) 8) = unat len" by (simp add: FLOOR_ALIGN_8)
    moreover have "CEILING_ALIGN len 8 = FLOOR_ALIGN (len + 7) 8" by (simp add: CEILING_ALIGN_def FLOOR_ALIGN_def)
    ultimately show "CEILING_ALIGN len 8 = len" by (simp only: word_unat_eq_iff)
  qed
  have none: "\<exists>d s1. flash_area_read safe_add ind (Some A) x ind 0 s0 = Some (0, d, s1) \<and> good s1 \<and> mem s1 = mem s0"
    if "good s0" "unat x \<le> unat (fa_size A)" for x s0
    using flash_area_read_ok [OF that(1) A sa, of x 0 ind ind] that(2) by auto
  obtain d1 s1 where r1: "flash_area_read safe_add ind (Some A) off ind 0 s = Some (0, d1, s1)" "good s1" "mem s1 = mem s"
    using none [OF g, of off] len(1) by auto
  have "unat (off + len) = unat off + unat len"
    using len(1) A hi_bound [OF g] by (intro unat_add32) (auto simp: area_ok_def)
  then obtain d2 s2 where r2: "flash_area_read safe_add ind (Some A) (off + len) ind 0 s1 = Some (0, d2, s2)" "good s2" "mem s2 = mem s"
    using none [OF r1(2), of "off + len"] len(1) r1(3) by auto
  obtain s' where p: "ProgramData D (fa_off A + off) src 0 (len div 4) s2 = Some (0, s')" "Q s'"
    using prog [OF r2(2,3)] by blast
  have "is_range_valid safe_add (Some A) off len" using len(1) by (simp add: is_range_valid_iff [OF sa])
  moreover have "table_get data_width_byte (data_width (GetCapabilities (fa_driver A) ())) = Some 4"
    using width [OF g] D by simp
  moreover have "0 < len" using len(2) by (simp add: word_gt_0)
  ultimately show ?thesis
    using r1(1) r2(1) p D
    by (simp add: flash_area_write_def Let_def fl flash_area_write_first_def flash_area_write_units_def flash_area_write_last_def)
qed

end

section \<open>A driver that cannot program\<close>

text \<open>
  When no call of \<open>ProgramData\<close> with a non-empty request returns a non-negative result, no
  write of a non-empty range returns 0.
\<close>

definition never_programs :: "'s ARM_DRIVER_FLASH \<Rightarrow> bool" where
  "never_programs D \<longleftrightarrow> (\<forall>a src p cnt s r s'. cnt * 4 \<noteq> 0 \<longrightarrow>
     ProgramData D a src p cnt s = Some (r, s') \<longrightarrow> r < 0)"

lemma never_programsD:
  "never_programs D \<Longrightarrow> ProgramData D a src p cnt s = Some (r, s') \<Longrightarrow> cnt * 4 \<noteq> 0 \<Longrightarrow> r < 0"
  unfolding never_programs_def by blast

lemma write_first_never:
  assumes "never_programs (fa_driver A)" "aps \<noteq> 0"
    "flash_area_write_first 8 A ao src len aps ap lps lp 4 s = Some (rc, i, ap', s')"
  shows "rc \<noteq> 0"
  using assms(2,3) never_programsD [OF assms(1), where cnt = 2]
  by (auto simp: flash_area_write_first_def Let_def bind_eq_Some_conv split: prod.splits if_splits)

lemma write_units_never:
  assumes "never_programs (fa_driver A)" "FLOOR_ALIGN (len - i) 8 > 0"
    "flash_area_write_units 8 A off src len i 4 s = Some (rc, i', s')"
  shows "rc \<noteq> 0"
proof -
  let ?ws = "FLOOR_ALIGN (len - i) 8"
  have "unat ?ws = unat (len - i) div 8 * 8" by (rule FLOOR_ALIGN_8)
  then have "unat (?ws div 4) * 4 = unat ?ws" by (simp add: unat_div)
  moreover from this have "unat (?ws div 4 * 4) = unat ?ws"
    using unat_less32 [of ?ws] by (simp add: unat_mult32)
  ultimately have "0 < unat (?ws div 4 * 4)" using assms(2) by (simp only: word_less_nat_alt unat_0)
  then have "?ws div 4 * 4 \<noteq> 0" by (simp only: unat_gt_0 not_False_eq_True)
  then show ?thesis
    using assms(2,3) never_programsD [OF assms(1), where cnt = "?ws div 4"]
    by (auto simp: flash_area_write_units_def Let_def bind_eq_Some_conv split: if_splits)
qed

lemma write_last_never:
  assumes "never_programs (fa_driver A)" "lps \<noteq> 0"
    "flash_area_write_last 8 A off src len al i aps ap lps lp 4 s = Some (rc, s')"
  shows "rc \<noteq> 0"
  using assms(2,3) never_programsD [OF assms(1), where cnt = 2]
  by (auto simp: flash_area_write_last_def Let_def bind_eq_Some_conv split: prod.splits if_splits)

lemma short_needs_padding:
  assumes "len \<noteq> 0" "off - FLOOR_ALIGN off 8 = 0" "\<not> FLOOR_ALIGN len 8 > 0"
  shows "CEILING_ALIGN (len + (off - FLOOR_ALIGN off 8)) 8 - len - (off - FLOOR_ALIGN off 8) \<noteq> 0"
proof -
  have "unat len div 8 = 0" using assms(3) FLOOR_ALIGN_8 [of len] by (simp add: word_less_nat_alt)
  then have l: "0 < unat len" "unat len < 8" using assms(1) by (simp_all add: unat_gt_0)
  have "CEILING_ALIGN len 8 = FLOOR_ALIGN (len + 7) 8"
    by (simp add: CEILING_ALIGN_def FLOOR_ALIGN_def)
  moreover have "unat (len + 7) = unat len + 7" using l by (simp add: unat_add32)
  moreover have "(unat len + 7) div 8 = 1" using l by simp
  ultimately have "unat (CEILING_ALIGN len 8) = 8" using FLOOR_ALIGN_8 [of "len + 7"] by simp
  then have "CEILING_ALIGN len 8 \<noteq> len" using l by auto
  then show ?thesis using assms(2) by simp
qed

lemma flash_area_write_never:
  assumes "never_programs (fa_driver A)" "data_width (GetCapabilities (fa_driver A) ()) = 2" "len \<noteq> 0"
  shows "flash_area_write safe_add 8 ind (Some A) off src len s \<noteq> Some (0, s')"
proof
  assume h: "flash_area_write safe_add 8 ind (Some A) off src len s = Some (0, s')"
  let ?aps = "off - FLOOR_ALIGN off 8"
  let ?lps = "CEILING_ALIGN (len + ?aps) 8 - len - ?aps"
  obtain ap ap' lp i s1 s2 where
    1: "flash_area_write_first 8 A (FLOOR_ALIGN off 8) src len ?aps ap ?lps lp 4 s1 = Some (0, i, ap', s2)"
    and 2: "if i < len
      then do { (rc, i, s) \<leftarrow> flash_area_write_units 8 A off src len i 4 s2;
                if rc \<noteq> 0 then Some (-1, s)
                else flash_area_write_last 8 A off src len (CEILING_ALIGN (len + ?aps) 8) i ?aps ap' ?lps lp 4 s }
           = Some (0, s')
      else True"
    using h assms(2)
    by (auto simp: flash_area_write_def Let_def bind_eq_Some_conv split: if_splits prod.splits)
  have aps: "?aps = 0" using write_first_never [OF assms(1) _ 1] by auto
  then have i: "i = 0" using 1 by (simp add: flash_area_write_first_def)
  then have "i < len" using assms(3) by (simp add: word_gt_0)
  with 2 obtain rc i' s3 where
    3: "flash_area_write_units 8 A off src len 0 4 s2 = Some (rc, i', s3)" "rc = 0"
    "flash_area_write_last 8 A off src len (CEILING_ALIGN (len + ?aps) 8) i' ?aps ap' ?lps lp 4 s3 = Some (0, s')"
    unfolding i by (auto simp: bind_eq_Some_conv split: if_splits)
  have "\<not> FLOOR_ALIGN len 8 > 0" using write_units_never [OF assms(1) _ 3(1)] 3(2) by auto
  from short_needs_padding [OF assms(3) aps this] write_last_never [OF assms(1) _ 3(3)] show False by auto
qed

end
