(* ===== verification/Flash_Map_Erase.thy ===== *)
theory Flash_Map_Erase
  imports Flash_Map_Read
begin

text \<open>
  \<open>flash_area_erase\<close> over any driver that keeps \<open>cmsis_erase\<close>: the loop stops and clears
  the sectors that cover the request; a request that is no multiple of the sector size is
  rounded up. Over any driver at all: the first error ends the loop and is the result.
\<close>

text \<open>The number of sectors that the loop erases.\<close>

definition sectors_for :: "nat \<Rightarrow> nat \<Rightarrow> nat" where
  "sectors_for len z = (len + z - 1) div z"

lemma sectors_for_0 [simp]: "0 < z \<Longrightarrow> sectors_for 0 z = 0"
  by (simp add: sectors_for_def)

lemma sectors_for_step: "0 < z \<Longrightarrow> 0 < len \<Longrightarrow> sectors_for len z = Suc (sectors_for (len - z) z)"
proof -
  assume z: "0 < z" "0 < len"
  show ?thesis
  proof (cases "z \<le> len")
    case True
    then obtain m where m: "len = z + m" by (metis le_Suc_ex)
    have "len + z - 1 = (m + z - 1) + z" using z m by simp
    then have "(len + z - 1) div z = Suc ((m + z - 1) div z)" using z by (metis div_add_self2 less_numeral_extra(3) Suc_eq_plus1 add.commute)
    then show ?thesis unfolding sectors_for_def m by simp
  next
    case False
    then have "len + z - 1 = (len - 1) + z" "len - 1 < z" using z by simp_all
    then have "(len + z - 1) div z = 1" using z by (simp only: div_add_self2) simp
    then show ?thesis using z False by (simp add: sectors_for_def)
  qed
qed

lemma sectors_for_mult: "0 < z \<Longrightarrow> z dvd len \<Longrightarrow> sectors_for len z * z = len"
proof -
  assume z: "0 < z" "z dvd len"
  then obtain k where k: "len = k * z" by (metis dvdE mult.commute)
  have e: "k * z + z - 1 = (z - 1) + k * z" using z by simp
  have "((z - 1) + k * z) div z = k" using z by (subst div_mult_self1) simp_all
  then have "(k * z + z - 1) div z = k" unfolding e .
  then show ?thesis unfolding sectors_for_def k by (simp only:)
qed

lemma sectors_for_covers: "0 < z \<Longrightarrow> len \<le> sectors_for len z * z"
  unfolding sectors_for_def
  using dividend_less_times_div [of z "len + z - 1"] by (simp add: mult.commute)

lemma flash_area_erase_loop_stop:
  "\<not> deleted_len < len \<Longrightarrow> flash_area_erase_loop A off len deleted_len rc s = Some (rc, s)"
  by (subst flash_area_erase_loop.simps) simp

lemma flash_area_erase_loop_error:
  assumes "deleted_len < len" "EraseSector (fa_driver A) (fa_off A + off) s = Some (e, s')" "e \<noteq> 0"
  shows "flash_area_erase_loop A off len deleted_len rc s = Some (e, s')"
  using assms by (subst flash_area_erase_loop.simps) simp

context cmsis_erase
begin

lemma erase_loop:
  assumes "good s" "fa_driver A = D" "lo \<le> unat (fa_off A)" "sector dvd unat (fa_off A) + unat off"
    "n = sectors_for (unat len - unat dl) sector"
    "unat (fa_off A) + unat off + n * sector \<le> hi" "unat dl + n * sector < 2 ^ 32"
  shows "\<exists>s'. flash_area_erase_loop A off len dl 0 s = Some (0, s') \<and> good s'
    \<and> mem s' = flash_erase (mem s) (unat (fa_off A) + unat off) (n * sector)"
  using assms
proof (induction n arbitrary: off dl s)
  case 0
  have "\<not> dl < len"
  proof
    assume "dl < len"
    then have "0 < unat len - unat dl" by (simp add: word_less_nat_alt)
    from sectors_for_step [OF sector_pos [OF "0.prems"(1)] this] "0.prems"(5) show False by simp
  qed
  then show ?case using 0 by (simp add: flash_area_erase_loop_stop)
next
  case (Suc n)
  note z = sector_pos [OF Suc.prems(1)]
  let ?a = "fa_off A + off" and ?z = "sector_size (GetInfo D ())"
  have hi: "hi < 2 ^ 32" using hi_bound [OF Suc.prems(1)] .
  have uz: "unat ?z = sector" using sector_size_eq [OF Suc.prems(1)] .
  have lt: "dl < len"
    using Suc.prems(5) z by (auto simp: word_less_nat_alt intro: ccontr)
  have a: "unat ?a = unat (fa_off A) + unat off"
    using Suc.prems(6) hi by (intro unat_add32) linarith
  have o: "unat (off + ?z) = unat off + sector" "unat (dl + ?z) = unat dl + sector"
    using Suc.prems(6,7) hi uz by (simp_all add: unat_add32)
  obtain s1 where s1: "EraseSector D ?a s = Some (0, s1)" "good s1"
    "mem s1 = flash_erase (mem s) (unat (fa_off A) + unat off) sector"
    using erase_law [OF Suc.prems(1), of ?a] Suc.prems(3,4,6) a by auto
  have "n = sectors_for (unat len - unat (dl + ?z)) sector"
    using Suc.prems(5) lt sectors_for_step [OF z, of "unat len - unat dl"] o
    by (simp add: word_less_nat_alt)
  moreover have "sector dvd unat (fa_off A) + unat (off + ?z)"
    using Suc.prems(4) o(1) by (simp add: add.assoc [symmetric])
  ultimately obtain s2 where "flash_area_erase_loop A (off + ?z) len (dl + ?z) 0 s1 = Some (0, s2)"
    "good s2" "mem s2 = flash_erase (mem s1) (unat (fa_off A) + unat (off + ?z)) (n * sector)"
    using Suc.IH [OF s1(2) Suc.prems(2,3), of "off + ?z" "dl + ?z"] Suc.prems(6,7) o by auto
  then show ?case
    using s1 lt o Suc.prems(2) flash_erase_append [of "mem s" "unat (fa_off A) + unat off" sector]
    by (subst flash_area_erase_loop.simps) (simp add: Let_def add.assoc)
qed

lemma flash_area_erase_ok:
  assumes g: "good s" and A: "area_ok A D lo hi" and sa: "safe_add_spec safe_add"
    and len: "unat off + unat len \<le> unat (fa_size A)"
    and z: "sector dvd unat (fa_off A) + unat off"
    and fin: "unat off + sectors_for (unat len) sector * sector \<le> unat (fa_size A)"
  shows "\<exists>s'. flash_area_erase safe_add (Some A) off len s = Some (0, s') \<and> good s'
    \<and> mem s' = flash_erase (mem s) (unat (fa_off A) + unat off) (sectors_for (unat len) sector * sector)"
proof -
  have A': "fa_driver A = D" "lo \<le> unat (fa_off A)" "unat (fa_off A) + unat (fa_size A) \<le> hi"
    using A by (auto simp: area_ok_def)
  have "\<exists>s'. flash_area_erase_loop A off len 0 0 s = Some (0, s') \<and> good s'
    \<and> mem s' = flash_erase (mem s) (unat (fa_off A) + unat off) (sectors_for (unat len) sector * sector)"
    using A' fin hi_bound [OF g] by (intro erase_loop [OF g A'(1,2) z]) auto
  moreover have "is_range_valid safe_add (Some A) off len" using len by (simp add: is_range_valid_iff [OF sa])
  ultimately show ?thesis using uniform [OF g] A'(1) by (simp add: flash_area_erase_def)
qed

end

end
