(* ===== verification/Sim_Device.thy ===== *)
theory Sim_Device
  imports Rmc_Drv
begin

text \<open>
  Two concrete controllers, used only to exhibit that the hypotheses about the hardware can
  hold: an FMC and an RMC whose flash content is computed by replaying the events of the
  history. The numeric values are those of a part with 1 MiB of APROM, 4 KiB pages and the
  LDROM at \<open>0x0F100000\<close>. They model no code of the repository.
\<close>

record sim =
  sim_cmd :: u32
  sim_addr :: u32
  sim_d0 :: u32
  sim_d1 :: u32
  sim_mem :: buf

definition sim_start :: sim where
  "sim_start = \<lparr>sim_cmd = 0, sim_addr = 0, sim_d0 = 0, sim_d1 = 0, sim_mem = (\<lambda>_. 0xFF)\<rparr>"

fun sim_const :: "bsp_const \<Rightarrow> u32" where
  "sim_const FMC_ISPCMD_READ = 0"
| "sim_const FMC_ISPCMD_PROGRAM_64 = 0x61"
| "sim_const FMC_ISPCMD_PAGE_ERASE = 0x22"
| "sim_const FMC_ISPTRG_ISPGO_Msk = 1"
| "sim_const FMC_ISPSTS_ISPBUSY_Msk = 1"
| "sim_const FMC_ISPSTS_ISPFF_Msk = 0x40"
| "sim_const FMC_APROM_BASE = 0"
| "sim_const FMC_APROM_SIZE = 0x100000"
| "sim_const FMC_LDROM_BASE = 0x0F100000"
| "sim_const FMC_LDROM_SIZE = 0x2000"
| "sim_const FMC_FLASH_PAGE_SIZE = 0x1000"
| "sim_const RMC_APROM_BASE = 0"
| "sim_const RMC_APROM_SIZE = 0x80000"
| "sim_const RMC_LDROM_BASE = 0x0F100000"
| "sim_const RMC_LDROM_SIZE = 0x2000"
| "sim_const RMC_FLASH_PAGE_SIZE = 0x1000"
| "sim_const SystemCoreClock = 1000"
| "sim_const SPIM_DMM_SIZE = 0x02000000"
| "sim_const _ = 1000"

fun sim_ev :: "ev \<Rightarrow> sim \<Rightarrow> sim" where
  "sim_ev (FMC_Wr ISPCMD v) s = s\<lparr>sim_cmd := v\<rparr>"
| "sim_ev (FMC_Wr ISPADDR v) s = s\<lparr>sim_addr := v\<rparr>"
| "sim_ev (FMC_Wr MPDAT0 v) s = s\<lparr>sim_d0 := v\<rparr>"
| "sim_ev (FMC_Wr MPDAT1 v) s = s\<lparr>sim_d1 := v\<rparr>"
| "sim_ev (FMC_Wr ISPTRG v) s =
     (if sim_cmd s = 0x61
      then s\<lparr>sim_mem := flash_program (sim_mem s) (unat (sim_addr s)) 8
              (\<lambda>k. if k < 4 then byte_of (sim_d0 s) k else byte_of (sim_d1 s) (k - 4))\<rparr>
      else if sim_cmd s = 0x22
      then s\<lparr>sim_mem := flash_erase (sim_mem s) (unat (sim_addr s)) 0x1000\<rparr>
      else s)"
| "sim_ev (RMC_Write a w) s = s\<lparr>sim_mem := flash_program (sim_mem s) (unat a) 4 (byte_of w)\<rparr>"
| "sim_ev (RMC_Erase a) s = s\<lparr>sim_mem := flash_erase (sim_mem s) (unat a) 0x1000\<rparr>"
| "sim_ev _ s = s"

definition sim_run :: "hw \<Rightarrow> sim" where
  "sim_run t = fold sim_ev t sim_start"

fun sim_answer :: "ev \<Rightarrow> sim \<Rightarrow> u32" where
  "sim_answer (FMC_Rd ISPDAT) s = load32 (sim_mem s) (unat (sim_addr s))"
| "sim_answer (RMC_Read a) s = load32 (sim_mem s) (unat a)"
| "sim_answer _ s = 0"

definition sim_bsp :: bsp where
  "sim_bsp = \<lparr>resp = (\<lambda>t. if t = [] then 0 else sim_answer (last t) (sim_run t)),
              konst = sim_const\<rparr>"

definition sim_fdev :: fdev where
  "sim_fdev = \<lparr>fd_mem = (\<lambda>t. sim_mem (sim_run t)), fd_ready = (\<lambda>_. True),
               fd_backed = (\<lambda>_. True)\<rparr>"

lemma sim_run_append [simp]: "sim_run (t @ u) = fold sim_ev u (sim_run t)"
  by (simp add: sim_run_def)

lemma sim_polls [simp]: "fold sim_ev (polls n) s = s"
  by (induction n) (simp_all add: polls_Suc)

lemma sim_sts [simp]: "resp sim_bsp (t @ polls (Suc n)) = 0"
  by (simp add: sim_bsp_def polls_def)

lemma sim_completes: "0 \<le> T \<Longrightarrow> fmc_completes sim_bsp T t 0"
  unfolding fmc_completes_def by (simp only: sim_sts) simp

lemma sim_fmc_laws: "fmc_laws sim_bsp sim_fdev"
proof -
  have "fmc_read_law sim_bsp sim_fdev"
    unfolding fmc_read_law_def Let_def
    by (intro allI impI exI [of _ 0] conjI sim_completes)
       (simp_all add: fmc_timeout_def sim_bsp_def sim_fdev_def fmc_cmd_def)
  moreover have "fmc_program_law sim_bsp sim_fdev"
    unfolding fmc_program_law_def Let_def
    by (intro allI impI exI [of _ 0] conjI sim_completes)
       (simp_all add: fmc_timeout_def sim_bsp_def sim_fdev_def fmc_cmd_def cong: if_cong)
  moreover have "fmc_erase_law sim_bsp sim_fdev"
    unfolding fmc_erase_law_def Let_def
    by (intro allI impI exI [of _ 0] conjI sim_completes)
       (simp_all add: fmc_timeout_def sim_bsp_def sim_fdev_def fmc_cmd_def fmc_page_def)
  ultimately show ?thesis by (simp add: fmc_laws_def)
qed

lemma sim_rmc_laws: "rmc_laws sim_bsp sim_fdev"
  by (simp add: rmc_laws_def sim_bsp_def sim_fdev_def rmc_page_def)

end
