(* ===== verification/Board.thy ===== *)
theory Board
  imports Driver_Flash Flash_Map_Write Flash_Map_Erase Sim_Device
begin

text \<open>
  Flash areas in the APROM of a board: \<open>Driver_FLASH0\<close> over the controller that the build
  links (the FMC, or the RMC for the M2L31), with the hypotheses about the hardware gathered
  in \<open>board_ok\<close>. The interpretations \<open>aprom\<close> and \<open>ldrom\<close> (the scratch area, over
  \<open>Driver_FLASH1\<close>) give the results on \<open>flash_map.c\<close> for the drivers of the repository. The last section builds the concrete board of \<open>Sim_Device\<close>.
\<close>

definition nvmc_laws :: "bsp \<Rightarrow> bool \<Rightarrow> fdev \<Rightarrow> bool" where
  "nvmc_laws B rmc F \<longleftrightarrow> (if rmc then rmc_laws B F else fmc_laws B F)"

definition nvmc_unit :: "bool \<Rightarrow> nat" where
  "nvmc_unit rmc = (if rmc then 4 else 8)"

definition nvmc_page :: "bsp \<Rightarrow> bool \<Rightarrow> nat" where
  "nvmc_page B rmc = (if rmc then rmc_page B else fmc_page B)"

text \<open>The controller behaves as documented, is open, and the geometry of the device is sound.\<close>

definition board_ok :: "bsp \<Rightarrow> bool \<Rightarrow> fdev \<Rightarrow> arm_flash_dev_t \<Rightarrow> hw \<Rightarrow> bool" where
  "board_ok B rmc F dev t \<longleftrightarrow> nvmc_laws B rmc F \<and> fd_ready F t
     \<and> dev_ok dev (fd_backed F) (nvmc_unit rmc) (nvmc_page B rmc)"

text \<open>An area of the APROM, made of whole program units.\<close>

definition aprom_area :: "bsp \<Rightarrow> bool \<Rightarrow> buf \<Rightarrow> hw flash_area \<Rightarrow> bool" where
  "aprom_area B rmc ind A \<longleftrightarrow>
     area_ok8 A (Driver_FLASH0 B rmc ind (linked_nvmc B rmc))
       (dev_lo (ARM_FLASH0_DEV B rmc)) (dev_hi (ARM_FLASH0_DEV B rmc))"

lemma nvmc_unit_dvd: "nvmc_unit rmc dvd 8"
  by (simp add: nvmc_unit_def)

lemma aprom_area_ok:
  "aprom_area B rmc ind A \<Longrightarrow> area_ok A (Driver_FLASH0 B rmc ind (linked_nvmc B rmc))
       (dev_lo (ARM_FLASH0_DEV B rmc)) (dev_hi (ARM_FLASH0_DEV B rmc))"
  by (simp add: aprom_area_def area_ok8_def)

interpretation aprom: cmsis_flash "Driver_FLASH0 B rmc ind (linked_nvmc B rmc)" "fd_mem F"
  "board_ok B rmc F (ARM_FLASH0_DEV B rmc)" "dev_lo (ARM_FLASH0_DEV B rmc)"
  "dev_hi (ARM_FLASH0_DEV B rmc)" "nvmc_page B rmc" "nvmc_unit rmc" for B rmc ind F
proof (cases rmc)
  case True
  have "board_ok B True F dev = (\<lambda>t. (rmc_laws B F \<and> fd_ready F t)
      \<and> dev_ok dev (fd_backed F) 4 (rmc_page B))" for dev
    by (simp add: fun_eq_iff board_ok_def nvmc_laws_def nvmc_unit_def nvmc_page_def)
  then show "cmsis_flash (Driver_FLASH0 B rmc ind (linked_nvmc B rmc)) (fd_mem F)
      (board_ok B rmc F (ARM_FLASH0_DEV B rmc)) (dev_lo (ARM_FLASH0_DEV B rmc))
      (dev_hi (ARM_FLASH0_DEV B rmc)) (nvmc_page B rmc) (nvmc_unit rmc)"
    using True rmc.driver_flash0 [where B = B and F = F and ind = ind and rmc = True]
    by (simp add: linked_nvmc_def nvmc_unit_def nvmc_page_def)
next
  case False
  have "board_ok B False F dev = (\<lambda>t. (fmc_laws B F \<and> fd_ready F t)
      \<and> dev_ok dev (fd_backed F) 8 (fmc_page B))" for dev
    by (simp add: fun_eq_iff board_ok_def nvmc_laws_def nvmc_unit_def nvmc_page_def)
  then show "cmsis_flash (Driver_FLASH0 B rmc ind (linked_nvmc B rmc)) (fd_mem F)
      (board_ok B rmc F (ARM_FLASH0_DEV B rmc)) (dev_lo (ARM_FLASH0_DEV B rmc))
      (dev_hi (ARM_FLASH0_DEV B rmc)) (nvmc_page B rmc) (nvmc_unit rmc)"
    using False fmc.driver_flash0 [where B = B and F = F and ind = ind and rmc = False]
    by (simp add: linked_nvmc_def nvmc_unit_def nvmc_page_def)
qed

interpretation ldrom: cmsis_flash "Driver_FLASH1 B rmc ind (linked_nvmc B rmc)" "fd_mem F"
  "board_ok B rmc F (ARM_FLASH1_DEV B rmc)" "dev_lo (ARM_FLASH1_DEV B rmc)"
  "dev_hi (ARM_FLASH1_DEV B rmc)" "nvmc_page B rmc" "nvmc_unit rmc" for B rmc ind F
proof (cases rmc)
  case True
  have "board_ok B True F dev = (\<lambda>t. (rmc_laws B F \<and> fd_ready F t)
      \<and> dev_ok dev (fd_backed F) 4 (rmc_page B))" for dev
    by (simp add: fun_eq_iff board_ok_def nvmc_laws_def nvmc_unit_def nvmc_page_def)
  then show "cmsis_flash (Driver_FLASH1 B rmc ind (linked_nvmc B rmc)) (fd_mem F)
      (board_ok B rmc F (ARM_FLASH1_DEV B rmc)) (dev_lo (ARM_FLASH1_DEV B rmc))
      (dev_hi (ARM_FLASH1_DEV B rmc)) (nvmc_page B rmc) (nvmc_unit rmc)"
    using True rmc.driver_flash1 [where B = B and F = F and ind = ind and rmc = True]
    by (simp add: linked_nvmc_def nvmc_unit_def nvmc_page_def)
next
  case False
  have "board_ok B False F dev = (\<lambda>t. (fmc_laws B F \<and> fd_ready F t)
      \<and> dev_ok dev (fd_backed F) 8 (fmc_page B))" for dev
    by (simp add: fun_eq_iff board_ok_def nvmc_laws_def nvmc_unit_def nvmc_page_def)
  then show "cmsis_flash (Driver_FLASH1 B rmc ind (linked_nvmc B rmc)) (fd_mem F)
      (board_ok B rmc F (ARM_FLASH1_DEV B rmc)) (dev_lo (ARM_FLASH1_DEV B rmc))
      (dev_hi (ARM_FLASH1_DEV B rmc)) (nvmc_page B rmc) (nvmc_unit rmc)"
    using False fmc.driver_flash1 [where B = B and F = F and ind = ind and rmc = False]
    by (simp add: linked_nvmc_def nvmc_unit_def nvmc_page_def)
qed

section \<open>A concrete board\<close>

definition sim_safe_add :: "u32 \<Rightarrow> u32 \<Rightarrow> u32 option" where
  "sim_safe_add a b = (if unat a + unat b < 2 ^ 32 then Some (a + b) else None)"

definition sim_ind :: buf where
  "sim_ind = (\<lambda>_. 0xA5)"

definition sim_area :: "bool \<Rightarrow> hw flash_area" where
  "sim_area rmc = \<lparr>fa_id = 1, fa_device_id = 100,
     fa_driver = Driver_FLASH0 sim_bsp rmc sim_ind (linked_nvmc sim_bsp rmc),
     fa_off = 0x20000, fa_size = 0x8000\<rparr>"

lemma sim_konst [simp]: "konst sim_bsp = sim_const"
  by (simp add: sim_bsp_def)

lemma sim_safe_add_spec: "safe_add_spec sim_safe_add"
  by (simp add: safe_add_spec_def sim_safe_add_def)

lemmas sim_geometry = ARM_FLASH0_DEV_def ARM_FLASH1_DEV_def NVT_NVMC_APROM_MEMORY_BASE_def
  NVT_NVMC_LDROM_MEMORY_BASE_def NVT_NVMC_SECTOR_SIZE_def NVT_NVMC_APROM_SECTOR_COUNT_def
  NVT_NVMC_LDROM_SECTOR_COUNT_def NVT_NVMC_PROGRAM_UNIT_def

lemma sim_board_ok: "board_ok sim_bsp rmc sim_fdev (ARM_FLASH0_DEV sim_bsp rmc) t"
proof -
  have "fd_ready sim_fdev t" "\<And>x. fd_backed sim_fdev x" by (simp_all add: sim_fdev_def)
  then show ?thesis
    by (simp add: board_ok_def nvmc_laws_def sim_fmc_laws sim_rmc_laws dev_ok_def dev_lo_def
        dev_hi_def nvmc_unit_def nvmc_page_def fmc_page_def rmc_page_def sim_geometry)
qed

lemma sim_board_ok_ldrom: "board_ok sim_bsp rmc sim_fdev (ARM_FLASH1_DEV sim_bsp rmc) t"
proof -
  have "fd_ready sim_fdev t" "\<And>x. fd_backed sim_fdev x" by (simp_all add: sim_fdev_def)
  then show ?thesis
    by (simp add: board_ok_def nvmc_laws_def sim_fmc_laws sim_rmc_laws dev_ok_def dev_lo_def
        dev_hi_def nvmc_unit_def nvmc_page_def fmc_page_def rmc_page_def sim_geometry)
qed

lemma sim_aprom_area: "aprom_area sim_bsp rmc sim_ind (sim_area rmc)"
  by (simp add: aprom_area_def area_ok8_def area_ok_def sim_area_def dev_lo_def dev_hi_def sim_geometry)

end
