(* ===== verification/Area_Spec.thy ===== *)
theory Area_Spec
  imports Board
begin

text \<open>
  The abstract view of a flash area, and sequences of operations on it: what the bootutil
  library may rely on. A state of the specification is the content of the area alone, an
  array of \<open>fa_size\<close> bytes (\<open>area_content\<close>); the operations are a read, a write that clears
  bits, and an erase. Proved here, by induction on the sequence: any sequence of admissible
  operations of \<open>flash_map.c\<close> over the on-chip driver gives the results of the specification,
  ends in its state, keeps the hardware in order, and touches no byte outside the area.
\<close>

datatype area_op =
    Op_read u32 u32
  | Op_write u32 buf u32
  | Op_erase u32 u32

text \<open>
  The operation as the client calls it: the result code, the bytes delivered by a read (into a
  buffer with the content \<open>ind\<close>).
\<close>

fun run_op :: "(u32 \<Rightarrow> u32 \<Rightarrow> u32 option) \<Rightarrow> buf \<Rightarrow> 's flash_area \<Rightarrow> area_op \<Rightarrow> 's \<Rightarrow>
    ((int \<times> u8 list) \<times> 's) option" where
  "run_op safe_add ind A (Op_read off len) s = do {
     (r, dst, s) \<leftarrow> flash_area_read safe_add ind (Some A) off ind len s;
     Some ((r, map dst [0..<unat len]), s) }"
| "run_op safe_add ind A (Op_write off src len) s = do {
     (r, s) \<leftarrow> flash_area_write safe_add 8 ind (Some A) off src len s; Some ((r, []), s) }"
| "run_op safe_add ind A (Op_erase off len) s = do {
     (r, s) \<leftarrow> flash_area_erase safe_add (Some A) off len s; Some ((r, []), s) }"

fun run_ops :: "(u32 \<Rightarrow> u32 \<Rightarrow> u32 option) \<Rightarrow> buf \<Rightarrow> 's flash_area \<Rightarrow> area_op list \<Rightarrow> 's \<Rightarrow>
    ((int \<times> u8 list) list \<times> 's) option" where
  "run_ops safe_add ind A [] s = Some ([], s)"
| "run_ops safe_add ind A (x # xs) s = do {
     (r, s) \<leftarrow> run_op safe_add ind A x s;
     (rs, s) \<leftarrow> run_ops safe_add ind A xs s;
     Some (r # rs, s) }"

section \<open>The specification\<close>

definition area_content :: "'s flash_area \<Rightarrow> buf \<Rightarrow> buf" where
  "area_content A m = (\<lambda>k. if k < unat (fa_size A) then m (unat (fa_off A) + k) else 0xFF)"

fun spec_op :: "area_op \<Rightarrow> buf \<Rightarrow> buf" where
  "spec_op (Op_read off len) c = c"
| "spec_op (Op_write off src len) c = flash_program c (unat off) (unat len) src"
| "spec_op (Op_erase off len) c = flash_erase c (unat off) (unat len)"

fun spec_result :: "area_op \<Rightarrow> buf \<Rightarrow> int \<times> u8 list" where
  "spec_result (Op_read off len) c = (0, map (\<lambda>k. c (unat off + k)) [0..<unat len])"
| "spec_result _ c = (0, [])"

fun spec_results :: "area_op list \<Rightarrow> buf \<Rightarrow> (int \<times> u8 list) list" where
  "spec_results [] c = []"
| "spec_results (x # xs) c = spec_result x c # spec_results xs (spec_op x c)"

text \<open>Admissible: inside the area, writes at a program unit, erases of whole sectors of \<open>z\<close> bytes.\<close>

fun op_ok :: "nat \<Rightarrow> 's flash_area \<Rightarrow> area_op \<Rightarrow> bool" where
  "op_ok z A (Op_read off len) = (unat off + unat len \<le> unat (fa_size A))"
| "op_ok z A (Op_write off src len) = (unat off + unat len \<le> unat (fa_size A) \<and> 8 dvd unat off)"
| "op_ok z A (Op_erase off len) = (unat off + unat len \<le> unat (fa_size A) \<and> z dvd unat off \<and> z dvd unat len)"

definition same_outside :: "'s flash_area \<Rightarrow> buf \<Rightarrow> buf \<Rightarrow> bool" where
  "same_outside A m m' \<longleftrightarrow>
     (\<forall>x. x < unat (fa_off A) \<or> unat (fa_off A) + unat (fa_size A) \<le> x \<longrightarrow> m' x = m x)"

lemma area_content_program:
  "off + len \<le> unat (fa_size A) \<Longrightarrow> area_content A (flash_program m (unat (fa_off A) + off) len src)
     = flash_program (area_content A m) off len src"
  by (auto simp: area_content_def flash_program_def fun_eq_iff)

lemma area_content_erase:
  "off + len \<le> unat (fa_size A) \<Longrightarrow> area_content A (flash_erase m (unat (fa_off A) + off) len)
     = flash_erase (area_content A m) off len"
  by (auto simp: area_content_def flash_erase_def fun_eq_iff)

lemma same_outside_program:
  "off + len \<le> unat (fa_size A) \<Longrightarrow> same_outside A m (flash_program m (unat (fa_off A) + off) len src)"
  by (auto simp: same_outside_def flash_program_def)

lemma same_outside_erase:
  "off + len \<le> unat (fa_size A) \<Longrightarrow> same_outside A m (flash_erase m (unat (fa_off A) + off) len)"
  by (auto simp: same_outside_def flash_erase_def)

lemma same_outside_refl [simp]: "same_outside A m m"
  by (simp add: same_outside_def)

lemma same_outside_trans: "same_outside A m m' \<Longrightarrow> same_outside A m' m'' \<Longrightarrow> same_outside A m m''"
  by (auto simp: same_outside_def)

section \<open>Simulation\<close>

context cmsis_flash
begin

lemma run_op_sim:
  assumes g: "good s" and A: "area_ok8 A D lo hi" and u: "unit_bytes dvd 8" and sa: "safe_add_spec safe_add"
    and z: "sector dvd unat (fa_off A)" and x: "op_ok sector A x"
  shows "\<exists>s'. run_op safe_add ind A x s = Some (spec_result x (area_content A (mem s)), s') \<and> good s'
    \<and> area_content A (mem s') = spec_op x (area_content A (mem s)) \<and> same_outside A (mem s) (mem s')"
proof (cases x)
  case (Op_read off len)
  then have len: "unat off + unat len \<le> unat (fa_size A)" using x by simp
  have A4: "area_ok A D lo hi" using A by (simp add: area_ok8_def)
  from flash_area_read_ok [OF g A4 sa len, of ind ind] obtain s' where
    s': "flash_area_read safe_add ind (Some A) off ind len s
      = Some (0, copy_bytes ind 0 (area_bytes s A off) 0 (unat len), s')" "good s'" "mem s' = mem s" by blast
  have "map (copy_bytes ind 0 (area_bytes s A off) 0 (unat len)) [0..<unat len]
      = map (\<lambda>k. area_content A (mem s) (unat off + k)) [0..<unat len]"
    using len by (auto simp: copy_bytes_apply area_content_def add.assoc)
  then show ?thesis using s' Op_read by simp
next
  case (Op_write off src len)
  then have len: "unat off + unat len \<le> unat (fa_size A)" and al: "8 dvd unat off" using x by simp_all
  from flash_area_write_ok [OF g A u sa len, of ind src] obtain s' where
    "flash_area_write safe_add 8 ind (Some A) off src len s = Some (0, s')" "good s'"
    "mem s' = flash_program (mem s) (unat (fa_off A) + unat off) (unat len) src"
    unfolding write_image_aligned [OF al] by blast
  then show ?thesis using len Op_write by (simp add: area_content_program same_outside_program)
next
  case (Op_erase off len)
  then have len: "unat off + unat len \<le> unat (fa_size A)" and al: "sector dvd unat off" "sector dvd unat len"
    using x by simp_all
  have n: "sectors_for (unat len) sector * sector = unat len"
    by (rule sectors_for_mult [OF sector_pos [OF g] al(2)])
  have A4: "area_ok A D lo hi" using A by (simp add: area_ok8_def)
  have "sector dvd unat (fa_off A) + unat off" using z al(1) by simp
  from flash_area_erase_ok [OF g A4 sa len this, unfolded n] len obtain s' where
    "flash_area_erase safe_add (Some A) off len s = Some (0, s')" "good s'"
    "mem s' = flash_erase (mem s) (unat (fa_off A) + unat off) (unat len)" by blast
  then show ?thesis using len Op_erase by (simp add: area_content_erase same_outside_erase)
qed

lemma run_ops_sim:
  assumes A: "area_ok8 A D lo hi" and u: "unit_bytes dvd 8" and sa: "safe_add_spec safe_add"
    and z: "sector dvd unat (fa_off A)"
  shows "good s \<Longrightarrow> \<forall>x \<in> set xs. op_ok sector A x \<Longrightarrow>
    \<exists>s'. run_ops safe_add ind A xs s = Some (spec_results xs (area_content A (mem s)), s') \<and> good s'
      \<and> area_content A (mem s') = fold spec_op xs (area_content A (mem s)) \<and> same_outside A (mem s) (mem s')"
proof (induction xs arbitrary: s)
  case (Cons x xs)
  then have "op_ok sector A x" by simp
  from run_op_sim [OF Cons.prems(1) A u sa z this, of ind] obtain s1 where
    s1: "run_op safe_add ind A x s = Some (spec_result x (area_content A (mem s)), s1)" "good s1"
    "area_content A (mem s1) = spec_op x (area_content A (mem s))" "same_outside A (mem s) (mem s1)" by blast
  from Cons.IH [OF s1(2)] Cons.prems(2) obtain s2 where
    "run_ops safe_add ind A xs s1 = Some (spec_results xs (area_content A (mem s1)), s2)" "good s2"
    "area_content A (mem s2) = fold spec_op xs (area_content A (mem s1))" "same_outside A (mem s1) (mem s2)" by auto
  then show ?case using s1 by (auto intro: same_outside_trans)
qed simp

end

end
