(* ===== verification/Flash_Props.thy ===== *)
theory Flash_Props
  imports Area_Spec
begin

text \<open>
  Properties of the path from \<open>flash_map.c\<close> over the on-chip driver to the controllers:
  results on every branch, errors and bounds. Results that use the specification of an area
  are in the root theory.
\<close>

section \<open>Flash areas\<close>

text \<open>
  C9. A write at an offset that is no multiple of the program unit programs, in one call that
  returns 0, the bytes before the next unit boundary correctly, the whole units after it from
  the START of \<open>src\<close> again (the code passes \<open>src\<close>, not \<open>src + src_written_idx\<close>), and the rest
  correctly. So only short requests, with no whole unit after the first boundary, are right.
\<close>

theorem flash_area_write_unaligned:
  assumes "board_ok B rmc F (ARM_FLASH0_DEV B rmc) t" and "aprom_area B rmc ind A"
    and "safe_add_spec safe_add" and "unat off + unat len \<le> unat (fa_size A)"
    and "\<not> 8 dvd unat off"
  defines "fill \<equiv> 8 - unat off mod 8"
  defines "whole \<equiv> (unat len - fill) div 8 * 8"
  shows "\<exists>t'. flash_area_write safe_add 8 ind2 (Some A) off src len t = Some (0, t')
    \<and> fd_mem F t' = flash_program (fd_mem F t) (unat (fa_off A) + unat off) (unat len)
        (\<lambda>k. if fill \<le> k \<and> k < fill + whole then src (k - fill) else src k)"
proof -
  have "write_image (unat off) (unat len) src
      = (\<lambda>k. if fill \<le> k \<and> k < fill + whole then src (k - fill) else src k)"
    by (simp only: write_image_def unit_mid_def unit_fill_unaligned [OF assms(5)] fill_def whole_def)
  then show ?thesis
    using aprom.flash_area_write_ok [OF assms(1) assms(2) [unfolded aprom_area_def] nvmc_unit_dvd
        assms(3,4), of ind2 src] by auto
qed

theorem flash_area_write_unaligned_witness:
  "\<exists>t'. flash_area_write sim_safe_add 8 sim_ind (Some (sim_area False)) 4 of_nat 20 [] = Some (0, t')
    \<and> fd_mem sim_fdev t' 0x20008 = of_nat 0"
  using flash_area_write_unaligned [OF sim_board_ok sim_aprom_area sim_safe_add_spec,
      of 4 20 False sim_ind of_nat "[]"]
  by (auto simp: sim_area_def sim_fdev_def sim_run_def sim_start_def flash_program_def)

text \<open>
  A write at an unaligned offset that ends before a whole unit follows the first boundary
  programs exactly its bytes.
\<close>

lemma flash_area_write_short:
  assumes "board_ok B rmc F (ARM_FLASH0_DEV B rmc) t" and "aprom_area B rmc ind A"
    and "safe_add_spec safe_add" and "unat off + unat len \<le> unat (fa_size A)"
    and "\<not> 8 dvd unat off" and "unat off mod 8 + unat len < 16"
  shows "\<exists>t'. flash_area_write safe_add 8 ind2 (Some A) off src len t = Some (0, t')
    \<and> fd_mem F t' = flash_program (fd_mem F t) (unat (fa_off A) + unat off) (unat len) src"
proof -
  have "unat len < unit_fill (unat off) + 8" using assms(6) by (simp add: unit_fill_unaligned [OF assms(5)])
  from write_image_short [OF this] show ?thesis
    using aprom.flash_area_write_ok [OF assms(1) assms(2) [unfolded aprom_area_def] nvmc_unit_dvd
        assms(3,4), of ind2 src] by auto
qed

lemma flash_area_write_short_witness:
  "\<exists>t'. flash_area_write sim_safe_add 8 sim_ind (Some (sim_area True)) 3 of_nat 9 [] = Some (0, t')
    \<and> fd_mem sim_fdev t' = flash_program (fd_mem sim_fdev []) 0x20003 9 of_nat"
  using flash_area_write_short [OF sim_board_ok sim_aprom_area sim_safe_add_spec,
      of 3 9 True sim_ind of_nat "[]"]
  by (auto simp: sim_area_def)

text \<open>
  C8. Erasing from a sector boundary returns 0 and sets exactly the sectors that cover the
  request to \<open>0xFF\<close>: a length that is no multiple of the sector size is rounded up, so bytes
  after the request are erased as well.
\<close>

theorem flash_area_erase_sectors:
  assumes "board_ok B rmc F (ARM_FLASH0_DEV B rmc) t" and "aprom_area B rmc ind A"
    and "safe_add_spec safe_add"
    and "nvmc_page B rmc dvd unat (fa_off A) + unat off"
    and "unat off + sectors_for (unat len) (nvmc_page B rmc) * nvmc_page B rmc \<le> unat (fa_size A)"
  shows "\<exists>t'. flash_area_erase safe_add (Some A) off len t = Some (0, t')
    \<and> board_ok B rmc F (ARM_FLASH0_DEV B rmc) t'
    \<and> fd_mem F t' = flash_erase (fd_mem F t) (unat (fa_off A) + unat off)
        ((unat len + nvmc_page B rmc - 1) div nvmc_page B rmc * nvmc_page B rmc)"
proof -
  have "unat off + unat len \<le> unat (fa_size A)"
    using sectors_for_covers [OF aprom.sector_pos [OF assms(1)], of "unat len"] assms(5) by linarith
  from aprom.flash_area_erase_ok [OF assms(1) aprom_area_ok [OF assms(2)] assms(3) this assms(4,5)]
  show ?thesis by (simp add: sectors_for_def)
qed

theorem flash_area_erase_sectors_witness:
  "\<exists>t'. flash_area_erase sim_safe_add (Some (sim_area False)) 0x1000 0x1001 [] = Some (0, t')
    \<and> fd_mem sim_fdev t' = flash_erase (fd_mem sim_fdev []) 0x21000 0x2000"
  using flash_area_erase_sectors [OF sim_board_ok sim_aprom_area sim_safe_add_spec,
      where rmc = False and off = "0x1000" and len = "0x1001" and t = "[]"]
  by (auto simp: sim_area_def nvmc_page_def fmc_page_def sectors_for_def)

text \<open>
  C10. A request that leaves its area, by its end or by an overflow of offset plus length, and a
  request without an area, is refused with -1 by all three operations, over any driver: no
  device is touched and the destination is unchanged.
\<close>

theorem flash_area_out_of_range:
  assumes "safe_add_spec safe_add"
    and "area = None \<or> (\<exists>A. area = Some A \<and> unat (fa_size A) < unat off + unat len)"
  shows "flash_area_read safe_add ind area off dst len s = Some (-1, dst, s)
    \<and> flash_area_write safe_add PU ind area off src len s = Some (-1, s)
    \<and> flash_area_erase safe_add area off len s = Some (-1, s)"
  using assms(2)
proof (elim disjE exE conjE)
  fix A assume A: "area = Some A" and out: "unat (fa_size A) < unat off + unat len"
  have "\<not> is_range_valid safe_add (Some A) off len" using out by (simp add: is_range_valid_iff [OF assms(1)])
  then show ?thesis
    unfolding A by (simp add: flash_area_read_def flash_area_write_def flash_area_erase_def Let_def)
qed (simp add: flash_area_read_def flash_area_write_def flash_area_erase_def)

theorem flash_area_out_of_range_witness:
  "flash_area_read sim_safe_add sim_ind (Some (sim_area False)) 0xFFFFFFF0 sim_ind 0x20 []
     = Some (-1, sim_ind, [])"
  using flash_area_out_of_range [OF sim_safe_add_spec, of "Some (sim_area False)" "0xFFFFFFF0" "0x20"]
  by (simp add: sim_area_def)

text \<open>
  C11. When the driver fails to erase a sector, \<open>flash_area_erase\<close> stops there and returns the
  driver's error; the sectors before it have been erased, the ones after it have not been
  requested. Over any driver with uniform sectors; \<open>st k\<close> is the state after \<open>k\<close> sectors.
\<close>

theorem flash_area_erase_first_error:
  assumes "is_range_valid safe_add (Some A) off len"
    and "sector_info (GetInfo (fa_driver A) ()) = None"
    and "z = sector_size (GetInfo (fa_driver A) ())"
    and "\<forall>k < n. EraseSector (fa_driver A) (fa_off A + (off + of_nat k * z)) (st k) = Some (0, st (Suc k))"
    and "EraseSector (fa_driver A) (fa_off A + (off + of_nat n * z)) (st n) = Some (e, s')" and "e \<noteq> 0"
    and "n * unat z < unat len"
  shows "flash_area_erase safe_add (Some A) off len (st 0) = Some (e, s')"
proof -
  have "flash_area_erase_loop A (off + of_nat i * z) len (of_nat i * z) 0 (st i) = Some (e, s')" if "i \<le> n" for i
    using that
  proof (induction rule: inc_induct)
    case base
    have "unat (of_nat n :: u32) \<le> n" by (simp add: unat_of_nat)
    then have "unat (of_nat n :: u32) * unat z < unat len" using assms(7) by (meson le_less_trans mult_le_mono1)
    then have "unat (of_nat n * z) < unat len" using unat_less32 [of len] by (simp add: unat_mult32)
    then show ?case
      using assms(5,6) by (intro flash_area_erase_loop_error) (simp_all add: word_less_nat_alt)
  next
    case (step i)
    have "unat (of_nat i :: u32) \<le> i" by (simp add: unat_of_nat)
    then have "unat (of_nat i :: u32) \<le> n" using step.hyps by simp
    then have "unat (of_nat i :: u32) * unat z < unat len" using assms(7) by (meson le_less_trans mult_le_mono1)
    then have "unat (of_nat i * z) < unat len" using unat_less32 [of len] by (simp add: unat_mult32)
    then have "of_nat i * z < len" by (simp add: word_less_nat_alt)
    moreover have "of_nat (Suc i) * z = of_nat i * z + z" by (simp add: algebra_simps)
    ultimately show ?case
      using step.IH assms(3,4) step.hyps by (subst flash_area_erase_loop.simps) (simp add: Let_def add.assoc)
  qed
  from this [of 0] show ?thesis using assms(1,2) by (simp add: flash_area_erase_def)
qed

text \<open>A driver whose second sector cannot be erased; it counts its calls.\<close>

definition failing_driver :: "nat ARM_DRIVER_FLASH" where
  "failing_driver = \<lparr>GetVersion = ARM_Flash_GetVersion, GetCapabilities = ARM_Flash_GetCapabilities,
      Initialize = ARM_Flash_Uninitialize, Uninitialize = ARM_Flash_Uninitialize,
      PowerControl = ARM_Flash_PowerControl,
      ReadData = (\<lambda>a d p c n. Some (0, d, n)), ProgramData = (\<lambda>a s p c n. Some (0, n)),
      EraseSector = (\<lambda>a n. Some (if n = 1 then -1 else 0, Suc n)), EraseChip = None,
      GetStatus = ARM_Flash_GetStatus, GetInfo = ARM_Flash_GetInfo_APROM sim_bsp False\<rparr>"

definition failing_area :: "nat flash_area" where
  "failing_area = \<lparr>fa_id = 1, fa_device_id = 100, fa_driver = failing_driver, fa_off = 0x20000, fa_size = 0x8000\<rparr>"

theorem flash_area_erase_first_error_witness:
  "flash_area_erase sim_safe_add (Some failing_area) 0 0x3000 0 = Some (-1, 2)"
proof -
  let ?D = "fa_driver failing_area"
  have i: "sector_info (GetInfo ?D ()) = None" "0x1000 = sector_size (GetInfo ?D ())"
    by (simp_all add: failing_area_def failing_driver_def ARM_Flash_GetInfo_APROM_def sim_geometry)
  have v: "is_range_valid sim_safe_add (Some failing_area) 0 0x3000"
    by (simp add: is_range_valid_iff [OF sim_safe_add_spec] failing_area_def)
  have e: "EraseSector ?D a n = Some (if n = 1 then -1 else 0, Suc n)" for a n
    by (simp add: failing_area_def failing_driver_def)
  have "flash_area_erase sim_safe_add (Some failing_area) 0 0x3000 ((\<lambda>k. k) 0) = Some (-1, 2)"
    by (rule flash_area_erase_first_error [OF v i, where n = 1]) (simp_all add: e)
  then show ?thesis by simp
qed

section \<open>The driver's checks\<close>

text \<open>
  C12. Which requests the APROM driver refuses, for any controller \<open>N\<close>. A read is refused exactly when the
  address of its last byte is outside the device, as the wrapping arithmetic computes it; the first address is not
  looked at. A program is refused exactly then or when address or length is no multiple of
  the program unit, an erase exactly when the address is outside or not aligned to a sector. A refused request
  returns \<open>ARM_DRIVER_ERROR_PARAMETER\<close> and does not reach the controller; any other goes to the
  controller, whose failure becomes \<open>ARM_DRIVER_ERROR\<close>.
\<close>

theorem aprom_driver_refuses:
  assumes "dev_ok (ARM_FLASH0_DEV B rmc) backed u sec"
  defines "inside \<equiv> \<lambda>x :: u32. dev_lo (ARM_FLASH0_DEV B rmc) \<le> unat x \<and> unat x < dev_hi (ARM_FLASH0_DEV B rmc)"
  shows "ReadData (Driver_FLASH0 B rmc ind N) addr dst p cnt s =
      (if inside (addr + cnt * 4 - 1)
       then do { (ret, dst, s) \<leftarrow> ARM_Flash_ReadData_Internal ind N addr dst p (cnt * 4) s;
                 if ret \<noteq> 0 then Some (ARM_DRIVER_ERROR, dst, s) else Some (sint cnt, dst, s) }
       else Some (ARM_DRIVER_ERROR_PARAMETER, dst, s))
    \<and> ProgramData (Driver_FLASH0 B rmc ind N) addr src p cnt s =
      (if inside (addr + cnt * 4 - 1) \<and> u dvd unat addr \<and> u dvd unat (cnt * 4)
       then do { (ret, s) \<leftarrow> ARM_Flash_ProgramData_Internal ind N addr src p (cnt * 4) (of_nat u) s;
                 if ret \<noteq> 0 then Some (ARM_DRIVER_ERROR, s) else Some (sint cnt, s) }
       else Some (ARM_DRIVER_ERROR_PARAMETER, s))
    \<and> EraseSector (Driver_FLASH0 B rmc ind N) addr s =
      (if inside addr \<and> sec dvd unat addr
       then do { (ret, s) \<leftarrow> nvmc_erase N addr s;
                 if ret \<noteq> 0 then Some (ARM_DRIVER_ERROR, s) else Some (ARM_DRIVER_OK, s) }
       else Some (ARM_DRIVER_ERROR_PARAMETER, s))"
proof -
  let ?d = "ARM_FLASH0_DEV B rmc"
  have r: "is_range_valid_internal ?d x = 0 \<longleftrightarrow> inside x" for x
    unfolding inside_def by (rule dev_ok_range [OF assms(1)])
  have u: "u = unat (program_unit (data ?d))" and z: "sec = unat (sector_size (data ?d))"
    using assms(1) by (auto simp: dev_ok_def)
  have w: "is_write_aligned ?d x = 0 \<longleftrightarrow> u dvd unat x" "is_sector_aligned ?d x = 0 \<longleftrightarrow> sec dvd unat x" for x
    unfolding u z
    by (auto simp: is_write_aligned_def is_sector_aligned_def dvd_eq_mod_eq_0 unsigned_eq_0_iff unat_mod [symmetric])
  have pu: "program_unit (data ?d) = of_nat u" by (simp add: u)
  have "ARM_Flash_EraseSector_Internal N addr s \<bind> (\<lambda>(ret, s). if ret \<noteq> 0 then Some (ARM_DRIVER_ERROR, s) else Some (ARM_DRIVER_OK, s))
      = ARM_Flash_EraseSector_Internal N addr s"
    by (cases "nvmc_erase N addr s") (auto simp: ARM_Flash_EraseSector_Internal_def)
  then show ?thesis
    by (simp add: Driver_FLASH0_def read_eq_dev program_eq_dev erase_eq_dev dev_read_def dev_program_def
        dev_erase_def r w pu) (simp add: ARM_Flash_EraseSector_Internal_def)
qed

text \<open>The last request reads four bytes from before the device, which the driver does not refuse.\<close>

theorem aprom_driver_refuses_witness:
  "EraseSector (Driver_FLASH0 sim_bsp False sim_ind (linked_nvmc sim_bsp False)) 0x100000 [] = Some (-5, [])
   \<and> ProgramData (Driver_FLASH0 sim_bsp False sim_ind (linked_nvmc sim_bsp False)) 4 of_nat 0 2 [] = Some (-5, [])
   \<and> ReadData (Driver_FLASH0 sim_bsp False sim_ind (linked_nvmc sim_bsp False)) 0xFFFFFFFC sim_ind 0 2 []
     = do { (ret, dst, s) \<leftarrow> ARM_Flash_ReadData_Internal sim_ind (linked_nvmc sim_bsp False) 0xFFFFFFFC sim_ind 0 8 [];
            if ret \<noteq> 0 then Some (ARM_DRIVER_ERROR, dst, s) else Some (sint (2 :: u32), dst, s) }"
proof -
  have d: "dev_ok (ARM_FLASH0_DEV sim_bsp False) (fd_backed sim_fdev) 8 0x1000"
    using sim_board_ok [of False "[]"] by (simp add: board_ok_def nvmc_unit_def nvmc_page_def fmc_page_def)
  have e: "dev_lo (ARM_FLASH0_DEV sim_bsp False) = 0" "dev_hi (ARM_FLASH0_DEV sim_bsp False) = 0x100000"
    by (simp_all add: dev_lo_def dev_hi_def sim_geometry)
  show ?thesis
    using aprom_driver_refuses [OF d, of sim_ind "linked_nvmc sim_bsp False" "0x100000" sim_ind 0 2 "[]" of_nat]
      aprom_driver_refuses [OF d, of sim_ind "linked_nvmc sim_bsp False" 4 sim_ind 0 2 "[]" of_nat]
      aprom_driver_refuses [OF d, of sim_ind "linked_nvmc sim_bsp False" "0xFFFFFFFC" sim_ind 0 2 "[]" of_nat] e by simp
qed

section \<open>The controllers\<close>

text \<open>Completion of a command that was triggered: the loop and the check of the failure flag.\<close>

definition fmc_finish :: "bsp \<Rightarrow> int \<Rightarrow> hw \<Rightarrow> int \<times> hw" where
  "fmc_finish B T t =
     (let (timeout, t) = fmc_wait B T t
      in if timeout then (NVT_NVMC_TIMEOUT, t)
         else let (failed, t) = fmc_failed B t in (if failed then NVT_NVMC_ISPFF else NVT_NVMC_OK, t))"

definition fmc_returns :: "bsp \<Rightarrow> int \<Rightarrow> hw \<Rightarrow> int \<Rightarrow> hw \<Rightarrow> bool" where
  "fmc_returns B T t r t' \<longleftrightarrow> (\<exists>n u. t' = t @ polls n @ u \<and> n \<le> Suc (nat T) \<and> length u \<le> 3
     \<and> (r = NVT_NVMC_TIMEOUT \<longrightarrow> n = Suc (nat T) \<and> fmc_busy B (t @ polls n))
     \<and> (r \<noteq> NVT_NVMC_TIMEOUT \<longrightarrow> \<not> fmc_busy B (t @ polls n)
          \<and> (r = NVT_NVMC_ISPFF \<or> r = NVT_NVMC_OK)
          \<and> (r = NVT_NVMC_ISPFF) = (resp B (t @ polls (Suc n)) AND konst B FMC_ISPSTS_ISPFF_Msk \<noteq> 0)))"

lemma fmc_finish_returns: "fmc_finish B T t = (r, t') \<Longrightarrow> fmc_returns B T t r t'"
proof -
  assume h: "fmc_finish B T t = (r, t')"
  obtain n where n: "n \<le> Suc (nat T)" "snd (fmc_wait B T t) = t @ polls n"
    "fst (fmc_wait B T t) \<longrightarrow> n = Suc (nat T)" "fst (fmc_wait B T t) = fmc_busy B (t @ polls n)"
    using fmc_wait_trace [of T B t] by blast
  show ?thesis
  proof (cases "fmc_busy B (t @ polls n)")
    case True
    then have "fmc_wait B T t = (True, t @ polls n)" using n(2,4) by (simp only: prod_eq_iff fst_conv snd_conv simp_thms)
    then have "r = NVT_NVMC_TIMEOUT" "t' = t @ polls n @ []" using h by (simp_all add: fmc_finish_def)
    moreover have "n = Suc (nat T)" using n(3,4) True by blast
    ultimately show ?thesis using True n(1) unfolding fmc_returns_def
      by (intro exI [of _ n] exI [of _ "[]"]) simp
  next
    case False
    then have w: "fmc_wait B T t = (False, t @ polls n)" using n(2,4) by (simp only: prod_eq_iff fst_conv snd_conv simp_thms)
    let ?t = "t @ polls n"
    define sts where "sts = resp B (?t @ [FMC_Rd ISPSTS]) AND konst B FMC_ISPSTS_ISPFF_Msk"
    define u where "u = FMC_Rd ISPSTS # (if sts \<noteq> 0 then [FMC_Rd ISPSTS,
        FMC_Wr ISPSTS (resp B (?t @ [FMC_Rd ISPSTS, FMC_Rd ISPSTS]) OR konst B FMC_ISPSTS_ISPFF_Msk)] else [])"
    have f: "fmc_failed B ?t = (sts \<noteq> 0, ?t @ u)" "length u \<le> 3"
      "sts = resp B (t @ polls (Suc n)) AND konst B FMC_ISPSTS_ISPFF_Msk"
      by (simp_all add: fmc_failed_def ask_def Let_def sts_def u_def polls_snoc [symmetric])
    then have "r = (if sts \<noteq> 0 then NVT_NVMC_ISPFF else NVT_NVMC_OK)" "t' = t @ polls n @ u"
      using h w by (simp_all add: fmc_finish_def split: if_splits)
    then show ?thesis using False n(1) f(2,3) unfolding fmc_returns_def
      by (intro exI [of _ n] exI [of _ u]) simp
  qed
qed

text \<open>
  C13. Whatever the controller answers, programming and erasing return: after at most one poll
  more than the time-out the result is the time-out (still busy at the last poll), the failure
  code (exactly when the failure flag is set after the command) or success. Neither can hang
  the boot loader.
\<close>

theorem fmc_command_returns:
  "(\<exists>r t'. NVT_FMC_Program B addr dword t = Some (r, t')
      \<and> fmc_returns B (fmc_timeout B FMC_TIMEOUT_WRITE)
          (t @ fmc_cmd B FMC_ISPCMD_PROGRAM_64 addr [FMC_Wr MPDAT0 (ucast (dword AND 0xFFFFFFFF)),
             FMC_Wr MPDAT1 (ucast (drop_bit 32 (dword AND 0xFFFFFFFF00000000)))]) r t')
   \<and> (\<exists>r t'. NVT_FMC_Erase B addr t = Some (r, t')
      \<and> fmc_returns B (fmc_timeout B FMC_TIMEOUT_ERASE) (t @ fmc_cmd B FMC_ISPCMD_PAGE_ERASE addr []) r t')"
proof -
  have "NVT_FMC_Program B addr dword t = Some (fmc_finish B (fmc_timeout B FMC_TIMEOUT_WRITE)
      (t @ fmc_cmd B FMC_ISPCMD_PROGRAM_64 addr [FMC_Wr MPDAT0 (ucast (dword AND 0xFFFFFFFF)),
             FMC_Wr MPDAT1 (ucast (drop_bit 32 (dword AND 0xFFFFFFFF00000000)))]))"
    "NVT_FMC_Erase B addr t = Some (fmc_finish B (fmc_timeout B FMC_TIMEOUT_ERASE)
      (t @ fmc_cmd B FMC_ISPCMD_PAGE_ERASE addr []))"
    by (simp_all add: NVT_FMC_Program_def NVT_FMC_Erase_def fmc_finish_def fmc_cmd_def Let_def split: prod.splits)
  then show ?thesis by (metis fmc_finish_returns prod.collapse)
qed

text \<open>
  The driver of the M2L31 reports a failed write only when \<open>RMC_Write\<close> returns -1: every
  other result, negative ones included, counts as success, whereas \<open>NVT_RMC_Erase\<close> also
  recognises -2.
\<close>

lemma rmc_program_ignores_errors:
  "(NVT_RMC_Program B addr dword t
      = Some (if sint (resp B (t @ [RMC_Write addr (ucast (dword AND 0xFFFFFFFF))])) = -1
              then NVT_NVMC_ERROR else NVT_NVMC_OK, t @ [RMC_Write addr (ucast (dword AND 0xFFFFFFFF))]))
   \<and> (\<exists>r. NVT_RMC_Erase B addr t = Some (r, t @ [RMC_Erase addr])
        \<and> (r = NVT_NVMC_OK \<longleftrightarrow> sint (resp B (t @ [RMC_Erase addr])) \<noteq> -1 \<and> sint (resp B (t @ [RMC_Erase addr])) \<noteq> -2))"
  by (simp add: NVT_RMC_Program_def NVT_RMC_Erase_def ask_def)

end
