(* ===== verification/Serial.thy ===== *)
theory Serial
  imports Nvmc
begin

text \<open>
  What \<open>spi_drv.c\<close> and \<open>qspi_drv.c\<close> have in common: the loops, over a bus (\<open>SPI\<close> or
  \<open>QSPI\<close>, the constructor of its events), and the documented behaviour of the serial flash
  at the other end as hypotheses. \<open>clk\<close> is the counter that starts at \<open>SystemCoreClock\<close>; it
  is decremented before it is compared with 0.

  Proved here: the wait loops end after a bounded number of polls; what the read loop
  delivers; when waiting for the device succeeds.
\<close>

section \<open>Loops of the drivers\<close>

lemma dec_twice: "clk \<noteq> 1 \<Longrightarrow> unat (clk - 2) < unat (clk - 1)" for clk :: u32
  using measure_unat [of "clk - 1"] by (simp add: diff_diff_eq)

text \<open>\<open>while (IS_BUSY) if (--u32TimeOutCnt == 0) { printf(msg); break; }\<close>\<close>

function ser_wait :: "(ser_op \<Rightarrow> ev) \<Rightarrow> string \<Rightarrow> bsp \<Rightarrow> u32 \<Rightarrow> hw \<Rightarrow> hw" where
  "ser_wait bus msg B clk t =
     (let (busy, t) = ask B (bus IS_BUSY) t
      in if busy \<noteq> 0
         then (if clk - 1 = 0 then t @ [Printf msg] else ser_wait bus msg B (clk - 1) t)
         else t)"
  by pat_completeness auto
termination
  by (relation "measure (\<lambda>(bus, msg, B, clk, t). unat (clk - 1))") (auto simp: dec_twice)

declare ser_wait.simps [simp del]

text \<open>\<open>for (u32Cnt = 0; u32Cnt < len; u32Cnt++) { WRITE_TX(0); wait; data[u32Cnt] = READ_RX; }\<close>\<close>

function ser_read_loop :: "(ser_op \<Rightarrow> ev) \<Rightarrow> string \<Rightarrow> bsp \<Rightarrow> u32 \<Rightarrow> u32 \<Rightarrow> buf \<Rightarrow> nat \<Rightarrow> hw \<Rightarrow> buf \<times> hw" where
  "ser_read_loop bus msg B cnt len data p t =
     (if cnt < len
      then (let t = ser_wait bus msg B (konst B SystemCoreClock) (t @ [bus (WRITE_TX 0)]);
                (v, t) = ask B (bus READ_RX) t
            in ser_read_loop bus msg B (cnt + 1) len (data(p + unat cnt := ucast v)) p t)
      else (data, t))"
  by pat_completeness auto
termination
  by (relation "measure (\<lambda>(bus, msg, B, cnt, len, data, p, t). unat len - unat cnt)")
     (auto simp: unat_Suc32 word_less_nat_alt)

declare ser_read_loop.simps [simp del]

text \<open>
  \<open>do { if (--u32TimeOutCnt == 0) { printf(msg); return -1; } v = status & 1; } while (v != 0);\<close>
  with \<open>rdsr\<close> reading the status register.
\<close>

function ser_wait_ready :: "string \<Rightarrow> (hw \<Rightarrow> u8 \<times> hw) \<Rightarrow> u32 \<Rightarrow> hw \<Rightarrow> int \<times> hw" where
  "ser_wait_ready msg rdsr clk t =
     (if clk - 1 = 0 then (-1, t @ [Printf msg])
      else let (v, t) = rdsr t
           in if v AND 1 \<noteq> 0 then ser_wait_ready msg rdsr (clk - 1) t else (0, t))"
  by pat_completeness auto
termination
  by (relation "measure (\<lambda>(msg, rdsr, clk, t). unat (clk - 1))") (auto simp: dec_twice)

declare ser_wait_ready.simps [simp del]

text \<open>
  \<open>while (!RX_FIFO_EMPTY) u8RxData[u8IDCnt++] = READ_RX\<close> with an array of four bytes.
  \<open>None\<close>: a write beyond the array, or the FIFO never gets empty.
\<close>

partial_function (option) ser_drain :: "(ser_op \<Rightarrow> ev) \<Rightarrow> bsp \<Rightarrow> buf \<Rightarrow> u8 \<Rightarrow> hw \<Rightarrow> (buf \<times> hw) option" where
  "ser_drain bus B rx cnt t =
     (let (empty, t) = ask B (bus GET_RX_FIFO_EMPTY_FLAG) t
      in if empty = 0
         then (let (v, t) = ask B (bus READ_RX) t
               in if unat cnt < 4 then ser_drain bus B (rx(unat cnt := ucast v)) (cnt + 1) t else None)
         else Some (rx, t))"

text \<open>
  \<open>while (1) if (!TX_FIFO_FULL) for (i = 0; i < len; i++) WRITE_TX(buf[len]);\<close>
\<close>

partial_function (option) ser_write_forever :: "(ser_op \<Rightarrow> ev) \<Rightarrow> bsp \<Rightarrow> u32 \<Rightarrow> buf \<Rightarrow> nat \<Rightarrow> hw \<Rightarrow> hw option" where
  "ser_write_forever bus B len buf p t =
     (let (full, t) = ask B (bus GET_TX_FIFO_FULL_FLAG) t;
          t = (if full = 0 then t @ replicate (unat len) (bus (WRITE_TX (ucast (buf (p + unat len))))) else t)
      in ser_write_forever bus B len buf p t)"

text \<open>The three bytes of a 24-bit address, as the drivers send them.\<close>

definition addr24 :: "(ser_op \<Rightarrow> ev) \<Rightarrow> u32 \<Rightarrow> hw" where
  "addr24 bus addr = [bus (WRITE_TX (drop_bit 16 addr AND 0xFF)), bus (WRITE_TX (drop_bit 8 addr AND 0xFF)),
                      bus (WRITE_TX (addr AND 0xFF))]"

text \<open>The JEDEC ID that \<open>SpiFlash_ReadJedecID\<close> returns, and the \<open>switch\<close> that accepts it.\<close>

definition jedec_id :: "buf \<Rightarrow> u32" where
  "jedec_id rx = push_bit 16 (ucast (rx 1)) OR push_bit 8 (ucast (rx 2)) OR ucast (rx 3)"

definition jedec_known :: "u32 \<Rightarrow> bool" where
  "jedec_known i \<longleftrightarrow> i = 0xEF4014 \<or> i = 0xEF4015 \<or> i = 0xEF4016 \<or> i = 0xEF4017 \<or> i = 0xEF4018"

section \<open>The loops stop\<close>

lemma ser_write_forever_never: "ser_write_forever bus B len buf p t = None"
proof (cases "ser_write_forever bus B len buf p t")
  case (Some u)
  have False by (rule ser_write_forever.raw_induct [OF _ Some]) (auto simp: Let_def ask_def split: if_splits)
  then show ?thesis ..
qed

text \<open>
  Draining a receive FIFO that holds \<open>n\<close> bytes: up to four go into the array; with a fifth the
  loop writes behind it.
\<close>

definition ser_drained :: "(ser_op \<Rightarrow> ev) \<Rightarrow> nat \<Rightarrow> hw" where
  "ser_drained bus n = concat (replicate n [bus GET_RX_FIFO_EMPTY_FLAG, bus READ_RX])"

definition rx_fifo :: "(ser_op \<Rightarrow> ev) \<Rightarrow> bsp \<Rightarrow> hw \<Rightarrow> nat \<Rightarrow> bool" where
  "rx_fifo bus B t n \<longleftrightarrow> (\<forall>k < n. resp B (t @ ser_drained bus k @ [bus GET_RX_FIFO_EMPTY_FLAG]) = 0)
     \<and> resp B (t @ ser_drained bus n @ [bus GET_RX_FIFO_EMPTY_FLAG]) \<noteq> 0"

lemma rx_fifo_Suc:
  "rx_fifo bus B t (Suc n) \<longleftrightarrow> resp B (t @ [bus GET_RX_FIFO_EMPTY_FLAG]) = 0
     \<and> rx_fifo bus B (t @ [bus GET_RX_FIFO_EMPTY_FLAG, bus READ_RX]) n"
proof -
  have "(\<forall>k < Suc n. P k) = (P 0 \<and> (\<forall>k < n. P (Suc k)))" for P by (auto simp: less_Suc_eq_0_disj)
  then show ?thesis by (simp add: rx_fifo_def ser_drained_def conj_assoc)
qed

lemma ser_drain_ok:
  "rx_fifo bus B t n \<Longrightarrow> unat cnt + n \<le> 4 \<Longrightarrow>
   ser_drain bus B rx cnt t = Some (copy_bytes rx (unat cnt)
       (\<lambda>k. ucast (resp B (t @ ser_drained bus (Suc k)))) 0 n, t @ ser_drained bus n @ [bus GET_RX_FIFO_EMPTY_FLAG])"
proof (induction n arbitrary: t cnt rx)
  case 0
  then show ?case by (subst ser_drain.simps) (simp add: ask_def rx_fifo_def ser_drained_def)
next
  case (Suc n)
  let ?t1 = "t @ [bus GET_RX_FIFO_EMPTY_FLAG, bus READ_RX]"
  let ?f = "\<lambda>k. ucast (resp B (t @ ser_drained bus (Suc k))) :: u8"
  have c: "unat (cnt + 1) = Suc (unat cnt)" using Suc.prems(2) by (simp add: unat_word_ariths)
  have "ser_drain bus B rx cnt t = ser_drain bus B (rx(unat cnt := ?f 0)) (cnt + 1) ?t1"
    using Suc.prems rx_fifo_Suc [of bus B t n]
    by (subst ser_drain.simps) (simp add: ask_def ser_drained_def)
  also have "\<dots> = Some (copy_bytes (rx(unat cnt := ?f 0)) (Suc (unat cnt)) (\<lambda>k. ?f (Suc k)) 0 n,
      t @ ser_drained bus (Suc n) @ [bus GET_RX_FIFO_EMPTY_FLAG])"
    using Suc.IH [of ?t1 "cnt + 1"] Suc.prems c rx_fifo_Suc [of bus B t n] by (simp add: ser_drained_def)
  also have "copy_bytes (rx(unat cnt := ?f 0)) (Suc (unat cnt)) (\<lambda>k. ?f (Suc k)) 0 n
      = copy_bytes (rx(unat cnt := ?f 0)) (Suc (unat cnt)) ?f (Suc 0) n"
    by (rule copy_bytes_cong) simp
  also have "\<dots> = copy_bytes rx (unat cnt) ?f 0 (Suc n)" by (rule copy_bytes_front)
  finally show ?case .
qed

lemma ser_drain_overflow:
  "rx_fifo bus B t n \<Longrightarrow> unat cnt \<le> 4 \<Longrightarrow> 4 < unat cnt + n \<Longrightarrow> ser_drain bus B rx cnt t = None"
proof (induction n arbitrary: t cnt rx)
  case 0
  then show ?case by simp
next
  case (Suc n)
  let ?t1 = "t @ [bus GET_RX_FIFO_EMPTY_FLAG, bus READ_RX]"
  note f = Suc.prems(1) [unfolded rx_fifo_Suc]
  show ?case
  proof (cases "unat cnt < 4")
    case True
    then have c: "unat (cnt + 1) = Suc (unat cnt)" by (simp add: unat_word_ariths)
    have "ser_drain bus B rx' (cnt + 1) ?t1 = None" for rx'
      using Suc.IH f Suc.prems(3) c True by simp
    then show ?thesis using f by (subst ser_drain.simps) (simp add: ask_def)
  next
    case False
    then show ?thesis using f by (subst ser_drain.simps) (simp add: ask_def)
  qed
qed

definition ser_polls :: "(ser_op \<Rightarrow> ev) \<Rightarrow> nat \<Rightarrow> hw" where
  "ser_polls bus n = replicate n (bus IS_BUSY)"

text \<open>The number of decrements until the counter is 0.\<close>

definition ticks :: "u32 \<Rightarrow> nat" where
  "ticks clk = Suc (unat (clk - 1))"

lemma ticks_step: "clk - 1 \<noteq> 0 \<Longrightarrow> ticks clk = Suc (ticks (clk - 1))"
proof -
  assume "clk - 1 \<noteq> 0"
  then have "unat (clk - 1 - 1) = unat (clk - 1) - 1"
    by (intro unat_sub32 [THEN trans]) (auto simp: word_le_nat_alt unat_gt_0 Suc_le_eq)
  moreover have "0 < unat (clk - 1)" using \<open>clk - 1 \<noteq> 0\<close> by (simp add: unat_gt_0)
  ultimately show ?thesis by (simp add: ticks_def)
qed

lemma ser_wait_bounded:
  "\<exists>n \<le> ticks clk. ser_wait bus msg B clk t = t @ ser_polls bus n
     \<or> ser_wait bus msg B clk t = t @ ser_polls bus n @ [Printf msg]"
proof (induction bus msg B clk t rule: ser_wait.induct)
  case (1 bus msg B clk t)
  let ?t1 = "t @ [bus IS_BUSY]"
  show ?case
  proof (cases "resp B ?t1 \<noteq> 0 \<and> clk - 1 \<noteq> 0")
    case True
    then have "ser_wait bus msg B clk t = ser_wait bus msg B (clk - 1) ?t1"
      by (subst ser_wait.simps) (simp add: ask_def)
    moreover obtain n where "n \<le> ticks (clk - 1)" "ser_wait bus msg B (clk - 1) ?t1 = ?t1 @ ser_polls bus n
     \<or> ser_wait bus msg B (clk - 1) ?t1 = ?t1 @ ser_polls bus n @ [Printf msg]"
      using "1.IH" [OF ask_def [symmetric], of "resp B ?t1" ?t1] True by (auto simp: ask_def)
    ultimately show ?thesis
      using True ticks_step [of clk] by (intro exI [of _ "Suc n"]) (auto simp: ser_polls_def)
  next
    case False
    then show ?thesis
      by (intro exI [of _ 1]) (auto simp: ser_wait.simps [of bus msg B clk] ask_def ser_polls_def ticks_def)
  qed
qed

text \<open>A bus that gets free in time.\<close>

definition bus_free :: "(ser_op \<Rightarrow> ev) \<Rightarrow> bsp \<Rightarrow> bool" where
  "bus_free bus B \<longleftrightarrow> (\<forall>t. \<exists>n. (\<forall>k < n. resp B (t @ ser_polls bus (Suc k)) \<noteq> 0)
     \<and> resp B (t @ ser_polls bus (Suc n)) = 0 \<and> n < ticks (konst B SystemCoreClock))"

lemma ser_wait_free:
  assumes "\<forall>k < n. resp B (t @ ser_polls bus (Suc k)) \<noteq> 0" "resp B (t @ ser_polls bus (Suc n)) = 0"
    "n < ticks clk"
  shows "ser_wait bus msg B clk t = t @ ser_polls bus (Suc n)"
  using assms
proof (induction n arbitrary: clk t)
  case 0
  then show ?case by (subst ser_wait.simps) (simp add: ask_def ser_polls_def)
next
  case (Suc n)
  let ?t1 = "t @ [bus IS_BUSY]"
  have "resp B ?t1 \<noteq> 0" using Suc.prems(1) by (auto simp: ser_polls_def dest: spec [of _ 0])
  moreover have "clk - 1 \<noteq> 0" using Suc.prems(3) by (auto simp: ticks_def)
  moreover from this have "n < ticks (clk - 1)" using Suc.prems(3) ticks_step [of clk] by simp
  moreover have "\<forall>k < n. resp B (?t1 @ ser_polls bus (Suc k)) \<noteq> 0"
    "resp B (?t1 @ ser_polls bus (Suc n)) = 0"
    using Suc.prems(1,2) by (auto simp: ser_polls_def dest: spec [of _ "Suc k" for k])
  ultimately show ?case
    using Suc.IH [of ?t1 "clk - 1"] by (subst ser_wait.simps) (simp add: ask_def ser_polls_def)
qed

text \<open>Waiting on a bus that gets free leaves nothing but polls in the history.\<close>

lemma ser_wait_ok: "bus_free bus B \<Longrightarrow> \<exists>n. ser_wait bus msg B (konst B SystemCoreClock) t = t @ ser_polls bus n"
  unfolding bus_free_def using ser_wait_free by blast

section \<open>The flash at the other end\<close>

text \<open>
  A serial NOR flash, by what is known of it from its data sheet: its content, and whether
  it is idle, after a history from which the polls of the bus are removed (\<open>strip\<close>). Polling
  does not change what the receive register delivers.
\<close>

record sdev =
  sd_mem :: "hw \<Rightarrow> buf"
  sd_ready :: "hw \<Rightarrow> bool"
  sd_size :: nat

definition strip :: "(ser_op \<Rightarrow> ev) \<Rightarrow> hw \<Rightarrow> hw" where
  "strip bus t = filter (\<lambda>e. e \<noteq> bus IS_BUSY) t"

definition polls_silent :: "(ser_op \<Rightarrow> ev) \<Rightarrow> bsp \<Rightarrow> bool" where
  "polls_silent bus B \<longleftrightarrow> (\<forall>t. resp B (t @ [bus READ_RX]) = resp B (strip bus t @ [bus READ_RX]))"

text \<open>The commands 03h (read), 06h and 20h (write enable, erase 4 KiB) and 05h (status).\<close>

definition ser_read_cmd :: "(ser_op \<Rightarrow> ev) \<Rightarrow> u32 \<Rightarrow> hw" where
  "ser_read_cmd bus a = [bus SET_SS_LOW, bus (WRITE_TX 0x03)] @ addr24 bus a @ [bus ClearRxFIFO]"

definition ser_clocked :: "(ser_op \<Rightarrow> ev) \<Rightarrow> nat \<Rightarrow> hw" where
  "ser_clocked bus n = concat (replicate n [bus (WRITE_TX 0), bus READ_RX])"

definition ser_erase_cmd :: "(ser_op \<Rightarrow> ev) \<Rightarrow> u32 \<Rightarrow> hw" where
  "ser_erase_cmd bus a = [bus SET_SS_LOW, bus (WRITE_TX 0x06), bus SET_SS_HIGH, bus SET_SS_LOW,
     bus (WRITE_TX 0x20)] @ addr24 bus a @ [bus ClearRxFIFO, bus SET_SS_HIGH]"

definition ser_status_cmd :: "(ser_op \<Rightarrow> ev) \<Rightarrow> bool \<Rightarrow> hw" where
  "ser_status_cmd bus clr = (if clr then [bus ClearRxFIFO] else [])
     @ [bus SET_SS_LOW, bus (WRITE_TX 0x05), bus (WRITE_TX 0), bus SET_SS_HIGH, bus READ_RX, bus READ_RX]"

definition ser_stats :: "(ser_op \<Rightarrow> ev) \<Rightarrow> bool \<Rightarrow> nat \<Rightarrow> hw" where
  "ser_stats bus clr n = concat (replicate n (ser_status_cmd bus clr))"

text \<open>A command takes 24 address bits; reading continues at the next address.\<close>

definition adr :: "u32 \<Rightarrow> nat" where
  "adr a = unat a mod 2 ^ 24"

definition ser_read_law :: "(ser_op \<Rightarrow> ev) \<Rightarrow> bsp \<Rightarrow> sdev \<Rightarrow> bool" where
  "ser_read_law bus B F \<longleftrightarrow> (\<forall>u a n. sd_ready F u \<and> adr a + n \<le> sd_size F \<longrightarrow>
     (\<forall>k < n. ucast (resp B (u @ ser_read_cmd bus a @ ser_clocked bus k @ [bus (WRITE_TX 0), bus READ_RX]))
              = sd_mem F u (adr a + k))
     \<and> sd_ready F (u @ ser_read_cmd bus a @ ser_clocked bus n @ [bus SET_SS_HIGH])
     \<and> sd_mem F (u @ ser_read_cmd bus a @ ser_clocked bus n @ [bus SET_SS_HIGH]) = sd_mem F u)"

text \<open>
  An erase ends within the time the driver waits: some number \<open>n\<close> of status reads, fewer than
  the driver makes, show the BUSY bit and the next does not.
\<close>

definition ser_erase_law :: "(ser_op \<Rightarrow> ev) \<Rightarrow> bsp \<Rightarrow> bool \<Rightarrow> sdev \<Rightarrow> bool" where
  "ser_erase_law bus B clr F \<longleftrightarrow>
     (\<forall>u a. sd_ready F u \<and> 4096 dvd adr a \<and> adr a + 4096 \<le> sd_size F \<longrightarrow>
       (\<exists>n. Suc n < ticks (konst B SystemCoreClock)
         \<and> (\<forall>k < n. resp B (u @ ser_erase_cmd bus a @ ser_stats bus clr (Suc k)) AND 1 \<noteq> 0)
         \<and> resp B (u @ ser_erase_cmd bus a @ ser_stats bus clr (Suc n)) AND 1 = 0
         \<and> sd_ready F (u @ ser_erase_cmd bus a @ ser_stats bus clr (Suc n))
         \<and> sd_mem F (u @ ser_erase_cmd bus a @ ser_stats bus clr (Suc n))
             = flash_erase (sd_mem F u) (adr a) 4096))"

definition ser_laws :: "(ser_op \<Rightarrow> ev) \<Rightarrow> bsp \<Rightarrow> bool \<Rightarrow> sdev \<Rightarrow> bool" where
  "ser_laws bus B clr F \<longleftrightarrow> bus_free bus B \<and> polls_silent bus B \<and> ser_read_law bus B F
     \<and> ser_erase_law bus B clr F"

lemma strip_simps [simp]:
  "strip bus (t @ u) = strip bus t @ strip bus u" "strip bus [] = []"
  "strip bus (e # t) = (if e = bus IS_BUSY then strip bus t else e # strip bus t)"
  "strip bus (ser_polls bus n) = []"
  by (simp_all add: strip_def ser_polls_def)

lemma strip_addr24 [simp]: "inj bus \<Longrightarrow> strip bus (addr24 bus a) = addr24 bus a"
  by (simp add: addr24_def inj_eq)

lemma ser_clocked_Suc: "ser_clocked bus (Suc n) = [bus (WRITE_TX 0), bus READ_RX] @ ser_clocked bus n"
  by (simp add: ser_clocked_def)

lemma ser_stats_Suc: "ser_stats bus clr (Suc n) = ser_status_cmd bus clr @ ser_stats bus clr n"
  by (simp add: ser_stats_def)

text \<open>The read loop stores the bytes the device delivers, in order, and nothing else.\<close>

lemma ser_read_loop_ok:
  assumes "inj bus" "bus_free bus B" "polls_silent bus B" "unat cnt + n = unat len"
    "\<forall>k < n. ucast (resp B (strip bus t @ ser_clocked bus k @ [bus (WRITE_TX 0), bus READ_RX])) = f (i + k)"
  shows "\<exists>t'. ser_read_loop bus msg B cnt len dst p t = (copy_bytes dst (p + unat cnt) f i n, t')
            \<and> strip bus t' = strip bus t @ ser_clocked bus n"
  using assms(4,5)
proof (induction n arbitrary: cnt t dst i)
  case 0
  then have "\<not> cnt < len" by (simp add: word_less_nat_alt)
  then show ?case by (subst ser_read_loop.simps) (simp add: ser_clocked_def)
next
  case (Suc n)
  have lt: "cnt < len" using Suc.prems(1) by (simp add: word_less_nat_alt)
  obtain m where w: "ser_wait bus msg B (konst B SystemCoreClock) (t @ [bus (WRITE_TX 0)])
      = (t @ [bus (WRITE_TX 0)]) @ ser_polls bus m"
    using ser_wait_ok [OF assms(2)] by blast
  let ?t1 = "t @ bus (WRITE_TX 0) # ser_polls bus m @ [bus READ_RX]"
  have s1: "strip bus ?t1 = strip bus t @ [bus (WRITE_TX 0), bus READ_RX]"
    using assms(1) by (simp add: inj_eq)
  have "resp B ((t @ bus (WRITE_TX 0) # ser_polls bus m) @ [bus READ_RX])
      = resp B (strip bus (t @ bus (WRITE_TX 0) # ser_polls bus m) @ [bus READ_RX])"
    using assms(3) unfolding polls_silent_def by blast
  then have v: "ucast (resp B ?t1) = f i"
    using Suc.prems(2) [rule_format, of 0] assms(1) by (simp add: ser_clocked_def inj_eq)
  have "\<forall>k < n. ucast (resp B (strip bus ?t1 @ ser_clocked bus k @ [bus (WRITE_TX 0), bus READ_RX])) = f (Suc i + k)"
    unfolding s1 using Suc.prems(2) [rule_format, of "Suc k" for k] by (simp add: ser_clocked_Suc)
  with Suc.IH [of "cnt + 1" ?t1 "Suc i" "dst(p + unat cnt := f i)"] obtain t' where
    "ser_read_loop bus msg B (cnt + 1) len (dst(p + unat cnt := f i)) p ?t1
       = (copy_bytes (dst(p + unat cnt := f i)) (Suc (p + unat cnt)) f (Suc i) n, t')"
    "strip bus t' = strip bus ?t1 @ ser_clocked bus n"
    using Suc.prems(1) unat_Suc32 [OF lt] by (auto simp: fun_upd_def)
  then show ?case
    using lt w v s1 by (subst ser_read_loop.simps)
      (simp add: ask_def ser_clocked_Suc copy_bytes_front del: copy_bytes.simps)
qed

lemma ucast_and_one: "((ucast v :: u8) AND 1 = 0) = (v AND 1 = 0)" for v :: u32
proof -
  have "bit (ucast v :: u8) 0 = bit v 0" by (simp only: bit_ucast_iff) simp
  then show ?thesis by (simp add: and_one_eq mod2_eq_if bit_0)
qed

lemma ucast_and_255 [simp]: "(ucast (v AND 0xFF) :: u8) = ucast v" for v :: u32
proof (rule bit_word_eqI)
  fix n assume "n < LENGTH(8)"
  moreover have "(0xFF :: u32) = mask 8" by (simp add: mask_eq_exp_minus_1)
  ultimately show "bit (ucast (v AND 0xFF) :: u8) n = bit (ucast v :: u8) n"
    by (simp only: bit_ucast_iff bit_and_iff bit_mask_iff) simp
qed

text \<open>
  Waiting for the device with a status read \<open>rdsr\<close> that appends the status command: it
  returns 0 as soon as the BUSY bit is clear.
\<close>

definition reads_status :: "(ser_op \<Rightarrow> ev) \<Rightarrow> bsp \<Rightarrow> bool \<Rightarrow> (hw \<Rightarrow> u8 \<times> hw) \<Rightarrow> bool" where
  "reads_status bus B clr rdsr \<longleftrightarrow>
     (\<forall>t. \<exists>t'. rdsr t = (ucast (resp B (strip bus t @ ser_status_cmd bus clr)), t')
             \<and> strip bus t' = strip bus t @ ser_status_cmd bus clr)"

lemma ser_wait_ready_ok:
  assumes "reads_status bus B clr rdsr" and "Suc n < ticks clk"
    and "\<forall>k < n. resp B (strip bus t @ ser_stats bus clr (Suc k)) AND 1 \<noteq> 0"
    and "resp B (strip bus t @ ser_stats bus clr (Suc n)) AND 1 = 0"
  shows "\<exists>t'. ser_wait_ready msg rdsr clk t = (0, t') \<and> strip bus t' = strip bus t @ ser_stats bus clr (Suc n)"
  using assms(2-)
proof (induction n arbitrary: clk t)
  case 0
  obtain t1 where t1: "rdsr t = (ucast (resp B (strip bus t @ ser_status_cmd bus clr)), t1)"
    "strip bus t1 = strip bus t @ ser_status_cmd bus clr" using assms(1) unfolding reads_status_def by blast
  have "clk - 1 \<noteq> 0" using 0(1) by (auto simp: ticks_def)
  then have "ser_wait_ready msg rdsr clk t = (0, t1)" using 0(3) t1
    by (subst ser_wait_ready.simps) (simp add: ser_stats_def ucast_and_one)
  then show ?case using t1(2) by (simp add: ser_stats_def)
next
  case (Suc n)
  obtain t1 where t1: "rdsr t = (ucast (resp B (strip bus t @ ser_status_cmd bus clr)), t1)"
    "strip bus t1 = strip bus t @ ser_status_cmd bus clr" using assms(1) unfolding reads_status_def by blast
  have nz: "clk - 1 \<noteq> 0" using Suc.prems(1) by (auto simp: ticks_def)
  then have "Suc n < ticks (clk - 1)" using Suc.prems(1) ticks_step [of clk] by simp
  moreover have "\<forall>k < n. resp B (strip bus t1 @ ser_stats bus clr (Suc k)) AND 1 \<noteq> 0"
    using Suc.prems(2) [rule_format, of "Suc k" for k] t1(2) by (simp add: ser_stats_Suc)
  moreover have "resp B (strip bus t1 @ ser_stats bus clr (Suc n)) AND 1 = 0"
    using Suc.prems(3) t1(2) by (simp add: ser_stats_Suc)
  ultimately obtain t' where t': "ser_wait_ready msg rdsr (clk - 1) t1 = (0, t')"
    "strip bus t' = strip bus t1 @ ser_stats bus clr (Suc n)"
    using Suc.IH by blast
  have "resp B (strip bus t @ ser_status_cmd bus clr) AND 1 \<noteq> 0"
    using Suc.prems(2) [rule_format, of 0] by (simp add: ser_stats_def)
  then have "ser_wait_ready msg rdsr clk t = ser_wait_ready msg rdsr (clk - 1) t1"
    using nz t1(1) by (subst ser_wait_ready.simps) (simp add: ucast_and_one)
  then show ?case using t' t1(2) by (simp add: ser_stats_Suc)
qed

text \<open>
  The two transactions, from the point where the address is sent: \<open>u\<close> is the history at the
  start of the command.
\<close>

lemma ser_read_txn:
  assumes "inj bus" "ser_laws bus B clr F" "sd_ready F (strip bus u)" "adr a + unat len \<le> sd_size F"
    and "strip bus t = strip bus u @ [bus SET_SS_LOW, bus (WRITE_TX 3)] @ addr24 bus a"
  shows "\<exists>t1 t2. ser_read_loop bus msg B 0 len dst p (t @ [bus ClearRxFIFO])
           = (copy_bytes dst p (\<lambda>k. sd_mem F (strip bus u) (adr a + k)) 0 (unat len), t1)
       \<and> ser_wait bus msg B (konst B SystemCoreClock) t1 = t2
       \<and> sd_ready F (strip bus t2 @ [bus SET_SS_HIGH])
       \<and> sd_mem F (strip bus t2 @ [bus SET_SS_HIGH]) = sd_mem F (strip bus u)"
proof -
  have bf: "bus_free bus B" and ps: "polls_silent bus B" and rl: "ser_read_law bus B F"
    using assms(2) by (simp_all add: ser_laws_def)
  note rl = rl [unfolded ser_read_law_def, rule_format, OF conjI [OF assms(3,4)]]
  have st: "strip bus (t @ [bus ClearRxFIFO]) = strip bus u @ ser_read_cmd bus a"
    using assms(1,5) by (simp add: ser_read_cmd_def inj_eq)
  have "unat (0::u32) + unat len = unat len" by simp
  from ser_read_loop_ok [OF assms(1) bf ps this, of "t @ [bus ClearRxFIFO]" "\<lambda>k. sd_mem F (strip bus u) (adr a + k)" 0 msg dst p]
  obtain t1 where l: "ser_read_loop bus msg B 0 len dst p (t @ [bus ClearRxFIFO])
        = (copy_bytes dst p (\<lambda>k. sd_mem F (strip bus u) (adr a + k)) 0 (unat len), t1)"
    "strip bus t1 = strip bus u @ ser_read_cmd bus a @ ser_clocked bus (unat len)"
    unfolding st using rl by auto
  obtain m where "ser_wait bus msg B (konst B SystemCoreClock) t1 = t1 @ ser_polls bus m"
    using ser_wait_ok [OF bf] by blast
  then show ?thesis using l rl by auto
qed

lemma ser_erase_txn:
  assumes "ser_laws bus B clr F" "reads_status bus B clr rdsr" "sd_ready F (strip bus u)"
    "4096 dvd adr a" "adr a + 4096 \<le> sd_size F"
    and st: "strip bus t = strip bus u @ ser_erase_cmd bus a"
  shows "\<exists>t'. ser_wait_ready msg rdsr (konst B SystemCoreClock) t = (0, t') \<and> sd_ready F (strip bus t')
       \<and> sd_mem F (strip bus t') = flash_erase (sd_mem F (strip bus u)) (adr a) 4096"
proof -
  have el: "ser_erase_law bus B clr F" using assms(1) by (simp add: ser_laws_def)
  from el [unfolded ser_erase_law_def, rule_format, OF conjI [OF assms(3) conjI [OF assms(4,5)]]]
  obtain n where e: "Suc n < ticks (konst B SystemCoreClock)"
    "\<forall>k < n. resp B (strip bus t @ ser_stats bus clr (Suc k)) AND 1 \<noteq> 0"
    "resp B (strip bus t @ ser_stats bus clr (Suc n)) AND 1 = 0"
    "sd_ready F (strip bus t @ ser_stats bus clr (Suc n))"
    "sd_mem F (strip bus t @ ser_stats bus clr (Suc n)) = flash_erase (sd_mem F (strip bus u)) (adr a) 4096"
    unfolding st append_assoc by blast
  from ser_wait_ready_ok [OF assms(2) e(1-3), of msg] e(4,5) show ?thesis by auto
qed

section \<open>The contract of a serial flash driver\<close>

text \<open>
  What \<open>Driver_Flash.c\<close> relies on of \<open>NVT_NV(Q)SPI_Read\<close> and \<open>NVT_NVSPIM_Read\<close>, and of
  \<open>NVT_NV(Q)SPI_Erase\<close> and \<open>_WaitReady\<close>. Reading and erasing take place at the 24-bit address
  \<open>adr a\<close>.
\<close>

locale serial_read =
  fixes rd :: "u32 \<Rightarrow> u32 \<Rightarrow> buf \<Rightarrow> nat \<Rightarrow> 's \<Rightarrow> int \<times> buf \<times> 's"
    and mem :: "'s \<Rightarrow> buf"
    and good :: "'s \<Rightarrow> bool"
    and chip :: nat
  assumes read_law: "good s \<Longrightarrow> adr a + unat len \<le> chip \<Longrightarrow>
      \<exists>s'. rd a len dst p s = (0, copy_bytes dst p (\<lambda>k. mem s (adr a + k)) 0 (unat len), s')
         \<and> good s' \<and> mem s' = mem s"

locale serial_flash = serial_read +
  fixes er :: "u32 \<Rightarrow> 's \<Rightarrow> int \<times> 's"
    and ready :: "'s \<Rightarrow> int \<times> 's"
  assumes erase_law: "good s \<Longrightarrow> 4096 dvd adr a \<Longrightarrow> adr a + 4096 \<le> chip \<Longrightarrow>
      \<exists>s1 s'. er a s = (0, s1) \<and> ready s1 = (0, s') \<and> good s'
         \<and> mem s' = flash_erase (mem s) (adr a) 4096"

end
