(* ===== verification/Qspi_Drv.thy ===== *)
theory Qspi_Drv
  imports Serial
begin

text \<open>
  \<open>bl2/platform/common/qspi_drv.c\<close> and \<open>nvqspi_drv.h\<close>: the serial flash on \<open>QSPI0\<close>. \<open>quad\<close> is
  the build switch \<open>ENABLE_QUAD_MODE\<close>, which no file of the repository defines. Static
  functions that the file shares by name with \<open>spi_drv.c\<close> have the suffix \<open>_Q\<close>. Proved here: in
  the default mode the driver keeps the contract \<open>serial_flash\<close>; programming never returns.
\<close>

definition NVT_NVQSPI_SECTOR_SIZE :: u32 where "NVT_NVQSPI_SECTOR_SIZE = 4096"
definition NVT_NVQSPI_SECTOR_COUNT :: u32 where
  "NVT_NVQSPI_SECTOR_COUNT = 0x02000000 div NVT_NVQSPI_SECTOR_SIZE"
definition NVT_NVQSPI_PAGE_SIZE :: u32 where "NVT_NVQSPI_PAGE_SIZE = 256"
definition NVT_NVQSPI_PROGRAM_UNIT :: u32 where "NVT_NVQSPI_PROGRAM_UNIT = 4"
definition NVT_NVQSPI_MEMORY_BASE :: u32 where "NVT_NVQSPI_MEMORY_BASE = 0"

definition qspi_timeout_msg :: string where
  "qspi_timeout_msg = ''Wait for QSPI time-out!'' @ [CHR 0x0A]"

definition wait_QSPI_IS_BUSY :: "bsp \<Rightarrow> hw \<Rightarrow> hw" where
  "wait_QSPI_IS_BUSY B t = ser_wait QSPI qspi_timeout_msg B (konst B SystemCoreClock) t"

definition SpiFlash_ReadJedecID_Q :: "bsp \<Rightarrow> buf \<Rightarrow> hw \<Rightarrow> (u32 \<times> hw) option" where
  "SpiFlash_ReadJedecID_Q B rx t =
     do { let t = t @ [QSPI SET_SS_LOW];
          let t = t @ [QSPI (WRITE_TX 0x9F)];
          let t = t @ [QSPI (WRITE_TX 0x00), QSPI (WRITE_TX 0x00), QSPI (WRITE_TX 0x00), QSPI (WRITE_TX 0x00)];
          let t = wait_QSPI_IS_BUSY B t;
          let t = t @ [QSPI SET_SS_HIGH];
          (rx, t) \<leftarrow> ser_drain QSPI B rx 0 t;
          Some (jedec_id rx, t) }"

text \<open>\<open>SpiFlash_ReadStatusReg\<close> and \<open>SpiFlash_ReadStatusReg2\<close> differ in the command.\<close>

definition read_status_reg :: "u32 \<Rightarrow> bsp \<Rightarrow> hw \<Rightarrow> u8 \<times> hw" where
  "read_status_reg cmd B t =
     (let t = t @ [QSPI ClearRxFIFO];
          t = t @ [QSPI SET_SS_LOW];
          t = t @ [QSPI (WRITE_TX cmd)];
          t = t @ [QSPI (WRITE_TX 0x00)];
          t = wait_QSPI_IS_BUSY B t;
          t = t @ [QSPI SET_SS_HIGH];
          (_, t) = ask B (QSPI READ_RX) t;
          (v, t) = ask B (QSPI READ_RX) t
      in (ucast v, t))"

definition SpiFlash_ReadStatusReg_Q :: "bsp \<Rightarrow> hw \<Rightarrow> u8 \<times> hw" where
  "SpiFlash_ReadStatusReg_Q B t = read_status_reg 0x05 B t"

definition SpiFlash_ReadStatusReg2 :: "bsp \<Rightarrow> hw \<Rightarrow> u8 \<times> hw" where
  "SpiFlash_ReadStatusReg2 B t = read_status_reg 0x35 B t"

definition SpiFlash_WriteStatusReg :: "bsp \<Rightarrow> u8 \<Rightarrow> u8 \<Rightarrow> hw \<Rightarrow> hw" where
  "SpiFlash_WriteStatusReg B u8Value1 u8Value2 t =
     (let t = t @ [QSPI SET_SS_LOW];
          t = t @ [QSPI (WRITE_TX 0x06)];
          t = wait_QSPI_IS_BUSY B t;
          t = t @ [QSPI SET_SS_HIGH];
          t = t @ [QSPI SET_SS_LOW];
          t = t @ [QSPI (WRITE_TX 0x01)];
          t = t @ [QSPI (WRITE_TX (ucast u8Value1)), QSPI (WRITE_TX (ucast u8Value2))];
          t = wait_QSPI_IS_BUSY B t
      in t @ [QSPI SET_SS_HIGH])"

definition SpiFlash_WaitReady :: "bsp \<Rightarrow> hw \<Rightarrow> int \<times> hw" where
  "SpiFlash_WaitReady B t =
     ser_wait_ready qspi_timeout_msg (SpiFlash_ReadStatusReg_Q B) (konst B SystemCoreClock) t"

definition spiFlash_EnableQEBit :: "bsp \<Rightarrow> hw \<Rightarrow> hw" where
  "spiFlash_EnableQEBit B t =
     (let (u8Status1, t) = SpiFlash_ReadStatusReg_Q B t;
          (u8Status2, t) = SpiFlash_ReadStatusReg2 B t;
          u8Status2 = u8Status2 OR 0x2;
          t = SpiFlash_WriteStatusReg B u8Status1 u8Status2 t
      in snd (SpiFlash_WaitReady B t))"

definition spiFlash_DisableQEBit :: "bsp \<Rightarrow> hw \<Rightarrow> hw" where
  "spiFlash_DisableQEBit B t =
     (let (u8Status1, t) = SpiFlash_ReadStatusReg_Q B t;
          (u8Status2, t) = SpiFlash_ReadStatusReg2 B t;
          u8Status2 = u8Status2 AND NOT 0x2;
          t = SpiFlash_WriteStatusReg B u8Status1 u8Status2 t
      in snd (SpiFlash_WaitReady B t))"

definition D2D3_SwitchToNormalMode :: "bsp \<Rightarrow> hw \<Rightarrow> hw" where
  "D2D3_SwitchToNormalMode B t =
     (let (v, t) = ask B (Reg_Rd ''SYS->GPA_MFP1'') t
      in t @ [Reg_Wr ''SYS->GPA_MFP1'' (v AND NOT (konst B (Konst ''SYS_GPA_MFP1_PA4MFP_Msk'')
                                               OR konst B (Konst ''SYS_GPA_MFP1_PA5MFP_Msk''))),
              Bsp ''GPIO_SetMode'' [''PA'', ''BIT4'', ''GPIO_MODE_OUTPUT''],
              Bsp ''GPIO_SetMode'' [''PA'', ''BIT5'', ''GPIO_MODE_OUTPUT''],
              Reg_Wr ''PA4'' 1, Reg_Wr ''PA5'' 1])"

definition D2D3_SwitchToQuadMode :: "hw \<Rightarrow> hw" where
  "D2D3_SwitchToQuadMode t = t @ [Bsp ''SET_QSPI0_MOSI1_PA4'' [], Bsp ''SET_QSPI0_MISO1_PA5'' []]"

definition NVT_NVQSPI_Init :: "bsp \<Rightarrow> buf \<Rightarrow> hw \<Rightarrow> (int \<times> hw) option" where
  "NVT_NVQSPI_Init B rx t =
     do { let t = t @ [Bsp ''SYS_UnlockReg'' [],
            Bsp ''CLK_EnableModuleClock'' [''GPA_MODULE''],
            Bsp ''CLK_EnableModuleClock'' [''QSPI0_MODULE''],
            Bsp ''CLK_SetModuleClock'' [''QSPI0_MODULE'', ''CLK_CLKSEL2_QSPI0SEL_PCLK0'', ''MODULE_NoMsk''],
            Bsp ''SET_QSPI0_MOSI0_PA0'' [], Bsp ''SET_QSPI0_MISO0_PA1'' [],
            Bsp ''SET_QSPI0_CLK_PA2'' [], Bsp ''SET_QSPI0_SS_PA3'' [],
            Bsp ''SET_QSPI0_MOSI1_PA4'' [], Bsp ''SET_QSPI0_MISO1_PA5'' []];
          let (v, t) = ask B (Reg_Rd ''PA->SMTEN'') t;
          let t = t @ [Reg_Wr ''PA->SMTEN'' (v OR konst B (Konst ''GPIO_SMTEN_SMTEN2_Msk'')),
            Bsp ''GPIO_SetSlewCtl'' [''PA'', ''BIT0 | BIT1 | BIT2 | BIT3 | BIT4 | BIT5'', ''GPIO_SLEWCTL_HIGH'']];
          let t = D2D3_SwitchToNormalMode B t;
          let t = t @ [Bsp ''QSPI_Open'' [''QSPI0'', ''QSPI_MASTER'', ''QSPI_MODE_0'', ''8'', ''2000000''],
            Bsp ''QSPI_DisableAutoSS'' [''QSPI0'']];
          (i, t) \<leftarrow> SpiFlash_ReadJedecID_Q B rx t;
          if jedec_known i then Some (0, t) else Some (-1, t) }"

definition NVT_NVQSPI_Read :: "bool \<Rightarrow> bsp \<Rightarrow> u32 \<Rightarrow> u32 \<Rightarrow> buf \<Rightarrow> nat \<Rightarrow> hw \<Rightarrow> int \<times> buf \<times> hw" where
  "NVT_NVQSPI_Read quad B addr len data p t =
     (if quad
      then (let t = spiFlash_EnableQEBit B t;
                t = t @ [QSPI SET_SS_LOW];
                t = t @ [QSPI (WRITE_TX 0xEB)];
                t = wait_QSPI_IS_BUSY B t;
                t = D2D3_SwitchToQuadMode t;
                t = t @ [QSPI ENABLE_QUAD_OUTPUT_MODE];
                t = t @ addr24 QSPI addr;
                t = t @ [QSPI (WRITE_TX 0x00), QSPI (WRITE_TX 0x00), QSPI (WRITE_TX 0x00)];
                t = wait_QSPI_IS_BUSY B t;
                t = t @ [QSPI ENABLE_QUAD_INPUT_MODE];
                t = t @ [QSPI ClearRxFIFO];
                (data, t) = ser_read_loop QSPI qspi_timeout_msg B 0 len data p t;
                t = wait_QSPI_IS_BUSY B t;
                t = t @ [QSPI SET_SS_HIGH];
                t = t @ [QSPI DISABLE_QUAD_MODE];
                t = D2D3_SwitchToNormalMode B t;
                t = spiFlash_DisableQEBit B t
            in (0, data, t))
      else (let t = t @ [QSPI SET_SS_LOW];
                t = t @ [QSPI (WRITE_TX 0x03)];
                t = wait_QSPI_IS_BUSY B t;
                t = t @ addr24 QSPI addr;
                t = wait_QSPI_IS_BUSY B t;
                t = t @ [QSPI ClearRxFIFO];
                (data, t) = ser_read_loop QSPI qspi_timeout_msg B 0 len data p t;
                t = wait_QSPI_IS_BUSY B t;
                t = t @ [QSPI SET_SS_HIGH]
            in (0, data, t)))"

definition NVT_NVQSPI_Program :: "bsp \<Rightarrow> u32 \<Rightarrow> u32 \<Rightarrow> buf \<Rightarrow> nat \<Rightarrow> hw \<Rightarrow> (int \<times> hw) option" where
  "NVT_NVQSPI_Program B addr len buf p t =
     do { let t = t @ [QSPI SET_SS_LOW];
          let t = t @ [QSPI (WRITE_TX 0x06)];
          let t = wait_QSPI_IS_BUSY B t;
          let t = t @ [QSPI SET_SS_HIGH];
          let t = t @ [QSPI SET_SS_LOW];
          let t = t @ [QSPI (WRITE_TX 0x02)];
          let t = t @ addr24 QSPI addr;
          t \<leftarrow> ser_write_forever QSPI B len buf p t;
          let t = wait_QSPI_IS_BUSY B t;
          let t = t @ [QSPI SET_SS_HIGH];
          let t = t @ [QSPI ClearRxFIFO];
          Some (0, t) }"

definition NVT_NVQSPI_Erase :: "bsp \<Rightarrow> u32 \<Rightarrow> hw \<Rightarrow> int \<times> hw" where
  "NVT_NVQSPI_Erase B addr t =
     (let t = t @ [QSPI SET_SS_LOW];
          t = t @ [QSPI (WRITE_TX 0x06)];
          t = wait_QSPI_IS_BUSY B t;
          t = t @ [QSPI SET_SS_HIGH];
          t = t @ [QSPI SET_SS_LOW];
          t = t @ [QSPI (WRITE_TX 0x20)];
          t = t @ addr24 QSPI addr;
          t = wait_QSPI_IS_BUSY B t;
          t = t @ [QSPI ClearRxFIFO];
          t = t @ [QSPI SET_SS_HIGH]
      in (0, t))"

definition NVT_NVQSPI_WaitReady :: "bsp \<Rightarrow> hw \<Rightarrow> int \<times> hw" where
  "NVT_NVQSPI_WaitReady B t =
     ser_wait_ready qspi_timeout_msg (SpiFlash_ReadStatusReg_Q B) (konst B SystemCoreClock) t"

section \<open>The driver keeps the contract\<close>

lemma inj_QSPI [simp]: "inj QSPI"
  by (simp add: inj_def)

lemma qspi_program_never: "NVT_NVQSPI_Program B addr len buf p t = None"
  by (simp add: NVT_NVQSPI_Program_def ser_write_forever_never Let_def)

lemma qspi_wait_ok: "bus_free QSPI B \<Longrightarrow> \<exists>n. wait_QSPI_IS_BUSY B t = t @ ser_polls QSPI n"
  unfolding wait_QSPI_IS_BUSY_def by (rule ser_wait_ok)

lemma qspi_reads_status:
  assumes "bus_free QSPI B" "polls_silent QSPI B"
  shows "reads_status QSPI B True (SpiFlash_ReadStatusReg_Q B)"
  unfolding reads_status_def
proof
  fix t
  obtain n where n: "wait_QSPI_IS_BUSY B (t @ [QSPI ClearRxFIFO, QSPI SET_SS_LOW, QSPI (WRITE_TX 5), QSPI (WRITE_TX 0)])
      = (t @ [QSPI ClearRxFIFO, QSPI SET_SS_LOW, QSPI (WRITE_TX 5), QSPI (WRITE_TX 0)]) @ ser_polls QSPI n"
    using qspi_wait_ok [OF assms(1)] by blast
  let ?u = "t @ [QSPI ClearRxFIFO, QSPI SET_SS_LOW, QSPI (WRITE_TX 5), QSPI (WRITE_TX 0)] @ ser_polls QSPI n @ [QSPI SET_SS_HIGH, QSPI READ_RX]"
  have "resp B (?u @ [QSPI READ_RX]) = resp B (strip QSPI ?u @ [QSPI READ_RX])"
    using assms(2) unfolding polls_silent_def by blast
  then have "SpiFlash_ReadStatusReg_Q B t
      = (ucast (resp B (strip QSPI t @ ser_status_cmd QSPI True)), ?u @ [QSPI READ_RX])"
    using n by (simp add: SpiFlash_ReadStatusReg_Q_def read_status_reg_def ask_def ser_status_cmd_def ucast_and_255)
  then show "\<exists>t'. SpiFlash_ReadStatusReg_Q B t = (ucast (resp B (strip QSPI t @ ser_status_cmd QSPI True)), t')
      \<and> strip QSPI t' = strip QSPI t @ ser_status_cmd QSPI True"
    by (simp add: ser_status_cmd_def)
qed

lemma qspi_read_ok:
  assumes "ser_laws QSPI B True F" "sd_ready F (strip QSPI t)" "adr a + unat len \<le> sd_size F"
  shows "\<exists>t'. NVT_NVQSPI_Read False B a len dst p t
            = (0, copy_bytes dst p (\<lambda>k. sd_mem F (strip QSPI t) (adr a + k)) 0 (unat len), t')
       \<and> sd_ready F (strip QSPI t') \<and> sd_mem F (strip QSPI t') = sd_mem F (strip QSPI t)"
proof -
  have bf: "bus_free QSPI B" using assms(1) by (simp add: ser_laws_def)
  let ?w = "t @ [QSPI SET_SS_LOW, QSPI (WRITE_TX 3)]"
  obtain i where i: "wait_QSPI_IS_BUSY B ?w = ?w @ ser_polls QSPI i" using qspi_wait_ok [OF bf] by blast
  let ?v = "(?w @ ser_polls QSPI i) @ addr24 QSPI a"
  obtain n where n: "wait_QSPI_IS_BUSY B ?v = ?v @ ser_polls QSPI n" using qspi_wait_ok [OF bf] by blast
  have "strip QSPI (?v @ ser_polls QSPI n) = strip QSPI t @ [QSPI SET_SS_LOW, QSPI (WRITE_TX 3)] @ addr24 QSPI a"
    by simp
  from ser_read_txn [OF inj_QSPI assms this, of qspi_timeout_msg dst p] i n show ?thesis
    by (auto simp: NVT_NVQSPI_Read_def wait_QSPI_IS_BUSY_def)
qed

lemma qspi_erase_ok:
  assumes "ser_laws QSPI B True F" "sd_ready F (strip QSPI t)" "4096 dvd adr a" "adr a + 4096 \<le> sd_size F"
  shows "\<exists>t1 t'. NVT_NVQSPI_Erase B a t = (0, t1) \<and> NVT_NVQSPI_WaitReady B t1 = (0, t')
       \<and> sd_ready F (strip QSPI t')
       \<and> sd_mem F (strip QSPI t') = flash_erase (sd_mem F (strip QSPI t)) (adr a) 4096"
proof -
  have bf: "bus_free QSPI B" and ps: "polls_silent QSPI B" using assms(1) by (simp_all add: ser_laws_def)
  let ?w = "t @ [QSPI SET_SS_LOW, QSPI (WRITE_TX 6)]"
  obtain i where i: "wait_QSPI_IS_BUSY B ?w = ?w @ ser_polls QSPI i" using qspi_wait_ok [OF bf] by blast
  let ?v = "(?w @ ser_polls QSPI i) @ [QSPI SET_SS_HIGH, QSPI SET_SS_LOW, QSPI (WRITE_TX 0x20)] @ addr24 QSPI a"
  obtain j where j: "wait_QSPI_IS_BUSY B ?v = ?v @ ser_polls QSPI j" using qspi_wait_ok [OF bf] by blast
  let ?t1 = "(?v @ ser_polls QSPI j) @ [QSPI ClearRxFIFO, QSPI SET_SS_HIGH]"
  have "strip QSPI ?t1 = strip QSPI t @ ser_erase_cmd QSPI a" by (simp add: ser_erase_cmd_def)
  from ser_erase_txn [OF assms(1) qspi_reads_status [OF bf ps] assms(2-4) this, of qspi_timeout_msg]
  show ?thesis using i j by (simp add: NVT_NVQSPI_Erase_def NVT_NVQSPI_WaitReady_def)
qed

interpretation nvqspi: serial_flash "NVT_NVQSPI_Read False B"
  "\<lambda>t. sd_mem F (strip QSPI t)" "\<lambda>t. ser_laws QSPI B True F \<and> sd_ready F (strip QSPI t)" "sd_size F"
  "NVT_NVQSPI_Erase B" "NVT_NVQSPI_WaitReady B" for B F
proof
  fix t :: hw and a len :: u32 and dst :: buf and p :: nat
  assume g: "ser_laws QSPI B True F \<and> sd_ready F (strip QSPI t)"
  { assume "adr a + unat len \<le> sd_size F"
    from qspi_read_ok [OF conjunct1 [OF g] conjunct2 [OF g] this]
    show "\<exists>s'. NVT_NVQSPI_Read False B a len dst p t
          = (0, copy_bytes dst p (\<lambda>k. sd_mem F (strip QSPI t) (adr a + k)) 0 (unat len), s')
        \<and> (ser_laws QSPI B True F \<and> sd_ready F (strip QSPI s'))
        \<and> sd_mem F (strip QSPI s') = sd_mem F (strip QSPI t)"
      using g by blast }
  { assume "4096 dvd adr a" "adr a + 4096 \<le> sd_size F"
    from qspi_erase_ok [OF conjunct1 [OF g] conjunct2 [OF g] this]
    show "\<exists>s1 s'. NVT_NVQSPI_Erase B a t = (0, s1) \<and> NVT_NVQSPI_WaitReady B s1 = (0, s')
        \<and> (ser_laws QSPI B True F \<and> sd_ready F (strip QSPI s'))
        \<and> sd_mem F (strip QSPI s') = flash_erase (sd_mem F (strip QSPI t)) (adr a) 4096"
      using g by blast }
qed

end
