(* ===== verification/Driver_Flash2.thy ===== *)
theory Driver_Flash2
  imports Driver_Flash Spi_Drv Qspi_Drv Spim_Drv Flash_Map_Write Flash_Map_Erase
begin

text \<open>
  \<open>bl2/platform/common/Driver_Flash.c\<close>, the part for the secondary slot in a serial flash: one
  of three drivers is built as \<open>Driver_FLASH2\<close>, here \<open>Driver_FLASH2_SPIM\<close>, \<open>_SPI\<close> and \<open>_QSPI\<close>.
  \<open>rx\<close> is the indeterminate content of the array that \<open>SpiFlash_ReadJedecID\<close> fills.

  Proved here: the reading loop works over any driver that keeps \<open>serial_read\<close>, and the CMSIS
  drivers for SPI and QSPI, which keep \<open>serial_flash\<close>, keep \<open>cmsis_erase\<close>. So the results on
  reading and erasing flash areas hold for a slot in serial flash; programming such a slot over
  SPI or QSPI never succeeds.
\<close>

definition ARM_FLASH2_DEV_SPIM :: arm_flash_dev_t where
  "ARM_FLASH2_DEV_SPIM =
     \<lparr>memory_base = NVT_NVSPIM_MEMORY_BASE,
      data = \<lparr>sector_info = None, sector_count = NVT_NVSPIM_SECTOR_COUNT,
              sector_size = NVT_NVSPIM_SECTOR_SIZE, page_size = NVT_NVSPIM_PAGE_SIZE,
              program_unit = NVT_NVSPIM_PROGRAM_UNIT, erased_value = 0xFF\<rparr>\<rparr>"

definition ARM_FLASH2_DEV_SPI :: arm_flash_dev_t where
  "ARM_FLASH2_DEV_SPI =
     \<lparr>memory_base = NVT_NVSPI_MEMORY_BASE,
      data = \<lparr>sector_info = None, sector_count = NVT_NVSPI_SECTOR_COUNT,
              sector_size = NVT_NVSPI_SECTOR_SIZE, page_size = NVT_NVSPI_PAGE_SIZE,
              program_unit = NVT_NVSPI_PROGRAM_UNIT, erased_value = 0xFF\<rparr>\<rparr>"

definition ARM_FLASH2_DEV_QSPI :: arm_flash_dev_t where
  "ARM_FLASH2_DEV_QSPI =
     \<lparr>memory_base = NVT_NVQSPI_MEMORY_BASE,
      data = \<lparr>sector_info = None, sector_count = NVT_NVQSPI_SECTOR_COUNT,
              sector_size = NVT_NVQSPI_SECTOR_SIZE, page_size = NVT_NVQSPI_PAGE_SIZE,
              program_unit = NVT_NVQSPI_PROGRAM_UNIT, erased_value = 0xFF\<rparr>\<rparr>"

text \<open>The body of the three \<open>ARM_Flash_Initialize_*\<close>, over the driver's own initialisation.\<close>

definition init_serial :: "(hw \<Rightarrow> (int \<times> hw) option) \<Rightarrow> hw \<Rightarrow> (int \<times> hw) option" where
  "init_serial nv t =
     (if data_width DriverCapabilities \<ge> DATA_WIDTH_ENUM_SIZE then Some (ARM_DRIVER_ERROR, t)
      else do { (r, t) \<leftarrow> nv t;
                if r \<noteq> 0 then Some (ARM_DRIVER_ERROR, t) else Some (ARM_DRIVER_OK, t) })"

text \<open>\<open>u32Len = sz; if (u32Len > page) u32Len = page;\<close>\<close>

definition chunk :: "u32 \<Rightarrow> u32 \<Rightarrow> u32" where
  "chunk page sz = (if sz > page then page else sz)"

text \<open>The page loops of reading and of programming over a serial flash.\<close>

partial_function (option) read_pages :: "(u32 \<Rightarrow> u32 \<Rightarrow> buf \<Rightarrow> nat \<Rightarrow> 's \<Rightarrow> int \<times> buf \<times> 's) \<Rightarrow>
    u32 \<Rightarrow> u32 \<Rightarrow> buf \<Rightarrow> nat \<Rightarrow> u32 \<Rightarrow> 's \<Rightarrow> (int \<times> buf \<times> 's) option" where
  "read_pages rd page addr dst p sz s =
     (if sz \<noteq> 0
      then (let u32Len = chunk page sz; (r, dst, s) = rd addr u32Len dst p s
            in if r \<noteq> 0 then Some (ARM_DRIVER_ERROR, dst, s)
               else read_pages rd page (addr + u32Len) dst (p + unat u32Len) (sz - u32Len) s)
      else Some (ARM_DRIVER_OK, dst, s))"

partial_function (option) program_pages :: "(u32 \<Rightarrow> u32 \<Rightarrow> buf \<Rightarrow> nat \<Rightarrow> 's \<Rightarrow> (int \<times> 's) option) \<Rightarrow>
    ('s \<Rightarrow> int \<times> 's) \<Rightarrow> u32 \<Rightarrow> u32 \<Rightarrow> buf \<Rightarrow> nat \<Rightarrow> u32 \<Rightarrow> 's \<Rightarrow> (int \<times> 's) option" where
  "program_pages prog ready page addr src p sz s =
     (if sz \<noteq> 0
      then do { let u32Len = chunk page sz;
                (r, s) \<leftarrow> prog addr u32Len src p s;
                if r \<noteq> 0 then Some (ARM_DRIVER_ERROR, s)
                else (let (r, s) = ready s
                      in if r < 0 then Some (ARM_DRIVER_ERROR, s)
                         else program_pages prog ready page (addr + u32Len) src (p + unat u32Len)
                                (sz - u32Len) s) }
      else Some (ARM_DRIVER_OK, s))"

section \<open>USE_SPIM\<close>

definition ARM_Flash_Initialize_SPIM :: "bsp \<Rightarrow> hw \<Rightarrow> (int \<times> hw) option" where
  "ARM_Flash_Initialize_SPIM B t = init_serial (NVT_NVSPIM_Init B 0xAD004444) t"

text \<open>\<open>addr < MEMORY_BASE || addr + sz > MEMORY_BASE + SPIM_DMM_SIZE\<close>; the sums may wrap.\<close>

definition spim_out_of_range :: "bsp \<Rightarrow> u32 \<Rightarrow> u32 \<Rightarrow> bool" where
  "spim_out_of_range B addr sz \<longleftrightarrow> addr < NVT_NVSPIM_MEMORY_BASE
     \<or> addr + sz > NVT_NVSPIM_MEMORY_BASE + konst B SPIM_DMM_SIZE"

text \<open>The result of \<open>NVT_NVSPIM_Read\<close> is ignored.\<close>

partial_function (option) spim_read_pages :: "bsp \<Rightarrow> u32 \<Rightarrow> buf \<Rightarrow> nat \<Rightarrow> u32 \<Rightarrow> hw \<Rightarrow> (int \<times> buf \<times> hw) option"
where
  "spim_read_pages B addr dst p sz t =
     (if sz \<noteq> 0
      then (let u32Len = chunk NVT_NVSPIM_PAGE_SIZE sz; (_, dst, t) = NVT_NVSPIM_Read B addr u32Len dst p t
            in spim_read_pages B (addr + u32Len) dst (p + unat u32Len) (sz - u32Len) t)
      else Some (ARM_DRIVER_OK, dst, t))"

definition ARM_Flash_ReadData_SPIM :: "bsp \<Rightarrow> u32 \<Rightarrow> buf \<Rightarrow> nat \<Rightarrow> u32 \<Rightarrow> hw \<Rightarrow> (int \<times> buf \<times> hw) option" where
  "ARM_Flash_ReadData_SPIM B addr dst p cnt t =
     do { w \<leftarrow> table_get data_width_byte (data_width DriverCapabilities);
          let sz = cnt * w;
          if spim_out_of_range B addr sz then Some (ARM_DRIVER_ERROR_PARAMETER, dst, t)
          else spim_read_pages B (addr - NVT_NVSPIM_MEMORY_BASE) dst p sz t }"

partial_function (option) spim_program_pages :: "bsp \<Rightarrow> u32 \<Rightarrow> buf \<Rightarrow> nat \<Rightarrow> u32 \<Rightarrow> hw \<Rightarrow> (int \<times> hw) option"
where
  "spim_program_pages B addr src p sz t =
     (if sz \<noteq> 0
      then do { let u32Len = chunk NVT_NVSPIM_PAGE_SIZE sz;
                (r, t) \<leftarrow> NVT_NVSPIM_Program B addr u32Len src p t;
                if r \<noteq> 0 then Some (ARM_DRIVER_ERROR, t)
                else spim_program_pages B (addr + u32Len) src (p + unat u32Len) (sz - u32Len) t }
      else Some (ARM_DRIVER_OK, t))"

definition ARM_Flash_ProgramData_SPIM :: "bsp \<Rightarrow> u32 \<Rightarrow> buf \<Rightarrow> nat \<Rightarrow> u32 \<Rightarrow> hw \<Rightarrow> (int \<times> hw) option" where
  "ARM_Flash_ProgramData_SPIM B addr src p cnt t =
     do { w \<leftarrow> table_get data_width_byte (data_width DriverCapabilities);
          let sz = cnt * w;
          if spim_out_of_range B addr sz then Some (ARM_DRIVER_ERROR_PARAMETER, t)
          else spim_program_pages B (addr - NVT_NVSPIM_MEMORY_BASE) src p sz t }"

definition ARM_Flash_EraseSector_SPIM :: "bsp \<Rightarrow> u32 \<Rightarrow> hw \<Rightarrow> (int \<times> hw) option" where
  "ARM_Flash_EraseSector_SPIM B addr t =
     (if spim_out_of_range B addr 0 then Some (ARM_DRIVER_ERROR_PARAMETER, t)
      else do { (r, t) \<leftarrow> NVT_NVSPIM_Erase B (addr - NVT_NVSPIM_MEMORY_BASE) t;
                if r \<noteq> 0 then Some (ARM_DRIVER_ERROR, t) else Some (ARM_DRIVER_OK, t) })"

definition ARM_Flash_GetInfo_SPIM :: "unit \<Rightarrow> ARM_FLASH_INFO" where
  "ARM_Flash_GetInfo_SPIM _ = data ARM_FLASH2_DEV_SPIM"

definition Driver_FLASH2_SPIM :: "bsp \<Rightarrow> hw ARM_DRIVER_FLASH" where
  "Driver_FLASH2_SPIM B =
     \<lparr>GetVersion = ARM_Flash_GetVersion, GetCapabilities = ARM_Flash_GetCapabilities,
      Initialize = ARM_Flash_Initialize_SPIM B, Uninitialize = ARM_Flash_Uninitialize,
      PowerControl = ARM_Flash_PowerControl, ReadData = ARM_Flash_ReadData_SPIM B,
      ProgramData = ARM_Flash_ProgramData_SPIM B, EraseSector = ARM_Flash_EraseSector_SPIM B,
      EraseChip = None, GetStatus = ARM_Flash_GetStatus, GetInfo = ARM_Flash_GetInfo_SPIM\<rparr>"

section \<open>USE_SPI\<close>

definition is_range_valid_SPI :: "u32 \<Rightarrow> int" where
  "is_range_valid_SPI addr = is_range_valid_internal ARM_FLASH2_DEV_SPI addr"

definition ARM_Flash_Initialize_SPI :: "bsp \<Rightarrow> buf \<Rightarrow> hw \<Rightarrow> (int \<times> hw) option" where
  "ARM_Flash_Initialize_SPI B rx t = init_serial (NVT_NVSPI_Init B rx) t"

definition ARM_Flash_ReadData_SPI :: "bsp \<Rightarrow> u32 \<Rightarrow> buf \<Rightarrow> nat \<Rightarrow> u32 \<Rightarrow> hw \<Rightarrow> (int \<times> buf \<times> hw) option" where
  "ARM_Flash_ReadData_SPI B addr dst p cnt t =
     do { w \<leftarrow> table_get data_width_byte (data_width DriverCapabilities);
          let sz = cnt * w;
          if is_range_valid_SPI addr \<noteq> 0 then Some (ARM_DRIVER_ERROR_PARAMETER, dst, t)
          else read_pages (NVT_NVSPI_Read B) NVT_NVSPI_PAGE_SIZE (addr - NVT_NVSPI_MEMORY_BASE) dst p sz t }"

definition ARM_Flash_ProgramData_SPI :: "bsp \<Rightarrow> u32 \<Rightarrow> buf \<Rightarrow> nat \<Rightarrow> u32 \<Rightarrow> hw \<Rightarrow> (int \<times> hw) option" where
  "ARM_Flash_ProgramData_SPI B addr src p cnt t =
     do { w \<leftarrow> table_get data_width_byte (data_width DriverCapabilities);
          let sz = cnt * w;
          if is_range_valid_SPI addr \<noteq> 0 then Some (ARM_DRIVER_ERROR_PARAMETER, t)
          else program_pages (NVT_NVSPI_Program B) (NVT_NVSPI_WaitReady B) NVT_NVSPI_PAGE_SIZE
                 (addr - NVT_NVSPI_MEMORY_BASE) src p sz t }"

definition ARM_Flash_EraseSector_SPI :: "bsp \<Rightarrow> u32 \<Rightarrow> hw \<Rightarrow> (int \<times> hw) option" where
  "ARM_Flash_EraseSector_SPI B addr t =
     (if is_range_valid_SPI addr \<noteq> 0 then Some (ARM_DRIVER_ERROR_PARAMETER, t)
      else (let (r, t) = NVT_NVSPI_Erase B (addr - NVT_NVSPI_MEMORY_BASE) t
            in if r \<noteq> 0 then Some (ARM_DRIVER_ERROR, t)
               else (let (r, t) = NVT_NVSPI_WaitReady B t
                     in if r < 0 then Some (ARM_DRIVER_ERROR, t) else Some (ARM_DRIVER_OK, t))))"

definition ARM_Flash_GetInfo_SPI :: "unit \<Rightarrow> ARM_FLASH_INFO" where
  "ARM_Flash_GetInfo_SPI _ = data ARM_FLASH2_DEV_SPI"

definition Driver_FLASH2_SPI :: "bsp \<Rightarrow> buf \<Rightarrow> hw ARM_DRIVER_FLASH" where
  "Driver_FLASH2_SPI B rx =
     \<lparr>GetVersion = ARM_Flash_GetVersion, GetCapabilities = ARM_Flash_GetCapabilities,
      Initialize = ARM_Flash_Initialize_SPI B rx, Uninitialize = ARM_Flash_Uninitialize,
      PowerControl = ARM_Flash_PowerControl, ReadData = ARM_Flash_ReadData_SPI B,
      ProgramData = ARM_Flash_ProgramData_SPI B, EraseSector = ARM_Flash_EraseSector_SPI B,
      EraseChip = None, GetStatus = ARM_Flash_GetStatus, GetInfo = ARM_Flash_GetInfo_SPI\<rparr>"

section \<open>USE_QSPI\<close>

definition is_range_valid_QSPI :: "u32 \<Rightarrow> int" where
  "is_range_valid_QSPI addr = is_range_valid_internal ARM_FLASH2_DEV_QSPI addr"

definition ARM_Flash_Initialize_QSPI :: "bsp \<Rightarrow> buf \<Rightarrow> hw \<Rightarrow> (int \<times> hw) option" where
  "ARM_Flash_Initialize_QSPI B rx t = init_serial (NVT_NVQSPI_Init B rx) t"

definition ARM_Flash_ReadData_QSPI :: "bool \<Rightarrow> bsp \<Rightarrow> u32 \<Rightarrow> buf \<Rightarrow> nat \<Rightarrow> u32 \<Rightarrow> hw \<Rightarrow> (int \<times> buf \<times> hw) option" where
  "ARM_Flash_ReadData_QSPI quad B addr dst p cnt t =
     do { w \<leftarrow> table_get data_width_byte (data_width DriverCapabilities);
          let sz = cnt * w;
          if is_range_valid_QSPI addr \<noteq> 0 then Some (ARM_DRIVER_ERROR_PARAMETER, dst, t)
          else read_pages (NVT_NVQSPI_Read quad B) NVT_NVQSPI_PAGE_SIZE (addr - NVT_NVQSPI_MEMORY_BASE) dst p sz t }"

definition ARM_Flash_ProgramData_QSPI :: "bsp \<Rightarrow> u32 \<Rightarrow> buf \<Rightarrow> nat \<Rightarrow> u32 \<Rightarrow> hw \<Rightarrow> (int \<times> hw) option" where
  "ARM_Flash_ProgramData_QSPI B addr src p cnt t =
     do { w \<leftarrow> table_get data_width_byte (data_width DriverCapabilities);
          let sz = cnt * w;
          if is_range_valid_QSPI addr \<noteq> 0 then Some (ARM_DRIVER_ERROR_PARAMETER, t)
          else program_pages (NVT_NVQSPI_Program B) (NVT_NVQSPI_WaitReady B) NVT_NVQSPI_PAGE_SIZE
                 (addr - NVT_NVQSPI_MEMORY_BASE) src p sz t }"

definition ARM_Flash_EraseSector_QSPI :: "bsp \<Rightarrow> u32 \<Rightarrow> hw \<Rightarrow> (int \<times> hw) option" where
  "ARM_Flash_EraseSector_QSPI B addr t =
     (if is_range_valid_QSPI addr \<noteq> 0 then Some (ARM_DRIVER_ERROR_PARAMETER, t)
      else (let (r, t) = NVT_NVQSPI_Erase B (addr - NVT_NVQSPI_MEMORY_BASE) t
            in if r \<noteq> 0 then Some (ARM_DRIVER_ERROR, t)
               else (let (r, t) = NVT_NVQSPI_WaitReady B t
                     in if r < 0 then Some (ARM_DRIVER_ERROR, t) else Some (ARM_DRIVER_OK, t))))"

definition ARM_Flash_GetInfo_QSPI :: "unit \<Rightarrow> ARM_FLASH_INFO" where
  "ARM_Flash_GetInfo_QSPI _ = data ARM_FLASH2_DEV_QSPI"

definition Driver_FLASH2_QSPI :: "bool \<Rightarrow> bsp \<Rightarrow> buf \<Rightarrow> hw ARM_DRIVER_FLASH" where
  "Driver_FLASH2_QSPI quad B rx =
     \<lparr>GetVersion = ARM_Flash_GetVersion, GetCapabilities = ARM_Flash_GetCapabilities,
      Initialize = ARM_Flash_Initialize_QSPI B rx, Uninitialize = ARM_Flash_Uninitialize,
      PowerControl = ARM_Flash_PowerControl, ReadData = ARM_Flash_ReadData_QSPI quad B,
      ProgramData = ARM_Flash_ProgramData_QSPI B, EraseSector = ARM_Flash_EraseSector_QSPI B,
      EraseChip = None, GetStatus = ARM_Flash_GetStatus, GetInfo = ARM_Flash_GetInfo_QSPI\<rparr>"

section \<open>The loops over a serial flash\<close>

lemma adr_add: "adr a + unat l < 2 ^ 24 \<Longrightarrow> adr (a + l) = adr a + unat l"
proof -
  assume l: "adr a + unat l < 2 ^ 24"
  have "unat (a + l) mod 2 ^ 24 = (unat a + unat l) mod 2 ^ 24"
    by (simp add: unat_word_ariths mod_mod_cancel)
  also have "\<dots> = (adr a + unat l) mod 2 ^ 24" by (simp add: adr_def mod_add_left_eq)
  finally show ?thesis using l by (simp add: adr_def)
qed

lemma adr_small: "unat a < 2 ^ 24 \<Longrightarrow> adr a = unat a"
  by (simp add: adr_def)

lemma unat_chunk: "unat (chunk page sz) = min (unat page) (unat sz)"
  by (simp add: chunk_def word_less_nat_alt min_def)

context serial_read
begin

lemma read_pages_ok:
  assumes "good s" "adr a + unat sz \<le> chip" "chip \<le> 2 ^ 24" "0 < page"
  shows "\<exists>s'. read_pages rd page a dst p sz s
           = Some (0, copy_bytes dst p (\<lambda>k. mem s (adr a + k)) 0 (unat sz), s')
         \<and> good s' \<and> mem s' = mem s"
  using assms(1,2)
proof (induction "unat sz" arbitrary: a dst p sz s rule: less_induct)
  case less
  show ?case
  proof (cases "sz = 0")
    case True
    then show ?thesis using less.prems by (subst read_pages.simps) simp
  next
    case False
    let ?l = "chunk page sz"
    have l: "0 < unat ?l" "unat ?l \<le> unat sz"
      using False assms(4) by (simp_all add: unat_chunk unat_gt_0 word_less_nat_alt)
    obtain s1 where s1: "rd a ?l dst p s
        = (0, copy_bytes dst p (\<lambda>k. mem s (adr a + k)) 0 (unat ?l), s1)" "good s1" "mem s1 = mem s"
      using read_law [OF less.prems(1), of a ?l dst p] less.prems(2) l(2) by auto
    have rest: "unat (sz - ?l) = unat sz - unat ?l" using l(2) by (simp add: unat_sub32 word_le_nat_alt)
    show ?thesis
    proof (cases "unat sz = unat ?l")
      case True
      then have "sz - ?l = 0" using rest by (simp add: unat_eq_zero)
      then have "read_pages rd page a dst p sz s = Some (0, copy_bytes dst p (\<lambda>k. mem s (adr a + k)) 0 (unat ?l), s1)"
        using False s1(1) by (subst read_pages.simps) (simp add: read_pages.simps [of rd page _ _ _ 0])
      then show ?thesis using s1(2,3) True by simp
    next
      case False2: False
      then have "adr a + unat ?l < 2 ^ 24" using less.prems(2) assms(3) l(2) by linarith
      then have a: "adr (a + ?l) = adr a + unat ?l" by (rule adr_add)
      have "adr (a + ?l) + unat (sz - ?l) \<le> chip" using a rest less.prems(2) l(2) by simp
      with less.hyps [of "sz - ?l" s1 "a + ?l" "copy_bytes dst p (\<lambda>k. mem s (adr a + k)) 0 (unat ?l)" "p + unat ?l"]
      obtain s2 where s2: "read_pages rd page (a + ?l) (copy_bytes dst p (\<lambda>k. mem s (adr a + k)) 0 (unat ?l))
           (p + unat ?l) (sz - ?l) s1
         = Some (0, copy_bytes (copy_bytes dst p (\<lambda>k. mem s (adr a + k)) 0 (unat ?l)) (p + unat ?l)
              (\<lambda>k. mem s1 (adr (a + ?l) + k)) 0 (unat (sz - ?l)), s2)" "good s2" "mem s2 = mem s1"
        using s1(2) rest l by auto
      have "copy_bytes (copy_bytes dst p (\<lambda>k. mem s (adr a + k)) 0 (unat ?l)) (p + unat ?l)
              (\<lambda>k. mem s1 (adr (a + ?l) + k)) 0 (unat (sz - ?l))
          = copy_bytes dst p (\<lambda>k. mem s (adr a + k)) 0 (unat ?l + unat (sz - ?l))"
        by (rule copy_bytes_split) (simp_all add: a s1(3) add.assoc)
      also have "unat ?l + unat (sz - ?l) = unat sz" using rest l(2) by simp
      finally have "read_pages rd page a dst p sz s = Some (0, copy_bytes dst p (\<lambda>k. mem s (adr a + k)) 0 (unat sz), s2)"
        using \<open>sz \<noteq> 0\<close> s1(1) s2(1) by (subst read_pages.simps) simp
      then show ?thesis using s1(3) s2(2,3) by simp
    qed
  qed
qed

end

lemma program_pages_never:
  assumes "\<And>a l b p s. prog a l b p s = None" "sz \<noteq> 0"
  shows "program_pages prog ready page a src p sz s = None"
  using assms by (subst program_pages.simps) simp

section \<open>The drivers for SPI and QSPI\<close>

lemma range_valid_serial:
  "memory_base dev = 0 \<Longrightarrow> is_range_valid_internal dev a = 0
     \<longleftrightarrow> a < sector_count (data dev) * sector_size (data dev)"
  by (auto simp: is_range_valid_internal_def Let_def not_le)

lemma serial_sizes [simp]:
  "memory_base ARM_FLASH2_DEV_SPI = 0"
  "sector_count (data ARM_FLASH2_DEV_SPI) * sector_size (data ARM_FLASH2_DEV_SPI) = 0x00400000"
  "memory_base ARM_FLASH2_DEV_QSPI = 0"
  "sector_count (data ARM_FLASH2_DEV_QSPI) * sector_size (data ARM_FLASH2_DEV_QSPI) = 0x02000000"
  by (simp_all add: ARM_FLASH2_DEV_SPI_def ARM_FLASH2_DEV_QSPI_def NVT_NVSPI_MEMORY_BASE_def
      NVT_NVSPI_SECTOR_COUNT_def NVT_NVSPI_SECTOR_SIZE_def NVT_NVQSPI_MEMORY_BASE_def
      NVT_NVQSPI_SECTOR_COUNT_def NVT_NVQSPI_SECTOR_SIZE_def)

definition spi_ok :: "bsp \<Rightarrow> sdev \<Rightarrow> hw \<Rightarrow> bool" where
  "spi_ok B F t \<longleftrightarrow> ser_laws SPI B False F \<and> sd_ready F (strip SPI t) \<and> sd_size F \<le> 0x00400000"

definition qspi_ok :: "bsp \<Rightarrow> sdev \<Rightarrow> hw \<Rightarrow> bool" where
  "qspi_ok B F t \<longleftrightarrow> ser_laws QSPI B True F \<and> sd_ready F (strip QSPI t) \<and> sd_size F \<le> 2 ^ 24"

interpretation spi_flash: cmsis_erase "Driver_FLASH2_SPI B rx" "\<lambda>t. sd_mem F (strip SPI t)"
  "spi_ok B F" 0 "sd_size F" 4096 for B rx F
proof
  fix t :: hw and a cnt :: u32 and dst :: buf and p :: nat
  assume ok: "spi_ok B F t"
  then have g: "ser_laws SPI B False F \<and> sd_ready F (strip SPI t)" and z: "sd_size F \<le> 0x00400000"
    by (simp_all add: spi_ok_def)
  show "data_width (GetCapabilities (Driver_FLASH2_SPI B rx) ()) = 2" "sd_size F < 2 ^ 32"
    "sector_info (GetInfo (Driver_FLASH2_SPI B rx) ()) = None"
    "unat (sector_size (GetInfo (Driver_FLASH2_SPI B rx) ())) = 4096" "0 < (4096::nat)"
    "erased_value (GetInfo (Driver_FLASH2_SPI B rx) ()) = 0xFF"
    using z by (simp_all add: Driver_FLASH2_SPI_def ARM_Flash_GetCapabilities_def DriverCapabilities_def
        ARM_Flash_GetInfo_SPI_def ARM_FLASH2_DEV_SPI_def NVT_NVSPI_SECTOR_SIZE_def)
  { assume c: "cnt \<noteq> 0" "unat a + 4 * unat cnt \<le> sd_size F"
    have pos: "0 < unat cnt" using c(1) by (simp add: unat_gt_0)
    have sz: "unat (cnt * 4) = 4 * unat cnt" using c z by (simp add: unat_mult32)
    have a: "unat a < 0x00400000" using c z pos by simp
    then have rg: "is_range_valid_SPI a = 0"
      by (simp add: is_range_valid_SPI_def range_valid_serial word_less_nat_alt)
    have ad: "adr a = unat a" using a by (simp add: adr_small)
    from nvspi.read_pages_ok [OF g, of a "cnt * 4" NVT_NVSPI_PAGE_SIZE dst p] c(2) z sz ad rg
    show "\<exists>r s'. ReadData (Driver_FLASH2_SPI B rx) a dst p cnt t
          = Some (r, copy_bytes dst p (\<lambda>k. sd_mem F (strip SPI t) (unat a + k)) 0 (4 * unat cnt), s')
        \<and> 0 \<le> r \<and> spi_ok B F s' \<and> sd_mem F (strip SPI s') = sd_mem F (strip SPI t)"
      by (auto simp: Driver_FLASH2_SPI_def ARM_Flash_ReadData_SPI_def DriverCapabilities_def spi_ok_def
          NVT_NVSPI_PAGE_SIZE_def NVT_NVSPI_MEMORY_BASE_def) }
  { assume e: "4096 dvd unat a" "unat a + 4096 \<le> sd_size F"
    then have a: "unat a < 0x00400000" using z by simp
    then have rg: "is_range_valid_SPI a = 0"
      by (simp add: is_range_valid_SPI_def range_valid_serial word_less_nat_alt)
    have ad: "adr a = unat a" using a by (simp add: adr_small)
    from nvspi.erase_law [OF g, of a] e ad rg z
    show "\<exists>s'. EraseSector (Driver_FLASH2_SPI B rx) a t = Some (0, s') \<and> spi_ok B F s'
        \<and> sd_mem F (strip SPI s') = flash_erase (sd_mem F (strip SPI t)) (unat a) 4096"
      by (auto simp: Driver_FLASH2_SPI_def ARM_Flash_EraseSector_SPI_def spi_ok_def
          NVT_NVSPI_MEMORY_BASE_def) }
qed

lemma spi_never_programs: "never_programs (Driver_FLASH2_SPI B rx)"
  by (auto simp: never_programs_def Driver_FLASH2_SPI_def ARM_Flash_ProgramData_SPI_def Let_def
      DriverCapabilities_def program_pages_never spi_program_never split: if_splits)

interpretation qspi_flash: cmsis_erase "Driver_FLASH2_QSPI False B rx" "\<lambda>t. sd_mem F (strip QSPI t)"
  "qspi_ok B F" 0 "sd_size F" 4096 for B rx F
proof
  fix t :: hw and a cnt :: u32 and dst :: buf and p :: nat
  assume ok: "qspi_ok B F t"
  then have g: "ser_laws QSPI B True F \<and> sd_ready F (strip QSPI t)" and z: "sd_size F \<le> 2 ^ 24"
    by (simp_all add: qspi_ok_def)
  show "data_width (GetCapabilities (Driver_FLASH2_QSPI False B rx) ()) = 2" "sd_size F < 2 ^ 32"
    "sector_info (GetInfo (Driver_FLASH2_QSPI False B rx) ()) = None"
    "unat (sector_size (GetInfo (Driver_FLASH2_QSPI False B rx) ())) = 4096" "0 < (4096::nat)"
    "erased_value (GetInfo (Driver_FLASH2_QSPI False B rx) ()) = 0xFF"
    using z by (simp_all add: Driver_FLASH2_QSPI_def ARM_Flash_GetCapabilities_def DriverCapabilities_def
        ARM_Flash_GetInfo_QSPI_def ARM_FLASH2_DEV_QSPI_def NVT_NVQSPI_SECTOR_SIZE_def)
  { assume c: "cnt \<noteq> 0" "unat a + 4 * unat cnt \<le> sd_size F"
    have pos: "0 < unat cnt" using c(1) by (simp add: unat_gt_0)
    have sz: "unat (cnt * 4) = 4 * unat cnt" using c z by (simp add: unat_mult32)
    have a: "unat a < 2 ^ 24" using c z pos by simp
    then have rg: "is_range_valid_QSPI a = 0"
      by (simp add: is_range_valid_QSPI_def range_valid_serial word_less_nat_alt)
    have ad: "adr a = unat a" using a by (simp add: adr_small)
    from nvqspi.read_pages_ok [OF g, of a "cnt * 4" NVT_NVQSPI_PAGE_SIZE dst p] c(2) z sz ad rg
    show "\<exists>r s'. ReadData (Driver_FLASH2_QSPI False B rx) a dst p cnt t
          = Some (r, copy_bytes dst p (\<lambda>k. sd_mem F (strip QSPI t) (unat a + k)) 0 (4 * unat cnt), s')
        \<and> 0 \<le> r \<and> qspi_ok B F s' \<and> sd_mem F (strip QSPI s') = sd_mem F (strip QSPI t)"
      by (auto simp: Driver_FLASH2_QSPI_def ARM_Flash_ReadData_QSPI_def DriverCapabilities_def qspi_ok_def
          NVT_NVQSPI_PAGE_SIZE_def NVT_NVQSPI_MEMORY_BASE_def) }
  { assume e: "4096 dvd unat a" "unat a + 4096 \<le> sd_size F"
    then have a: "unat a < 2 ^ 24" using z by simp
    then have rg: "is_range_valid_QSPI a = 0"
      by (simp add: is_range_valid_QSPI_def range_valid_serial word_less_nat_alt)
    have ad: "adr a = unat a" using a by (simp add: adr_small)
    from nvqspi.erase_law [OF g, of a] e ad rg z
    show "\<exists>s'. EraseSector (Driver_FLASH2_QSPI False B rx) a t = Some (0, s') \<and> qspi_ok B F s'
        \<and> sd_mem F (strip QSPI s') = flash_erase (sd_mem F (strip QSPI t)) (unat a) 4096"
      by (auto simp: Driver_FLASH2_QSPI_def ARM_Flash_EraseSector_QSPI_def qspi_ok_def
          NVT_NVQSPI_MEMORY_BASE_def) }
qed

lemma qspi_never_programs: "never_programs (Driver_FLASH2_QSPI quad B rx)"
  by (auto simp: never_programs_def Driver_FLASH2_QSPI_def ARM_Flash_ProgramData_QSPI_def Let_def
      DriverCapabilities_def program_pages_never qspi_program_never split: if_splits)

end
