(* ===== verification/Sim_Serial.thy ===== *)
theory Sim_Serial
  imports Driver_Flash2 Sim_Device
begin

text \<open>
  A concrete serial flash of 4 MiB on either bus, used only to exhibit that the hypotheses of
  \<open>Serial\<close> can hold: its state is computed by replaying the events of the history. It answers
  the commands 03h, 05h and 9Fh and obeys 06h and 20h. It models no code of the repository.
\<close>

record ssim =
  ss_txn :: "u32 list"
  ss_fifo :: "u32 list"
  ss_wel :: bool
  ss_mem :: buf

definition ss_start :: ssim where
  "ss_start = \<lparr>ss_txn = [], ss_fifo = [], ss_wel = False, ss_mem = (\<lambda>x. of_nat x)\<rparr>"

fun ss_addr :: "u32 list \<Rightarrow> nat" where
  "ss_addr (c # x # y # z # r) = unat x * 65536 + unat y * 256 + unat z"
| "ss_addr _ = 0"

definition ss_byte :: "buf \<Rightarrow> u32 list \<Rightarrow> u32" where
  "ss_byte m txn =
     (if hd txn = 0x03 then ucast (m (ss_addr txn + (length txn - 5)))
      else if hd txn = 0x9F then [0, 0xEF, 0x40, 0x16, 0] ! (length txn - 1)
      else 0)"

fun ss_step :: "ser_op \<Rightarrow> ssim \<Rightarrow> ssim" where
  "ss_step SET_SS_LOW s = s\<lparr>ss_txn := []\<rparr>"
| "ss_step (WRITE_TX v) s = s\<lparr>ss_txn := ss_txn s @ [v], ss_fifo := ss_fifo s @ [ss_byte (ss_mem s) (ss_txn s @ [v])]\<rparr>"
| "ss_step READ_RX s = s\<lparr>ss_fifo := tl (ss_fifo s)\<rparr>"
| "ss_step ClearRxFIFO s = s\<lparr>ss_fifo := []\<rparr>"
| "ss_step SET_SS_HIGH s =
     (if ss_txn s = [0x06] then s\<lparr>ss_wel := True\<rparr>
      else if hd (ss_txn s) = 0x20 \<and> ss_wel s
      then s\<lparr>ss_wel := False, ss_mem := flash_erase (ss_mem s) (ss_addr (ss_txn s)) 4096\<rparr>
      else s)"
| "ss_step _ s = s"

fun ss_ev :: "ev \<Rightarrow> ssim \<Rightarrow> ssim" where
  "ss_ev (SPI x) s = ss_step x s"
| "ss_ev (QSPI x) s = ss_step x s"
| "ss_ev _ s = s"

definition ss_run :: "hw \<Rightarrow> ssim" where
  "ss_run t = fold ss_ev t ss_start"

fun ss_answer :: "ev \<Rightarrow> ssim \<Rightarrow> u32" where
  "ss_answer (SPI READ_RX) s = (if ss_fifo s = [] then 0 else hd (ss_fifo s))"
| "ss_answer (QSPI READ_RX) s = (if ss_fifo s = [] then 0 else hd (ss_fifo s))"
| "ss_answer (SPI GET_RX_FIFO_EMPTY_FLAG) s = (if ss_fifo s = [] then 1 else 0)"
| "ss_answer (QSPI GET_RX_FIFO_EMPTY_FLAG) s = (if ss_fifo s = [] then 1 else 0)"
| "ss_answer _ s = 0"

definition ss_bsp :: bsp where
  "ss_bsp = \<lparr>resp = (\<lambda>t. if t = [] then 0 else ss_answer (last t) (ss_run (butlast t))), konst = sim_const\<rparr>"

definition ss_dev :: sdev where
  "ss_dev = \<lparr>sd_mem = (\<lambda>t. ss_mem (ss_run t)), sd_ready = (\<lambda>t. ss_fifo (ss_run t) = []), sd_size = 0x400000\<rparr>"

section \<open>It keeps the laws\<close>

definition ser_bus :: "(ser_op \<Rightarrow> ev) \<Rightarrow> bool" where
  "ser_bus bus \<longleftrightarrow> bus = SPI \<or> bus = QSPI"

lemma ss_bus_simps [simp]:
  "ser_bus bus \<Longrightarrow> ss_ev (bus x) s = ss_step x s"
  "ser_bus bus \<Longrightarrow> ss_answer (bus READ_RX) s = (if ss_fifo s = [] then 0 else hd (ss_fifo s))"
  "ser_bus bus \<Longrightarrow> ss_answer (bus IS_BUSY) s = 0"
  "ser_bus bus \<Longrightarrow> inj bus"
  by (auto simp: ser_bus_def)

lemma ss_resp [simp]: "resp ss_bsp (t @ [e]) = ss_answer e (ss_run t)"
  by (simp add: ss_bsp_def)

lemma ss_run_append [simp]: "ss_run (t @ u) = fold ss_ev u (ss_run t)"
  by (simp add: ss_run_def)

lemma ss_ticks: "Suc 0 < ticks (konst ss_bsp SystemCoreClock)"
  by (simp add: ss_bsp_def ticks_def)

lemma ss_bus_free:
  assumes "ser_bus bus" shows "bus_free bus ss_bsp"
  unfolding bus_free_def
proof (intro allI exI [of _ 0] conjI)
  fix t
  have "resp ss_bsp (t @ [bus IS_BUSY]) = 0" using assms by simp
  then show "resp ss_bsp (t @ ser_polls bus (Suc 0)) = 0" by (simp only: ser_polls_def replicate.simps)
  show "0 < ticks (konst ss_bsp SystemCoreClock)" using ss_ticks by simp
qed simp

lemma ss_run_strip:
  assumes "ser_bus bus" shows "ss_run (strip bus t) = ss_run t"
proof (induction t rule: rev_induct)
  case (snoc e t)
  then show ?case using assms by auto
qed simp

lemma ss_polls_silent: "ser_bus bus \<Longrightarrow> polls_silent bus ss_bsp"
  by (simp add: polls_silent_def ss_run_strip)

lemma ss_addr24:
  "ss_addr (c # (drop_bit 16 a AND 0xFF) # (drop_bit 8 a AND 0xFF) # (a AND 0xFF) # r) = adr a"
proof -
  have m: "unat (w AND 0xFF) = unat w mod 256" for w :: u32
  proof -
    have "(0xFF :: u32) = mask 8" by (simp add: mask_eq_exp_minus_1)
    then have "unat (w AND 0xFF) = unat (take_bit 8 w)" by (simp only: take_bit_eq_mask)
    then show ?thesis by (simp only: unsigned_take_bit_eq) (simp add: take_bit_eq_mod)
  qed
  let ?n = "unat a"
  have "adr a = ?n mod (256 * (256 * 256))" by (simp add: adr_def)
  also have "\<dots> = 256 * (?n div 256 mod (256 * 256)) + ?n mod 256" by (simp only: mod_mult2_eq)
  also have "?n div 256 mod (256 * 256) = 256 * (?n div 256 div 256 mod 256) + ?n div 256 mod 256"
    by (simp only: mod_mult2_eq)
  finally have e: "adr a = 65536 * (?n div 65536 mod 256) + 256 * (?n div 256 mod 256) + ?n mod 256"
    by (simp add: div_mult2_eq [symmetric])
  have "unat (drop_bit 16 a) = ?n div 65536" "unat (drop_bit 8 a) = ?n div 256"
    by (simp_all add: drop_bit_eq_div unat_div)
  then show ?thesis unfolding e ss_addr.simps m by simp
qed

definition ss_reading :: "u32 \<Rightarrow> nat \<Rightarrow> ssim \<Rightarrow> ssim" where
  "ss_reading a k s = s\<lparr>ss_txn := [3, drop_bit 16 a AND 0xFF, drop_bit 8 a AND 0xFF, a AND 0xFF] @ replicate k 0,
     ss_fifo := []\<rparr>"

lemma ss_cmd:
  "ser_bus bus \<Longrightarrow> fold ss_ev (ser_read_cmd bus a) s = ss_reading a 0 s"
  by (simp add: ser_read_cmd_def addr24_def ss_reading_def)

lemma ss_clocked:
  "ser_bus bus \<Longrightarrow> fold ss_ev (ser_clocked bus k) (ss_reading a 0 s) = ss_reading a k s"
proof (induction k)
  case (Suc k)
  have "ser_clocked bus (Suc k) = ser_clocked bus k @ [bus (WRITE_TX 0), bus READ_RX]"
    by (simp add: ser_clocked_def replicate_append_same [symmetric])
  then show ?case using Suc by (simp add: ss_reading_def replicate_append_same)
qed (simp add: ser_clocked_def)

lemma ss_read_law: "ser_bus bus \<Longrightarrow> ser_read_law bus ss_bsp ss_dev"
  unfolding ser_read_law_def
proof (intro allI impI conjI)
  fix u a n k
  assume b: "ser_bus bus" and r: "sd_ready ss_dev u \<and> adr a + n \<le> sd_size ss_dev"
  note st = ss_cmd [OF b] ss_clocked [OF b]
  have "resp ss_bsp ((u @ ser_read_cmd bus a @ ser_clocked bus k @ [bus (WRITE_TX 0)]) @ [bus READ_RX])
      = ucast (ss_mem (ss_run u) (adr a + k))"
    using b by (simp only: ss_resp) (simp add: st, simp add: ss_reading_def ss_byte_def ss_addr24 del: ss_addr.simps)
  then show "ucast (resp ss_bsp (u @ ser_read_cmd bus a @ ser_clocked bus k @ [bus (WRITE_TX 0), bus READ_RX]))
      = sd_mem ss_dev u (adr a + k)"
    by (simp add: ss_dev_def ucast_up_ucast_id is_up)
  show "sd_ready ss_dev (u @ ser_read_cmd bus a @ ser_clocked bus n @ [bus SET_SS_HIGH])"
    "sd_mem ss_dev (u @ ser_read_cmd bus a @ ser_clocked bus n @ [bus SET_SS_HIGH]) = sd_mem ss_dev u"
    using b by (simp_all add: ss_dev_def st) (simp_all add: ss_reading_def)
qed

lemma ss_erase_law: "ser_bus bus \<Longrightarrow> ser_erase_law bus ss_bsp clr ss_dev"
  unfolding ser_erase_law_def
proof (intro allI impI exI [of _ 0] conjI)
  fix u a
  assume b: "ser_bus bus" and "sd_ready ss_dev u \<and> 4096 dvd adr a \<and> adr a + 4096 \<le> sd_size ss_dev"
  define s where "s = fold ss_ev (ser_erase_cmd bus a) (ss_run u)"
  have s: "ss_fifo s = []" "ss_mem s = flash_erase (ss_mem (ss_run u)) (adr a) 4096"
    using b ss_addr24 [of _ a "[]"] unfolding s_def
    by (simp_all add: ser_erase_cmd_def addr24_def del: ss_addr.simps)
  have one: "ser_stats bus clr (Suc 0) = (if clr then [bus ClearRxFIFO] else [])
     @ [bus SET_SS_LOW, bus (WRITE_TX 0x05), bus (WRITE_TX 0), bus SET_SS_HIGH, bus READ_RX] @ [bus READ_RX]"
    by (simp add: ser_stats_def ser_status_cmd_def)
  show "resp ss_bsp (u @ ser_erase_cmd bus a @ ser_stats bus clr (Suc 0)) AND 1 = 0"
    unfolding one append_assoc [symmetric] ss_resp using b s(1)
    by (simp add: s_def [symmetric]) (simp add: ss_byte_def)
  show "sd_ready ss_dev (u @ ser_erase_cmd bus a @ ser_stats bus clr (Suc 0))"
    "sd_mem ss_dev (u @ ser_erase_cmd bus a @ ser_stats bus clr (Suc 0)) = flash_erase (sd_mem ss_dev u) (adr a) 4096"
    using b s by (simp_all add: one ss_dev_def s_def [symmetric])
  show "Suc 0 < ticks (konst ss_bsp SystemCoreClock)" by (rule ss_ticks)
qed simp

lemma ss_laws: "ser_bus bus \<Longrightarrow> ser_laws bus ss_bsp clr ss_dev"
  by (simp add: ser_laws_def ss_bus_free ss_polls_silent ss_read_law ss_erase_law)

lemma ss_spi_ok: "spi_ok ss_bsp ss_dev []"
  unfolding spi_ok_def by (simp add: ss_laws ser_bus_def) (simp add: ss_dev_def ss_run_def ss_start_def)

lemma ss_qspi_ok: "qspi_ok ss_bsp ss_dev []"
  unfolding qspi_ok_def by (simp add: ss_laws ser_bus_def) (simp add: ss_dev_def ss_run_def ss_start_def)

end
