(* ===== verification/Flash_Layout.thy ===== *)
theory Flash_Layout
  imports Prelude
begin

text \<open>
  The eight \<open>partition/flash_layout.h\<close>: one record per platform, with the macros as fields
  and the expressions of the headers. A macro that a header leaves undefined is \<open>None\<close>.
  \<open>spi\<close> is \<open>SECONDARY_SLOT_IN_SPI_FLASH\<close>, which only the M460 knows. \<open>target_ok\<close> is what
  \<open>target.h\<close> checks with \<open>#error\<close>.
\<close>

text \<open>The driver objects that a \<open>FLASH_DEV_NAME\<close> macro can name.\<close>

datatype flash_dev = Dev_FLASH0 | Dev_FLASH1 | Dev_FLASH2

definition FLASH_DEVICE_ID :: u8 where "FLASH_DEVICE_ID = 100"

record flash_layout =
  FLASH_S_PARTITION_SIZE :: u32
  FLASH_NS_PARTITION_SIZE :: u32
  FLASH_MAX_PARTITION_SIZE :: u32
  FLASH_AREA_IMAGE_SECTOR_SIZE :: u32
  FLASH_TOTAL_SIZE :: u32
  FLASH_BASE_ADDRESS :: u32
  FLASH_AREA_BL2_OFFSET :: u32
  FLASH_AREA_BL2_SIZE :: u32
  FLASH_AREA_0_ID :: u8
  FLASH_AREA_0_OFFSET :: u32
  FLASH_AREA_0_SIZE :: u32
  FLASH_AREA_1_ID :: "u8 option"
  FLASH_AREA_1_OFFSET :: "u32 option"
  FLASH_AREA_1_SIZE :: "u32 option"
  FLASH_AREA_2_ID :: u8
  FLASH_AREA_2_OFFSET :: u32
  FLASH_AREA_2_SIZE :: u32
  FLASH_AREA_3_ID :: "u8 option"
  FLASH_AREA_3_OFFSET :: "u32 option"
  FLASH_AREA_3_SIZE :: "u32 option"
  FLASH_AREA_SCRATCH_ID :: u8
  FLASH_AREA_SCRATCH_OFFSET :: u32
  FLASH_AREA_SCRATCH_SIZE :: u32
  MCUBOOT_STATUS_MAX_ENTRIES :: u32
  MCUBOOT_MAX_IMG_SECTORS :: u32
  FLASH_DEV_NAME :: flash_dev
  FLASH_DEV_NAME_0 :: "flash_dev option"
  FLASH_DEVICE_ID_0 :: "u8 option"
  FLASH_DEV_NAME_1 :: "flash_dev option"
  FLASH_DEVICE_ID_1 :: "u8 option"
  FLASH_DEV_NAME_2 :: "flash_dev option"
  FLASH_DEVICE_ID_2 :: "u8 option"
  FLASH_DEV_NAME_3 :: "flash_dev option"
  FLASH_DEVICE_ID_3 :: "u8 option"
  FLASH_DEV_NAME_SCRATCH :: "flash_dev option"
  FLASH_DEVICE_ID_SCRATCH :: "u8 option"
  TFM_HAL_FLASH_PROGRAM_UNIT :: u32

definition flash_layout_m2351 :: "flash_layout" where
  "flash_layout_m2351 = \<lparr>
     FLASH_S_PARTITION_SIZE = 0x40000 - 0x20000, FLASH_NS_PARTITION_SIZE = 0,
     FLASH_MAX_PARTITION_SIZE = 0x40000,
     FLASH_AREA_IMAGE_SECTOR_SIZE = 0x800, FLASH_TOTAL_SIZE = 0x00080000,
     FLASH_BASE_ADDRESS = 0x00000000,
     FLASH_AREA_BL2_OFFSET = 0x0, FLASH_AREA_BL2_SIZE = 0x15000,
     FLASH_AREA_0_ID = 1, FLASH_AREA_0_OFFSET = 0x20000, FLASH_AREA_0_SIZE = 0x8000,
     FLASH_AREA_1_ID = None, FLASH_AREA_1_OFFSET = None, FLASH_AREA_1_SIZE = None,
     FLASH_AREA_2_ID = 1 + 1, FLASH_AREA_2_OFFSET = 0x60000, FLASH_AREA_2_SIZE = 0x8000,
     FLASH_AREA_3_ID = None, FLASH_AREA_3_OFFSET = None, FLASH_AREA_3_SIZE = None,
     FLASH_AREA_SCRATCH_ID = 255, FLASH_AREA_SCRATCH_OFFSET = 0x00100000,
     FLASH_AREA_SCRATCH_SIZE = 0x800,
     MCUBOOT_STATUS_MAX_ENTRIES = ((0x40000 - 0x20000) + 0) div 0x800,
     MCUBOOT_MAX_IMG_SECTORS = ((0x40000 - 0x20000) + 0) div 0x800,
     FLASH_DEV_NAME = Dev_FLASH0,
     FLASH_DEV_NAME_0 = Some Dev_FLASH0, FLASH_DEVICE_ID_0 = Some FLASH_DEVICE_ID,
     FLASH_DEV_NAME_1 = None, FLASH_DEVICE_ID_1 = None,
     FLASH_DEV_NAME_2 = Some Dev_FLASH0, FLASH_DEVICE_ID_2 = Some FLASH_DEVICE_ID,
     FLASH_DEV_NAME_3 = None, FLASH_DEVICE_ID_3 = None,
     FLASH_DEV_NAME_SCRATCH = Some Dev_FLASH1, FLASH_DEVICE_ID_SCRATCH = Some FLASH_DEVICE_ID,
     TFM_HAL_FLASH_PROGRAM_UNIT = 0x8\<rparr>"

definition flash_layout_m2354 :: "flash_layout" where
  "flash_layout_m2354 = \<lparr>
     FLASH_S_PARTITION_SIZE = 0x80000 - 0x20000, FLASH_NS_PARTITION_SIZE = 0,
     FLASH_MAX_PARTITION_SIZE = 0x80000,
     FLASH_AREA_IMAGE_SECTOR_SIZE = 0x800, FLASH_TOTAL_SIZE = 0x00100000,
     FLASH_BASE_ADDRESS = 0x00000000,
     FLASH_AREA_BL2_OFFSET = 0x0, FLASH_AREA_BL2_SIZE = 0x15000,
     FLASH_AREA_0_ID = 1, FLASH_AREA_0_OFFSET = 0x20000, FLASH_AREA_0_SIZE = 0x8000,
     FLASH_AREA_1_ID = None, FLASH_AREA_1_OFFSET = None, FLASH_AREA_1_SIZE = None,
     FLASH_AREA_2_ID = 1 + 1, FLASH_AREA_2_OFFSET = 0xA0000, FLASH_AREA_2_SIZE = 0x8000,
     FLASH_AREA_3_ID = None, FLASH_AREA_3_OFFSET = None, FLASH_AREA_3_SIZE = None,
     FLASH_AREA_SCRATCH_ID = 255, FLASH_AREA_SCRATCH_OFFSET = 0x100000 + 0x800,
     FLASH_AREA_SCRATCH_SIZE = 0x800,
     MCUBOOT_STATUS_MAX_ENTRIES = ((0x80000 - 0x20000) + 0) div 0x800,
     MCUBOOT_MAX_IMG_SECTORS = ((0x80000 - 0x20000) + 0) div 0x800,
     FLASH_DEV_NAME = Dev_FLASH0,
     FLASH_DEV_NAME_0 = Some Dev_FLASH0, FLASH_DEVICE_ID_0 = Some FLASH_DEVICE_ID,
     FLASH_DEV_NAME_1 = None, FLASH_DEVICE_ID_1 = None,
     FLASH_DEV_NAME_2 = Some Dev_FLASH0, FLASH_DEVICE_ID_2 = Some FLASH_DEVICE_ID,
     FLASH_DEV_NAME_3 = None, FLASH_DEVICE_ID_3 = None,
     FLASH_DEV_NAME_SCRATCH = Some Dev_FLASH1, FLASH_DEVICE_ID_SCRATCH = Some FLASH_DEVICE_ID,
     TFM_HAL_FLASH_PROGRAM_UNIT = 0x8\<rparr>"

definition flash_layout_m261 :: "flash_layout" where
  "flash_layout_m261 = \<lparr>
     FLASH_S_PARTITION_SIZE = 0x40000 - 0x20000, FLASH_NS_PARTITION_SIZE = 0,
     FLASH_MAX_PARTITION_SIZE = 0x40000,
     FLASH_AREA_IMAGE_SECTOR_SIZE = 0x800, FLASH_TOTAL_SIZE = 0x00080000,
     FLASH_BASE_ADDRESS = 0x00000000,
     FLASH_AREA_BL2_OFFSET = 0x0, FLASH_AREA_BL2_SIZE = 0x15000,
     FLASH_AREA_0_ID = 1, FLASH_AREA_0_OFFSET = 0x20000, FLASH_AREA_0_SIZE = 0x8000,
     FLASH_AREA_1_ID = None, FLASH_AREA_1_OFFSET = None, FLASH_AREA_1_SIZE = None,
     FLASH_AREA_2_ID = 1 + 1, FLASH_AREA_2_OFFSET = 0x60000, FLASH_AREA_2_SIZE = 0x8000,
     FLASH_AREA_3_ID = None, FLASH_AREA_3_OFFSET = None, FLASH_AREA_3_SIZE = None,
     FLASH_AREA_SCRATCH_ID = 255, FLASH_AREA_SCRATCH_OFFSET = 0x00100000 + 0x800,
     FLASH_AREA_SCRATCH_SIZE = 0x800,
     MCUBOOT_STATUS_MAX_ENTRIES = ((0x40000 - 0x20000) + 0) div 0x800,
     MCUBOOT_MAX_IMG_SECTORS = ((0x40000 - 0x20000) + 0) div 0x800,
     FLASH_DEV_NAME = Dev_FLASH0,
     FLASH_DEV_NAME_0 = Some Dev_FLASH0, FLASH_DEVICE_ID_0 = Some FLASH_DEVICE_ID,
     FLASH_DEV_NAME_1 = None, FLASH_DEVICE_ID_1 = None,
     FLASH_DEV_NAME_2 = Some Dev_FLASH0, FLASH_DEVICE_ID_2 = Some FLASH_DEVICE_ID,
     FLASH_DEV_NAME_3 = None, FLASH_DEVICE_ID_3 = None,
     FLASH_DEV_NAME_SCRATCH = Some Dev_FLASH1, FLASH_DEVICE_ID_SCRATCH = Some FLASH_DEVICE_ID,
     TFM_HAL_FLASH_PROGRAM_UNIT = 0x8\<rparr>"

definition flash_layout_m2l31 :: "flash_layout" where
  "flash_layout_m2l31 = \<lparr>
     FLASH_S_PARTITION_SIZE = 0x40000 - 0x20000, FLASH_NS_PARTITION_SIZE = 0,
     FLASH_MAX_PARTITION_SIZE = 0x40000,
     FLASH_AREA_IMAGE_SECTOR_SIZE = 0x1000, FLASH_TOTAL_SIZE = 0x00080000,
     FLASH_BASE_ADDRESS = 0x00000000,
     FLASH_AREA_BL2_OFFSET = 0x0, FLASH_AREA_BL2_SIZE = 0x15000,
     FLASH_AREA_0_ID = 1, FLASH_AREA_0_OFFSET = 0x20000, FLASH_AREA_0_SIZE = 0x8000,
     FLASH_AREA_1_ID = None, FLASH_AREA_1_OFFSET = None, FLASH_AREA_1_SIZE = None,
     FLASH_AREA_2_ID = 1 + 1, FLASH_AREA_2_OFFSET = 0x60000, FLASH_AREA_2_SIZE = 0x8000,
     FLASH_AREA_3_ID = None, FLASH_AREA_3_OFFSET = None, FLASH_AREA_3_SIZE = None,
     FLASH_AREA_SCRATCH_ID = 255, FLASH_AREA_SCRATCH_OFFSET = 0x0F100000,
     FLASH_AREA_SCRATCH_SIZE = 0x1000,
     MCUBOOT_STATUS_MAX_ENTRIES = ((0x40000 - 0x20000) + 0) div 0x1000,
     MCUBOOT_MAX_IMG_SECTORS = ((0x40000 - 0x20000) + 0) div 0x1000,
     FLASH_DEV_NAME = Dev_FLASH0,
     FLASH_DEV_NAME_0 = Some Dev_FLASH0, FLASH_DEVICE_ID_0 = Some FLASH_DEVICE_ID,
     FLASH_DEV_NAME_1 = None, FLASH_DEVICE_ID_1 = None,
     FLASH_DEV_NAME_2 = Some Dev_FLASH0, FLASH_DEVICE_ID_2 = Some FLASH_DEVICE_ID,
     FLASH_DEV_NAME_3 = None, FLASH_DEVICE_ID_3 = None,
     FLASH_DEV_NAME_SCRATCH = Some Dev_FLASH1, FLASH_DEVICE_ID_SCRATCH = Some FLASH_DEVICE_ID,
     TFM_HAL_FLASH_PROGRAM_UNIT = 0x8\<rparr>"

definition flash_layout_m3331 :: "flash_layout" where
  "flash_layout_m3331 = \<lparr>
     FLASH_S_PARTITION_SIZE = 0x40000 - 0x20000, FLASH_NS_PARTITION_SIZE = 0,
     FLASH_MAX_PARTITION_SIZE = 0x40000,
     FLASH_AREA_IMAGE_SECTOR_SIZE = 0x400, FLASH_TOTAL_SIZE = 0x00080000,
     FLASH_BASE_ADDRESS = 0x00000000,
     FLASH_AREA_BL2_OFFSET = 0x0, FLASH_AREA_BL2_SIZE = 0x15000,
     FLASH_AREA_0_ID = 1, FLASH_AREA_0_OFFSET = 0x20000, FLASH_AREA_0_SIZE = 0x8000,
     FLASH_AREA_1_ID = None, FLASH_AREA_1_OFFSET = None, FLASH_AREA_1_SIZE = None,
     FLASH_AREA_2_ID = 1 + 1, FLASH_AREA_2_OFFSET = 0x60000, FLASH_AREA_2_SIZE = 0x8000,
     FLASH_AREA_3_ID = None, FLASH_AREA_3_OFFSET = None, FLASH_AREA_3_SIZE = None,
     FLASH_AREA_SCRATCH_ID = 255, FLASH_AREA_SCRATCH_OFFSET = 0x0F100000 + 0x400,
     FLASH_AREA_SCRATCH_SIZE = 0x400,
     MCUBOOT_STATUS_MAX_ENTRIES = ((0x40000 - 0x20000) + 0) div 0x400,
     MCUBOOT_MAX_IMG_SECTORS = ((0x40000 - 0x20000) + 0) div 0x400,
     FLASH_DEV_NAME = Dev_FLASH0,
     FLASH_DEV_NAME_0 = Some Dev_FLASH0, FLASH_DEVICE_ID_0 = Some FLASH_DEVICE_ID,
     FLASH_DEV_NAME_1 = None, FLASH_DEVICE_ID_1 = None,
     FLASH_DEV_NAME_2 = Some Dev_FLASH0, FLASH_DEVICE_ID_2 = Some FLASH_DEVICE_ID,
     FLASH_DEV_NAME_3 = None, FLASH_DEVICE_ID_3 = None,
     FLASH_DEV_NAME_SCRATCH = Some Dev_FLASH1, FLASH_DEVICE_ID_SCRATCH = Some FLASH_DEVICE_ID,
     TFM_HAL_FLASH_PROGRAM_UNIT = 0x8\<rparr>"

definition flash_layout_m460 :: "bool \<Rightarrow> flash_layout" where
  "flash_layout_m460 spi = \<lparr>
     FLASH_S_PARTITION_SIZE = 0x80000 - 0x20000, FLASH_NS_PARTITION_SIZE = 0,
     FLASH_MAX_PARTITION_SIZE = 0x80000,
     FLASH_AREA_IMAGE_SECTOR_SIZE = 0x1000, FLASH_TOTAL_SIZE = 0x00100000,
     FLASH_BASE_ADDRESS = 0x00000000,
     FLASH_AREA_BL2_OFFSET = 0x0, FLASH_AREA_BL2_SIZE = 0x15000,
     FLASH_AREA_0_ID = 1, FLASH_AREA_0_OFFSET = 0x20000, FLASH_AREA_0_SIZE = 0x8000,
     FLASH_AREA_1_ID = None, FLASH_AREA_1_OFFSET = None, FLASH_AREA_1_SIZE = None,
     FLASH_AREA_2_ID = 1 + 1, FLASH_AREA_2_OFFSET = (if spi then 0 else 0xA0000), FLASH_AREA_2_SIZE = 0x8000,
     FLASH_AREA_3_ID = None, FLASH_AREA_3_OFFSET = None, FLASH_AREA_3_SIZE = None,
     FLASH_AREA_SCRATCH_ID = 255, FLASH_AREA_SCRATCH_OFFSET = 0x0F100000 + 0x1000,
     FLASH_AREA_SCRATCH_SIZE = 0x1000,
     MCUBOOT_STATUS_MAX_ENTRIES = ((0x80000 - 0x20000) + 0) div 0x1000,
     MCUBOOT_MAX_IMG_SECTORS = ((0x80000 - 0x20000) + 0) div 0x1000,
     FLASH_DEV_NAME = Dev_FLASH0,
     FLASH_DEV_NAME_0 = Some Dev_FLASH0, FLASH_DEVICE_ID_0 = Some FLASH_DEVICE_ID,
     FLASH_DEV_NAME_1 = None, FLASH_DEVICE_ID_1 = None,
     FLASH_DEV_NAME_2 = Some (if spi then Dev_FLASH2 else Dev_FLASH0), FLASH_DEVICE_ID_2 = Some (if spi then 101 else FLASH_DEVICE_ID),
     FLASH_DEV_NAME_3 = None, FLASH_DEVICE_ID_3 = None,
     FLASH_DEV_NAME_SCRATCH = Some Dev_FLASH1, FLASH_DEVICE_ID_SCRATCH = Some FLASH_DEVICE_ID,
     TFM_HAL_FLASH_PROGRAM_UNIT = 0x8\<rparr>"

definition flash_layout_m480 :: "flash_layout" where
  "flash_layout_m480 = \<lparr>
     FLASH_S_PARTITION_SIZE = 0x40000 - 0x20000, FLASH_NS_PARTITION_SIZE = 0,
     FLASH_MAX_PARTITION_SIZE = 0x40000,
     FLASH_AREA_IMAGE_SECTOR_SIZE = 0x1000, FLASH_TOTAL_SIZE = 0x00080000,
     FLASH_BASE_ADDRESS = 0x00000000,
     FLASH_AREA_BL2_OFFSET = 0x0, FLASH_AREA_BL2_SIZE = 0x15000,
     FLASH_AREA_0_ID = 1, FLASH_AREA_0_OFFSET = 0x20000, FLASH_AREA_0_SIZE = 0x8000,
     FLASH_AREA_1_ID = None, FLASH_AREA_1_OFFSET = None, FLASH_AREA_1_SIZE = None,
     FLASH_AREA_2_ID = 1 + 1, FLASH_AREA_2_OFFSET = 0x60000, FLASH_AREA_2_SIZE = 0x8000,
     FLASH_AREA_3_ID = None, FLASH_AREA_3_OFFSET = None, FLASH_AREA_3_SIZE = None,
     FLASH_AREA_SCRATCH_ID = 255, FLASH_AREA_SCRATCH_OFFSET = 0x100000,
     FLASH_AREA_SCRATCH_SIZE = 0x1000,
     MCUBOOT_STATUS_MAX_ENTRIES = ((0x40000 - 0x20000) + 0) div 0x1000,
     MCUBOOT_MAX_IMG_SECTORS = ((0x40000 - 0x20000) + 0) div 0x1000,
     FLASH_DEV_NAME = Dev_FLASH0,
     FLASH_DEV_NAME_0 = Some Dev_FLASH0, FLASH_DEVICE_ID_0 = Some FLASH_DEVICE_ID,
     FLASH_DEV_NAME_1 = None, FLASH_DEVICE_ID_1 = None,
     FLASH_DEV_NAME_2 = Some Dev_FLASH0, FLASH_DEVICE_ID_2 = Some FLASH_DEVICE_ID,
     FLASH_DEV_NAME_3 = None, FLASH_DEVICE_ID_3 = None,
     FLASH_DEV_NAME_SCRATCH = Some Dev_FLASH1, FLASH_DEVICE_ID_SCRATCH = Some FLASH_DEVICE_ID,
     TFM_HAL_FLASH_PROGRAM_UNIT = 0x8\<rparr>"

definition flash_layout_m55m1 :: "flash_layout" where
  "flash_layout_m55m1 = \<lparr>
     FLASH_S_PARTITION_SIZE = 0x100000 - 0x20000, FLASH_NS_PARTITION_SIZE = 0,
     FLASH_MAX_PARTITION_SIZE = 0x100000,
     FLASH_AREA_IMAGE_SECTOR_SIZE = 0x2000, FLASH_TOTAL_SIZE = 0x200000,
     FLASH_BASE_ADDRESS = 0,
     FLASH_AREA_BL2_OFFSET = 0x100000, FLASH_AREA_BL2_SIZE = 0x15000,
     FLASH_AREA_0_ID = 1, FLASH_AREA_0_OFFSET = 0x120000, FLASH_AREA_0_SIZE = 0x8000,
     FLASH_AREA_1_ID = None, FLASH_AREA_1_OFFSET = None, FLASH_AREA_1_SIZE = None,
     FLASH_AREA_2_ID = 1 + 1, FLASH_AREA_2_OFFSET = 0x1A0000, FLASH_AREA_2_SIZE = 0x8000,
     FLASH_AREA_3_ID = None, FLASH_AREA_3_OFFSET = None, FLASH_AREA_3_SIZE = None,
     FLASH_AREA_SCRATCH_ID = 255, FLASH_AREA_SCRATCH_OFFSET = 0x0F100000,
     FLASH_AREA_SCRATCH_SIZE = 0x2000,
     MCUBOOT_STATUS_MAX_ENTRIES = ((0x100000 - 0x20000) + 0) div 0x2000,
     MCUBOOT_MAX_IMG_SECTORS = ((0x100000 - 0x20000) + 0) div 0x2000,
     FLASH_DEV_NAME = Dev_FLASH0,
     FLASH_DEV_NAME_0 = Some Dev_FLASH0, FLASH_DEVICE_ID_0 = Some FLASH_DEVICE_ID,
     FLASH_DEV_NAME_1 = None, FLASH_DEVICE_ID_1 = None,
     FLASH_DEV_NAME_2 = Some Dev_FLASH0, FLASH_DEVICE_ID_2 = Some FLASH_DEVICE_ID,
     FLASH_DEV_NAME_3 = None, FLASH_DEVICE_ID_3 = None,
     FLASH_DEV_NAME_SCRATCH = Some Dev_FLASH1, FLASH_DEVICE_ID_SCRATCH = Some FLASH_DEVICE_ID,
     TFM_HAL_FLASH_PROGRAM_UNIT = 0x8\<rparr>"

text \<open>\<open>bl2/platform/CMakeLists.txt\<close> takes the headers of the platform that is selected.\<close>

datatype platform = M2351 | M2354 | M261 | M2L31 | M3331 | M460 | M480 | M55M1

fun layout_of :: "platform \<Rightarrow> bool \<Rightarrow> flash_layout" where
  "layout_of M2351 spi = flash_layout_m2351"
| "layout_of M2354 spi = flash_layout_m2354"
| "layout_of M261 spi = flash_layout_m261"
| "layout_of M2L31 spi = flash_layout_m2l31"
| "layout_of M3331 spi = flash_layout_m3331"
| "layout_of M460 spi = flash_layout_m460 spi"
| "layout_of M480 spi = flash_layout_m480"
| "layout_of M55M1 spi = flash_layout_m55m1"

text \<open>The \<open>#error\<close> conditions of \<open>target.h\<close> that a layout record can violate.\<close>

definition target_ok :: "nat \<Rightarrow> bool \<Rightarrow> flash_layout \<Rightarrow> bool" where
  "target_ok image_number scratch L \<longleftrightarrow>
     (FLASH_DEV_NAME_0 L = None) = (FLASH_DEVICE_ID_0 L = None)
   \<and> (FLASH_DEV_NAME_2 L = None) = (FLASH_DEVICE_ID_2 L = None)
   \<and> (image_number = 2 \<longrightarrow>
        FLASH_AREA_1_OFFSET L \<noteq> None \<and> FLASH_AREA_1_SIZE L \<noteq> None
      \<and> (FLASH_DEV_NAME_1 L = None) = (FLASH_DEVICE_ID_1 L = None)
      \<and> FLASH_AREA_3_OFFSET L \<noteq> None \<and> FLASH_AREA_3_SIZE L \<noteq> None
      \<and> (FLASH_DEV_NAME_3 L = None) = (FLASH_DEVICE_ID_3 L = None))
   \<and> (scratch \<longrightarrow> (FLASH_DEV_NAME_SCRATCH L = None) = (FLASH_DEVICE_ID_SCRATCH L = None))"

lemmas layout_defs = flash_layout_m2351_def flash_layout_m2354_def flash_layout_m261_def
  flash_layout_m2l31_def flash_layout_m3331_def flash_layout_m460_def flash_layout_m480_def
  flash_layout_m55m1_def FLASH_DEVICE_ID_def

end
