(* ===== verification/Default_Flash_Map.thy ===== *)
theory Default_Flash_Map
  imports Flash_Map Flash_Layout
begin

text \<open>
  \<open>bl2/src/default_flash_map.c\<close>: the table \<open>flash_map\<close> and the driver list, built from a
  layout. \<open>drivers\<close> resolves a driver name to the driver object. What the preprocessor
  decides (\<open>MCUBOOT_IMAGE_NUMBER\<close>, \<open>MCUBOOT_SWAP_USING_SCRATCH\<close>) is an argument; a table
  that does not compile is \<open>None\<close>. Proved here: which entry looking up an ID finds, what a
  sound layout is and that the layouts of all platforms are, their tables, and where the areas lie that
  can be opened.
\<close>

section \<open>The tables\<close>

text \<open>
  \<open>#if !defined(FLASH_DEV_NAME_n) || !defined(FLASH_DEVICE_ID_n)\<close>: the default device is
  taken for both macros.
\<close>

definition dev_or_default :: "flash_layout \<Rightarrow> flash_dev option \<Rightarrow> u8 option \<Rightarrow> flash_dev \<times> u8" where
  "dev_or_default L name dev_id =
     (case (name, dev_id) of (Some n, Some i) \<Rightarrow> (n, i) | _ \<Rightarrow> (FLASH_DEV_NAME L, FLASH_DEVICE_ID))"

definition FLASH_DEV_0 :: "flash_layout \<Rightarrow> flash_dev \<times> u8" where
  "FLASH_DEV_0 L = dev_or_default L (FLASH_DEV_NAME_0 L) (FLASH_DEVICE_ID_0 L)"

definition FLASH_DEV_1 :: "flash_layout \<Rightarrow> flash_dev \<times> u8" where
  "FLASH_DEV_1 L = dev_or_default L (FLASH_DEV_NAME_1 L) (FLASH_DEVICE_ID_1 L)"

definition FLASH_DEV_2 :: "flash_layout \<Rightarrow> flash_dev \<times> u8" where
  "FLASH_DEV_2 L = dev_or_default L (FLASH_DEV_NAME_2 L) (FLASH_DEVICE_ID_2 L)"

definition FLASH_DEV_3 :: "flash_layout \<Rightarrow> flash_dev \<times> u8" where
  "FLASH_DEV_3 L = dev_or_default L (FLASH_DEV_NAME_3 L) (FLASH_DEVICE_ID_3 L)"

definition FLASH_DEV_SCRATCH :: "flash_layout \<Rightarrow> flash_dev \<times> u8" where
  "FLASH_DEV_SCRATCH L = dev_or_default L (FLASH_DEV_NAME_SCRATCH L) (FLASH_DEVICE_ID_SCRATCH L)"

text \<open>
  The value of a driver name in an \<open>#if\<close> expression: an identifier that is no macro counts
  as 0, so a comparison of two driver names compares 0 with 0.
\<close>

definition pp_value :: "flash_dev \<Rightarrow> int" where
  "pp_value d = 0"

text \<open>The default list \<open>flash_driver[]\<close>; an entry is kept when its \<open>#if\<close> is true.\<close>

definition flash_driver :: "nat \<Rightarrow> bool \<Rightarrow> flash_layout \<Rightarrow> flash_dev list" where
  "flash_driver image_number scratch L =
     (let differs = (\<lambda>d. pp_value (fst d) \<noteq> pp_value (FLASH_DEV_NAME L))
      in [FLASH_DEV_NAME L]
       @ (if differs (FLASH_DEV_0 L) then [fst (FLASH_DEV_0 L)] else [])
       @ (if differs (FLASH_DEV_1 L) then [fst (FLASH_DEV_1 L)] else [])
       @ (if differs (FLASH_DEV_2 L) then [fst (FLASH_DEV_2 L)] else [])
       @ (if image_number = 2
          then (if differs (FLASH_DEV_1 L) then [fst (FLASH_DEV_1 L)] else [])
             @ (if differs (FLASH_DEV_3 L) then [fst (FLASH_DEV_3 L)] else [])
          else [])
       @ (if scratch \<and> differs (FLASH_DEV_SCRATCH L) then [fst (FLASH_DEV_SCRATCH L)] else []))"

definition map_entry :: "(flash_dev \<Rightarrow> 's ARM_DRIVER_FLASH) \<Rightarrow> flash_dev \<times> u8 \<Rightarrow> u8 \<Rightarrow> u32 \<Rightarrow> u32 \<Rightarrow>
    's flash_area" where
  "map_entry drivers dev aid off sz =
     \<lparr>fa_id = aid, fa_device_id = snd dev, fa_driver = drivers (fst dev), fa_off = off, fa_size = sz\<rparr>"

definition flash_map :: "(flash_dev \<Rightarrow> 's ARM_DRIVER_FLASH) \<Rightarrow> nat \<Rightarrow> bool \<Rightarrow> flash_layout \<Rightarrow>
    's flash_area list option" where
  "flash_map drivers image_number scratch L = do {
     second \<leftarrow> (if image_number = 2 then do {
         i1 \<leftarrow> FLASH_AREA_1_ID L; o1 \<leftarrow> FLASH_AREA_1_OFFSET L; z1 \<leftarrow> FLASH_AREA_1_SIZE L;
         i3 \<leftarrow> FLASH_AREA_3_ID L; o3 \<leftarrow> FLASH_AREA_3_OFFSET L; z3 \<leftarrow> FLASH_AREA_3_SIZE L;
         Some [map_entry drivers (FLASH_DEV_1 L) i1 o1 z1, map_entry drivers (FLASH_DEV_3 L) i3 o3 z3] }
       else Some []);
     Some ([map_entry drivers (FLASH_DEV_0 L) (FLASH_AREA_0_ID L) (FLASH_AREA_0_OFFSET L)
              (FLASH_AREA_0_SIZE L),
            map_entry drivers (FLASH_DEV_2 L) (FLASH_AREA_2_ID L) (FLASH_AREA_2_OFFSET L)
              (FLASH_AREA_2_SIZE L)]
           @ second
           @ (if scratch
              then [map_entry drivers (FLASH_DEV_SCRATCH L) (FLASH_AREA_SCRATCH_ID L)
                      (FLASH_AREA_SCRATCH_OFFSET L) (FLASH_AREA_SCRATCH_SIZE L)]
              else [])) }"

section \<open>Looking up areas\<close>

text \<open>The loop stops at the first entry with the ID.\<close>

lemma open_loop_first:
  "flash_area_open_loop m x i
     = (if i \<le> length m then i + length (takeWhile (\<lambda>a. fa_id a \<noteq> x) (drop i m)) else i)"
proof (induction m x i rule: flash_area_open_loop.induct)
  case (1 m x i)
  show ?case
  proof (cases "i < length m")
    case True
    then have "drop i m = m ! i # drop (Suc i) m" by (rule Cons_nth_drop_Suc [symmetric])
    then show ?thesis
      using 1 True by (subst flash_area_open_loop.simps) (auto simp: Suc_le_eq)
  next
    case False
    then show ?thesis by (subst flash_area_open_loop.simps) auto
  qed
qed

lemma flash_area_open_found:
  assumes "k < length m" "fa_id (m ! k) = x" "\<And>j. j < k \<Longrightarrow> fa_id (m ! j) \<noteq> x"
  shows "flash_area_open m x a = (0, Some (m ! k))"
proof -
  have "takeWhile (\<lambda>a. fa_id a \<noteq> x) m = take k m"
    using assms by (intro takeWhile_eq_take_P_nth) auto
  then show ?thesis
    using assms(1) by (simp add: flash_area_open_def open_loop_first Let_def)
qed

lemma flash_area_open_missing:
  assumes "\<And>A. A \<in> set m \<Longrightarrow> fa_id A \<noteq> x"
  shows "flash_area_open m x a = (-1, a)"
proof -
  have "length (takeWhile (\<lambda>a. fa_id a \<noteq> x) m) = length m" using assms by (simp add: takeWhile_eq_all_conv [THEN iffD2])
  then show ?thesis by (simp add: flash_area_open_def open_loop_first Let_def)
qed

lemma layout_devs:
  "FLASH_DEV_NAME (layout_of p spi) = Dev_FLASH0" "fst (FLASH_DEV_0 (layout_of p spi)) = Dev_FLASH0"
  "fst (FLASH_DEV_SCRATCH (layout_of p spi)) = Dev_FLASH1"
  "fst (FLASH_DEV_2 (layout_of p spi)) = (if p = M460 \<and> spi then Dev_FLASH2 else Dev_FLASH0)"
  by (cases p; simp add: layout_defs FLASH_DEV_0_def FLASH_DEV_2_def FLASH_DEV_SCRATCH_def
        dev_or_default_def)+

lemma layout_ids:
  "FLASH_AREA_0_ID (layout_of p spi) = 1" "FLASH_AREA_2_ID (layout_of p spi) = 2"
  "FLASH_AREA_SCRATCH_ID (layout_of p spi) = 255"
  by (cases p; simp add: layout_defs)+

section \<open>Sound layouts\<close>

text \<open>
  What the swap algorithms need of a layout: sectors divide offsets and sizes, both slots have
  the same size, the boot loader, the slots and the end of the flash do not overlap when they
  are in the same device, an image has at most \<open>MCUBOOT_MAX_IMG_SECTORS\<close> sectors, and the
  scratch area is one sector.
\<close>

definition layout_sound :: "flash_layout \<Rightarrow> bool" where
  "layout_sound L \<longleftrightarrow> (let z = unat (FLASH_AREA_IMAGE_SECTOR_SIZE L) in
     0 < z \<and> z dvd unat (FLASH_AREA_0_OFFSET L) \<and> z dvd unat (FLASH_AREA_0_SIZE L)
   \<and> z dvd unat (FLASH_AREA_2_OFFSET L) \<and> z dvd unat (FLASH_AREA_2_SIZE L)
   \<and> z dvd unat (FLASH_AREA_SCRATCH_OFFSET L) \<and> unat (FLASH_AREA_SCRATCH_SIZE L) = z
   \<and> FLASH_AREA_0_SIZE L = FLASH_AREA_2_SIZE L
   \<and> unat (FLASH_AREA_BL2_OFFSET L) + unat (FLASH_AREA_BL2_SIZE L) \<le> unat (FLASH_AREA_0_OFFSET L)
   \<and> (fst (FLASH_DEV_2 L) = fst (FLASH_DEV_0 L) \<longrightarrow>
        unat (FLASH_AREA_0_OFFSET L) + unat (FLASH_AREA_0_SIZE L) \<le> unat (FLASH_AREA_2_OFFSET L)
      \<and> unat (FLASH_AREA_2_OFFSET L) + unat (FLASH_AREA_2_SIZE L) \<le> unat (FLASH_TOTAL_SIZE L))
   \<and> unat (FLASH_AREA_0_OFFSET L) + unat (FLASH_AREA_0_SIZE L) \<le> unat (FLASH_TOTAL_SIZE L)
   \<and> unat (FLASH_AREA_0_SIZE L) div z \<le> unat (MCUBOOT_MAX_IMG_SECTORS L))"

lemma layouts_sound: "layout_sound (layout_of p spi)"
  by (cases p; cases spi) (simp_all add: layout_sound_def layout_defs FLASH_DEV_0_def FLASH_DEV_2_def
      dev_or_default_def Let_def)

section \<open>The tables of the platforms\<close>

lemma flash_map_table:
  assumes "flash_map drivers 1 scratch (layout_of p spi) = Some m"
  defines "L \<equiv> layout_of p spi"
  shows "m = [map_entry drivers (Dev_FLASH0, FLASH_DEVICE_ID) 1 (FLASH_AREA_0_OFFSET L) (FLASH_AREA_0_SIZE L),
      map_entry drivers (if p = M460 \<and> spi then (Dev_FLASH2, 101) else (Dev_FLASH0, FLASH_DEVICE_ID)) 2
        (FLASH_AREA_2_OFFSET L) (FLASH_AREA_2_SIZE L)]
      @ (if scratch then [map_entry drivers (Dev_FLASH1, FLASH_DEVICE_ID) 255
        (FLASH_AREA_SCRATCH_OFFSET L) (FLASH_AREA_SCRATCH_SIZE L)] else [])"
proof -
  have "FLASH_DEV_0 L = (Dev_FLASH0, FLASH_DEVICE_ID)"
    "FLASH_DEV_2 L = (if p = M460 \<and> spi then (Dev_FLASH2, 101) else (Dev_FLASH0, FLASH_DEVICE_ID))"
    "FLASH_DEV_SCRATCH L = (Dev_FLASH1, FLASH_DEVICE_ID)"
    unfolding L_def by (cases p; simp add: layout_defs FLASH_DEV_0_def FLASH_DEV_2_def FLASH_DEV_SCRATCH_def
        dev_or_default_def)+
  then show ?thesis
    using assms(1) layout_ids [of p spi] by (cases scratch) (auto simp: flash_map_def L_def)
qed

lemma fa_id_map_entry [simp]: "fa_id (map_entry drivers d x off sz) = x"
  by (simp add: map_entry_def)

lemma flash_map_slots:
  assumes "flash_map drivers 1 scratch (layout_of p spi) = Some m"
  shows "flash_area_open m 1 area = (0, Some (m ! 0))" "flash_area_open m 2 area = (0, Some (m ! 1))"
  by (rule flash_area_open_found; simp add: flash_map_table [OF assms])+

lemma flash_map_scratch:
  assumes "flash_map drivers 1 True (layout_of p spi) = Some m"
  shows "flash_area_open m 255 area = (0, Some (m ! 2))"
proof -
  have "fa_id (m ! j) \<noteq> 255" if "j < 2" for j
  proof -
    have "j = 0 \<or> j = 1" using that by linarith
    then show ?thesis by (elim disjE) (simp_all add: flash_map_table [OF assms])
  qed
  then show ?thesis by (intro flash_area_open_found) (simp_all add: flash_map_table [OF assms])
qed

lemma open_cases:
  assumes "flash_map drivers 1 scratch (layout_of p spi) = Some m"
    and "flash_area_open m x None = (0, Some A)"
  obtains "x = 1" "A = m ! 0" | "x = 2" "A = m ! 1" | "scratch" "x = 255" "A = m ! 2"
proof -
  note t = flash_map_table [OF assms(1)]
  have "x \<in> fa_id ` set m" using assms(2) flash_area_open_missing [of m x None] by force
  then consider "x = 1" | "x = 2" | "scratch" "x = 255" by (auto simp: t split: if_splits)
  then show ?thesis
  proof cases
    case 3
    then show ?thesis using assms that(3) flash_map_scratch [of drivers p spi m None] by simp
  qed (use assms that(1,2) flash_map_slots [OF assms(1), of None] in simp_all)
qed

section \<open>Where the areas are\<close>

definition bl2_end :: "flash_layout \<Rightarrow> nat" where
  "bl2_end L = unat (FLASH_AREA_BL2_OFFSET L) + unat (FLASH_AREA_BL2_SIZE L)"

lemma layout_scratch_8:
  "8 dvd unat (FLASH_AREA_SCRATCH_OFFSET (layout_of p spi)) \<and> 8 dvd unat (FLASH_AREA_SCRATCH_SIZE (layout_of p spi))
   \<and> unat (FLASH_TOTAL_SIZE (layout_of p spi)) \<le> unat (FLASH_AREA_SCRATCH_OFFSET (layout_of p spi))"
  by (cases p) (simp_all add: layout_defs)

lemma layout_scratch_sectors:
  "unat (FLASH_AREA_IMAGE_SECTOR_SIZE (layout_of p spi)) = unat (FLASH_AREA_SCRATCH_SIZE (layout_of p spi))"
  using layouts_sound [of p spi] by (simp add: layout_sound_def Let_def)

text \<open>No platform has a second image.\<close>

lemma flash_map_images:
  assumes "flash_map drivers n scratch (layout_of p spi) = Some m"
  shows "flash_map drivers 1 scratch (layout_of p spi) = Some m"
  using assms by (cases p) (auto simp: flash_map_def layout_defs split: if_splits)

text \<open>Areas with different IDs do not overlap, not even as offsets in different devices.\<close>

lemma areas_disjoint:
  assumes "flash_map drivers 1 scratch (layout_of p spi) = Some m"
    and "flash_area_open m x None = (0, Some A)" and "flash_area_open m y None = (0, Some A')" and "x \<noteq> y"
  shows "unat (fa_off A) + unat (fa_size A) \<le> unat (fa_off A') \<or> unat (fa_off A') + unat (fa_size A') \<le> unat (fa_off A)"
proof -
  have S: "unat (FLASH_AREA_0_OFFSET (layout_of p spi)) + unat (FLASH_AREA_0_SIZE (layout_of p spi)) \<le> unat (FLASH_AREA_2_OFFSET (layout_of p spi))
    \<or> unat (FLASH_AREA_2_OFFSET (layout_of p spi)) + unat (FLASH_AREA_2_SIZE (layout_of p spi)) \<le> unat (FLASH_AREA_0_OFFSET (layout_of p spi))"
    "unat (FLASH_AREA_0_OFFSET (layout_of p spi)) + unat (FLASH_AREA_0_SIZE (layout_of p spi)) \<le> unat (FLASH_AREA_SCRATCH_OFFSET (layout_of p spi))"
    "unat (FLASH_AREA_2_OFFSET (layout_of p spi)) + unat (FLASH_AREA_2_SIZE (layout_of p spi)) \<le> unat (FLASH_AREA_SCRATCH_OFFSET (layout_of p spi))"
    by (cases p; cases spi; simp add: layout_defs)+
  show ?thesis
    by (rule open_cases [OF assms(1,2)]; rule open_cases [OF assms(1,3)])
      (use assms(4) S in \<open>auto simp: flash_map_table [OF assms(1)] map_entry_def\<close>)
qed

text \<open>An opened area is made of sectors and lies behind the boot loader when it is in the same device.\<close>

lemma opened_area_sound:
  assumes "flash_map drivers 1 scratch (layout_of p spi) = Some m" and "flash_area_open m x None = (0, Some A)"
  defines "L \<equiv> layout_of p spi"
  shows "unat (FLASH_AREA_IMAGE_SECTOR_SIZE L) dvd unat (fa_off A)"
    and "unat (FLASH_AREA_IMAGE_SECTOR_SIZE L) dvd unat (fa_size A)" and "0 < unat (fa_size A)"
    and "x = 2 \<and> p = M460 \<and> spi \<or> bl2_end L \<le> unat (fa_off A)"
    and "x = 255 \<or> fa_size A = FLASH_AREA_0_SIZE L"
    and "x = 255 \<or> x = 2 \<and> p = M460 \<and> spi \<or> unat (fa_off A) + unat (fa_size A) \<le> unat (FLASH_TOTAL_SIZE L)"
proof -
  note S = layouts_sound [of p spi, folded L_def, unfolded layout_sound_def Let_def]
    layout_scratch_8 [of p spi, folded L_def] layout_devs [of p spi, folded L_def] layout_scratch_sectors [of p spi, folded L_def]
  have z: "0 < unat (FLASH_AREA_0_SIZE L)" unfolding L_def by (cases p) (simp_all add: layout_defs)
  note t = flash_map_table [OF assms(1), folded L_def]
  have c: "x = 1 \<and> A = m ! 0 \<or> x = 2 \<and> A = m ! 1 \<or> x = 255 \<and> scratch \<and> A = m ! 2"
    by (rule open_cases [OF assms(1,2)]) auto
  show "unat (FLASH_AREA_IMAGE_SECTOR_SIZE L) dvd unat (fa_off A)"
    "unat (FLASH_AREA_IMAGE_SECTOR_SIZE L) dvd unat (fa_size A)" "0 < unat (fa_size A)"
    "x = 2 \<and> p = M460 \<and> spi \<or> bl2_end L \<le> unat (fa_off A)"
    "x = 255 \<or> fa_size A = FLASH_AREA_0_SIZE L"
    "x = 255 \<or> x = 2 \<and> p = M460 \<and> spi \<or> unat (fa_off A) + unat (fa_size A) \<le> unat (FLASH_TOTAL_SIZE L)"
    using c S z by (auto simp: t map_entry_def bl2_end_def split: if_split_asm)
qed

end
