(* ===== verification/Read_Bounds.thy ===== *)
theory Read_Bounds
  imports Driver_Flash2 Flash_Map_Read
begin

text \<open>
  Where reading writes, whatever the hardware answers: no theorem here has a hypothesis about a
  device. The locale \<open>bounded_reads\<close> is the contract of a driver that stores nothing outside of the items
  that it was asked for; every driver of the repository keeps it, for every controller and bus. Proved
  over it: \<open>flash_area_read\<close> stays inside the buffer of the caller and returns 0 or a negative error.
\<close>

locale bounded_reads =
  fixes D :: "'s ARM_DRIVER_FLASH"
  assumes word_items: "table_get data_width_byte (data_width (GetCapabilities D ())) = Some 4"
    and read_stays: "ReadData D a dst p cnt s = Some (r, dst', s') \<Longrightarrow> k < p \<or> p + unat (cnt * 4) \<le> k \<Longrightarrow> dst' k = dst k"

section \<open>The area over such a driver\<close>

lemma head_length:
  fixes m len :: u32
  assumes "0 < unat m" "unat m < 4" "m + len \<ge> 4"
  shows "unat (4 - m) = 4 - unat m" "4 - unat m \<le> unat len"
proof -
  show "unat (4 - m) = 4 - unat m" using assms(2) by (subst unat_sub32) (simp_all add: word_le_nat_alt)
  have "4 \<le> unat (m + len)" using assms(3) by (simp add: word_le_nat_alt)
  moreover have "unat (m + len) \<le> unat m + unat len"
    by (simp add: unat_word_ariths)
  ultimately show "4 - unat m \<le> unat len" by linarith
qed

context bounded_reads
begin

text \<open>After the first part, \<open>i\<close> and the remaining length make up the length of the request.\<close>

lemma head_stays:
  assumes "fa_driver A = D" "flash_area_read_head ind A off dst len 4 s = Some (ret, i, dst', tmp, rem, s')"
    "unat len \<le> k"
  shows "dst' k = dst k" "\<not> ret < 0 \<Longrightarrow> rem \<noteq> 0 \<Longrightarrow> unat i + unat rem = unat len"
proof -
  let ?m = "off - FLOOR_ALIGN off 4"
  define n where "n = (if ?m + len \<ge> 4 then 4 - ?m else len)"
  have m: "unat ?m = unat off mod 4" by (rule off_minus_floor4)
  have b: "unat n \<le> unat len \<and> (n = len \<or> unat n < 4)" if "FLOOR_ALIGN off 4 \<noteq> off"
    using that head_length [of ?m len] unfolding floor4_neq n_def m by auto
  consider "ret < 0" "dst' = dst"
    | "\<not> ret < 0" "dst' = dst" "i = 0" "rem = len"
    | "\<not> ret < 0" "FLOOR_ALIGN off 4 \<noteq> off" "dst' = copy_bytes dst 0 tmp (unat ?m) (unat n)"
      "i = ucast n" "rem = len - n"
    using assms(2) unfolding flash_area_read_head_def n_def
    by (cases "ret < 0") (auto simp: Let_def bind_eq_Some_conv split: if_split_asm)
  note c = this
  show "dst' k = dst k"
    by (cases rule: c) (use assms(3) b in \<open>auto simp: copy_bytes_apply\<close>)
  show "unat i + unat rem = unat len" if r: "\<not> ret < 0" "rem \<noteq> 0"
  proof (cases rule: c)
    case 3
    then have "unat n \<le> unat len" "unat n < 4" using b r by auto
    moreover from this have "unat (ucast n :: u8) = unat n" by (simp add: unsigned_ucast_eq take_bit_nat_eq_self)
    ultimately show ?thesis using 3 by (simp add: unat_sub32 word_le_nat_alt)
  qed (use r in simp_all)
qed

lemma items_stay:
  assumes "fa_driver A = D" "flash_area_read_items A off i dst rem 4 ret s = Some (ret', dst', rem', s')"
    "rem \<noteq> 0 \<Longrightarrow> unat i + unat rem = n" "n \<le> k"
  shows "dst' k = dst k" "\<not> ret' < 0 \<Longrightarrow> rem' = rem - rem div 4 * 4"
proof -
  have q: "unat (rem div 4 * 4) \<le> unat rem"
    by (simp add: word_le_nat_alt [symmetric] word_div_mult_le)
  have c: "(rem = 0 \<or> rem div 4 = 0) \<and> dst' = dst \<and> rem' = rem
    \<or> rem \<noteq> 0 \<and> (\<exists>s1. ReadData D (fa_off A + off + ucast i) dst (unat i) (rem div 4) s = Some (ret', dst', s1))
      \<and> (\<not> ret' < 0 \<longrightarrow> rem' = rem - rem div 4 * 4)"
  proof (cases "rem = 0 \<or> rem div 4 = 0")
    case True
    then show ?thesis using assms(2) by (auto simp: flash_area_read_items_def)
  next
    case False
    then show ?thesis using assms(1,2)
      by (auto simp: flash_area_read_items_def Let_def bind_eq_Some_conv simp del: word_neq_0_conv split: if_split_asm)
  qed
  show "dst' k = dst k"
  proof (cases "rem = 0 \<or> dst' = dst")
    case False
    then obtain s1 where "rem \<noteq> 0" and rd: "ReadData D (fa_off A + off + ucast i) dst (unat i) (rem div 4) s = Some (ret', dst', s1)"
      using c by blast
    then have "unat i + unat (rem div 4 * 4) \<le> k" using assms(3,4) q by simp
    then show ?thesis using read_stays [OF rd] by blast
  qed (use c in auto)
  show "rem' = rem - rem div 4 * 4" if "\<not> ret' < 0" using c that by auto
qed

lemma tail_stays:
  assumes "fa_driver A = D" "flash_area_read_tail A off i (rem div 4) dst tmp (rem - rem div 4 * 4) 4 ret s = Some (ret', dst', s')"
    "rem \<noteq> 0 \<Longrightarrow> unat i + unat rem = n" "n < 2 ^ 32" "n \<le> k"
  shows "dst' k = dst k"
proof (cases "rem - rem div 4 * 4 = 0")
  case True
  then show ?thesis using assms(2) by (simp add: flash_area_read_tail_def)
next
  case False
  then have "rem \<noteq> 0" by auto
  then have n: "unat i + unat rem = n" by (rule assms(3))
  have q: "rem div 4 * 4 \<le> rem" by (rule word_div_mult_le)
  then have q': "unat (rem div 4 * 4) \<le> unat rem" by (simp add: word_le_nat_alt)
  have "unat (ucast i + rem div 4 * 4 :: u32) = unat i + unat (rem div 4 * 4)"
    using n q' assms(4) by (subst unat_add32) simp_all
  then have "unat (ucast i + rem div 4 * 4 :: u32) + unat (rem - rem div 4 * 4) \<le> k"
    using q q' n assms(5) by (simp add: unat_sub32)
  then show ?thesis
    using assms(2) False by (auto simp: flash_area_read_tail_def bind_eq_Some_conv copy_bytes_apply split: if_split_asm)
qed

lemma area_read_stays:
  assumes "fa_driver A = D" "flash_area_read safe_add ind (Some A) off dst len s = Some (r, dst', s')"
  shows "r \<le> 0 \<and> (\<forall>k \<ge> unat len. dst' k = dst k)"
proof (cases "is_range_valid safe_add (Some A) off len")
  case True
  obtain r1 i d1 tmp rem s1 where h: "flash_area_read_head ind A off dst len 4 s = Some (r1, i, d1, tmp, rem, s1)"
    using assms True word_items by (auto simp: flash_area_read_def bind_eq_Some_conv)
  note H = head_stays [OF assms(1) h]
  show ?thesis
  proof (cases "r1 < 0")
    case True
    then have "r = r1" "dst' = d1" using assms \<open>is_range_valid _ _ _ _\<close> word_items h by (auto simp: flash_area_read_def)
    then show ?thesis using True H(1) by auto
  next
    case False
    have rest: "do { (ret, dst, rem', t) \<leftarrow> flash_area_read_items A off i d1 rem 4 r1 s1;
        if ret < 0 then Some (ret, dst, t)
        else do { (ret, dst, t) \<leftarrow> flash_area_read_tail A off i (rem div 4) dst tmp rem' 4 ret t;
                  if ret < 0 then Some (ret, dst, t) else Some (0, dst, t) } } = Some (r, dst', s')"
      using assms \<open>is_range_valid _ _ _ _\<close> word_items h False by (simp add: flash_area_read_def)
    then obtain r2 d2 rem2 s2 where i: "flash_area_read_items A off i d1 rem 4 r1 s1 = Some (r2, d2, rem2, s2)"
      by (auto simp: bind_eq_Some_conv)
    have sum: "rem \<noteq> 0 \<Longrightarrow> unat i + unat rem = unat len" using H(2) [OF order_refl False] .
    have d2: "d2 k = dst k" if "unat len \<le> k" for k
      using items_stay(1) [OF assms(1) i sum that] H(1) [OF that] by simp
    show ?thesis
    proof (cases "r2 < 0")
      case True
      then show ?thesis using rest i d2 by auto
    next
      case False
      have e: "rem2 = rem - rem div 4 * 4" using items_stay(2) [OF assms(1) i sum order_refl False] by simp
      obtain r3 d3 s3 where t: "flash_area_read_tail A off i (rem div 4) d2 tmp (rem - rem div 4 * 4) 4 r2 s2 = Some (r3, d3, s3)"
        using rest i False e by (auto simp: bind_eq_Some_conv)
      have "d3 k = dst k" if "unat len \<le> k" for k
        using tail_stays [OF assms(1) t sum unat_less32 that] d2 [OF that] by simp
      then show ?thesis using rest i False e t by (auto split: if_split_asm)
    qed
  qed
qed (use assms in \<open>simp add: flash_area_read_def\<close>)

end

section \<open>The drivers of the repository\<close>

lemma word_items_driver: "table_get data_width_byte (data_width (ARM_Flash_GetCapabilities ())) = Some 4"
  by (simp add: ARM_Flash_GetCapabilities_def DriverCapabilities_def)

lemma read_loop_stays:
  assumes "ARM_Flash_ReadData_loop N addr dest p remain rd s = Some (r, dest', s')"
    "k < p \<or> p + unat remain \<le> k"
  shows "dest' k = dest k"
  using assms
proof (induction N addr dest p remain rd s arbitrary: r dest' s' rule: ARM_Flash_ReadData_loop.induct)
  case (1 N addr dest p remain rd s)
  show ?case
  proof (cases "remain > 0")
    case False
    then show ?thesis using 1(2) by (subst (asm) ARM_Flash_ReadData_loop.simps) simp
  next
    case True
    obtain ret w s1 where n: "nvmc_read N addr (Some rd) s = Some (ret, Some w, s1)"
      using 1(2) True by (subst (asm) ARM_Flash_ReadData_loop.simps) (auto simp: bind_eq_Some_conv)
    show ?thesis
    proof (cases "ret = NVT_NVMC_OK \<and> remain > 4")
      case True
      then have l: "ARM_Flash_ReadData_loop N (addr + 4) (copy_bytes dest p (bytes32 w) 0 4) (p + 4) (remain - 4) w s1
          = Some (r, dest', s')"
        using 1(2) \<open>remain > 0\<close> n by (subst (asm) ARM_Flash_ReadData_loop.simps) simp
      have u: "unat (remain - 4) + 4 = unat remain" using True by (simp add: unat_sub32 word_less_nat_alt word_le_nat_alt)
      have "k < p + 4 \<or> p + 4 + unat (remain - 4) \<le> k" using 1(3) u by linarith
      then have "dest' k = copy_bytes dest p (bytes32 w) 0 4 k"
        using "1.IH" [OF \<open>remain > 0\<close> n refl refl refl _ _ l] True by simp
      then show ?thesis using 1(3) u by (auto simp: copy_bytes_apply)
    next
      case False
      then show ?thesis
        using 1(2,3) \<open>remain > 0\<close> n
        by (subst (asm) ARM_Flash_ReadData_loop.simps) (auto simp: copy_bytes_apply word_less_nat_alt split: if_split_asm)
    qed
  qed
qed

lemma dev_read_stays:
  assumes "dev_read dev ind N a dst p cnt s = Some (r, dst', s')" "k < p \<or> p + unat (cnt * 4) \<le> k"
  shows "dst' k = dst k"
  using assms read_loop_stays
  by (fastforce simp: dev_read_def ARM_Flash_ReadData_Internal_def bind_eq_Some_conv split: if_split_asm)

interpretation flash0_reads: bounded_reads "Driver_FLASH0 B rmc ind N" for B rmc ind N
  by unfold_locales (simp_all add: Driver_FLASH0_def word_items_driver read_eq_dev dev_read_stays)

interpretation flash1_reads: bounded_reads "Driver_FLASH1 B rmc ind N" for B rmc ind N
  by unfold_locales (simp_all add: Driver_FLASH1_def word_items_driver read_eq_dev dev_read_stays)

text \<open>The serial flash: a read of \<open>len\<close> bytes, and the loops over pages.\<close>

lemma ser_read_loop_stays:
  "k < p \<or> p + unat len \<le> k \<Longrightarrow> fst (ser_read_loop bus msg B cnt len d p t) k = d k"
proof (induction bus msg B cnt len d p t rule: ser_read_loop.induct)
  case (1 bus msg B cnt len d p t)
  show ?case
  proof (cases "cnt < len")
    case True
    then have "k \<noteq> p + unat cnt" using 1(2) by (auto simp: word_less_nat_alt)
    then show ?thesis
      using True 1 by (subst ser_read_loop.simps) (auto simp: Let_def ask_def fun_upd_def)
  next
    case False
    then show ?thesis by (subst ser_read_loop.simps) simp
  qed
qed

definition stays :: "(u32 \<Rightarrow> u32 \<Rightarrow> buf \<Rightarrow> nat \<Rightarrow> 's \<Rightarrow> int \<times> buf \<times> 's) \<Rightarrow> bool" where
  "stays rd \<longleftrightarrow> (\<forall>a len dst p s k. k < p \<or> p + unat len \<le> k \<longrightarrow> fst (snd (rd a len dst p s)) k = dst k)"

lemma nvspi_stays: "stays (NVT_NVSPI_Read B)"
  by (auto simp: stays_def NVT_NVSPI_Read_def Let_def split_beta ser_read_loop_stays)

lemma nvqspi_stays: "stays (NVT_NVQSPI_Read quad B)"
  by (auto simp: stays_def NVT_NVQSPI_Read_def Let_def split_beta ser_read_loop_stays)

lemma nvspim_stays: "stays (NVT_NVSPIM_Read B)"
  by (auto simp: stays_def NVT_NVSPIM_Read_def NVT_SPIM_DMA_Read_def Let_def copy_bytes_apply)

text \<open>One page of a loop, then the rest.\<close>

lemma page_rest:
  assumes "stays rd" "rd addr (chunk page sz) dst p s = (r, d, s1)" "k < p \<or> p + unat sz \<le> k"
  shows "d k = dst k" "k < p + unat (chunk page sz) \<or> p + unat (chunk page sz) + unat (sz - chunk page sz) \<le> k"
proof -
  have c: "unat (chunk page sz) \<le> unat sz" by (simp add: unat_chunk)
  then have "unat (sz - chunk page sz) = unat sz - unat (chunk page sz)"
    by (simp add: unat_sub32 word_le_nat_alt)
  then show "k < p + unat (chunk page sz) \<or> p + unat (chunk page sz) + unat (sz - chunk page sz) \<le> k"
    using assms(3) c by linarith
  have "k < p \<or> p + unat (chunk page sz) \<le> k" using assms(3) c by linarith
  then show "d k = dst k" using assms(1,2) unfolding stays_def by (metis fst_conv snd_conv)
qed

lemma read_pages_stays:
  assumes "read_pages rd page addr dst p sz s = Some (r, dst', s')" "stays rd" "k < p \<or> p + unat sz \<le> k"
  shows "dst' k = dst k"
proof -
  have "stays rd \<longrightarrow> k < p \<or> p + unat sz \<le> k \<longrightarrow> fst (snd (r, dst', s')) k = dst k"
  proof (rule read_pages.raw_induct [OF _ assms(1), where P = "\<lambda>rd page addr dst p sz s y.
      stays rd \<longrightarrow> k < p \<or> p + unat sz \<le> k \<longrightarrow> fst (snd y) k = dst k"], intro impI)
    fix f :: "(u32 \<Rightarrow> u32 \<Rightarrow> buf \<Rightarrow> nat \<Rightarrow> 's \<Rightarrow> int \<times> buf \<times> 's) \<Rightarrow> u32 \<Rightarrow> u32 \<Rightarrow> buf \<Rightarrow> nat \<Rightarrow> u32 \<Rightarrow> 's \<Rightarrow> (int \<times> buf \<times> 's) option"
      and rd :: "u32 \<Rightarrow> u32 \<Rightarrow> buf \<Rightarrow> nat \<Rightarrow> 's \<Rightarrow> int \<times> buf \<times> 's" and page addr sz :: u32 and dst :: buf and p :: nat and s :: 's and y
    assume IH: "\<And>rd page addr dst p sz s y. f rd page addr dst p sz s = Some y \<Longrightarrow>
        stays rd \<longrightarrow> k < p \<or> p + unat sz \<le> k \<longrightarrow> fst (snd y) k = dst k"
      and eq: "(if sz \<noteq> 0 then let u32Len = chunk page sz; (r, dst, s) = rd addr u32Len dst p s
            in if r \<noteq> 0 then Some (ARM_DRIVER_ERROR, dst, s) else f rd page (addr + u32Len) dst (p + unat u32Len) (sz - u32Len) s
          else Some (ARM_DRIVER_OK, dst, s)) = Some y"
      and st: "stays rd" and k: "k < p \<or> p + unat sz \<le> k"
    obtain r1 d1 s1 where rd: "rd addr (chunk page sz) dst p s = (r1, d1, s1)" by (metis prod_cases3)
    note pr = page_rest [OF st rd k]
    show "fst (snd y) k = dst k"
      using eq pr(1) IH [of rd page "addr + chunk page sz" d1 "p + unat (chunk page sz)" "sz - chunk page sz" s1 y] pr(2) st
      by (auto simp: rd Let_def split: if_split_asm)
  qed
  then show ?thesis using assms by simp
qed

lemma spim_read_pages_stays:
  assumes "spim_read_pages B addr dst p sz t = Some (r, dst', t')" "k < p \<or> p + unat sz \<le> k"
  shows "dst' k = dst k"
proof -
  have "k < p \<or> p + unat sz \<le> k \<longrightarrow> fst (snd (r, dst', t')) k = dst k"
  proof (rule spim_read_pages.raw_induct [OF _ assms(1), where P = "\<lambda>B addr dst p sz t y.
      k < p \<or> p + unat sz \<le> k \<longrightarrow> fst (snd y) k = dst k"], intro impI)
    fix f :: "bsp \<Rightarrow> u32 \<Rightarrow> buf \<Rightarrow> nat \<Rightarrow> u32 \<Rightarrow> hw \<Rightarrow> (int \<times> buf \<times> hw) option"
      and B addr sz and dst :: buf and p :: nat and t :: hw and y
    assume IH: "\<And>B addr dst p sz t y. f B addr dst p sz t = Some y \<Longrightarrow>
        k < p \<or> p + unat sz \<le> k \<longrightarrow> fst (snd y) k = dst k"
      and eq: "(if sz \<noteq> 0 then let u32Len = chunk NVT_NVSPIM_PAGE_SIZE sz; (_, dst, t) = NVT_NVSPIM_Read B addr u32Len dst p t
            in f B (addr + u32Len) dst (p + unat u32Len) (sz - u32Len) t
          else Some (ARM_DRIVER_OK, dst, t)) = Some y"
      and k: "k < p \<or> p + unat sz \<le> k"
    obtain r1 d1 s1 where rd: "NVT_NVSPIM_Read B addr (chunk NVT_NVSPIM_PAGE_SIZE sz) dst p t = (r1, d1, s1)" by (metis prod_cases3)
    note pr = page_rest [OF nvspim_stays rd k]
    show "fst (snd y) k = dst k"
      using eq pr IH by (fastforce simp: rd Let_def split: if_split_asm)
  qed
  then show ?thesis using assms by simp
qed

interpretation spi_reads: bounded_reads "Driver_FLASH2_SPI B rx" for B rx
  by unfold_locales (auto simp: Driver_FLASH2_SPI_def word_items_driver ARM_Flash_ReadData_SPI_def
      DriverCapabilities_def Let_def split: if_split_asm dest: read_pages_stays [OF _ nvspi_stays])

interpretation qspi_reads: bounded_reads "Driver_FLASH2_QSPI quad B rx" for quad B rx
  by unfold_locales (auto simp: Driver_FLASH2_QSPI_def word_items_driver ARM_Flash_ReadData_QSPI_def
      DriverCapabilities_def Let_def split: if_split_asm dest: read_pages_stays [OF _ nvqspi_stays])

interpretation spim_reads: bounded_reads "Driver_FLASH2_SPIM B" for B
  by unfold_locales (auto simp: Driver_FLASH2_SPIM_def word_items_driver ARM_Flash_ReadData_SPIM_def
      DriverCapabilities_def Let_def split: if_split_asm dest: spim_read_pages_stays)

end
