(* ===== verification/Serial_Props.thy ===== *)
theory Serial_Props
  imports Sim_Serial Board Default_Flash_Map Read_Bounds
begin

text \<open>
  Properties of a secondary slot in serial flash, and of reading through any driver: the buffer that
  is written, what reading and erasing the slot does, that
  writing it never succeeds, the 24-bit addresses of the QSPI driver, the identification of the
  device, and the driver of the SPIM.
\<close>

section \<open>The buffer of the caller\<close>

text \<open>
  C37. Reading is memory safe through each of the five flash drivers, for any behaviour of the hardware - wrong
  data, time-outs and failing controllers included -, any request, in range or not, and whatever
  \<open>boot_u32_safe_add\<close> answers. If \<open>flash_area_read\<close> returns, it has written no byte from \<open>dst + len\<close>
  on, and the result is 0 or a negative error code.
\<close>

theorem read_stays_in_buffer:
  assumes "fa_driver A \<in> {Driver_FLASH0 B rmc u N, Driver_FLASH1 B rmc u N, Driver_FLASH2_SPI B u,
      Driver_FLASH2_QSPI quad B u, Driver_FLASH2_SPIM B}"
    and "flash_area_read safe_add ind (Some A) off dst len t = Some (r, dst', t')"
  shows "(\<forall>k \<ge> unat len. dst' k = dst k) \<and> r \<le> 0"
proof -
  from assms(1) consider "fa_driver A = Driver_FLASH0 B rmc u N" | "fa_driver A = Driver_FLASH1 B rmc u N"
    | "fa_driver A = Driver_FLASH2_SPI B u" | "fa_driver A = Driver_FLASH2_QSPI quad B u"
    | "fa_driver A = Driver_FLASH2_SPIM B" by blast
  then have "r \<le> 0 \<and> (\<forall>k \<ge> unat len. dst' k = dst k)"
    by cases (fact flash0_reads.area_read_stays [OF _ assms(2)] flash1_reads.area_read_stays [OF _ assms(2)]
        spi_reads.area_read_stays [OF _ assms(2)] qspi_reads.area_read_stays [OF _ assms(2)]
        spim_reads.area_read_stays [OF _ assms(2)])+
  then show ?thesis by blast
qed

text \<open>Ten bytes from an unaligned offset: the eleventh of the buffer is as it was.\<close>

theorem read_stays_in_buffer_witness:
  "\<exists>r dst' t'. flash_area_read sim_safe_add sim_ind (Some (sim_area False)) 3 (\<lambda>_. 0x33) 10 [] = Some (r, dst', t')
    \<and> dst' 10 = 0x33 \<and> r \<le> 0"
proof -
  obtain r dst' t' where f: "flash_area_read sim_safe_add sim_ind (Some (sim_area False)) 3 (\<lambda>_. 0x33) 10 [] = Some (r, dst', t')"
    using aprom.flash_area_read_ok [OF sim_board_ok aprom_area_ok [OF sim_aprom_area] sim_safe_add_spec,
      of 3 10 False sim_ind "\<lambda>_. 0x33" "[]"] by (auto simp: sim_area_def)
  have "fa_driver (sim_area False) = Driver_FLASH0 sim_bsp False sim_ind (linked_nvmc sim_bsp False)"
    using sim_aprom_area [of False] by (simp add: aprom_area_def area_ok8_def area_ok_def)
  then show ?thesis using f read_stays_in_buffer [OF _ f, where B = sim_bsp and rmc = False and u = sim_ind
      and N = "linked_nvmc sim_bsp False" and quad = False] by auto
qed

section \<open>Flash areas in serial flash\<close>

definition spi_area :: "u32 \<Rightarrow> hw flash_area" where
  "spi_area sz = \<lparr>fa_id = 2, fa_device_id = 101, fa_driver = Driver_FLASH2_SPI ss_bsp sim_ind, fa_off = 0, fa_size = sz\<rparr>"

lemma spi_area_ok: "unat sz \<le> 0x400000 \<Longrightarrow> 4 dvd unat sz \<Longrightarrow>
    area_ok (spi_area sz) (Driver_FLASH2_SPI ss_bsp sim_ind) 0 (sd_size ss_dev)"
  by (simp add: area_ok_def spi_area_def ss_dev_def)

text \<open>
  C14. Reading any offset and length of a slot on the SPI flash returns 0 and delivers exactly
  the content of the flash, through 24-bit read commands of at most a page each; the flash is
  unchanged and ready again.
\<close>

theorem spi_slot_read:
  assumes "spi_ok B F t" and "area_ok A (Driver_FLASH2_SPI B rx) 0 (sd_size F)"
    and "safe_add_spec safe_add" and "unat off + unat len \<le> unat (fa_size A)"
  shows "\<exists>t'. flash_area_read safe_add ind (Some A) off dst len t
      = Some (0, copy_bytes dst 0 (\<lambda>k. sd_mem F (strip SPI t) (unat (fa_off A) + unat off + k)) 0 (unat len), t')
    \<and> spi_ok B F t' \<and> sd_mem F (strip SPI t') = sd_mem F (strip SPI t)"
  by (rule spi_flash.flash_area_read_ok [OF assms])

theorem spi_slot_read_witness:
  "\<exists>t'. flash_area_read sim_safe_add sim_ind (Some (spi_area 0x8000)) 5 sim_ind 300 []
      = Some (0, copy_bytes sim_ind 0 (\<lambda>k. of_nat (5 + k)) 0 300, t')"
  using spi_slot_read [OF ss_spi_ok spi_area_ok sim_safe_add_spec, of "0x8000" 5 300 sim_ind sim_ind]
  by (auto simp: spi_area_def ss_dev_def ss_run_def ss_start_def)

text \<open>
  C15. Erasing a slot on the SPI flash from a 4 KiB boundary returns 0 after the device has
  become ready again, and sets exactly the 4 KiB sectors that cover the request to \<open>0xFF\<close>.
\<close>

theorem spi_slot_erase:
  assumes "spi_ok B F t" and "area_ok A (Driver_FLASH2_SPI B rx) 0 (sd_size F)"
    and "safe_add_spec safe_add" and "unat off + unat len \<le> unat (fa_size A)"
    and "4096 dvd unat (fa_off A) + unat off"
    and "unat off + sectors_for (unat len) 4096 * 4096 \<le> unat (fa_size A)"
  shows "\<exists>t'. flash_area_erase safe_add (Some A) off len t = Some (0, t') \<and> spi_ok B F t'
    \<and> sd_mem F (strip SPI t') = flash_erase (sd_mem F (strip SPI t)) (unat (fa_off A) + unat off)
        (sectors_for (unat len) 4096 * 4096)"
  by (rule spi_flash.flash_area_erase_ok [OF assms])

theorem spi_slot_erase_witness:
  "\<exists>t'. flash_area_erase sim_safe_add (Some (spi_area 0x8000)) 0x1000 0x2000 [] = Some (0, t')
    \<and> sd_mem ss_dev (strip SPI t') = flash_erase of_nat 0x1000 0x2000"
  using spi_slot_erase [OF ss_spi_ok spi_area_ok sim_safe_add_spec, of "0x8000" "0x1000" "0x2000"]
  by (auto simp: spi_area_def ss_dev_def ss_run_def ss_start_def sectors_for_def)

lemma qspi_driver_never: "never_programs (Driver_FLASH2_QSPI quad B rx)"
  by (rule qspi_never_programs)

lemma serial_width:
  "data_width (GetCapabilities (Driver_FLASH2_SPI B rx) ()) = 2"
  "data_width (GetCapabilities (Driver_FLASH2_QSPI quad B rx) ()) = 2"
  by (simp_all add: Driver_FLASH2_SPI_def Driver_FLASH2_QSPI_def ARM_Flash_GetCapabilities_def DriverCapabilities_def)

text \<open>
  C16. No write of a non-empty range to an area on the SPI or the QSPI flash returns 0, whatever
  the device does: the page program of both drivers loops for ever. The bootutil library can
  therefore neither store image trailers nor swap images in such a slot.
\<close>

theorem serial_slot_write_never:
  assumes "fa_driver A = Driver_FLASH2_SPI B rx \<or> fa_driver A = Driver_FLASH2_QSPI quad B rx" and "len \<noteq> 0"
  shows "flash_area_write safe_add 8 ind (Some A) off src len t \<noteq> Some (0, t')"
  using assms(1)
  by (elim disjE) (rule flash_area_write_never; simp add: spi_never_programs qspi_never_programs serial_width assms(2))+

theorem serial_slot_write_never_witness:
  "(\<forall>t'. flash_area_write sim_safe_add 8 sim_ind (Some (spi_area 0x8000)) 0 of_nat 8 [] \<noteq> Some (0, t'))
   \<and> fa_driver (spi_area 0x8000) = Driver_FLASH2_SPI ss_bsp sim_ind"
  using serial_slot_write_never [where A = "spi_area 0x8000" and B = ss_bsp and rx = sim_ind and len = 8]
  by (simp add: spi_area_def)

text \<open>
  In the M460 build with the secondary slot in serial flash over SPI or QSPI, looking up the
  ID of the secondary image area succeeds, and no non-empty write to the area found succeeds:
  the build offers an upgrade slot that nothing can be written to.
\<close>

lemma m460_secondary_slot_unusable:
  assumes "flash_map drivers 1 scratch (layout_of M460 True) = Some m"
    and "drivers Dev_FLASH2 = Driver_FLASH2_SPI B rx \<or> drivers Dev_FLASH2 = Driver_FLASH2_QSPI quad B rx"
    and "len \<noteq> 0"
  shows "\<exists>A. flash_area_open m 2 area = (0, Some A) \<and> fa_off A = 0 \<and> fa_size A = 0x8000
    \<and> flash_area_write safe_add 8 ind (Some A) off src len t \<noteq> Some (0, t')"
proof -
  let ?L = "layout_of M460 True"
  have m: "m ! 1 = map_entry drivers (FLASH_DEV_2 ?L) 2 0 0x8000" "1 < length m" "fa_id (m ! 0) = 1"
    using assms(1) layout_ids [of M460 True]
    by (auto simp: flash_map_def map_entry_def) (simp_all add: layout_defs)
  have d: "fa_driver (m ! 1) = drivers Dev_FLASH2"
    using m(1) layout_devs(4) [of M460 True] by (simp add: map_entry_def)
  have "flash_area_open m 2 area = (0, Some (m ! 1))"
    by (rule flash_area_open_found) (use m in \<open>auto simp: map_entry_def\<close>)
  moreover have "flash_area_write safe_add 8 ind (Some (m ! 1)) off src len t \<noteq> Some (0, t')"
    using assms(2) d
    by (elim disjE) (rule flash_area_write_never; simp add: spi_never_programs qspi_never_programs serial_width assms(3))+
  ultimately show ?thesis using m(1) by (simp add: map_entry_def)
qed

definition spi_drivers :: "flash_dev \<Rightarrow> hw ARM_DRIVER_FLASH" where
  "spi_drivers d = (case d of Dev_FLASH2 \<Rightarrow> Driver_FLASH2_SPI ss_bsp sim_ind
     | _ \<Rightarrow> Driver_FLASH0 ss_bsp False sim_ind (linked_nvmc ss_bsp False))"

lemma m460_secondary_slot_unusable_witness:
  "\<exists>m A. flash_map spi_drivers 1 True (layout_of M460 True) = Some m
    \<and> flash_area_open m 2 None = (0, Some A)
    \<and> flash_area_write sim_safe_add 8 sim_ind (Some A) 0 of_nat 4 [] \<noteq> Some (0, [])"
proof -
  obtain m where m: "flash_map spi_drivers 1 True (layout_of M460 True) = Some m" by (simp add: flash_map_def)
  show ?thesis
    using m m460_secondary_slot_unusable [OF m, where B = ss_bsp and rx = sim_ind and len = 4 and area = None
        and safe_add = sim_safe_add and ind = sim_ind and off = 0 and src = of_nat and t = "[]" and t' = "[]"]
    by (auto simp: spi_drivers_def)
qed

section \<open>Addresses and identification\<close>

text \<open>
  C22. The QSPI driver accepts every address below 32 MiB but sends 24 address bits: a read of
  \<open>n\<close> items at an address of the upper half returns \<open>ARM_DRIVER_OK\<close> with the content that is
  16 MiB lower.
\<close>

theorem qspi_upper_half_aliases:
  assumes "qspi_ok B F t" and "2 ^ 24 \<le> unat a" and "unat a < 2 ^ 25"
    and "unat a - 2 ^ 24 + 4 * unat cnt \<le> sd_size F"
  shows "\<exists>t'. ReadData (Driver_FLASH2_QSPI False B rx) a dst p cnt t
      = Some (ARM_DRIVER_OK, copy_bytes dst p (\<lambda>k. sd_mem F (strip QSPI t) (unat a - 2 ^ 24 + k)) 0 (4 * unat cnt), t')"
proof -
  have g: "ser_laws QSPI B True F \<and> sd_ready F (strip QSPI t)" and z: "sd_size F \<le> 2 ^ 24"
    using assms(1) by (simp_all add: qspi_ok_def)
  obtain d where d: "unat a = 2 ^ 24 + d" using assms(2) le_Suc_ex by blast
  then have "d < 2 ^ 24" using assms(3) by simp
  then have ad: "adr a = unat a - 2 ^ 24" using d by (simp add: adr_def)
  have sz: "unat (cnt * 4) = 4 * unat cnt" using assms(4) z by (simp add: unat_mult32)
  have "is_range_valid_QSPI a = 0"
    using assms(3) by (simp add: is_range_valid_QSPI_def range_valid_serial word_less_nat_alt)
  then show ?thesis
    using nvqspi.read_pages_ok [OF g, of a "cnt * 4" NVT_NVQSPI_PAGE_SIZE dst p] assms(4) z
    by (auto simp: Driver_FLASH2_QSPI_def ARM_Flash_ReadData_QSPI_def DriverCapabilities_def ad sz
        NVT_NVQSPI_PAGE_SIZE_def NVT_NVQSPI_MEMORY_BASE_def)
qed

theorem qspi_upper_half_aliases_witness:
  "\<exists>t'. ReadData (Driver_FLASH2_QSPI False ss_bsp sim_ind) 0x1000010 sim_ind 0 2 []
      = Some (0, copy_bytes sim_ind 0 (\<lambda>k. of_nat (16 + k)) 0 8, t')"
  using qspi_upper_half_aliases [OF ss_qspi_ok, of "0x1000010" 2 sim_ind sim_ind 0]
  by (auto simp: ss_dev_def ss_run_def ss_start_def)

text \<open>
  C23. \<open>SpiFlash_ReadJedecID\<close> clocks five bytes and drains the receive FIFO into an array of
  four. With \<open>n\<close> bytes in the FIFO: up to four bytes are stored in order and the ID is made of
  bytes 1 to 3; with more, the code writes behind its array.
\<close>

theorem jedec_id_buffer:
  assumes "n < 256"
    and "rx_fifo SPI B (wait_SPI_IS_BUSY B (t @ [SPI SET_SS_LOW, SPI (WRITE_TX 0x9F), SPI (WRITE_TX 0),
            SPI (WRITE_TX 0), SPI (WRITE_TX 0), SPI (WRITE_TX 0)]) @ [SPI SET_SS_HIGH]) n"
  shows "(n = 4 \<longrightarrow> (\<exists>t' x0 x1 x2 x3. SpiFlash_ReadJedecID B rx t
             = Some (push_bit 16 (ucast (x1 :: u8)) OR push_bit 8 (ucast (x2 :: u8)) OR ucast (x3 :: u8), t')
           \<and> [x0, x1, x2, x3] = map (\<lambda>k. ucast (resp B (wait_SPI_IS_BUSY B (t @ [SPI SET_SS_LOW,
                SPI (WRITE_TX 0x9F), SPI (WRITE_TX 0), SPI (WRITE_TX 0), SPI (WRITE_TX 0), SPI (WRITE_TX 0)])
                @ [SPI SET_SS_HIGH] @ ser_drained SPI (Suc k)))) [0..<4]))
       \<and> (4 < n \<longrightarrow> SpiFlash_ReadJedecID B rx t = None)"
proof -
  let ?t = "wait_SPI_IS_BUSY B (t @ [SPI SET_SS_LOW, SPI (WRITE_TX 0x9F), SPI (WRITE_TX 0),
            SPI (WRITE_TX 0), SPI (WRITE_TX 0), SPI (WRITE_TX 0)]) @ [SPI SET_SS_HIGH]"
  let ?f = "\<lambda>k. ucast (resp B (?t @ ser_drained SPI (Suc k))) :: u8"
  have j: "SpiFlash_ReadJedecID B rx t = do { (rx, t) \<leftarrow> ser_drain SPI B rx 0 ?t; Some (jedec_id rx, t) }"
    by (simp add: SpiFlash_ReadJedecID_def Let_def)
  have "\<exists>t' x0 x1 x2 x3. SpiFlash_ReadJedecID B rx t
             = Some (push_bit 16 (ucast (x1 :: u8)) OR push_bit 8 (ucast (x2 :: u8)) OR ucast (x3 :: u8), t')
      \<and> [x0, x1, x2, x3] = map ?f [0..<4]" if "n = 4"
  proof -
    have "ser_drain SPI B rx 0 ?t = Some (copy_bytes rx 0 ?f 0 4, ?t @ ser_drained SPI 4 @ [SPI GET_RX_FIFO_EMPTY_FLAG])"
      using ser_drain_ok [OF assms(2), of 0 rx] that by simp
    moreover have c: "copy_bytes rx 0 g 0 4 k = g k" if "k < 4" for g k
      using that by (simp add: copy_bytes_apply del: copy_bytes.simps)
    have "copy_bytes rx 0 ?f 0 4 1 = ?f 1" "copy_bytes rx 0 ?f 0 4 2 = ?f 2" "copy_bytes rx 0 ?f 0 4 3 = ?f 3"
      by (rule c, simp)+
    moreover have "[0..<4] = [0, 1, 2, 3 :: nat]" by (simp add: upt_rec)
    then have "map ?f [0..<4] = [?f 0, ?f 1, ?f 2, ?f 3]" by (simp only: list.map)
    ultimately show ?thesis unfolding j by (simp add: jedec_id_def)
  qed
  moreover have "SpiFlash_ReadJedecID B rx t = None" if "4 < n"
    using ser_drain_overflow [OF assms(2), of 0 rx] that unfolding j by simp
  ultimately show ?thesis by simp
qed

theorem jedec_id_buffer_witness:
  "SpiFlash_ReadJedecID ss_bsp sim_ind [] = None"
proof -
  have w: "wait_SPI_IS_BUSY ss_bsp t = t @ [SPI IS_BUSY]" for t
    unfolding wait_SPI_IS_BUSY_def by (subst ser_wait.simps) (simp add: ask_def)
  have "rx_fifo SPI ss_bsp (wait_SPI_IS_BUSY ss_bsp ([] @ [SPI SET_SS_LOW, SPI (WRITE_TX 0x9F), SPI (WRITE_TX 0),
            SPI (WRITE_TX 0), SPI (WRITE_TX 0), SPI (WRITE_TX 0)]) @ [SPI SET_SS_HIGH]) 5"
    unfolding w by (simp add: eval_nat_numeral rx_fifo_Suc)
      (simp add: rx_fifo_def ser_drained_def ss_bsp_def ss_run_def ss_start_def ss_byte_def eval_nat_numeral)
  from jedec_id_buffer [OF _ this, of sim_ind] show ?thesis by simp
qed

text \<open>
  C24. The wait loops of the SPI driver end for any device: polling the bus makes at most one
  poll per decrement of the counter that starts at \<open>SystemCoreClock\<close> (a counter of 0 wraps and
  gives 2^32), then prints and goes on as if the bus were free.
\<close>

theorem spi_wait_bounded:
  "\<exists>n \<le> ticks (konst B SystemCoreClock). wait_SPI_IS_BUSY B t = t @ ser_polls SPI n
     \<or> wait_SPI_IS_BUSY B t = t @ ser_polls SPI n @ [Printf spi_timeout_msg]"
  unfolding wait_SPI_IS_BUSY_def by (rule ser_wait_bounded)

section \<open>The SPIM\<close>

text \<open>
  \<open>NVT_NVSPIM_Erase\<close> never reports an error: when it returns, the result is 0. The check of
  the write-enable latch cannot fail, since the status loop before it only ends once the latch
  is set, and the final status is dropped; \<open>ARM_Flash_EraseSector_SPIM\<close> therefore only refuses
  addresses beyond the end, the end itself included among the accepted.
\<close>

lemma spim_erase_never_fails:
  assumes "SR_WEL B \<noteq> 0" and "SR_WEL B AND SR_WIP B = 0"
    and "ARM_Flash_EraseSector_SPIM B addr t = Some (r, t')"
  shows "r = (if konst B SPIM_DMM_SIZE < addr then ARM_DRIVER_ERROR_PARAMETER else ARM_DRIVER_OK)"
proof (cases "konst B SPIM_DMM_SIZE < addr")
  case True
  then show ?thesis using assms(3)
    by (simp add: ARM_Flash_EraseSector_SPIM_def spim_out_of_range_def NVT_NVSPIM_MEMORY_BASE_def)
next
  case False
  then obtain e t1 where e: "NVT_NVSPIM_Erase B addr t = Some (e, t1)"
    "(if e \<noteq> 0 then ARM_DRIVER_ERROR else ARM_DRIVER_OK) = r"
    using assms(3)
    by (auto simp: ARM_Flash_EraseSector_SPIM_def spim_out_of_range_def NVT_NVSPIM_MEMORY_BASE_def
        bind_eq_Some_conv split: if_splits)
  then show ?thesis using False spim_erase_zero [OF assms(1,2) e(1)] by simp
qed

text \<open>A status register that reads 2 after the latch is set: write enabled, not busy; then 0.\<close>

definition spim_bsp :: bsp where
  "spim_bsp = \<lparr>resp = (\<lambda>t. if Reg_Wr ''SPIM->TX[0]'' 0x20 \<in> set t then 0 else 2),
     konst = (\<lambda>c. if c = SPIM_DMM_SIZE then 0x02000000
                  else if c = Konst ''SR_WEL'' then 2 else if c = Konst ''SR_WIP'' then 1
                  else if c = Konst ''OPCODE_SE_4K'' then 0x20 else 0)\<rparr>"

lemma spim_bsp_erase: "\<exists>r t'. ARM_Flash_EraseSector_SPIM spim_bsp 0x1000 [] = Some (r, t')"
proof -
  have l: "spim_status_loop B fl v t
      = (if resp B (t @ spim_go @ [Reg_Rd ''SPIM->RX[0]'']) AND ucast fl = ucast v
         then Some (ucast (resp B (t @ spim_go @ [Reg_Rd ''SPIM->RX[0]''])), t @ spim_go @ [Reg_Rd ''SPIM->RX[0]''])
         else spim_status_loop B fl v (t @ spim_go @ [Reg_Rd ''SPIM->RX[0]'']))"
    if "resp B (t @ spim_go @ [Reg_Rd ''SPIM->RX[0]'']) = 0 \<or> resp B (t @ spim_go @ [Reg_Rd ''SPIM->RX[0]'']) = 2"
      "fl = 3 \<and> v = 2 \<or> fl = 1 \<and> v = 0" for B fl v t
    using that by (subst spim_status_loop.simps) (auto simp: NVT_SPIM_IO_Read_def ask_def)
  show ?thesis
    by (simp add: ARM_Flash_EraseSector_SPIM_def spim_out_of_range_def NVT_NVSPIM_MEMORY_BASE_def
        NVT_NVSPIM_Erase_def SPIFLASH_WriteEnable_def SPIFLASH_CheckStatus_def SR_WEL_def SR_WIP_def msk_def
        spim_io_mode_def modify_def NVT_SPIM_IO_Write_def spim_ss_def spim_go_def ask_def Let_def l spim_bsp_def)
qed

lemma spim_erase_never_fails_witness:
  "\<exists>t'. ARM_Flash_EraseSector_SPIM spim_bsp 0x1000 [] = Some (0, t')"
proof -
  obtain r t' where r: "ARM_Flash_EraseSector_SPIM spim_bsp 0x1000 [] = Some (r, t')" using spim_bsp_erase by blast
  have "r = 0"
    using spim_erase_never_fails [OF _ _ r] by (simp add: SR_WEL_def SR_WIP_def msk_def spim_bsp_def)
  then show ?thesis using r by simp
qed

text \<open>
  C25. When \<open>NVT_NVSPIM_Init\<close> returns 0 for a function code that selects pins (top byte \<open>0xAD\<close>),
  the registers were unlocked, each of the four selection codes names a pin of its table, and
  the flash answered with an ID other than all zeros and all ones.
\<close>

theorem spim_init_ok:
  assumes "NVT_NVSPIM_Init B fnc t = Some (0, t')" and "drop_bit 24 fnc AND 0xFF = 0xAD"
  shows "resp B (t @ [Reg_Wr ''SYS->REGLCTL'' 0x59, Reg_Wr ''SYS->REGLCTL'' 0x16, Reg_Wr ''SYS->REGLCTL'' 0x88,
             Reg_Rd ''SYS->REGLCTL'']) = 1
    \<and> unat (fnc AND 0x0F) < 6 \<and> unat (drop_bit 4 fnc AND 0x0F) < 6
    \<and> unat (drop_bit 8 fnc AND 0x0F) < 6 \<and> unat (drop_bit 12 fnc AND 0x0F) < 7
    \<and> (\<exists>u. fst (SPIFLASH_ReadID B u) \<noteq> 0 \<and> fst (SPIFLASH_ReadID B u) \<noteq> 0xFFFFFF
          \<and> t' = snd (SPIFLASH_ReadID B u))"
proof -
  let ?q = "t @ [Reg_Wr ''SYS->REGLCTL'' 0x59, Reg_Wr ''SYS->REGLCTL'' 0x16, Reg_Wr ''SYS->REGLCTL'' 0x88,
             Reg_Rd ''SYS->REGLCTL'']"
  have r: "resp B ?q = 1"
    using assms(1) by (auto simp: NVT_NVSPIM_Init_def ask_def Let_def split: if_split_asm)
  obtain t1 where c: "(case spim_pins B fnc t1 of Inl t \<Rightarrow> Some (1, t) | Inr t \<Rightarrow> Some (spim_identify B t)) = Some (0, t')"
    using assms r
    by (auto simp: NVT_NVSPIM_Init_def ask_def Let_def bind_eq_Some_conv split: if_split_asm)
  obtain u where p: "spim_pins B fnc t1 = Inr u" and i: "spim_identify B u = (0, t')"
    using c by (cases "spim_pins B fnc t1") auto
  from p have "spim_pin B SS_SEL (fnc AND 0x0F) t1 \<noteq> None"
    "\<exists>t. spim_pin B CLK_SEL (drop_bit 4 fnc AND 0x0F) t \<noteq> None"
    "\<exists>t. spim_pin B MISO_SEL (drop_bit 8 fnc AND 0x0F) t \<noteq> None"
    "\<exists>t. spim_pin B MOSI_SEL (drop_bit 12 fnc AND 0x0F) t \<noteq> None"
    by (auto simp: spim_pins_def split: option.splits)
  then have "unat (fnc AND 0x0F) < 6" "unat (drop_bit 4 fnc AND 0x0F) < 6"
    "unat (drop_bit 8 fnc AND 0x0F) < 6" "unat (drop_bit 12 fnc AND 0x0F) < 7"
    by (simp_all add: spim_pin_None not_le SS_SEL_def CLK_SEL_def MISO_SEL_def MOSI_SEL_def)
  moreover have "fst (SPIFLASH_ReadID B u) \<noteq> 0 \<and> fst (SPIFLASH_ReadID B u) \<noteq> 0xFFFFFF
          \<and> t' = snd (SPIFLASH_ReadID B u)"
    using i by (auto simp: spim_identify_def split: prod.splits if_splits)
  ultimately show ?thesis using r by blast
qed

text \<open>A BSP whose registers read 1, with all masks 1.\<close>

definition ones_bsp :: bsp where
  "ones_bsp = \<lparr>resp = (\<lambda>t. 1), konst = (\<lambda>c. 1)\<rparr>"

theorem spim_init_ok_witness:
  "\<exists>t'. NVT_NVSPIM_Init ones_bsp 0xAD004444 [] = Some (0, t') \<and> unat ((0xAD004444 :: u32) AND 0x0F) < 6"
proof -
  have "\<exists>t'. NVT_NVSPIM_Init ones_bsp 0xAD004444 [] = Some (0, t')"
    by (simp add: NVT_NVSPIM_Init_def ones_bsp_def ask_def Let_def msk_def spim_pins_def spim_pin_def table_get_def
        SS_SEL_def CLK_SEL_def MISO_SEL_def MOSI_SEL_def spim_identify_def SPIFLASH_ReadID_def
        NVT_SPIM_IO_Read_def spim_io_mode_def split: prod.splits)
  then obtain t' where "NVT_NVSPIM_Init ones_bsp 0xAD004444 [] = Some (0, t')" by blast
  from this spim_init_ok [OF this] show ?thesis by simp
qed

end
