(* ===== verification/Spim_Flash.thy ===== *)
theory Spim_Flash
  imports Driver_Flash2
begin

text \<open>
  The serial flash behind the SPIM master as a device, and what \<open>spim_drv.c\<close> and the driver
  \<open>Driver_FLASH2_SPIM\<close> do to it. The documented behaviour of the chip and of the DMA of the master
  is the hypothesis \<open>spim_laws\<close>, over whole transactions (from chip select to deselect): a read
  delivers the array; write enable sets the WEL bit; a page program takes effect inside one page
  of 256 bytes and wraps at its end; a 4 KiB erase clears the block that contains its 24-bit
  address; both leave the chip busy for some number of status reads. Proved here: the exact
  effect of reading, programming and erasing, through the loops of the driver; reading
  keeps the contract \<open>cmsis_read\<close>.
\<close>

section \<open>The device\<close>

datatype spim_phase = Idle | Enabled | Busy

record spim_dev =
  sp_mem :: "hw \<Rightarrow> buf"
  sp_phase :: "hw \<Rightarrow> spim_phase"
  sp_size :: nat

text \<open>Chip select, output mode, opcode.\<close>

definition spim_cmd :: "bsp \<Rightarrow> string \<Rightarrow> hw \<Rightarrow> hw" where
  "spim_cmd B opcode t = NVT_SPIM_IO_Write (ucast (msk B opcode)) (spim_io_mode B 1 (t @ spim_ss ''1''))"

text \<open>A status transaction with \<open>n + 1\<close> reads: the history up to the last read, its value, the end.\<close>

definition status_reads :: "nat \<Rightarrow> hw" where
  "status_reads n = concat (replicate n (spim_go @ [Reg_Rd ''SPIM->RX[0]'']))"

definition status_upto :: "bsp \<Rightarrow> hw \<Rightarrow> nat \<Rightarrow> hw" where
  "status_upto B t n = spim_io_mode B 0 (spim_cmd B ''OPCODE_RDSR'' t) @ status_reads (Suc n)"

definition status_at :: "bsp \<Rightarrow> hw \<Rightarrow> nat \<Rightarrow> u8" where
  "status_at B t n = ucast (resp B (status_upto B t n) AND 0xFF)"

definition status_end :: "bsp \<Rightarrow> hw \<Rightarrow> nat \<Rightarrow> hw" where
  "status_end B t n = status_upto B t n @ spim_ss ''0''"

text \<open>
  Programming at address \<open>a\<close>: byte number \<open>j\<close> goes to the place \<open>j\<close> after \<open>a\<close>, counted
  round the page of \<open>a\<close>.
\<close>

definition page_program :: "buf \<Rightarrow> nat \<Rightarrow> u8 list \<Rightarrow> buf" where
  "page_program m a bs = (\<lambda>x. let j = (x + 256 - a mod 256) mod 256
     in if x div 256 = a div 256 \<and> j < length bs then m x AND bs ! j else m x)"

definition block_erase :: "buf \<Rightarrow> nat \<Rightarrow> buf" where
  "block_erase m a = flash_erase m (a div 4096 * 4096) 4096"

definition spim_read_txn :: "bsp \<Rightarrow> u32 \<Rightarrow> u32 \<Rightarrow> hw \<Rightarrow> hw" where
  "spim_read_txn B a len t = spim_dma B ''CMD_DMA_NORMAL_READ'' ''SPIM_CTL0_OPMODE_PAGEREAD'' a len (t @ spim_ss ''1'')"

definition spim_program_txn :: "bsp \<Rightarrow> u32 \<Rightarrow> u8 list \<Rightarrow> hw \<Rightarrow> hw" where
  "spim_program_txn B a bs t =
     spim_dma B ''CMD_NORMAL_PAGE_PROGRAM'' ''SPIM_CTL0_OPMODE_PAGEWRITE'' a (of_nat (length bs)) (t @ spim_ss ''1'')
     @ [DMA_Out bs] @ spim_ss ''0''"

definition spim_erase_txn :: "bsp \<Rightarrow> u8 \<Rightarrow> u8 \<Rightarrow> u8 \<Rightarrow> hw \<Rightarrow> hw" where
  "spim_erase_txn B b2 b1 b0 t = NVT_SPIM_IO_Write b0 (NVT_SPIM_IO_Write b1 (NVT_SPIM_IO_Write b2
     (spim_cmd B ''OPCODE_SE_4K'' t))) @ spim_ss ''0''"

section \<open>Its documented behaviour\<close>

definition spim_read_law :: "bsp \<Rightarrow> spim_dev \<Rightarrow> bool" where
  "spim_read_law B F \<longleftrightarrow> (\<forall>t a len. sp_phase F t = Idle \<and> adr a + unat len \<le> sp_size F \<longrightarrow>
     (let u = spim_read_txn B a len t in
        (\<forall>k < unat len. ucast (resp B (u @ [DMA_In k])) = sp_mem F t (adr a + k))
      \<and> sp_phase F (u @ spim_ss ''0'') = Idle \<and> sp_mem F (u @ spim_ss ''0'') = sp_mem F t))"

definition spim_enable_law :: "bsp \<Rightarrow> spim_dev \<Rightarrow> bool" where
  "spim_enable_law B F \<longleftrightarrow> (\<forall>t. sp_phase F t = Idle \<longrightarrow>
     (let u = spim_cmd B ''OPCODE_WREN'' t @ spim_ss ''0'' in sp_phase F u = Enabled \<and> sp_mem F u = sp_mem F t))"

definition spim_status_law :: "bsp \<Rightarrow> spim_dev \<Rightarrow> bool" where
  "spim_status_law B F \<longleftrightarrow>
     (\<forall>t n. sp_phase F t = Enabled \<longrightarrow> status_at B t n AND (SR_WEL B OR SR_WIP B) = SR_WEL B
        \<and> sp_phase F (status_end B t n) = Enabled \<and> sp_mem F (status_end B t n) = sp_mem F t)
   \<and> (\<forall>t. sp_phase F t = Busy \<longrightarrow> (\<exists>n. (\<forall>j < n. status_at B t j AND SR_WIP B \<noteq> 0) \<and> status_at B t n = 0
        \<and> sp_phase F (status_end B t n) = Idle \<and> sp_mem F (status_end B t n) = sp_mem F t))"

definition spim_program_law :: "bsp \<Rightarrow> spim_dev \<Rightarrow> bool" where
  "spim_program_law B F \<longleftrightarrow> (\<forall>t a bs. sp_phase F t = Enabled \<and> adr a < sp_size F \<and> length bs \<le> 256 \<longrightarrow>
     sp_phase F (spim_program_txn B a bs t) = Busy
   \<and> sp_mem F (spim_program_txn B a bs t) = page_program (sp_mem F t) (adr a) bs)"

definition spim_erase_law :: "bsp \<Rightarrow> spim_dev \<Rightarrow> bool" where
  "spim_erase_law B F \<longleftrightarrow> (\<forall>t b2 b1 b0. sp_phase F t = Enabled \<longrightarrow>
     sp_phase F (spim_erase_txn B b2 b1 b0 t) = Busy
   \<and> sp_mem F (spim_erase_txn B b2 b1 b0 t)
       = block_erase (sp_mem F t) (65536 * unat b2 + 256 * unat b1 + unat b0))"

definition spim_laws :: "bsp \<Rightarrow> spim_dev \<Rightarrow> bool" where
  "spim_laws B F \<longleftrightarrow> SR_WEL B \<noteq> 0 \<and> SR_WEL B AND SR_WIP B = 0 \<and> spim_read_law B F \<and> spim_enable_law B F
     \<and> spim_status_law B F \<and> spim_program_law B F \<and> spim_erase_law B F
     \<and> (\<forall>t. sp_phase F t = Idle \<longrightarrow> sp_phase F (t @ [Bsp ''SPIM_WAIT_FREE'' []]) = Idle
          \<and> sp_mem F (t @ [Bsp ''SPIM_WAIT_FREE'' []]) = sp_mem F t)"

section \<open>The functions of \<open>spim_drv.c\<close>\<close>

lemma status_reads_Suc: "status_reads (Suc n) = spim_go @ [Reg_Rd ''SPIM->RX[0]''] @ status_reads n"
  by (simp add: status_reads_def)

lemma status_loop_steps:
  assumes "\<forall>j < n. ucast (resp B (u @ status_reads (Suc j)) AND 0xFF) AND fl \<noteq> v"
    and "ucast (resp B (u @ status_reads (Suc n)) AND 0xFF) AND fl = v"
  shows "spim_status_loop B fl v u
    = Some (ucast (resp B (u @ status_reads (Suc n)) AND 0xFF), u @ status_reads (Suc n))"
  using assms
proof (induction n arbitrary: u)
  case 0
  then show ?case
    by (subst spim_status_loop.simps) (simp add: NVT_SPIM_IO_Read_def status_reads_def Let_def ask_def)
next
  case (Suc n)
  let ?u = "u @ spim_go @ [Reg_Rd ''SPIM->RX[0]'']"
  have r: "?u @ status_reads k = u @ status_reads (Suc k)" for k by (simp add: status_reads_Suc)
  have "\<forall>j < n. ucast (resp B (?u @ status_reads (Suc j)) AND 0xFF) AND fl \<noteq> v"
    using Suc.prems(1) unfolding r by simp
  from Suc.IH [OF this] Suc.prems(2)
  have "spim_status_loop B fl v ?u
      = Some (ucast (resp B (u @ status_reads (Suc (Suc n))) AND 0xFF), u @ status_reads (Suc (Suc n)))"
    unfolding r by simp
  moreover have "ucast (resp B ?u AND 0xFF) AND fl \<noteq> v"
    using Suc.prems(1) r [of 0] by (metis append.right_neutral status_reads_def concat.simps(1) replicate_0 zero_less_Suc)
  ultimately show ?case
    by (subst spim_status_loop.simps) (simp add: NVT_SPIM_IO_Read_def Let_def ask_def)
qed

lemma check_status_steps:
  assumes "\<forall>j < n. status_at B t j AND fl \<noteq> v" and "status_at B t n AND fl = v"
  shows "SPIFLASH_CheckStatus B fl v t = Some (status_at B t n, status_end B t n)"
  using assms status_loop_steps [of n B "spim_io_mode B 0 (spim_cmd B ''OPCODE_RDSR'' t)" fl v]
  by (simp add: SPIFLASH_CheckStatus_def Let_def status_at_def status_end_def status_upto_def spim_cmd_def)

lemma write_enable_ok:
  assumes "spim_laws B F" and "sp_phase F t = Idle"
  shows "\<exists>st t'. SPIFLASH_WriteEnable B t = Some (st, t') \<and> st AND SR_WEL B \<noteq> 0 \<and> sp_phase F t' = Enabled
    \<and> sp_mem F t' = sp_mem F t"
proof -
  let ?u = "spim_cmd B ''OPCODE_WREN'' t @ spim_ss ''0''"
  have u: "sp_phase F ?u = Enabled" "sp_mem F ?u = sp_mem F t"
    using assms by (auto simp: spim_laws_def spim_enable_law_def Let_def)
  have st: "status_at B ?u 0 AND (SR_WEL B OR SR_WIP B) = SR_WEL B"
    "sp_phase F (status_end B ?u 0) = Enabled" "sp_mem F (status_end B ?u 0) = sp_mem F t"
    using assms(1) u by (auto simp: spim_laws_def spim_status_law_def)
  have e: "SPIFLASH_WriteEnable B t = Some (status_at B ?u 0, status_end B ?u 0)"
    using check_status_steps [of 0 B ?u, OF _ st(1)] by (simp add: SPIFLASH_WriteEnable_def Let_def spim_cmd_def)
  have "SR_WEL B \<noteq> 0" "SR_WEL B AND SR_WIP B = 0" using assms(1) by (simp_all add: spim_laws_def)
  then show ?thesis using write_enable_wel(1) [OF e] st(2,3) e by auto
qed

text \<open>A program or an erase ends after some number of status reads.\<close>

lemma wait_ready_ok:
  assumes "spim_laws B F" and "sp_phase F t = Busy"
  shows "\<exists>t'. SPIFLASH_CheckStatus B (SR_WIP B) 0 t = Some (0, t') \<and> sp_phase F t' = Idle \<and> sp_mem F t' = sp_mem F t"
proof -
  obtain n where "\<forall>j < n. status_at B t j AND SR_WIP B \<noteq> 0" "status_at B t n = 0"
    "sp_phase F (status_end B t n) = Idle" "sp_mem F (status_end B t n) = sp_mem F t"
    using assms by (auto simp: spim_laws_def spim_status_law_def)
  then show ?thesis using check_status_steps [of n B t "SR_WIP B" 0] by auto
qed

lemma nvspim_read_ok:
  assumes "spim_laws B F" and "sp_phase F t = Idle" and "adr a + unat len \<le> sp_size F"
  shows "\<exists>t'. NVT_NVSPIM_Read B a len dst p t
      = (0, copy_bytes dst p (\<lambda>k. sp_mem F t (adr a + k)) 0 (unat len), t')
    \<and> sp_phase F t' = Idle \<and> sp_mem F t' = sp_mem F t"
proof -
  let ?u = "spim_read_txn B a len t"
  have u: "\<forall>k < unat len. ucast (resp B (?u @ [DMA_In k])) = sp_mem F t (adr a + k)"
    "sp_phase F (?u @ spim_ss ''0'') = Idle" "sp_mem F (?u @ spim_ss ''0'') = sp_mem F t"
    using assms by (auto simp: spim_laws_def spim_read_law_def Let_def)
  have "copy_bytes dst p (\<lambda>k. ucast (resp B (?u @ [DMA_In k]))) 0 (unat len)
      = copy_bytes dst p (\<lambda>k. sp_mem F t (adr a + k)) 0 (unat len)"
    by (rule copy_bytes_cong) (use u(1) in simp)
  then show ?thesis
    using u(2,3) by (simp add: NVT_NVSPIM_Read_def NVT_SPIM_DMA_Read_def Let_def spim_read_txn_def)
qed

lemma nvspim_program_ok:
  assumes "spim_laws B F" and "sp_phase F t = Idle" and "adr a < sp_size F" and "unat len \<le> 256"
  shows "\<exists>t'. NVT_NVSPIM_Program B a len src p t = Some (0, t') \<and> sp_phase F t' = Idle
    \<and> sp_mem F t' = page_program (sp_mem F t) (adr a) (map (\<lambda>k. src (p + k)) [0..<unat len])"
proof -
  let ?bs = "map (\<lambda>k. src (p + k)) [0..<unat len]"
  obtain st t1 where t1: "SPIFLASH_WriteEnable B t = Some (st, t1)" "st AND SR_WEL B \<noteq> 0"
    "sp_phase F t1 = Enabled" "sp_mem F t1 = sp_mem F t"
    using write_enable_ok [OF assms(1,2)] by blast
  have u: "sp_phase F (spim_program_txn B a ?bs t1) = Busy"
    "sp_mem F (spim_program_txn B a ?bs t1) = page_program (sp_mem F t) (adr a) ?bs"
    using assms(1,3,4) t1(3,4) by (auto simp: spim_laws_def spim_program_law_def)
  obtain t2 where t2: "SPIFLASH_CheckStatus B (SR_WIP B) 0 (spim_program_txn B a ?bs t1) = Some (0, t2)"
    "sp_phase F t2 = Idle" "sp_mem F t2 = page_program (sp_mem F t) (adr a) ?bs"
    using wait_ready_ok [OF assms(1) u(1)] u(2) by auto
  then show ?thesis
    using t1(1,2) by (simp add: NVT_NVSPIM_Program_def Let_def NVT_SPIM_DMA_Write_def spim_program_txn_def)
qed

text \<open>The three bytes on the wire are the low 24 bits of the address.\<close>

lemma addr_bytes:
  fixes a :: u32
  shows "65536 * unat (ucast (drop_bit 16 a AND 0xFF) :: u8) + 256 * unat (ucast (drop_bit 8 a AND 0xFF) :: u8)
    + unat (ucast (a AND 0xFF) :: u8) = adr a"
proof -
  have b: "unat (ucast (w AND 0xFF) :: u8) = unat w mod 256" for w :: u32
    using take_bit_eq_mask [of 8 w] by (simp add: mask_eq_exp_minus_1 unsigned_ucast_eq unsigned_take_bit_eq
        take_bit_eq_mod flip: take_bit_eq_mask)
  have d: "unat (drop_bit 16 a) = unat a div 65536" "unat (drop_bit 8 a) = unat a div 256"
    unfolding unat_drop_bit_eq by (simp_all add: drop_bit_eq_div)
  have "n mod 16777216 = 65536 * (n div 65536 mod 256) + 256 * (n div 256 mod 256) + n mod 256" for n :: nat
  proof -
    have "n mod 16777216 = 256 * (n div 256 mod 65536) + n mod 256" using mod_mult2_eq [of n 256 65536] by simp
    moreover have "n div 256 mod 65536 = 256 * (n div 65536 mod 256) + n div 256 mod 256"
      using mod_mult2_eq [of "n div 256" 256 256] by (simp add: div_mult2_eq [symmetric])
    ultimately show ?thesis by linarith
  qed
  then show ?thesis unfolding b d adr_def by simp
qed

lemma nvspim_erase_ok:
  assumes "spim_laws B F" and "sp_phase F t = Idle"
  shows "\<exists>t'. NVT_NVSPIM_Erase B a t = Some (0, t') \<and> sp_phase F t' = Idle
    \<and> sp_mem F t' = block_erase (sp_mem F t) (adr a)"
proof -
  let ?t = "t @ [Bsp ''SPIM_WAIT_FREE'' []]"
  let ?txn = "spim_erase_txn B (ucast (drop_bit 16 a AND 0xFF)) (ucast (drop_bit 8 a AND 0xFF)) (ucast (a AND 0xFF))"
  have "sp_phase F ?t = Idle" "sp_mem F ?t = sp_mem F t" using assms(1,2) by (auto simp: spim_laws_def)
  then obtain st t1 where t1: "SPIFLASH_WriteEnable B ?t = Some (st, t1)" "st AND SR_WEL B \<noteq> 0"
    "sp_phase F t1 = Enabled" "sp_mem F t1 = sp_mem F t"
    using write_enable_ok [OF assms(1), of ?t] by auto
  have el: "spim_erase_law B F" using assms(1) by (simp add: spim_laws_def)
  have u: "sp_phase F (?txn t1) = Busy" "sp_mem F (?txn t1) = block_erase (sp_mem F t) (adr a)"
    using el [unfolded spim_erase_law_def, rule_format, OF t1(3)] unfolding t1(4)
    by (simp_all only: addr_bytes)
  obtain t2 where "SPIFLASH_CheckStatus B (SR_WIP B) 0 (?txn t1) = Some (0, t2)"
    "sp_phase F t2 = Idle" "sp_mem F t2 = block_erase (sp_mem F t) (adr a)"
    using wait_ready_ok [OF assms(1) u(1)] u(2) by auto
  then show ?thesis
    using t1(1,2) by (simp add: NVT_NVSPIM_Erase_def Let_def spim_erase_txn_def spim_cmd_def)
qed

interpretation nvspim: serial_read "NVT_NVSPIM_Read B" "sp_mem F"
  "\<lambda>t. spim_laws B F \<and> sp_phase F t = Idle" "sp_size F" for B F
  by unfold_locales (use nvspim_read_ok in fastforce)

section \<open>The loops of the CMSIS driver\<close>

text \<open>\<open>NVT_NVSPIM_Read\<close> returns 0, so ignoring its result makes no difference.\<close>

lemma spim_read_pages_eq:
  "spim_read_pages B a dst p sz t = read_pages (NVT_NVSPIM_Read B) NVT_NVSPIM_PAGE_SIZE a dst p sz t"
proof (induction "unat sz" arbitrary: a dst p sz t rule: less_induct)
  case less
  have r: "fst (NVT_NVSPIM_Read B a' l d q u) = 0" for a' l d q u
    by (simp add: NVT_NVSPIM_Read_def Let_def split: prod.split)
  show ?case
  proof (cases "sz = 0")
    case False
    let ?l = "chunk NVT_NVSPIM_PAGE_SIZE sz"
    have l: "0 < unat ?l" "unat ?l \<le> unat sz"
      using False by (simp_all add: unat_chunk unat_gt_0 NVT_NVSPIM_PAGE_SIZE_def)
    then have "unat (sz - ?l) < unat sz" by (simp add: unat_sub32 word_le_nat_alt)
    from less [OF this] r [of a ?l dst p t] show ?thesis
      by (subst spim_read_pages.simps, subst read_pages.simps) (auto simp: Let_def split: prod.split)
  qed (simp add: spim_read_pages.simps read_pages.simps)
qed

text \<open>The content after programming a request in pieces of 256 bytes from its start.\<close>

function chunked_program :: "buf \<Rightarrow> nat \<Rightarrow> u8 list \<Rightarrow> buf" where
  "chunked_program m a bs = (if bs = [] then m
     else chunked_program (page_program m a (take 256 bs)) (a + 256) (drop 256 bs))"
  by pat_completeness auto
termination
  by (relation "measure (\<lambda>(m, a, bs). length bs)") auto

declare chunked_program.simps [simp del]

lemma spim_program_pages_ok:
  assumes "spim_laws B F" and "sp_phase F t = Idle" and "adr a + unat sz \<le> sp_size F" and "sp_size F \<le> 2 ^ 24"
  shows "\<exists>t'. spim_program_pages B a src p sz t = Some (0, t') \<and> sp_phase F t' = Idle
    \<and> sp_mem F t' = chunked_program (sp_mem F t) (adr a) (map (\<lambda>k. src (p + k)) [0..<unat sz])"
  using assms(2,3)
proof (induction "unat sz" arbitrary: a p sz t rule: less_induct)
  case less
  let ?bs = "map (\<lambda>k. src (p + k)) [0..<unat sz]"
  show ?case
  proof (cases "sz = 0")
    case True
    then show ?thesis
      using less.prems by (simp add: spim_program_pages.simps [of B a src p 0] chunked_program.simps [of _ _ "[]"])
  next
    case False
    let ?l = "chunk NVT_NVSPIM_PAGE_SIZE sz"
    have l: "0 < unat ?l" "unat ?l \<le> unat sz" "unat ?l = min 256 (unat sz)"
      using False by (simp_all add: unat_chunk unat_gt_0 NVT_NVSPIM_PAGE_SIZE_def)
    have rest: "unat (sz - ?l) = unat sz - unat ?l" using l(2) by (simp add: unat_sub32 word_le_nat_alt)
    have "take 256 ?bs = map (\<lambda>k. src (p + k)) [0..<unat ?l]" by (rule nth_equalityI) (simp_all add: l(3))
    moreover have "adr a < sp_size F" using less.prems(2) l by linarith
    ultimately obtain t1 where t1: "NVT_NVSPIM_Program B a ?l src p t = Some (0, t1)" "sp_phase F t1 = Idle"
      "sp_mem F t1 = page_program (sp_mem F t) (adr a) (take 256 ?bs)"
      using nvspim_program_ok [OF assms(1) less.prems(1), of a ?l src p] l(3) by auto
    have step: "spim_program_pages B a src p sz t = spim_program_pages B (a + ?l) src (p + unat ?l) (sz - ?l) t1"
      using False t1(1) by (subst spim_program_pages.simps) (simp add: Let_def)
    have d: "chunked_program (sp_mem F t) (adr a) ?bs = chunked_program (sp_mem F t1) (adr a + 256) (drop 256 ?bs)"
      using False t1(3) by (subst chunked_program.simps) (simp add: unat_eq_zero)
    show ?thesis
    proof (cases "unat sz \<le> 256")
      case True
      then have "sz - ?l = 0" using rest l(3) by (simp add: unat_eq_zero)
      then show ?thesis
        using step t1(2) d True by (simp add: spim_program_pages.simps [of B _ src _ 0] chunked_program.simps [of _ _ "[]"])
    next
      case big: False
      then have l256: "unat ?l = 256" using l(3) by simp
      have a: "adr (a + ?l) = adr a + 256"
        using adr_add [of a ?l] less.prems(2) assms(4) big l256 by simp
      have "drop 256 ?bs = map (\<lambda>k. src (p + unat ?l + k)) [0..<unat (sz - ?l)]"
        by (rule nth_equalityI) (simp_all add: rest l256 less_diff_conv add_ac)
      then show ?thesis
        using less.hyps [of "sz - ?l" t1 "a + ?l" "p + unat ?l"] less.prems(2) t1(2) rest l256 big a step d
        by simp
    qed
  qed
qed

section \<open>What a chunked program does\<close>

lemma page_place:
  "(x + 256 - a mod 256) mod 256
     = (if a mod 256 \<le> x mod 256 then x mod 256 - a mod 256 else x mod 256 + 256 - a mod 256)" for x :: nat
proof -
  have h: "a mod 256 < 256" by simp
  have "x + 256 - a mod 256 = x mod 256 + 256 - a mod 256 + 256 * (x div 256)"
    using div_mult_mod_eq [of x 256] h by linarith
  then have "(x + 256 - a mod 256) mod 256 = (x mod 256 + 256 - a mod 256) mod 256"
    by (metis mod_mult_self2)
  moreover have "(y + 256 - k) mod 256 = (if k \<le> y then y - k else y + 256 - k)" if "k < 256" "y < 256" for k y :: nat
  proof (cases "k \<le> y")
    case True
    then have "y + 256 - k = (y - k) + 256" by simp
    then have "(y + 256 - k) mod 256 = (y - k) mod 256" by (simp only: mod_add_self2)
    then show ?thesis using True that by simp
  qed simp
  ultimately show ?thesis by simp
qed

lemma in_page: "h \<le> y \<Longrightarrow> y - h < n \<Longrightarrow> 256 * q + h \<le> 256 * q + y \<and> 256 * q + y < 256 * q + h + n" for q h y n :: nat
  by linarith

lemma page_program_inside:
  assumes "a mod 256 + length bs \<le> 256"
  shows "page_program m a bs = flash_program m a (length bs) (\<lambda>k. bs ! k)"
proof (rule ext)
  fix x :: nat
  have x: "x = 256 * (x div 256) + x mod 256" and a: "a = 256 * (a div 256) + a mod 256"
    and y: "x mod 256 < 256" by simp_all
  let ?j = "(x + 256 - a mod 256) mod 256"
  show "page_program m a bs x = flash_program m a (length bs) (\<lambda>k. bs ! k) x"
  proof (cases "a \<le> x \<and> x < a + length bs")
    case True
    then have q: "x div 256 = a div 256" using x a y assms by linarith
    then have "a mod 256 \<le> x mod 256" using x a True by linarith
    moreover have "x mod 256 - a mod 256 = x - a" using q x a by linarith
    moreover have "x - a < length bs" using True by linarith
    ultimately show ?thesis using True q by (simp add: page_program_def flash_program_def Let_def page_place)
  next
    case False
    have "\<not> (x div 256 = a div 256 \<and> ?j < length bs)"
    proof
      assume j: "x div 256 = a div 256 \<and> ?j < length bs"
      show False
      proof (cases "a mod 256 \<le> x mod 256")
        case True
        then have l: "x mod 256 - a mod 256 < length bs" using j by (simp add: page_place)
        have "x = 256 * (a div 256) + x mod 256" using x j by metis
        then have "a \<le> x" "x < a + length bs" using in_page [OF True l, of "a div 256"] a by metis+
        then show False using \<open>\<not> (a \<le> x \<and> x < a + length bs)\<close> by simp
      next
        case False
        then have "x mod 256 + 256 - a mod 256 < length bs" using j by (simp add: page_place)
        then show False using assms by arith
      qed
    qed
    then show ?thesis unfolding page_program_def flash_program_def Let_def using False by (simp only: if_False)
  qed
qed

text \<open>Where byte number \<open>k\<close> of a page program goes.\<close>

lemma page_program_place:
  assumes "k < length bs" and "k < 256"
  shows "page_program m a bs (a div 256 * 256 + (a mod 256 + k) mod 256) = m (a div 256 * 256 + (a mod 256 + k) mod 256) AND bs ! k"
proof -
  let ?y = "(a mod 256 + k) mod 256" and ?x = "a div 256 * 256 + (a mod 256 + k) mod 256"
  have "?x = ?y + 256 * (a div 256)" by simp
  then have x: "?x div 256 = a div 256" "?x mod 256 = ?y" by (simp_all only: div_mult_self2 mod_mult_self2) simp_all
  have h: "a mod 256 < 256" by simp
  have "(?x + 256 - a mod 256) mod 256 = k"
  proof (cases "a mod 256 + k < 256")
    case True
    then show ?thesis unfolding page_place x(2) by simp
  next
    case False
    then have "?y = a mod 256 + k - 256" using assms(2) h by (simp add: le_mod_geq)
    then have "\<not> a mod 256 \<le> ?y" "?y + 256 - a mod 256 = k" using False assms(2) by linarith+
    then show ?thesis unfolding page_place x(2) by (simp only: if_False)
  qed
  then show ?thesis using x(1) assms(1) by (simp add: page_program_def Let_def)
qed

text \<open>From a page boundary on, the pieces are the pages.\<close>

lemma chunked_program_aligned:
  "256 dvd a \<Longrightarrow> chunked_program m a bs = flash_program m a (length bs) (\<lambda>k. bs ! k)"
proof (induction m a bs rule: chunked_program.induct)
  case (1 m a bs)
  show ?case
  proof (cases "bs = []")
    case False
    let ?n = "min 256 (length bs)"
    have "a mod 256 + length (take 256 bs) \<le> 256" using 1 by simp
    then have p: "page_program m a (take 256 bs) = flash_program m a ?n (\<lambda>k. bs ! k)"
      by (subst page_program_inside) (auto intro: flash_program_cong simp: min.commute)
    have "chunked_program m a bs
        = flash_program (flash_program m a ?n (\<lambda>k. bs ! k)) (a + 256) (length bs - 256) (\<lambda>k. drop 256 bs ! k)"
      using 1 False p by (subst chunked_program.simps) simp
    also have "\<dots> = flash_program m a (length bs) (\<lambda>k. bs ! k)"
    proof (cases "length bs \<le> 256")
      case False
      then have n: "?n = 256" by simp
      have "flash_program (flash_program m a 256 (\<lambda>k. bs ! k)) (a + 256) (length bs - 256) (\<lambda>k. drop 256 bs ! k)
          = flash_program (flash_program m a 256 (\<lambda>k. bs ! k)) (a + 256) (length bs - 256) (\<lambda>k. bs ! (256 + k))"
        by (rule flash_program_cong) simp
      also have "\<dots> = flash_program m a (256 + (length bs - 256)) (\<lambda>k. bs ! k)" by (rule flash_program_append)
      finally show ?thesis unfolding n using False by simp
    qed (simp add: min_def)
    finally show ?thesis .
  qed (simp add: chunked_program.simps)
qed

lemma chunked_program_one: "length bs \<le> 256 \<Longrightarrow> chunked_program m a bs = page_program m a bs"
  by (subst chunked_program.simps) (simp add: page_program_def Let_def chunked_program.simps [of _ _ "[]"])

section \<open>The CMSIS driver\<close>

text \<open>The chip behaves as documented and is idle; it fits 24-bit addresses and the mapped range.\<close>

definition spim_ok :: "bsp \<Rightarrow> spim_dev \<Rightarrow> hw \<Rightarrow> bool" where
  "spim_ok B F t \<longleftrightarrow> spim_laws B F \<and> sp_phase F t = Idle \<and> sp_size F \<le> 2 ^ 24
     \<and> sp_size F \<le> unat (konst B SPIM_DMM_SIZE)"

lemma spim_in_range:
  assumes "spim_ok B F t" and "unat a + unat sz \<le> sp_size F"
  shows "\<not> spim_out_of_range B a sz"
proof -
  have "unat (a + sz) = unat a + unat sz" using assms by (intro unat_add32) (simp add: spim_ok_def)
  then show ?thesis
    using assms by (simp add: spim_out_of_range_def NVT_NVSPIM_MEMORY_BASE_def not_less word_le_nat_alt spim_ok_def)
qed

lemma spim_items:
  fixes cnt :: u32
  assumes "spim_ok B F t" and "unat a + 4 * unat cnt \<le> sp_size F"
  shows "unat (cnt * 4) = 4 * unat cnt"
  using assms unat_mult32 [of cnt 4] by (simp add: spim_ok_def)

lemmas spim_driver_defs = Driver_FLASH2_SPIM_def ARM_Flash_GetCapabilities_def DriverCapabilities_def
  ARM_Flash_GetInfo_SPIM_def ARM_FLASH2_DEV_SPIM_def NVT_NVSPIM_SECTOR_SIZE_def NVT_NVSPIM_MEMORY_BASE_def

interpretation spim_flash: cmsis_read "Driver_FLASH2_SPIM B" "sp_mem F" "spim_ok B F" 0 "sp_size F" for B F
proof
  fix t :: hw and a cnt :: u32 and dst :: buf and p :: nat
  assume ok: "spim_ok B F t"
  then have g: "spim_laws B F \<and> sp_phase F t = Idle" and z: "sp_size F \<le> 2 ^ 24" by (simp_all add: spim_ok_def)
  show "data_width (GetCapabilities (Driver_FLASH2_SPIM B) ()) = 2" "sp_size F < 2 ^ 32"
    using z by (simp_all add: spim_driver_defs)
  assume c: "cnt \<noteq> 0" "unat a + 4 * unat cnt \<le> sp_size F"
  have sz: "unat (cnt * 4) = 4 * unat cnt" by (rule spim_items [OF ok c(2)])
  have rg: "\<not> spim_out_of_range B a (cnt * 4)" using c(2) sz by (intro spim_in_range [OF ok]) simp
  have "0 < unat cnt" using c(1) by (simp add: unat_gt_0)
  then have ad: "adr a = unat a" using c(2) z by (intro adr_small) linarith
  from nvspim.read_pages_ok [OF g, of a "cnt * 4" NVT_NVSPIM_PAGE_SIZE dst p] c(2) z sz ad rg ok
  show "\<exists>r s'. ReadData (Driver_FLASH2_SPIM B) a dst p cnt t
      = Some (r, copy_bytes dst p (\<lambda>k. sp_mem F t (unat a + k)) 0 (4 * unat cnt), s')
    \<and> 0 \<le> r \<and> spim_ok B F s' \<and> sp_mem F s' = sp_mem F t"
    by (auto simp: spim_driver_defs ARM_Flash_ReadData_SPIM_def spim_ok_def spim_read_pages_eq NVT_NVSPIM_PAGE_SIZE_def)
qed

lemma spim_program_data:
  assumes ok: "spim_ok B F t" and c: "cnt \<noteq> 0" "unat a + 4 * unat cnt \<le> sp_size F"
  shows "\<exists>t'. ProgramData (Driver_FLASH2_SPIM B) a src p cnt t = Some (0, t') \<and> spim_ok B F t'
    \<and> sp_mem F t' = chunked_program (sp_mem F t) (unat a) (map (\<lambda>k. src (p + k)) [0..<4 * unat cnt])"
proof -
  have g: "spim_laws B F" "sp_phase F t = Idle" and z: "sp_size F \<le> 2 ^ 24" using ok by (simp_all add: spim_ok_def)
  have sz: "unat (cnt * 4) = 4 * unat cnt" by (rule spim_items [OF ok c(2)])
  have rg: "\<not> spim_out_of_range B a (cnt * 4)" using c(2) sz by (intro spim_in_range [OF ok]) simp
  have "0 < unat cnt" using c(1) by (simp add: unat_gt_0)
  then have ad: "adr a = unat a" using c(2) z by (intro adr_small) linarith
  from spim_program_pages_ok [OF g, of a "cnt * 4" src p] c(2) z sz ad rg ok show ?thesis
    by (auto simp: spim_driver_defs ARM_Flash_ProgramData_SPIM_def spim_ok_def)
qed

lemma spim_erase_sector:
  assumes ok: "spim_ok B F t" and a: "unat a < sp_size F"
  shows "\<exists>t'. EraseSector (Driver_FLASH2_SPIM B) a t = Some (0, t') \<and> spim_ok B F t'
    \<and> sp_mem F t' = block_erase (sp_mem F t) (unat a)"
proof -
  have g: "spim_laws B F" "sp_phase F t = Idle" and z: "sp_size F \<le> 2 ^ 24" using ok by (simp_all add: spim_ok_def)
  have rg: "\<not> spim_out_of_range B a 0" using a by (intro spim_in_range [OF ok]) simp
  have ad: "adr a = unat a" using a z by (intro adr_small) linarith
  from nvspim_erase_ok [OF g, of a] rg ad ok show ?thesis
    by (auto simp: spim_driver_defs ARM_Flash_EraseSector_SPIM_def spim_ok_def)
qed

lemma spim_area_write_units:
  assumes ok: "spim_ok B F t" and A: "area_ok A (Driver_FLASH2_SPIM B) 0 (sp_size F)" and sa: "safe_add_spec safe_add"
    and len: "unat off + unat len \<le> unat (fa_size A)" "len \<noteq> 0" and al: "8 dvd unat off" "8 dvd unat len"
  shows "\<exists>t'. flash_area_write safe_add 8 ind (Some A) off src len t = Some (0, t') \<and> spim_ok B F t'
    \<and> sp_mem F t' = chunked_program (sp_mem F t) (unat (fa_off A) + unat off) (map src [0..<unat len])"
proof -
  let ?Q = "\<lambda>t'. spim_ok B F t'
    \<and> sp_mem F t' = chunked_program (sp_mem F t) (unat (fa_off A) + unat off) (map src [0..<unat len])"
  have z: "sp_size F \<le> 2 ^ 24" using ok by (simp add: spim_ok_def)
  have "unat (fa_off A) + unat (fa_size A) \<le> sp_size F" using A by (simp add: area_ok_def)
  then have a: "unat (fa_off A + off) = unat (fa_off A) + unat off" using len(1) z by (intro unat_add32) simp
  obtain k where k: "unat len = 8 * k" "k \<noteq> 0" using al(2) len(2) by (metis dvdE mult_0_right unat_eq_zero)
  then have c: "4 * unat (len div 4) = unat len" by (simp add: unat_div)
  then have "len div 4 \<noteq> 0" using k by auto
  then have "\<exists>t'. ProgramData (Driver_FLASH2_SPIM B) (fa_off A + off) src 0 (len div 4) t1 = Some (0, t') \<and> ?Q t'"
    if "spim_ok B F t1" "sp_mem F t1 = sp_mem F t" for t1
    using spim_program_data [OF that(1), of "len div 4" "fa_off A + off" src 0] that(2) a c A len(1)
    by (auto simp: area_ok_def)
  from spim_flash.write_whole_units [OF ok A sa len al, of src ?Q, OF this] show ?thesis by blast
qed

section \<open>Erasing an area\<close>

text \<open>All blocks of 4096 bytes from that of the byte \<open>a\<close> to that of the byte \<open>b\<close>.\<close>

definition blocks_erased :: "buf \<Rightarrow> nat \<Rightarrow> nat \<Rightarrow> buf" where
  "blocks_erased m a b = (\<lambda>x. if a div 4096 \<le> x div 4096 \<and> x div 4096 \<le> b div 4096 then 0xFF else m x)"

lemma block_erase_blocks: "block_erase m a = blocks_erased m a a"
proof -
  have "a div 4096 * 4096 \<le> x \<and> x < a div 4096 * 4096 + 4096 \<longleftrightarrow> x div 4096 = a div 4096" for x :: nat
    using div_mult_mod_eq [of x 4096] mod_less_divisor [of 4096 x] by auto
  then show ?thesis by (auto simp: block_erase_def flash_erase_def blocks_erased_def fun_eq_iff)
qed

lemma blocks_erased_append:
  assumes "a \<le> b" and "b \<le> c" and "c \<le> b + 4096" and "c \<le> d"
  shows "blocks_erased (blocks_erased m a b) c d = blocks_erased m a d"
proof -
  have "a div 4096 \<le> b div 4096" "b div 4096 \<le> c div 4096" "c div 4096 \<le> d div 4096" using assms by (auto intro: div_le_mono)
  moreover have "c div 4096 \<le> b div 4096 + 1" using div_le_mono [OF assms(3), of 4096] by simp
  ultimately show ?thesis by (auto simp: blocks_erased_def fun_eq_iff)
qed

lemma blocks_erased_whole:
  assumes "4096 dvd a" and "4096 dvd n" and "0 < n"
  shows "blocks_erased m a (a + n - 1) = flash_erase m a n"
proof -
  have "a div 4096 \<le> x div 4096 \<and> x div 4096 \<le> (a + n - 1) div 4096 \<longleftrightarrow> a \<le> x \<and> x < a + n" for x
  proof -
    obtain k j where k: "a = 4096 * k" "n = 4096 * j" "0 < j" using assms by (auto elim!: dvdE)
    have "a + n - 1 = (4096 - 1) + 4096 * (k + j - 1)" using k by (cases j) (simp_all add: algebra_simps)
    then have "(a + n - 1) div 4096 = k + j - 1" by (simp only: div_mult_self2)
    moreover have "x div 4096 \<le> k + j - 1 \<longleftrightarrow> x div 4096 < k + j" using k(3) by auto
    ultimately show ?thesis
      using k less_eq_div_iff_mult_less_eq [of 4096 k x] div_less_iff_less_mult [of 4096 x "k + j"]
      by (simp add: mult.commute distrib_left)
  qed
  then show ?thesis by (auto simp: blocks_erased_def flash_erase_def fun_eq_iff)
qed

text \<open>The loop of \<open>flash_area_erase\<close>, in steps of the 256 bytes that the driver reports as a sector.\<close>

lemma spim_erase_loop:
  assumes "fa_driver A = Driver_FLASH2_SPIM B" and "spim_ok B F t"
    and "n = sectors_for (unat len - unat dl) 256" and "n \<noteq> 0"
    and "unat (fa_off A) + unat off + n * 256 \<le> sp_size F" and "unat dl + n * 256 < 2 ^ 32"
  shows "\<exists>t'. flash_area_erase_loop A off len dl 0 t = Some (0, t') \<and> spim_ok B F t'
    \<and> sp_mem F t' = blocks_erased (sp_mem F t) (unat (fa_off A) + unat off)
        (unat (fa_off A) + unat off + (n - 1) * 256)"
  using assms
proof (induction n arbitrary: off dl t)
  case (Suc n)
  let ?a = "unat (fa_off A) + unat off"
  have z: "sp_size F \<le> 2 ^ 24" using Suc.prems(2) by (simp add: spim_ok_def)
  have ss: "sector_size (GetInfo (Driver_FLASH2_SPIM B) ()) = 256" by (simp add: spim_driver_defs)
  have lt: "dl < len" using Suc.prems(3) by (auto simp: word_less_nat_alt sectors_for_def intro: ccontr)
  have a: "unat (fa_off A + off) = ?a" using Suc.prems(5) z by (intro unat_add32) simp
  have o: "unat (off + 256) = unat off + 256" "unat (dl + 256) = unat dl + 256"
    using Suc.prems(5,6) z by (simp_all add: unat_add32)
  obtain t1 where t1: "EraseSector (Driver_FLASH2_SPIM B) (fa_off A + off) t = Some (0, t1)" "spim_ok B F t1"
    "sp_mem F t1 = blocks_erased (sp_mem F t) ?a ?a"
    using spim_erase_sector [OF Suc.prems(2), of "fa_off A + off"] Suc.prems(5) a by (auto simp: block_erase_blocks)
  have step: "flash_area_erase_loop A off len dl 0 t = flash_area_erase_loop A (off + 256) len (dl + 256) 0 t1"
    using t1(1) lt Suc.prems(1) ss by (subst flash_area_erase_loop.simps) (simp add: Let_def)
  have n: "n = sectors_for (unat len - unat (dl + 256)) 256"
    using Suc.prems(3) lt sectors_for_step [of 256 "unat len - unat dl"] o by (simp add: word_less_nat_alt)
  show ?case
  proof (cases "n = 0")
    case True
    then have "\<not> dl + 256 < len"
      using n sectors_for_covers [of 256 "unat len - unat (dl + 256)"] by (simp add: word_less_nat_alt)
    then show ?thesis using step t1(2,3) True by (simp add: flash_area_erase_loop_stop)
  next
    case False
    have "unat (fa_off A) + unat (off + 256) + n * 256 \<le> sp_size F" "unat (dl + 256) + n * 256 < 2 ^ 32"
      using Suc.prems(5,6) o by simp_all
    from Suc.IH [OF Suc.prems(1) t1(2) n False this] obtain t2 where t2:
      "flash_area_erase_loop A (off + 256) len (dl + 256) 0 t1 = Some (0, t2)" "spim_ok B F t2"
      "sp_mem F t2 = blocks_erased (sp_mem F t1) (?a + 256) (?a + 256 + (n - 1) * 256)"
      unfolding o(1) add.assoc by blast
    have "?a + 256 + (n - 1) * 256 = ?a + n * 256" using False by (cases n) simp_all
    with t2(3) have "sp_mem F t2 = blocks_erased (sp_mem F t1) (?a + 256) (?a + n * 256)" by (simp only:)
    moreover have "256 \<le> n * 256" using False by simp
    ultimately show ?thesis using step t1(3) t2(1,2) by (simp add: blocks_erased_append)
  qed
qed simp

lemma sectors_for_last: "0 < len \<Longrightarrow> sectors_for len 256 - 1 = (len - 1) div 256 \<and> sectors_for len 256 \<noteq> 0"
proof -
  assume "0 < len"
  then have "len + 256 - 1 = (len - 1) + 256" by simp
  then show ?thesis unfolding sectors_for_def by (simp only: div_add_self2) simp
qed

lemma spim_area_erase_blocks:
  fixes A :: "hw flash_area"
  assumes "spim_ok B F t" and "safe_add_spec safe_add" and A: "fa_driver A = Driver_FLASH2_SPIM B"
    and "unat (fa_off A) + unat (fa_size A) \<le> sp_size F" and "256 dvd sp_size F"
    and len: "unat off + unat len \<le> unat (fa_size A)" "0 < unat len" and al: "256 dvd unat (fa_off A) + unat off"
  shows "\<exists>t'. flash_area_erase safe_add (Some A) off len t = Some (0, t') \<and> spim_ok B F t'
    \<and> sp_mem F t' = blocks_erased (sp_mem F t) (unat (fa_off A) + unat off) (unat (fa_off A) + unat off + unat len - 1)"
proof -
  let ?a = "unat (fa_off A) + unat off" and ?n = "sectors_for (unat len) 256"
  note n = sectors_for_last [OF len(2)]
  obtain q where q: "?a = 256 * q" using al by (auto elim: dvdE)
  have z: "sp_size F \<le> 2 ^ 24" using assms(1) by (simp add: spim_ok_def)
  obtain w where w: "sp_size F = 256 * w" using assms(5) by (auto elim: dvdE)
  have "?a + unat len \<le> sp_size F" using assms(4) len(1) by linarith
  then have "?a + 256 * ((unat len - 1) div 256) < sp_size F"
    using len(2) div_mult_mod_eq [of "unat len - 1" 256] by linarith
  then have "q + (unat len - 1) div 256 < w" unfolding q w by simp
  moreover have "?n = (unat len - 1) div 256 + 1" using n by linarith
  ultimately have "?a + ?n * 256 \<le> sp_size F" unfolding q w by simp
  then obtain t' where t': "flash_area_erase_loop A off len 0 0 t = Some (0, t')" "spim_ok B F t'"
    "sp_mem F t' = blocks_erased (sp_mem F t) ?a (?a + (?n - 1) * 256)"
    using spim_erase_loop [OF A assms(1), of ?n len 0 off] n z by auto
  have "(?a + unat len - 1) div 256 = q + (unat len - 1) div 256" "(?a + (?n - 1) * 256) div 256 = q + (unat len - 1) div 256"
    unfolding q using len(2) conjunct1 [OF n] by (simp_all flip: Nat.add_diff_assoc)
  then have "(?a + unat len - 1) div (256 * 16) = (?a + (?n - 1) * 256) div (256 * 16)"
    by (simp only: div_mult2_eq)
  then have "blocks_erased (sp_mem F t) ?a (?a + (?n - 1) * 256) = blocks_erased (sp_mem F t) ?a (?a + unat len - 1)"
    by (simp add: blocks_erased_def)
  moreover have "is_range_valid safe_add (Some A) off len" using len(1) by (simp add: is_range_valid_iff [OF assms(2)])
  ultimately show ?thesis using t' A by (simp add: flash_area_erase_def spim_driver_defs)
qed

end
