(* ===== verification/Sim_Spim.thy ===== *)
theory Sim_Spim
  imports Spim_Flash
begin

text \<open>
  A concrete serial flash of 4 MiB behind the SPIM master, used only to exhibit that
  \<open>spim_laws\<close> can hold: its state is computed by replaying the events of the history. It is busy for
  one status read after a program or an erase. It models no code of the repository.
\<close>

record pmsim =
  pm_txn :: "u32 list"
  pm_faddr :: u32
  pm_phase :: spim_phase
  pm_mem :: buf

definition pm_start :: pmsim where
  "pm_start = \<lparr>pm_txn = [], pm_faddr = 0, pm_phase = Idle, pm_mem = (\<lambda>_. 0x7F)\<rparr>"

definition pm_close :: "pmsim \<Rightarrow> pmsim" where
  "pm_close s = (case pm_txn s of
       [c] \<Rightarrow> if c = 6 then s\<lparr>pm_phase := Enabled\<rparr> else s
     | [c, x, y, z] \<Rightarrow> if c = 0x20 \<and> pm_phase s = Enabled
         then s\<lparr>pm_phase := Busy,
                pm_mem := block_erase (pm_mem s) (65536 * unat x + 256 * unat y + unat z)\<rparr> else s
     | _ \<Rightarrow> s)"

definition pm_ev :: "ev \<Rightarrow> pmsim \<Rightarrow> pmsim" where
  "pm_ev e s = (case e of
       Bsp n args \<Rightarrow> if n = ''SPIM_SET_SS_EN'' then (if args = [''1''] then s\<lparr>pm_txn := []\<rparr> else pm_close s) else s
     | Reg_Wr r v \<Rightarrow> if r = ''SPIM->TX[0]'' then s\<lparr>pm_txn := pm_txn s @ [v]\<rparr>
         else if r = ''SPIM->FADDR'' then s\<lparr>pm_faddr := v\<rparr> else s
     | Reg_Rd r \<Rightarrow> if r = ''SPIM->RX[0]'' \<and> pm_txn s = [5] then (if pm_phase s = Busy then s\<lparr>pm_phase := Idle\<rparr> else s) else s
     | DMA_Out bs \<Rightarrow> if pm_phase s = Enabled then s\<lparr>pm_phase := Busy,
         pm_mem := page_program (pm_mem s) (adr (pm_faddr s)) bs\<rparr> else s
     | _ \<Rightarrow> s)"

definition pm_run :: "hw \<Rightarrow> pmsim" where
  "pm_run t = fold pm_ev t pm_start"

definition pm_answer :: "ev \<Rightarrow> pmsim \<Rightarrow> u32" where
  "pm_answer e s = (case e of
       Reg_Rd r \<Rightarrow> if r = ''SPIM->RX[0]'' \<and> pm_txn s = [5] then (case pm_phase s of Busy \<Rightarrow> 1 | Enabled \<Rightarrow> 2 | Idle \<Rightarrow> 0) else 0
     | DMA_In k \<Rightarrow> ucast (pm_mem s (adr (pm_faddr s) + k))
     | _ \<Rightarrow> 0)"

definition pm_konst :: "bsp_const \<Rightarrow> u32" where
  "pm_konst c = (if c = SPIM_DMM_SIZE then 0x02000000 else if c = Konst ''OPCODE_RDSR'' then 5
     else if c = Konst ''OPCODE_WREN'' then 6 else if c = Konst ''OPCODE_SE_4K'' then 0x20
     else if c = Konst ''SR_WEL'' then 2 else if c = Konst ''SR_WIP'' then 1 else 0)"

definition pm_bsp :: bsp where
  "pm_bsp = \<lparr>resp = (\<lambda>t. if t = [] then 0 else pm_answer (last t) (pm_run (butlast t))), konst = pm_konst\<rparr>"

definition pm_dev :: spim_dev where
  "pm_dev = \<lparr>sp_mem = (\<lambda>t. pm_mem (pm_run t)),
     sp_phase = (\<lambda>t. pm_phase (pm_run t)),
     sp_size = 0x00400000\<rparr>"

lemma pm_run_append [simp]: "pm_run (t @ [e]) = pm_ev e (pm_run t)"
  by (simp add: pm_run_def)

lemma pm_resp [simp]: "resp pm_bsp (t @ [e]) = pm_answer e (pm_run t)"
  by (simp add: pm_bsp_def)

lemma pm_run_parts [simp]:
  "pm_run (t @ spim_ss ''1'') = (pm_run t)\<lparr>pm_txn := []\<rparr>"
  "pm_run (t @ spim_ss ''0'') = pm_close (pm_run t)"
  "pm_run (t @ spim_go) = pm_run t"
  "pm_run (spim_io_mode B d t) = pm_run t"
  "pm_run (NVT_SPIM_IO_Write b t) = (pm_run t)\<lparr>pm_txn := pm_txn (pm_run t) @ [ucast b]\<rparr>"
  "pm_run (spim_dma B c m a n t) = (pm_run t)\<lparr>pm_faddr := a\<rparr>"
  by (simp_all add: pm_run_def spim_ss_def spim_go_def spim_io_mode_def modify_def ask_def Let_def
      NVT_SPIM_IO_Write_def spim_dma_def pm_ev_def)

lemma pm_run_dma [simp]: "pm_run (u @ DMA_Out bs # spim_ss ''0'') = pm_close (pm_ev (DMA_Out bs) (pm_run u))"
  by (simp add: pm_run_def spim_ss_def pm_ev_def)

lemma pm_masks [simp]: "msk pm_bsp ''OPCODE_RDSR'' = 5" "msk pm_bsp ''OPCODE_WREN'' = 6" "msk pm_bsp ''OPCODE_SE_4K'' = 0x20"
  "SR_WEL pm_bsp = 2" "SR_WIP pm_bsp = 1"
  by (simp_all add: msk_def SR_WEL_def SR_WIP_def pm_bsp_def pm_konst_def)

lemma pm_run_cmd [simp]: "pm_run (spim_cmd B op t) = (pm_run t)\<lparr>pm_txn := [ucast (ucast (msk B op) :: u8)]\<rparr>"
  by (simp add: spim_cmd_def)

definition pm_polled :: "pmsim \<Rightarrow> pmsim" where
  "pm_polled s = (if pm_phase s = Busy then s\<lparr>pm_phase := Idle\<rparr> else s)"

lemma pm_polled_simps [simp]: "pm_txn (pm_polled s) = pm_txn s" "pm_mem (pm_polled s) = pm_mem s"
  "pm_polled (pm_polled s) = pm_polled s" "pm_phase (pm_polled s) = (if pm_phase s = Busy then Idle else pm_phase s)"
  by (simp_all add: pm_polled_def)

lemma pm_status_reads:
  "pm_txn (pm_run u) = [5] \<Longrightarrow> pm_run (u @ status_reads n) = (if n = 0 then pm_run u else pm_polled (pm_run u))"
proof (induction n arbitrary: u)
  case (Suc n)
  let ?u = "u @ spim_go @ [Reg_Rd ''SPIM->RX[0]'']"
  have u: "pm_run ?u = pm_polled (pm_run u)"
    using Suc.prems pm_run_append [of "u @ spim_go"] by (simp add: pm_ev_def pm_polled_def)
  have "pm_run (u @ status_reads (Suc n)) = pm_run (?u @ status_reads n)" by (simp add: status_reads_Suc)
  then show ?case using Suc.IH [of ?u] Suc.prems u by simp
qed (simp add: status_reads_def)

lemma status_upto_last:
  "status_upto B t n = spim_io_mode B 0 (spim_cmd B ''OPCODE_RDSR'' t) @ status_reads n @ spim_go @ [Reg_Rd ''SPIM->RX[0]'']"
  by (simp add: status_upto_def status_reads_def replicate_append_same [symmetric])

lemma pm_run_upto: "pm_run (status_upto pm_bsp t n) = pm_polled ((pm_run t)\<lparr>pm_txn := [5]\<rparr>)"
  by (simp add: status_upto_def pm_status_reads)

lemma pm_status_at:
  "status_at pm_bsp t n = (case pm_phase (pm_run t) of Busy \<Rightarrow> if n = 0 then 1 else 0 | Enabled \<Rightarrow> 2 | Idle \<Rightarrow> 0)"
proof -
  let ?u = "spim_io_mode pm_bsp 0 (spim_cmd pm_bsp ''OPCODE_RDSR'' t) @ status_reads n"
  have "status_at pm_bsp t n = ucast (pm_answer (Reg_Rd ''SPIM->RX[0]'') (pm_run (?u @ spim_go)) AND 0xFF)"
    using pm_resp [of "?u @ spim_go"] by (simp add: status_at_def status_upto_last)
  moreover have "pm_run (?u @ spim_go) = (if n = 0 then (pm_run t)\<lparr>pm_txn := [5]\<rparr> else pm_polled ((pm_run t)\<lparr>pm_txn := [5]\<rparr>))"
    by (simp add: pm_status_reads flip: append_assoc)
  ultimately show ?thesis by (cases "n = 0") (simp_all only: pm_answer_def ev.case if_True if_False, auto split: spim_phase.split)
qed

lemma pm_run_end: "pm_run (status_end pm_bsp t n) = pm_polled ((pm_run t)\<lparr>pm_txn := [5]\<rparr>)"
  by (simp add: status_end_def pm_run_upto pm_close_def)

lemma byte_through_register [simp]: "ucast (ucast (b :: u8) :: u32) = b"
  by (rule bit_word_eqI) (auto simp: bit_simps)

lemma pm_laws: "spim_laws pm_bsp pm_dev"
proof -
  have "spim_read_law pm_bsp pm_dev"
    by (auto simp: spim_read_law_def Let_def spim_read_txn_def pm_dev_def pm_answer_def pm_close_def
        split: if_splits)
  moreover have "spim_enable_law pm_bsp pm_dev"
    by (auto simp: spim_enable_law_def Let_def pm_dev_def pm_close_def split: if_splits)
  moreover have "spim_status_law pm_bsp pm_dev"
    unfolding spim_status_law_def
    by (intro conjI allI impI exI [of _ 1])
       (auto simp: pm_dev_def pm_run_end pm_status_at split: if_splits)
  moreover have "spim_program_law pm_bsp pm_dev"
    by (auto simp: spim_program_law_def pm_dev_def spim_program_txn_def pm_close_def pm_ev_def
        split: if_splits)
  moreover have "spim_erase_law pm_bsp pm_dev"
    by (auto simp: spim_erase_law_def pm_dev_def spim_erase_txn_def pm_close_def split: if_splits)
  ultimately show ?thesis
    by (auto simp: spim_laws_def pm_dev_def pm_ev_def split: if_splits)
qed

lemma pm_spim_ok: "spim_ok pm_bsp pm_dev []"
proof -
  have "sp_phase pm_dev [] = Idle" "sp_size pm_dev = 0x00400000" "unat (konst pm_bsp SPIM_DMM_SIZE) = 0x02000000"
    by (simp_all add: pm_dev_def pm_run_def pm_start_def pm_bsp_def pm_konst_def)
  then show ?thesis by (simp add: spim_ok_def pm_laws)
qed

end
