(* ===== verification/Spim_Props.thy ===== *)
theory Spim_Props
  imports Sim_Spim Board
begin

text \<open>
  Properties of the secondary slot behind the SPIM master: reading, programming and erasing
  a chip that behaves as documented, with the two ways in which the driver's geometry is not that of
  the chip.
\<close>

text \<open>
  C18. Reading any offset and length of an area in the serial flash behind the SPIM returns 0
  and delivers exactly the content of the chip; the chip is idle again and unchanged.
\<close>

theorem spim_slot_read:
  assumes "spim_ok B F t" and "area_ok A (Driver_FLASH2_SPIM B) 0 (sp_size F)"
    and "safe_add_spec safe_add" and "unat off + unat len \<le> unat (fa_size A)"
  shows "\<exists>t'. flash_area_read safe_add ind (Some A) off dst len t
      = Some (0, copy_bytes dst 0 (\<lambda>k. sp_mem F t (unat (fa_off A) + unat off + k)) 0 (unat len), t')
    \<and> spim_ok B F t' \<and> sp_mem F t' = sp_mem F t"
  by (rule spim_flash.flash_area_read_ok [OF assms])

definition spim_area :: "u32 \<Rightarrow> hw flash_area" where
  "spim_area off = \<lparr>fa_id = 2, fa_device_id = 101, fa_driver = Driver_FLASH2_SPIM pm_bsp, fa_off = off, fa_size = 0x8000\<rparr>"

lemma pm_size [simp]: "sp_size pm_dev = 0x00400000" "sp_mem pm_dev [] = (\<lambda>_. 0x7F)"
  by (simp_all add: pm_dev_def pm_run_def pm_start_def)

lemma spim_area_ok: "area_ok (spim_area 0x8000) (Driver_FLASH2_SPIM pm_bsp) 0 (sp_size pm_dev)"
  by (simp add: area_ok_def spim_area_def)

theorem spim_slot_read_witness:
  "\<exists>t'. flash_area_read sim_safe_add sim_ind (Some (spim_area 0x8000)) 5 sim_ind 300 []
      = Some (0, copy_bytes sim_ind 0 (\<lambda>k. 0x7F) 0 300, t')"
  using spim_slot_read [OF pm_spim_ok spim_area_ok sim_safe_add_spec, of 5 300 sim_ind sim_ind]
  by (auto simp: spim_area_def)

text \<open>
  C19. A non-empty write behind the SPIM whose offset and length are multiples of 8, and that starts at a
  256-byte page boundary of the chip or stays inside one page, returns 0 and programs exactly the requested bytes, in any
  number of page programs, each after write enable and followed by polling until the chip is ready.
\<close>

theorem spim_write_in_pages:
  assumes "spim_ok B F t" and "area_ok A (Driver_FLASH2_SPIM B) 0 (sp_size F)" and "safe_add_spec safe_add"
    and "unat off + unat len \<le> unat (fa_size A)" and "len \<noteq> 0" and "8 dvd unat off" and "8 dvd unat len"
    and "256 dvd unat (fa_off A) + unat off \<or> (unat (fa_off A) + unat off) mod 256 + unat len \<le> 256"
  shows "\<exists>t'. flash_area_write safe_add 8 ind (Some A) off src len t = Some (0, t') \<and> spim_ok B F t'
    \<and> sp_mem F t' = flash_program (sp_mem F t) (unat (fa_off A) + unat off) (unat len) src"
proof -
  let ?a = "unat (fa_off A) + unat off" and ?bs = "map src [0..<unat len]"
  have "chunked_program (sp_mem F t) ?a ?bs = flash_program (sp_mem F t) ?a (unat len) (\<lambda>k. ?bs ! k)"
    using assms(8)
  proof
    assume "256 dvd ?a"
    then show ?thesis by (simp add: chunked_program_aligned)
  next
    assume "?a mod 256 + unat len \<le> 256"
    then show ?thesis by (simp add: chunked_program_one page_program_inside)
  qed
  moreover have "flash_program (sp_mem F t) ?a (unat len) (\<lambda>k. ?bs ! k) = flash_program (sp_mem F t) ?a (unat len) src"
    by (rule flash_program_cong) simp
  ultimately show ?thesis using spim_area_write_units [OF assms(1-7), of ind src] by auto
qed

theorem spim_write_in_pages_witness:
  "\<exists>t'. flash_area_write sim_safe_add 8 sim_ind (Some (spim_area 0x8000)) 0x100 of_nat 600 [] = Some (0, t')
    \<and> sp_mem pm_dev t' = flash_program (\<lambda>_. 0x7F) 0x8100 600 of_nat"
  using spim_write_in_pages [OF pm_spim_ok spim_area_ok sim_safe_add_spec, of "0x100" 600 sim_ind of_nat]
  by (auto simp: spim_area_def)

text \<open>
  C20. The driver cuts a request into pieces of 256 bytes from its start, not at the page boundaries of
  the chip. A write of at most 256 bytes, with offset and length multiples of 8, that does not start at a page
  boundary and crosses one, therefore returns 0 and programs all its bytes
  into the page where it starts: what should follow the page boundary is programmed over the
  start of that page, and the next page keeps its content.
\<close>

theorem spim_write_wraps:
  assumes "spim_ok B F t" and "area_ok A (Driver_FLASH2_SPIM B) 0 (sp_size F)" and "safe_add_spec safe_add"
    and "unat off + unat len \<le> unat (fa_size A)" and "len \<noteq> 0" and "8 dvd unat off" and "8 dvd unat len"
    and "unat len \<le> 256" and "a = unat (fa_off A) + unat off" and "256 < a mod 256 + unat len"
  shows "\<exists>t'. flash_area_write safe_add 8 ind (Some A) off src len t = Some (0, t')
    \<and> (\<forall>k < unat len. let x = a div 256 * 256 + (a mod 256 + k) mod 256 in sp_mem F t' x = sp_mem F t x AND src k)
    \<and> (\<forall>x. a div 256 * 256 + 256 \<le> x \<longrightarrow> sp_mem F t' x = sp_mem F t x)"
proof -
  let ?bs = "map src [0..<unat len]"
  have m: "chunked_program (sp_mem F t) a ?bs = page_program (sp_mem F t) a ?bs"
    using assms(8) by (simp add: chunked_program_one)
  have p: "page_program (sp_mem F t) a ?bs x = sp_mem F t x AND src k"
    if "k < unat len" "x = a div 256 * 256 + (a mod 256 + k) mod 256" for k x
  proof -
    have "k < 256" using that(1) assms(8) by simp
    then show ?thesis using that page_program_place [of k ?bs "sp_mem F t" a] by simp
  qed
  have "page_program (sp_mem F t) a ?bs x = sp_mem F t x" if "a div 256 * 256 + 256 \<le> x" for x
  proof -
    have "x div 256 \<noteq> a div 256" using that mod_less_divisor [of 256 x] div_mult_mod_eq [of x 256] by linarith
    then show ?thesis by (simp add: page_program_def)
  qed
  then show ?thesis
    using spim_area_write_units [OF assms(1-7), of ind src] m p unfolding assms(9) [symmetric] by (auto simp: Let_def)
qed

theorem spim_write_wraps_witness:
  "\<exists>t'. flash_area_write sim_safe_add 8 sim_ind (Some (spim_area 0x8000)) 0xF8 of_nat 16 [] = Some (0, t')
    \<and> sp_mem pm_dev t' 0x8000 = 8 \<and> sp_mem pm_dev t' 0x8100 = 0x7F"
proof -
  obtain t' where "flash_area_write sim_safe_add 8 sim_ind (Some (spim_area 0x8000)) 0xF8 of_nat 16 [] = Some (0, t')"
    "\<forall>k < unat (16 :: u32). let x = 0x80F8 div 256 * 256 + (0x80F8 mod 256 + k) mod 256
      in sp_mem pm_dev t' x = sp_mem pm_dev [] x AND of_nat k"
    "\<forall>x. (0x80F8 :: nat) div 256 * 256 + 256 \<le> x \<longrightarrow> sp_mem pm_dev t' x = sp_mem pm_dev [] x"
    using spim_write_wraps [OF pm_spim_ok spim_area_ok sim_safe_add_spec, of "0xF8" 16 "0x80F8" sim_ind of_nat]
    by (auto simp: spim_area_def)
  then show ?thesis by (auto simp: Let_def dest: spec [of _ 8] spec [of _ "0x8100"])
qed

text \<open>
  C21. The driver reports sectors of 256 bytes, but erases with the 4 KiB command. A non-empty erase from a
  256-byte boundary of a chip of whole sectors returns 0 and clears every 4 KiB block that the request touches, the bytes before and
  after it included; only a request made of whole blocks is erased exactly.
\<close>

theorem spim_slot_erase:
  assumes "spim_ok B F t" and "area_ok A (Driver_FLASH2_SPIM B) 0 (sp_size F)" and "safe_add_spec safe_add"
    and "256 dvd sp_size F" and "unat off + unat len \<le> unat (fa_size A)" and "0 < unat len"
    and "a = unat (fa_off A) + unat off" and "256 dvd a"
  shows "\<exists>t'. flash_area_erase safe_add (Some A) off len t = Some (0, t') \<and> spim_ok B F t'
    \<and> (\<forall>x. sp_mem F t' x = (if a div 4096 \<le> x div 4096 \<and> x div 4096 \<le> (a + unat len - 1) div 4096 then 0xFF else sp_mem F t x))
    \<and> (4096 dvd a \<and> 4096 dvd unat len \<longrightarrow> sp_mem F t' = flash_erase (sp_mem F t) a (unat len))"
proof -
  have "fa_driver A = Driver_FLASH2_SPIM B" "unat (fa_off A) + unat (fa_size A) \<le> sp_size F"
    using assms(2) by (simp_all add: area_ok_def)
  from spim_area_erase_blocks [OF assms(1,3) this assms(4-6)] assms(7,8) obtain t' where
    "flash_area_erase safe_add (Some A) off len t = Some (0, t')" "spim_ok B F t'"
    "sp_mem F t' = blocks_erased (sp_mem F t) a (a + unat len - 1)"
    by auto
  then show ?thesis using blocks_erased_whole [of a "unat len" "sp_mem F t"] assms(6) by (simp add: blocks_erased_def)
qed

theorem spim_slot_erase_witness:
  "\<exists>t'. flash_area_erase sim_safe_add (Some (spim_area 0x8000)) 0x100 0x100 [] = Some (0, t')
    \<and> sp_mem pm_dev t' 0x8000 = 0xFF \<and> sp_mem pm_dev t' 0x8FFF = 0xFF \<and> sp_mem pm_dev t' 0x9000 = 0x7F"
  using spim_slot_erase [OF pm_spim_ok spim_area_ok sim_safe_add_spec, of "0x100" "0x100" "0x8100"]
  by (auto simp: spim_area_def)

end
