(* ===== verification/Flash_Map_Ext.thy ===== *)
theory Flash_Map_Ext
  imports Default_Flash_Map
begin

text \<open>
  \<open>flash_map_extended.c\<close>, \<open>flash_map_legacy.c\<close>, the inline functions of
  \<open>flash_map_backend.h\<close> and the slot macros of \<open>sysflash.h\<close>: what the bootutil library asks
  of the flash map. Proved here: what the loops over sectors and over
  the bytes of a range compute.
\<close>

section \<open>Identifiers and slots\<close>

text \<open>The result and \<open>*ret\<close>, which is unchanged on an error.\<close>

definition flash_device_base :: "flash_layout \<Rightarrow> u8 \<Rightarrow> u32 \<Rightarrow> int \<times> u32" where
  "flash_device_base L fd_id ret =
     (if fd_id \<noteq> FLASH_DEVICE_ID then (-1, ret) else (0, FLASH_BASE_ADDRESS L))"

definition FLASH_SLOT_DOES_NOT_EXIST :: int where
  "FLASH_SLOT_DOES_NOT_EXIST = 255"

definition FLASH_AREA_IMAGE_SCRATCH :: int where
  "FLASH_AREA_IMAGE_SCRATCH = FLASH_SLOT_DOES_NOT_EXIST"

definition FLASH_AREA_IMAGE_PRIMARY :: "int \<Rightarrow> int" where
  "FLASH_AREA_IMAGE_PRIMARY i = (if i = 0 then 1 else 255)"

definition FLASH_AREA_IMAGE_SECONDARY :: "int \<Rightarrow> int" where
  "FLASH_AREA_IMAGE_SECONDARY i = (if i = 0 then 2 else 255)"

definition flash_area_id_from_multi_image_slot :: "int \<Rightarrow> int \<Rightarrow> int" where
  "flash_area_id_from_multi_image_slot image_index slot =
     (if slot = 0 then FLASH_AREA_IMAGE_PRIMARY image_index
      else if slot = 1 then FLASH_AREA_IMAGE_SECONDARY image_index
      else if slot = 2 then FLASH_AREA_IMAGE_SCRATCH
      else -1)"

definition flash_area_id_from_image_slot :: "int \<Rightarrow> int" where
  "flash_area_id_from_image_slot slot = flash_area_id_from_multi_image_slot 0 slot"

definition flash_area_id_to_multi_image_slot :: "int \<Rightarrow> int \<Rightarrow> int" where
  "flash_area_id_to_multi_image_slot image_index area_id =
     (if area_id = FLASH_AREA_IMAGE_PRIMARY image_index then 0
      else if area_id = FLASH_AREA_IMAGE_SECONDARY image_index then 1
      else -1)"

definition flash_area_id_to_image_slot :: "int \<Rightarrow> int" where
  "flash_area_id_to_image_slot area_id = flash_area_id_to_multi_image_slot 0 area_id"

section \<open>Erased flash\<close>

definition flash_area_erased_val :: "'s flash_area \<Rightarrow> u8" where
  "flash_area_erased_val fap = erased_value (GetInfo (fa_driver fap) ())"

function read_is_empty_loop :: "buf \<Rightarrow> u8 \<Rightarrow> u32 \<Rightarrow> u32 \<Rightarrow> int" where
  "read_is_empty_loop u8dst erased i len =
     (if i < len then (if u8dst (unat i) \<noteq> erased then 0
                       else read_is_empty_loop u8dst erased (i + 1) len)
      else 1)"
  by pat_completeness auto
termination
  by (relation "measure (\<lambda>(d, e, i, len). unat len - unat i)")
     (auto simp: unat_Suc32 word_less_nat_alt)

declare read_is_empty_loop.simps [simp del]

definition flash_area_read_is_empty :: "(u32 \<Rightarrow> u32 \<Rightarrow> u32 option) \<Rightarrow> buf \<Rightarrow>
    's flash_area \<Rightarrow> u32 \<Rightarrow> buf \<Rightarrow> u32 \<Rightarrow> 's \<Rightarrow> (int \<times> buf \<times> 's) option" where
  "flash_area_read_is_empty safe_add ind fa off dst len s = do {
     (rc, dst, s) \<leftarrow> flash_area_read safe_add ind (Some fa) off dst len s;
     if rc \<noteq> 0 then Some (-1, dst, s)
     else Some (read_is_empty_loop dst (flash_area_erased_val fa) 0 len, dst, s) }"

section \<open>Sectors\<close>

text \<open>The loop: whether it is left by the \<open>goto\<close>, \<open>*cnt\<close> and the array.\<close>

function get_sectors_loop :: "u32 \<Rightarrow> u32 \<Rightarrow> u32 \<Rightarrow> u32 \<Rightarrow> (nat \<Rightarrow> flash_sector) \<Rightarrow>
    bool \<times> u32 \<times> (nat \<Rightarrow> flash_sector)" where
  "get_sectors_loop sector rem_len cnt max_cnt ret =
     (if rem_len > 0 \<and> cnt < max_cnt then
        (if rem_len < sector then (True, cnt, ret)
         else get_sectors_loop sector (rem_len - sector) (cnt + 1) max_cnt
                (ret(unat cnt := \<lparr>fs_off = sector * cnt, fs_size = sector\<rparr>)))
      else (False, cnt, ret))"
  by pat_completeness auto
termination
  by (relation "measure (\<lambda>(z, r, cnt, m, ret). unat m - unat cnt)")
     (auto simp: unat_Suc32 word_less_nat_alt)

declare get_sectors_loop.simps [simp del]

text \<open>
  \<open>idx\<close> is passed to \<open>flash_area_open\<close> as a \<open>uint8_t\<close>. Returned are the result, \<open>*cnt\<close> and
  the array.
\<close>

definition flash_area_get_sectors :: "'s flash_area list \<Rightarrow> u32 \<Rightarrow> int \<Rightarrow> u32 \<Rightarrow>
    (nat \<Rightarrow> flash_sector) \<Rightarrow> int \<times> u32 \<times> (nat \<Rightarrow> flash_sector)" where
  "flash_area_get_sectors fmap sector idx cnt ret =
     (let max_cnt = cnt;
          (r, fa) = flash_area_open fmap (word_of_int idx) None
      in if r \<noteq> 0 then (-1, cnt, ret)
         else case fa of None \<Rightarrow> (-1, cnt, ret) | Some fa \<Rightarrow>
           if cnt < 1 then (-1, cnt, ret)
           else
             let (failed, cnt, ret) = get_sectors_loop sector (fa_size fa) 0 max_cnt ret
             in if failed then (-1, cnt, ret)
                else if cnt > max_cnt then (-1, cnt, ret)
                else (0, cnt, ret))"

text \<open>\<open>None\<close> is the division by a page size of 0.\<close>

definition flash_area_get_sector ::
    "'s flash_area \<Rightarrow> u32 \<Rightarrow> flash_sector \<Rightarrow> (int \<times> flash_sector) option" where
  "flash_area_get_sector fap off sector =
     (if off \<ge> fa_size fap then Some (-1, sector)
      else let page = page_size (GetInfo (fa_driver fap) ())
           in if page = 0 then None
              else Some (0, \<lparr>fs_off = (off div page) * page, fs_size = page\<rparr>))"

definition flash_area_get_id :: "'s flash_area \<Rightarrow> u8" where
  "flash_area_get_id fa = fa_id fa"

definition flash_area_get_device_id :: "'s flash_area \<Rightarrow> u8" where
  "flash_area_get_device_id fa = fa_device_id fa"

definition flash_area_get_off :: "'s flash_area \<Rightarrow> u32" where
  "flash_area_get_off fa = fa_off fa"

definition flash_area_get_size :: "'s flash_area \<Rightarrow> u32" where
  "flash_area_get_size fa = fa_size fa"

definition flash_sector_get_off :: "flash_sector \<Rightarrow> u32" where
  "flash_sector_get_off fs = fs_off fs"

definition flash_sector_get_size :: "flash_sector \<Rightarrow> u32" where
  "flash_sector_get_size fs = fs_size fs"

section \<open>The loops\<close>

lemma read_is_empty_loop_eq:
  "read_is_empty_loop d e i len = (if \<forall>k. unat i \<le> k \<longrightarrow> k < unat len \<longrightarrow> d k = e then 1 else 0)"
proof (induction d e i len rule: read_is_empty_loop.induct)
  case (1 d e i len)
  show ?case
  proof (cases "i < len")
    case False
    then show ?thesis by (subst read_is_empty_loop.simps) (auto simp: word_less_nat_alt)
  next
    case True
    have "(\<forall>k. unat i \<le> k \<longrightarrow> k < unat len \<longrightarrow> d k = e)
        \<longleftrightarrow> d (unat i) = e \<and> (\<forall>k. Suc (unat i) \<le> k \<longrightarrow> k < unat len \<longrightarrow> d k = e)"
      using True unfolding word_less_nat_alt
      by (metis Suc_leD Suc_leI le_neq_implies_less order_refl)
    then show ?thesis
      using 1 True unat_Suc32 [OF True] by (subst read_is_empty_loop.simps) auto
  qed
qed

text \<open>The sector at index \<open>k\<close> of a list with uniform sectors.\<close>

definition uniform_sector :: "u32 \<Rightarrow> nat \<Rightarrow> flash_sector" where
  "uniform_sector sector k = \<lparr>fs_off = sector * of_nat k, fs_size = sector\<rparr>"

lemma get_sectors_loop_eq:
  assumes "unat rem_len = n * unat sector" "0 < unat sector" "unat cnt + n < 2 ^ 32"
  shows "get_sectors_loop sector rem_len cnt max_cnt ret
       = (let m = min n (unat max_cnt - unat cnt)
          in (False, cnt + of_nat m,
              \<lambda>k. if unat cnt \<le> k \<and> k < unat cnt + m then uniform_sector sector k else ret k))"
  using assms
proof (induction sector rem_len cnt max_cnt ret arbitrary: n rule: get_sectors_loop.induct)
  case (1 sector rem_len cnt max_cnt ret)
  show ?case
  proof (cases "rem_len > 0 \<and> cnt < max_cnt")
    case False
    then have "n = 0 \<or> unat max_cnt - unat cnt = 0"
      using "1.prems" by (auto simp: word_less_nat_alt)
    then have "min n (unat max_cnt - unat cnt) = 0" by auto
    then show ?thesis using False by (subst get_sectors_loop.simps) (auto simp: fun_eq_iff)
  next
    case True
    then have "0 < n * unat sector" using "1.prems"(1) by (simp add: word_less_nat_alt)
    then obtain n' where n: "n = Suc n'" by (cases n) auto
    then have ge: "\<not> rem_len < sector" using "1.prems"(1) by (simp add: word_less_nat_alt)
    have rem: "unat (rem_len - sector) = n' * unat sector"
      using ge "1.prems"(1) n by (subst unat_sub32) (auto simp: not_less)
    have c: "unat (cnt + 1) = Suc (unat cnt)" using True by (auto intro: unat_Suc32)
    have "unat (cnt + 1) + n' < 2 ^ 32" using "1.prems"(3) n c by simp
    note IH = "1.IH" [OF True ge rem "1.prems"(2) this]
    have m: "min n (unat max_cnt - unat cnt) = Suc (min n' (unat max_cnt - unat (cnt + 1)))"
      using True n c by (auto simp: word_less_nat_alt min_def)
    have u: "uniform_sector sector (unat cnt) = \<lparr>fs_off = sector * cnt, fs_size = sector\<rparr>"
      by (simp add: uniform_sector_def)
    show ?thesis
      unfolding m Let_def using True ge
      by (subst get_sectors_loop.simps) (auto simp: IH Let_def c u fun_eq_iff)
  qed
qed

end
