(* ===== verification/Map_Props.thy ===== *)
theory Map_Props
  imports Flash_Map_Ext Board
begin

text \<open>
  Properties of the flash layouts of the eight platforms and of the tables and lookups built on
  them: which areas exist, how IDs and slots are numbered, which sectors an area has, and the
  test for erased flash.
\<close>

section \<open>Layouts\<close>

text \<open>
  C31. The areas that the table of a platform offers, with and without serial flash, for any number of
  images with which the table exists. Areas opened under different IDs never overlap; every area is a
  non-empty sequence of whole sectors; the two slots have the same size, and unless they are in serial flash
  they lie in the flash of the device behind the area of the boot loader, which need not end at
  a sector boundary itself.
\<close>

theorem opened_areas_disjoint:
  assumes "flash_map drivers n scratch (layout_of p spi) = Some m"
    and "flash_area_open m x None = (0, Some A)" and "flash_area_open m y None = (0, Some A')"
  defines "L \<equiv> layout_of p spi"
  defines "sector \<equiv> unat (FLASH_AREA_IMAGE_SECTOR_SIZE L)"
  shows "(x \<noteq> y \<longrightarrow> unat (fa_off A) + unat (fa_size A) \<le> unat (fa_off A')
      \<or> unat (fa_off A') + unat (fa_size A') \<le> unat (fa_off A))
    \<and> 0 < unat (fa_size A) \<and> sector dvd unat (fa_off A) \<and> sector dvd unat (fa_size A)
    \<and> (x \<noteq> 255 \<and> y \<noteq> 255 \<longrightarrow> fa_size A = fa_size A')
    \<and> (\<not> (x = 2 \<and> p = M460 \<and> spi) \<longrightarrow>
        unat (FLASH_AREA_BL2_OFFSET L) + unat (FLASH_AREA_BL2_SIZE L) \<le> unat (fa_off A)
      \<and> (x \<noteq> 255 \<longrightarrow> unat (fa_off A) + unat (fa_size A) \<le> unat (FLASH_TOTAL_SIZE L)))"
proof -
  note m = flash_map_images [OF assms(1)]
  note a = opened_area_sound [OF m assms(2), folded L_def, folded sector_def]
    and a' = opened_area_sound [OF m assms(3), folded L_def]
  show ?thesis
    using areas_disjoint [OF m assms(2,3)] a a'(5) unfolding bl2_end_def by auto
qed

theorem opened_areas_disjoint_witness:
  "\<exists>m A A'. flash_map (\<lambda>d. Driver_FLASH0 sim_bsp True sim_ind (linked_nvmc sim_bsp True)) 1 True (layout_of M55M1 False) = Some m
    \<and> flash_area_open m 1 None = (0, Some A) \<and> flash_area_open m 2 None = (0, Some A')
    \<and> fa_size A = fa_size A' \<and> 0x2000 dvd unat (fa_off A')"
proof -
  let ?d = "\<lambda>d. Driver_FLASH0 sim_bsp True sim_ind (linked_nvmc sim_bsp True)"
  obtain m where m: "flash_map ?d 1 True (layout_of M55M1 False) = Some m" by (simp add: flash_map_def)
  note o = flash_map_slots [OF m, of None]
  show ?thesis
    using m o opened_areas_disjoint [OF m o(2,1)] by (auto simp: layout_defs)
qed

text \<open>The same for the layouts, with the checks of \<open>target.h\<close> for one image.\<close>

lemma platform_layouts_sound:
  "layout_sound (layout_of p spi) \<and> target_ok 1 scratch (layout_of p spi)"
proof -
  have "target_ok 1 scratch (layout_of p spi)"
    by (cases p) (simp_all add: target_ok_def layout_defs)
  with layouts_sound show ?thesis by blast
qed

text \<open>
  No platform supports two images: with \<open>MCUBOOT_IMAGE_NUMBER == 2\<close> the layout of every
  platform violates a check of \<open>target.h\<close>, and the table \<open>flash_map\<close> does not exist.
\<close>

lemma two_images_rejected:
  "\<not> target_ok 2 scratch (layout_of p spi) \<and> flash_map drivers 2 scratch (layout_of p spi) = None"
  by (cases p) (simp_all add: target_ok_def flash_map_def layout_defs)

section \<open>Tables\<close>

text \<open>
  C32. On every platform \<open>flash_area_open\<close> finds under ID 1 the primary slot, under ID 2 the
  secondary slot (in the serial flash for the M460 build with it), under ID 255 the scratch area
  in the LDROM when there is one, each with the offset and size of the layout; for any other ID
  it returns -1 and leaves \<open>*area\<close> as it was.
\<close>

theorem flash_map_lookup:
  assumes "flash_map drivers 1 scratch (layout_of p spi) = Some m"
  defines "L \<equiv> layout_of p spi"
  shows "flash_area_open m 1 area = (0, Some (map_entry drivers (Dev_FLASH0, FLASH_DEVICE_ID) 1
            (FLASH_AREA_0_OFFSET L) (FLASH_AREA_0_SIZE L)))
    \<and> flash_area_open m 2 area = (0, Some (map_entry drivers
            (if p = M460 \<and> spi then (Dev_FLASH2, 101) else (Dev_FLASH0, FLASH_DEVICE_ID)) 2
            (FLASH_AREA_2_OFFSET L) (FLASH_AREA_2_SIZE L)))
    \<and> flash_area_open m 255 area = (if scratch then (0, Some (map_entry drivers (Dev_FLASH1, FLASH_DEVICE_ID) 255
            (FLASH_AREA_SCRATCH_OFFSET L) (FLASH_AREA_SCRATCH_SIZE L))) else (-1, area))
    \<and> (\<forall>x. x \<noteq> 1 \<and> x \<noteq> 2 \<and> x \<noteq> 255 \<longrightarrow> flash_area_open m x area = (-1, area))"
proof -
  note m = flash_map_table [OF assms(1), folded L_def]
  have "flash_area_open m 255 area = (if scratch then (0, Some (m ! 2)) else (-1, area))"
  proof (cases scratch)
    case True
    then show ?thesis using flash_map_scratch assms(1) by simp
  next
    case False
    have "flash_area_open m 255 area = (-1, area)"
      by (rule flash_area_open_missing) (use False in \<open>auto simp: m\<close>)
    then show ?thesis using False by simp
  qed
  moreover have "flash_area_open m x area = (-1, area)" if "x \<noteq> 1 \<and> x \<noteq> 2 \<and> x \<noteq> 255" for x
    by (rule flash_area_open_missing) (use that in \<open>auto simp: m split: if_splits\<close>)
  ultimately show ?thesis using flash_map_slots [OF assms(1), of area] by (simp add: m)
qed

theorem flash_map_lookup_witness:
  "\<exists>m. flash_map (\<lambda>d. Driver_FLASH0 sim_bsp True sim_ind (linked_nvmc sim_bsp True)) 1 True (layout_of M2L31 False) = Some m
    \<and> flash_area_open m 7 None = (-1, None)
    \<and> fa_off (the (snd (flash_area_open m 2 None))) = 0x60000"
proof -
  let ?d = "\<lambda>d. Driver_FLASH0 sim_bsp True sim_ind (linked_nvmc sim_bsp True)"
  obtain m where m: "flash_map ?d 1 True (layout_of M2L31 False) = Some m" by (simp add: flash_map_def)
  show ?thesis using m flash_map_lookup [OF m, of None] by (simp add: map_entry_def layout_defs)
qed

text \<open>
  The list \<open>flash_driver[]\<close> only ever holds the default driver, because its conditions
  compare identifiers that the preprocessor reads as 0: the driver of the serial flash that the
  table uses for the secondary slot of the M460, and the driver of the scratch area, are missing.
\<close>

lemma flash_driver_incomplete:
  "flash_driver image_number scratch (layout_of p spi) = [Dev_FLASH0]
   \<and> fst (FLASH_DEV_2 (layout_of M460 True)) \<notin> set (flash_driver image_number scratch (layout_of M460 True))
   \<and> fst (FLASH_DEV_SCRATCH (layout_of p spi)) \<notin> set (flash_driver image_number scratch (layout_of p spi))"
  by (simp add: flash_driver_def pp_value_def layout_devs del: layout_of.simps)

section \<open>Slots\<close>

text \<open>
  C33. Slot numbers and areas correspond through the table. The ID of a slot of image 0 opens an area whose
  own ID gives the slot back, among the numbers from 0, exactly for the slots 0 and 1; and every area that can be opened, except the
  scratch area, is a slot whose number gives its ID back. For any other image both slots are the scratch
  area when there is one, and the ID of the scratch area is taken for slot 0 of that image.
\<close>

theorem image_slots_roundtrip:
  assumes "flash_map drivers n scratch (layout_of p spi) = Some m"
  shows "(0 \<le> slot \<longrightarrow> (\<exists>A. flash_area_open m (word_of_int (flash_area_id_from_image_slot slot)) None = (0, Some A)
        \<and> flash_area_id_to_image_slot (uint (flash_area_get_id A)) = slot) = (slot = 0 \<or> slot = 1))
    \<and> (flash_area_open m x None = (0, Some A) \<longrightarrow>
        (let s = flash_area_id_to_image_slot (uint x) in
           if x = 255 then s = -1 else (s = 0 \<or> s = 1) \<and> flash_area_id_from_image_slot s = uint x))
    \<and> (img \<noteq> 0 \<and> (slot = 0 \<or> slot = 1) \<longrightarrow>
        (fst (flash_area_open m (word_of_int (flash_area_id_from_multi_image_slot img slot)) None) = 0 \<longleftrightarrow> scratch)
      \<and> flash_area_id_to_multi_image_slot img (flash_area_id_from_multi_image_slot img slot) = 0)"
proof -
  note m = flash_map_images [OF assms]
  have o: "flash_area_open m 1 None = (0, Some (m ! 0))" "flash_area_open m 2 None = (0, Some (m ! 1))"
    "fa_id (m ! 0) = 1" "fa_id (m ! 1) = 2"
    using flash_map_slots [OF m, of None] by (simp_all add: flash_map_table [OF m])
  have s: "fst (flash_area_open m 255 None) = 0 \<longleftrightarrow> scratch"
    and s': "flash_area_open m 255 None = (0, Some A) \<Longrightarrow> fa_id A = 255" for A
  proof -
    have "fst (flash_area_open m 255 None) = 0 \<Longrightarrow> scratch"
      using flash_area_open_missing [of m 255 None] by (force simp: flash_map_table [OF m])
    then show "fst (flash_area_open m 255 None) = 0 \<longleftrightarrow> scratch"
      using flash_map_scratch [of drivers p spi m None] m by auto
    show "fa_id A = 255" if "flash_area_open m 255 None = (0, Some A)"
      by (rule open_cases [OF m that]) (simp_all add: flash_map_table [OF m])
  qed
  note defs = flash_area_id_to_image_slot_def flash_area_id_from_image_slot_def
      flash_area_id_to_multi_image_slot_def flash_area_id_from_multi_image_slot_def
      FLASH_AREA_IMAGE_PRIMARY_def FLASH_AREA_IMAGE_SECONDARY_def FLASH_AREA_IMAGE_SCRATCH_def
      FLASH_SLOT_DOES_NOT_EXIST_def flash_area_get_id_def
  have "(\<exists>A. flash_area_open m (word_of_int (flash_area_id_from_image_slot slot)) None = (0, Some A)
        \<and> flash_area_id_to_image_slot (uint (flash_area_get_id A)) = slot) = (slot = 0 \<or> slot = 1)" if "0 \<le> slot"
    using that o s' by (auto simp: defs)
  moreover have "let s = flash_area_id_to_image_slot (uint x) in
      if x = 255 then s = -1 else (s = 0 \<or> s = 1) \<and> flash_area_id_from_image_slot s = uint x"
    if "flash_area_open m x None = (0, Some A)" by (rule open_cases [OF m that]) (simp_all add: defs)
  moreover have "(fst (flash_area_open m (word_of_int (flash_area_id_from_multi_image_slot img slot)) None) = 0 \<longleftrightarrow> scratch)
      \<and> flash_area_id_to_multi_image_slot img (flash_area_id_from_multi_image_slot img slot) = 0"
    if "img \<noteq> 0" "slot = 0 \<or> slot = 1" using that s by (auto simp: defs)
  ultimately show ?thesis by blast
qed

theorem image_slots_roundtrip_witness:
  "\<exists>m A. flash_map (\<lambda>d. Driver_FLASH0 sim_bsp True sim_ind (linked_nvmc sim_bsp True)) 1 True (layout_of M2L31 False) = Some m
    \<and> flash_area_open m (word_of_int (flash_area_id_from_image_slot 1)) None = (0, Some A)
    \<and> flash_area_id_to_image_slot (uint (flash_area_get_id A)) = 1"
proof -
  let ?d = "\<lambda>d. Driver_FLASH0 sim_bsp True sim_ind (linked_nvmc sim_bsp True)"
  obtain m where m: "flash_map ?d 1 True (layout_of M2L31 False) = Some m" by (simp add: flash_map_def)
  show ?thesis using m image_slots_roundtrip [OF m, of 1] by auto
qed

text \<open>
  C34. The error value -1 of the slot functions is no invalid ID: passed to \<open>flash_area_open\<close> as a
  \<open>uint8_t\<close> it is 255 and opens the scratch area in every build that has one, so that
  \<open>flash_area_get_sectors\<close> of an invalid slot succeeds with the sector of the scratch area.
\<close>

theorem invalid_slot_opens_scratch:
  assumes "flash_map drivers 1 True (layout_of p spi) = Some m" and "slot \<noteq> 0" and "slot \<noteq> 1" and "slot \<noteq> 2"
  shows "\<exists>A. flash_area_open m (word_of_int (flash_area_id_from_image_slot slot)) area = (0, Some A)
    \<and> fa_id A = 255 \<and> fa_off A = FLASH_AREA_SCRATCH_OFFSET (layout_of p spi)"
proof -
  have "flash_area_id_from_image_slot slot = -1"
    using assms(2-) by (simp add: flash_area_id_from_image_slot_def flash_area_id_from_multi_image_slot_def)
  then have w: "(word_of_int (flash_area_id_from_image_slot slot) :: u8) = 255" by simp
  have "fa_id (m ! 2) = 255" "fa_off (m ! 2) = FLASH_AREA_SCRATCH_OFFSET (layout_of p spi)"
    by (simp_all add: flash_map_table [OF assms(1)] map_entry_def)
  then show ?thesis using w flash_map_scratch [OF assms(1)] by simp
qed

theorem invalid_slot_opens_scratch_witness:
  "\<exists>m A. flash_map (\<lambda>d. Driver_FLASH0 sim_bsp True sim_ind (linked_nvmc sim_bsp True)) 1 True (layout_of M2L31 False) = Some m
    \<and> flash_area_open m (word_of_int (flash_area_id_from_image_slot 5)) None = (0, Some A) \<and> fa_id A = 255"
proof -
  let ?d = "\<lambda>d. Driver_FLASH0 sim_bsp True sim_ind (linked_nvmc sim_bsp True)"
  obtain m where m: "flash_map ?d 1 True (layout_of M2L31 False) = Some m" by (simp add: flash_map_def)
  show ?thesis using m invalid_slot_opens_scratch [OF m, of 5 None] by auto
qed

section \<open>Sectors\<close>

text \<open>
  C35. For an area of \<open>n\<close> whole sectors \<open>flash_area_get_sectors\<close> returns 0 and lists the sectors
  in order from offset 0, each of the sector size, writing only within the caller's array. When
  the array is shorter than the area it holds the first sectors only, and the result is 0 all
  the same: the check \<open>*cnt > max_cnt\<close> after the loop never fires.
\<close>

theorem get_sectors_lists:
  assumes "flash_area_open fmap (word_of_int idx) None = (0, Some A)"
    and "unat (fa_size A) = n * unat sector" and "0 < unat sector" and "0 < max_cnt"
  shows "flash_area_get_sectors fmap sector idx max_cnt ret
    = (0, of_nat (min n (unat max_cnt)),
       \<lambda>k. if k < min n (unat max_cnt) then \<lparr>fs_off = sector * of_nat k, fs_size = sector\<rparr> else ret k)"
proof -
  have "n \<le> n * unat sector" using assms(3) by simp
  then have "n < 2 ^ 32" using unat_less32 [of "fa_size A"] assms(2) by linarith
  then have "unat (0::u32) + n < 2 ^ 32" by simp
  note loop = get_sectors_loop_eq [OF assms(2,3) this, of max_cnt ret, unfolded Let_def uniform_sector_def]
  have "\<not> max_cnt < 1" using assms(4) by (simp add: word_less_nat_alt)
  moreover have "unat (of_nat (min n (unat max_cnt)) :: u32) = min n (unat max_cnt)"
    using unat_less32 [of max_cnt] by (intro unat_of_nat32) (meson le_less_trans min.cobounded2)
  then have "\<not> (0 :: u32) + of_nat (min n (unat max_cnt - unat (0 :: u32))) > max_cnt"
    by (simp add: word_less_nat_alt)
  ultimately show ?thesis using assms(1) loop by (simp add: flash_area_get_sectors_def Let_def)
qed

theorem get_sectors_lists_witness:
  "\<exists>m r. flash_map (\<lambda>d. Driver_FLASH0 sim_bsp True sim_ind (linked_nvmc sim_bsp True)) 1 True (layout_of M2L31 False) = Some m
    \<and> flash_area_get_sectors m 0x1000 1 5 r = (0, 5, \<lambda>k. if k < 5 then \<lparr>fs_off = 0x1000 * of_nat k, fs_size = 0x1000\<rparr> else r k)"
proof -
  let ?d = "\<lambda>d. Driver_FLASH0 sim_bsp True sim_ind (linked_nvmc sim_bsp True)"
  let ?A = "map_entry ?d (Dev_FLASH0, 100) 1 0x20000 0x8000"
  obtain m where m: "flash_map ?d 1 True (layout_of M2L31 False) = Some m" "m ! 0 = ?A" "0 < length m"
    by (auto simp: flash_map_def layout_defs FLASH_DEV_0_def dev_or_default_def)
  have "flash_area_open m 1 None = (0, Some (m ! 0))"
    by (rule flash_area_open_found) (use m in \<open>simp_all add: map_entry_def\<close>)
  then have o: "flash_area_open m (word_of_int 1) None = (0, Some ?A)" using m by simp
  show ?thesis using m get_sectors_lists [OF o, of 8 "0x1000" 5] by (auto simp: map_entry_def)
qed

section \<open>Erased flash\<close>

text \<open>
  C36. \<open>flash_area_read_is_empty\<close> of a range inside an APROM area returns 1 exactly when every
  byte of the range is \<open>0xFF\<close>, and 0 otherwise; the flash is unchanged.
\<close>

theorem read_is_empty_iff:
  assumes "board_ok B rmc F (ARM_FLASH0_DEV B rmc) t" and "aprom_area B rmc ind A"
    and "safe_add_spec safe_add" and "unat off + unat len \<le> unat (fa_size A)"
  shows "\<exists>dst' t'. flash_area_read_is_empty safe_add ind2 A off dst len t
      = Some (if \<forall>k < unat len. fd_mem F t (unat (fa_off A) + unat off + k) = 0xFF then 1 else 0, dst', t')
    \<and> fd_mem F t' = fd_mem F t"
proof -
  from aprom.flash_area_read_ok [OF assms(1) aprom_area_ok [OF assms(2)] assms(3,4), of ind2 dst]
  obtain t' where r: "flash_area_read safe_add ind2 (Some A) off dst len t
      = Some (0, copy_bytes dst 0 (\<lambda>k. fd_mem F t (unat (fa_off A) + unat off + k)) 0 (unat len), t')"
    "fd_mem F t' = fd_mem F t" by blast
  have "fa_driver A = Driver_FLASH0 B rmc ind (linked_nvmc B rmc)"
    using assms(2) by (simp add: aprom_area_def area_ok8_def area_ok_def)
  then have e: "flash_area_erased_val A = 0xFF"
    using aprom.erased_value_eq [OF assms(1)] by (simp add: flash_area_erased_val_def)
  let ?c = "copy_bytes dst 0 (\<lambda>k. fd_mem F t (unat (fa_off A) + unat off + k)) 0 (unat len)"
  have "(\<forall>k. unat (0::u32) \<le> k \<longrightarrow> k < unat len \<longrightarrow> ?c k = 0xFF)
      = (\<forall>k < unat len. fd_mem F t (unat (fa_off A) + unat off + k) = 0xFF)"
    by (simp add: copy_bytes_apply)
  then show ?thesis using r by (simp only: flash_area_read_is_empty_def e read_is_empty_loop_eq) simp
qed

theorem read_is_empty_iff_witness:
  "\<exists>dst' t'. flash_area_read_is_empty sim_safe_add sim_ind (sim_area False) 0x100 sim_ind 0x20 [] = Some (1, dst', t')"
  using read_is_empty_iff [where rmc = False and off = "0x100" and len = "0x20" and t = "[]" and dst = sim_ind,
      OF sim_board_ok sim_aprom_area sim_safe_add_spec, of sim_ind]
  by (auto simp: sim_area_def sim_fdev_def sim_run_def sim_start_def)

end
