(* ===== verification/Area_System.thy ===== *)
theory Area_System
  imports Area_Spec Default_Flash_Map
begin

text \<open>
  All flash areas of a board together, as the bootutil library uses them: it opens areas by
  their ID and interleaves operations on them as it likes. A step relation has one transition
  for an admissible operation on the area found under an ID, and its runs are labelled with the
  ID, the operation and what it returned. The specification is a family of abstract
  areas, one per ID, that know nothing of each other. Proved here: where the areas of a
  platform are, that an operation on one of them acts on that one alone, and by rule induction
  that every run is a run of the specification.
\<close>

section \<open>The areas of a platform\<close>

text \<open>The addresses are multiples of the program unit.\<close>

lemma layout_slots_8:
  "8 dvd unat (FLASH_AREA_0_OFFSET (layout_of p spi)) \<and> 8 dvd unat (FLASH_AREA_0_SIZE (layout_of p spi))
   \<and> 8 dvd unat (FLASH_AREA_2_OFFSET (layout_of p spi)) \<and> 8 dvd unat (FLASH_AREA_2_SIZE (layout_of p spi))"
  by (cases p; cases spi) (simp_all add: layout_defs)

text \<open>
  The board fits the layout: a controller with sound APROM and LDROM devices, linked to the
  driver names, whose ranges hold the slots and the scratch area, and whose pages divide sectors.
\<close>

definition board_fits :: "bsp \<Rightarrow> bool \<Rightarrow> fdev \<Rightarrow> buf \<Rightarrow> (flash_dev \<Rightarrow> hw ARM_DRIVER_FLASH) \<Rightarrow> flash_layout \<Rightarrow> bool" where
  "board_fits B rmc F ind drivers L \<longleftrightarrow> nvmc_laws B rmc F
   \<and> dev_ok (ARM_FLASH0_DEV B rmc) (fd_backed F) (nvmc_unit rmc) (nvmc_page B rmc)
   \<and> dev_ok (ARM_FLASH1_DEV B rmc) (fd_backed F) (nvmc_unit rmc) (nvmc_page B rmc)
   \<and> drivers Dev_FLASH0 = Driver_FLASH0 B rmc ind (linked_nvmc B rmc)
   \<and> drivers Dev_FLASH1 = Driver_FLASH1 B rmc ind (linked_nvmc B rmc)
   \<and> dev_lo (ARM_FLASH0_DEV B rmc) \<le> unat (FLASH_AREA_BL2_OFFSET L)
   \<and> unat (FLASH_TOTAL_SIZE L) \<le> dev_hi (ARM_FLASH0_DEV B rmc)
   \<and> dev_lo (ARM_FLASH1_DEV B rmc) \<le> unat (FLASH_AREA_SCRATCH_OFFSET L)
   \<and> unat (FLASH_AREA_SCRATCH_OFFSET L) + unat (FLASH_AREA_SCRATCH_SIZE L) \<le> dev_hi (ARM_FLASH1_DEV B rmc)
   \<and> nvmc_page B rmc dvd unat (FLASH_AREA_IMAGE_SECTOR_SIZE L)"

lemma slot_areas:
  fixes A :: "hw flash_area"
  assumes "flash_map drivers 1 scratch (layout_of p False) = Some m"
    and "drivers Dev_FLASH0 = Driver_FLASH0 B rmc ind (linked_nvmc B rmc)"
    and "dev_lo (ARM_FLASH0_DEV B rmc) \<le> unat (FLASH_AREA_BL2_OFFSET (layout_of p False))"
    and "unat (FLASH_TOTAL_SIZE (layout_of p False)) \<le> dev_hi (ARM_FLASH0_DEV B rmc)"
    and "nvmc_page B rmc dvd unat (FLASH_AREA_IMAGE_SECTOR_SIZE (layout_of p False))"
    and "flash_area_open m x None = (0, Some A)" and "x = 1 \<or> x = 2"
  shows "aprom_area B rmc ind A \<and> nvmc_page B rmc dvd unat (fa_off A)
    \<and> bl2_end (layout_of p False) \<le> unat (fa_off A)
    \<and> unat (fa_off A) + unat (fa_size A) \<le> unat (FLASH_TOTAL_SIZE (layout_of p False))"
proof -
  let ?L = "layout_of p False"
  note S = layouts_sound [of p False, unfolded layout_sound_def Let_def] layout_slots_8 [of p False] layout_devs [of p False]
  have A: "A = m ! (if x = 1 then 0 else 1)"
    using assms(6,7) flash_map_slots [OF assms(1), of None] by auto
  have f: "fa_driver A = drivers Dev_FLASH0" "fa_off A = (if x = 1 then FLASH_AREA_0_OFFSET ?L else FLASH_AREA_2_OFFSET ?L)"
    "fa_size A = (if x = 1 then FLASH_AREA_0_SIZE ?L else FLASH_AREA_2_SIZE ?L)"
    unfolding A flash_map_table [OF assms(1)] by (simp_all add: map_entry_def)
  show ?thesis
    using S assms(3-5) unfolding aprom_area_def area_ok8_def area_ok_def bl2_end_def f assms(2)
    by (auto intro: dvd_trans [of 4 8] dvd_trans [OF assms(5)])
qed

lemma scratch_area:
  fixes A :: "hw flash_area"
  assumes "flash_map drivers 1 True (layout_of p spi) = Some m"
    and "drivers Dev_FLASH1 = Driver_FLASH1 B rmc ind (linked_nvmc B rmc)"
    and "dev_lo (ARM_FLASH1_DEV B rmc) \<le> unat (FLASH_AREA_SCRATCH_OFFSET (layout_of p spi))"
    and "unat (FLASH_AREA_SCRATCH_OFFSET (layout_of p spi)) + unat (FLASH_AREA_SCRATCH_SIZE (layout_of p spi))
           \<le> dev_hi (ARM_FLASH1_DEV B rmc)"
    and "flash_area_open m 255 None = (0, Some A)"
  shows "area_ok8 A (Driver_FLASH1 B rmc ind (linked_nvmc B rmc))
      (dev_lo (ARM_FLASH1_DEV B rmc)) (dev_hi (ARM_FLASH1_DEV B rmc))
    \<and> fa_off A = FLASH_AREA_SCRATCH_OFFSET (layout_of p spi)
    \<and> unat (FLASH_TOTAL_SIZE (layout_of p spi)) \<le> unat (fa_off A)"
proof -
  let ?L = "layout_of p spi"
  note S = layout_scratch_8 [of p spi]
  have A: "A = m ! 2" using assms(5) flash_map_scratch [OF assms(1), of None] by simp
  have f: "fa_driver A = drivers Dev_FLASH1" "fa_off A = FLASH_AREA_SCRATCH_OFFSET ?L"
    "fa_size A = FLASH_AREA_SCRATCH_SIZE ?L"
    unfolding A flash_map_table [OF assms(1)] by (simp_all add: map_entry_def)
  show ?thesis
    using S assms(3,4) unfolding area_ok8_def area_ok_def f assms(2) by (auto intro: dvd_trans [of 4 8])
qed

lemma same_outside_disjoint:
  assumes "same_outside A f g"
    and "unat (fa_off A) + unat (fa_size A) \<le> unat (fa_off A') \<or> unat (fa_off A') + unat (fa_size A') \<le> unat (fa_off A)"
  shows "area_content A' g = area_content A' f"
  using assms by (fastforce simp: area_content_def same_outside_def fun_eq_iff)

section \<open>Runs of the program and of the specification\<close>

text \<open>What the client sees of one operation: the ID, the operation, what it returned.\<close>

type_synonym area_event = "u8 \<times> area_op \<times> (int \<times> u8 list)"

inductive map_step :: "(u32 \<Rightarrow> u32 \<Rightarrow> u32 option) \<Rightarrow> nat \<Rightarrow> hw flash_area list \<Rightarrow> hw \<Rightarrow> area_event \<Rightarrow> hw \<Rightarrow> bool"
  for safe_add z m where
  map_step: "flash_area_open m x None = (0, Some A) \<Longrightarrow> op_ok z A op \<Longrightarrow>
    run_op safe_add junk A op t = Some (r, t') \<Longrightarrow> map_step safe_add z m t (x, op, r) t'"

inductive map_runs :: "(u32 \<Rightarrow> u32 \<Rightarrow> u32 option) \<Rightarrow> nat \<Rightarrow> hw flash_area list \<Rightarrow> hw \<Rightarrow> area_event list \<Rightarrow> hw \<Rightarrow> bool"
  for safe_add z m t where
  run_start: "map_runs safe_add z m t [] t"
| run_step: "map_runs safe_add z m t es t' \<Longrightarrow> map_step safe_add z m t' e t'' \<Longrightarrow>
    map_runs safe_add z m t (es @ [e]) t''"

inductive_cases map_stepE: "map_step safe_add z m t (x, op, r) t'"

text \<open>
  The specification: one content per ID; an operation changes the content of its ID only, and
  a trace is accepted if every result is the one of the abstract area.
\<close>

type_synonym contents = "u8 \<Rightarrow> buf"

fun spec_event :: "area_event \<Rightarrow> contents \<Rightarrow> contents" where
  "spec_event (x, op, r) c = c(x := spec_op op (c x))"

fun spec_accepts :: "area_event list \<Rightarrow> contents \<Rightarrow> bool" where
  "spec_accepts [] c \<longleftrightarrow> True"
| "spec_accepts ((x, op, r) # es) c \<longleftrightarrow> r = spec_result op (c x) \<and> spec_accepts es (spec_event (x, op, r) c)"

definition map_contents :: "hw flash_area list \<Rightarrow> buf \<Rightarrow> contents" where
  "map_contents m f = (\<lambda>x. case flash_area_open m x None of (_, Some A) \<Rightarrow> area_content A f | _ \<Rightarrow> (\<lambda>_. 0xFF))"

lemma spec_accepts_snoc [simp]:
  "spec_accepts (es @ [(x, op, r)]) c \<longleftrightarrow> spec_accepts es c \<and> r = spec_result op (fold spec_event es c x)"
proof (induction es arbitrary: c)
  case (Cons e es)
  then show ?case by (cases e) (simp del: fun_upd_apply)
qed simp

lemma map_contents_simps [simp]:
  "flash_area_open m x None = (0, Some A) \<Longrightarrow> map_contents m f x = area_content A f"
  "flash_area_open m x None = (-1, None) \<Longrightarrow> map_contents m f x = (\<lambda>_. 0xFF)"
  by (simp_all add: map_contents_def)

lemma flash_area_open_None_cases:
  obtains A where "flash_area_open m x None = (0, Some A)" | "flash_area_open m x None = (-1, None)"
  by (cases "flash_area_open_loop m x 0 = length m") (auto simp: flash_area_open_def Let_def)

section \<open>Refinement\<close>

lemma map_op_sim:
  fixes A :: "hw flash_area"
  assumes b: "board_fits B rmc F ind drivers (layout_of p False)" and sa: "safe_add_spec safe_add"
    and m: "flash_map drivers 1 True (layout_of p False) = Some m" and t: "fd_ready F t"
    and A: "flash_area_open m x None = (0, Some A)" and op: "op_ok (nvmc_page B rmc) A op"
  shows "\<exists>t'. run_op safe_add junk A op t = Some (spec_result op (area_content A (fd_mem F t)), t')
    \<and> fd_ready F t' \<and> area_content A (fd_mem F t') = spec_op op (area_content A (fd_mem F t))
    \<and> same_outside A (fd_mem F t) (fd_mem F t') \<and> bl2_end (layout_of p False) \<le> unat (fa_off A)"
proof -
  note b' = b [unfolded board_fits_def]
  have "x = 1 \<or> x = 2 \<or> x = 255" by (rule open_cases [OF m A]) simp_all
  then show ?thesis
  proof (elim disjE)
    assume x: "x = 255"
    have "nvmc_page B rmc dvd unat (FLASH_AREA_SCRATCH_OFFSET (layout_of p False))"
      using b' layouts_sound [of p False] by (auto simp: layout_sound_def Let_def intro: dvd_trans)
    moreover have "bl2_end (layout_of p False) \<le> unat (FLASH_TOTAL_SIZE (layout_of p False))"
      using layouts_sound [of p False] by (simp add: layout_sound_def Let_def bl2_end_def)
    moreover have "board_ok B rmc F (ARM_FLASH1_DEV B rmc) t" using b' t by (simp add: board_ok_def)
    moreover have "area_ok8 A (Driver_FLASH1 B rmc ind (linked_nvmc B rmc))
          (dev_lo (ARM_FLASH1_DEV B rmc)) (dev_hi (ARM_FLASH1_DEV B rmc))
        \<and> fa_off A = FLASH_AREA_SCRATCH_OFFSET (layout_of p False)
        \<and> unat (FLASH_TOTAL_SIZE (layout_of p False)) \<le> unat (fa_off A)"
      by (rule scratch_area [OF m]) (use b' A x in auto)
    ultimately show ?thesis
      using ldrom.run_op_sim [OF _ _ nvmc_unit_dvd sa _ op] by (fastforce simp: board_ok_def)
  next
    assume x: "x = 1"
    have "aprom_area B rmc ind A \<and> nvmc_page B rmc dvd unat (fa_off A) \<and> bl2_end (layout_of p False) \<le> unat (fa_off A)
        \<and> unat (fa_off A) + unat (fa_size A) \<le> unat (FLASH_TOTAL_SIZE (layout_of p False))"
      by (rule slot_areas [OF m _ _ _ _ A]) (use b' x in auto)
    moreover have "board_ok B rmc F (ARM_FLASH0_DEV B rmc) t" using b' t by (simp add: board_ok_def)
    ultimately show ?thesis
      using aprom.run_op_sim [OF _ _ nvmc_unit_dvd sa _ op] by (fastforce simp: board_ok_def aprom_area_def)
  next
    assume x: "x = 2"
    have "aprom_area B rmc ind A \<and> nvmc_page B rmc dvd unat (fa_off A) \<and> bl2_end (layout_of p False) \<le> unat (fa_off A)
        \<and> unat (fa_off A) + unat (fa_size A) \<le> unat (FLASH_TOTAL_SIZE (layout_of p False))"
      by (rule slot_areas [OF m _ _ _ _ A]) (use b' x in auto)
    moreover have "board_ok B rmc F (ARM_FLASH0_DEV B rmc) t" using b' t by (simp add: board_ok_def)
    ultimately show ?thesis
      using aprom.run_op_sim [OF _ _ nvmc_unit_dvd sa _ op] by (fastforce simp: board_ok_def aprom_area_def)
  qed
qed

text \<open>A step acts on the content of its ID as the abstract area does, and on no other.\<close>

lemma map_step_sim:
  assumes b: "board_fits B rmc F ind drivers (layout_of p False)" and sa: "safe_add_spec safe_add"
    and m: "flash_map drivers 1 True (layout_of p False) = Some m" and t: "fd_ready F t"
    and s: "map_step safe_add (nvmc_page B rmc) m t (x, op, r) t'"
  shows "r = spec_result op (map_contents m (fd_mem F t) x) \<and> fd_ready F t'
    \<and> map_contents m (fd_mem F t') = spec_event (x, op, r) (map_contents m (fd_mem F t))
    \<and> (\<forall>k < bl2_end (layout_of p False). fd_mem F t' k = fd_mem F t k)"
proof -
  from s obtain A junk where A: "flash_area_open m x None = (0, Some A)" "op_ok (nvmc_page B rmc) A op"
    and run: "run_op safe_add junk A op t = Some (r, t')" by (rule map_stepE)
  note sim = map_op_sim [OF b sa m t A, of junk, unfolded run]
  have "map_contents m (fd_mem F t') y = spec_event (x, op, r) (map_contents m (fd_mem F t)) y" for y
  proof (cases "y = x")
    case True
    then show ?thesis using sim A(1) by simp
  next
    case False
    show ?thesis
      by (rule flash_area_open_None_cases [of m y])
        (use sim False in \<open>auto dest: areas_disjoint [OF m A(1)] intro: same_outside_disjoint\<close>)
  qed
  then show ?thesis using sim A(1) by (auto simp: same_outside_def)
qed

lemma fst_spec_result [simp]: "fst (spec_result op c) = 0"
  by (cases op) simp_all

lemma map_runs_sim:
  assumes "map_runs safe_add (nvmc_page B rmc) m t es t'"
    and b: "board_fits B rmc F ind drivers (layout_of p False)" and sa: "safe_add_spec safe_add"
    and m: "flash_map drivers 1 True (layout_of p False) = Some m" and t: "fd_ready F t"
  shows "spec_accepts es (map_contents m (fd_mem F t)) \<and> fd_ready F t'
    \<and> map_contents m (fd_mem F t') = fold spec_event es (map_contents m (fd_mem F t))
    \<and> (\<forall>k < bl2_end (layout_of p False). fd_mem F t' k = fd_mem F t k)"
  using assms(1)
proof (induction rule: map_runs.induct)
  case run_start
  then show ?case using t by simp
next
  case (run_step es t' e t'')
  obtain x op r where e: "e = (x, op, r)" by (cases e) auto
  show ?case
    using map_step_sim [OF b sa m _ run_step.hyps(2) [unfolded e]] run_step.IH by (simp add: e)
qed

text \<open>An admissible operation always has a step, and it returns 0.\<close>

lemma map_step_enabled:
  fixes A :: "hw flash_area"
  assumes "board_fits B rmc F ind drivers (layout_of p False)" and "safe_add_spec safe_add"
    and "flash_map drivers 1 True (layout_of p False) = Some m" and "fd_ready F t"
    and "flash_area_open m x None = (0, Some A)" and "op_ok (nvmc_page B rmc) A op"
  shows "\<exists>r t'. map_step safe_add (nvmc_page B rmc) m t (x, op, r) t' \<and> fst r = 0"
proof -
  from map_op_sim [OF assms, of undefined] obtain t' where
    "run_op safe_add undefined A op t = Some (spec_result op (area_content A (fd_mem F t)), t')" by blast
  from map_step [OF assms(5,6) this] show ?thesis by (intro exI conjI) (assumption, simp)
qed

section \<open>One area at a time\<close>

text \<open>Operations on one slot leave the other slot and the boot loader alone, whatever else is configured.\<close>

lemma slots_isolated:
  fixes A :: "hw flash_area"
  assumes "board_ok B rmc F (ARM_FLASH0_DEV B rmc) t" and "safe_add_spec safe_add"
    and "flash_map drivers 1 scratch (layout_of p False) = Some m"
    and "drivers Dev_FLASH0 = Driver_FLASH0 B rmc ind (linked_nvmc B rmc)"
    and "dev_lo (ARM_FLASH0_DEV B rmc) \<le> unat (FLASH_AREA_BL2_OFFSET (layout_of p False))"
    and "unat (FLASH_TOTAL_SIZE (layout_of p False)) \<le> dev_hi (ARM_FLASH0_DEV B rmc)"
    and "nvmc_page B rmc dvd unat (FLASH_AREA_IMAGE_SECTOR_SIZE (layout_of p False))"
    and "x = 1 \<and> y = 2 \<or> x = 2 \<and> y = 1"
    and "flash_area_open m x None = (0, Some A)" and "flash_area_open m y None = (0, Some A')"
    and "\<forall>op \<in> set xs. op_ok (nvmc_page B rmc) A op"
  shows "\<exists>t'. run_ops safe_add junk A xs t = Some (spec_results xs (area_content A (fd_mem F t)), t')
    \<and> area_content A' (fd_mem F t') = area_content A' (fd_mem F t)
    \<and> (\<forall>k < bl2_end (layout_of p False). fd_mem F t' k = fd_mem F t k)"
proof -
  let ?L = "layout_of p False"
  have x: "x = 1 \<or> x = 2" using assms(8) by blast
  note A = slot_areas [OF assms(3-7,9) x]
  obtain t' where t': "run_ops safe_add junk A xs t = Some (spec_results xs (area_content A (fd_mem F t)), t')"
    "same_outside A (fd_mem F t) (fd_mem F t')"
    using aprom.run_ops_sim [OF _ nvmc_unit_dvd assms(2) _ assms(1,11)] A unfolding aprom_area_def by blast
  have "x \<noteq> y" using assms(8) by auto
  from same_outside_disjoint [OF t'(2) areas_disjoint [OF assms(3,9,10) this]]
  have "area_content A' (fd_mem F t') = area_content A' (fd_mem F t)" .
  then show ?thesis using t' A by (auto simp: same_outside_def)
qed

text \<open>The scratch area alone, also where the secondary slot is in a serial flash.\<close>

lemma scratch_area_refines:
  fixes A :: "hw flash_area"
  assumes "board_ok B rmc F (ARM_FLASH1_DEV B rmc) t" and "safe_add_spec safe_add"
    and "flash_map drivers 1 True (layout_of p spi) = Some m"
    and "drivers Dev_FLASH1 = Driver_FLASH1 B rmc ind (linked_nvmc B rmc)"
    and "dev_lo (ARM_FLASH1_DEV B rmc) \<le> unat (FLASH_AREA_SCRATCH_OFFSET (layout_of p spi))"
    and "unat (FLASH_AREA_SCRATCH_OFFSET (layout_of p spi)) + unat (FLASH_AREA_SCRATCH_SIZE (layout_of p spi))
           \<le> dev_hi (ARM_FLASH1_DEV B rmc)"
    and "nvmc_page B rmc dvd unat (FLASH_AREA_SCRATCH_OFFSET (layout_of p spi))"
    and "flash_area_open m 255 None = (0, Some A)" and "\<forall>op \<in> set xs. op_ok (nvmc_page B rmc) A op"
  shows "\<exists>t'. run_ops safe_add junk A xs t = Some (spec_results xs (area_content A (fd_mem F t)), t')
    \<and> area_content A (fd_mem F t') = fold spec_op xs (area_content A (fd_mem F t))
    \<and> (\<forall>k < unat (FLASH_TOTAL_SIZE (layout_of p spi)). fd_mem F t' k = fd_mem F t k)"
proof -
  note A = scratch_area [OF assms(3-6,8)]
  from ldrom.run_ops_sim [OF conjunct1 [OF A] nvmc_unit_dvd assms(2) _ assms(1,9), of junk] obtain t' where
    "run_ops safe_add junk A xs t = Some (spec_results xs (area_content A (fd_mem F t)), t')"
    "area_content A (fd_mem F t') = fold spec_op xs (area_content A (fd_mem F t))"
    "same_outside A (fd_mem F t) (fd_mem F t')"
    using assms(7) A by auto
  then show ?thesis using A by (auto simp: same_outside_def)
qed


section \<open>The areas of the concrete board\<close>

definition sim_drivers :: "bool \<Rightarrow> flash_dev \<Rightarrow> hw ARM_DRIVER_FLASH" where
  "sim_drivers rmc d = (if d = Dev_FLASH1 then Driver_FLASH1 sim_bsp rmc sim_ind (linked_nvmc sim_bsp rmc)
     else Driver_FLASH0 sim_bsp rmc sim_ind (linked_nvmc sim_bsp rmc))"

lemma sim_board_fits: "board_fits sim_bsp True sim_fdev sim_ind (sim_drivers True) (layout_of M2L31 False)"
  using sim_board_ok [of True] sim_board_ok_ldrom [of True]
  by (simp add: board_fits_def board_ok_def sim_drivers_def dev_lo_def dev_hi_def sim_geometry layout_defs
      nvmc_page_def rmc_page_def)

end
