(* ===== verification/Boot.thy ===== *)
theory Boot
  imports Driver_Types Hw
begin

text \<open>
  \<open>bl2/platform/common/boot.c\<close>: clearing the RAM and jumping into the next image. The two
  naked functions are assembly; they are lists of instructions, run by \<open>arm_run\<close> on sixteen
  registers, the condition flags N and V, and the address space. The targets of branches are
  positions in the list, a linker symbol is an argument, and \<open>BL\<close> carries the code it
  calls. Code addresses are positions in the list; \<open>arm_run\<close> ends at the first \<open>BX\<close> and
  returns its target. \<open>ua\<close> is whether the core carries out a store to an address that is no
  multiple of 4; the Cortex-M23 does not, such a store faults there.

  Proved here: which bytes the clearing loop clears and that it ends, or that it faults; what the
  registers, the memory and the target of the jump are when the next image starts.
\<close>

section \<open>Instructions\<close>

datatype instr =
    MOVS_imm nat u32
  | LDR_sym nat u32
  | SUBS_reg nat nat nat
  | SUBS_imm nat u32
  | BLT nat
  | STR_reg nat nat nat
  | BR nat
  | BX nat
  | MOV nat nat
  | BL "instr list"

record arm =
  reg :: "nat \<Rightarrow> u32"
  flag_N :: bool
  flag_V :: bool
  ram :: buf

abbreviation (input) lr :: nat where "lr \<equiv> 14"

definition set_reg :: "arm \<Rightarrow> nat \<Rightarrow> u32 \<Rightarrow> arm" where
  "set_reg a r v = a\<lparr>reg := (reg a)(r := v)\<rparr>"

text \<open>\<open>subs\<close>: N is the sign of the difference, V its signed overflow.\<close>

definition subs :: "arm \<Rightarrow> nat \<Rightarrow> u32 \<Rightarrow> u32 \<Rightarrow> arm" where
  "subs a rd x y =
     (set_reg a rd (x - y))\<lparr>flag_N := sint (x - y) < 0, flag_V := sint x - sint y \<noteq> sint (x - y)\<rparr>"

text \<open>The instructions that only fall through; \<open>None\<close> is a fault.\<close>

fun arm_exec :: "bool \<Rightarrow> instr \<Rightarrow> arm \<Rightarrow> arm option" where
  "arm_exec ua (MOVS_imm rd v) a = Some ((set_reg a rd v)\<lparr>flag_N := sint v < 0\<rparr>)"
| "arm_exec ua (LDR_sym rd v) a = Some (set_reg a rd v)"
| "arm_exec ua (SUBS_reg rd rn rm) a = Some (subs a rd (reg a rn) (reg a rm))"
| "arm_exec ua (SUBS_imm rd v) a = Some (subs a rd (reg a rd) v)"
| "arm_exec ua (STR_reg rt rn rm) a =
     (let address = reg a rn + reg a rm
      in if ua \<or> 4 dvd unat address
         then Some (a\<lparr>ram := copy_bytes (ram a) (unat address) (bytes32 (reg a rt)) 0 4\<rparr>)
         else None)"
| "arm_exec ua (MOV rd rm) a = Some (set_reg a rd (reg a rm))"
| "arm_exec ua _ a = Some a"

text \<open>\<open>None\<close>: the program does not come to a \<open>BX\<close>, because it faults or loops.\<close>

partial_function (option) arm_run :: "bool \<Rightarrow> instr list \<Rightarrow> nat \<Rightarrow> arm \<Rightarrow> (u32 \<times> arm) option" where
  "arm_run ua prog pc a =
     (if pc < length prog then
        case prog ! pc of
          BX rm \<Rightarrow> Some (reg a rm, a)
        | BR target \<Rightarrow> arm_run ua prog target a
        | BLT target \<Rightarrow> arm_run ua prog (if flag_N a \<noteq> flag_V a then target else pc + 1) a
        | BL sub \<Rightarrow> do {
            (ret, a) \<leftarrow> arm_run ua sub 0 (set_reg a lr (of_nat (pc + 1)));
            arm_run ua prog (unat ret) a }
        | i \<Rightarrow> do { a \<leftarrow> arm_exec ua i a; arm_run ua prog (pc + 1) a }
      else None)"

section \<open>The code\<close>

definition boot_clear_ram_area :: "u32 \<Rightarrow> u32 \<Rightarrow> instr list" where
  "boot_clear_ram_area data_start stack_top =
     [MOVS_imm 0 0,
      LDR_sym 1 data_start,
      LDR_sym 2 stack_top,
      SUBS_reg 2 2 1,
      SUBS_imm 2 4,
      BLT 8,
      STR_reg 0 1 2,
      BR 4,
      BX lr]"

definition boot_jump_to_next_image :: "instr list \<Rightarrow> instr list" where
  "boot_jump_to_next_image clear =
     [MOV 7 0,
      BL clear,
      MOVS_imm 0 0,
      MOV 1 0, MOV 2 0, MOV 3 0, MOV 4 0, MOV 5 0, MOV 6 0,
      MOV 8 0, MOV 9 0, MOV 10 0, MOV 11 0, MOV 12 0,
      MOV lr 0,
      BX 7]"

record boot_arm_vector_table =
  msp :: u32
  reset :: u32

definition read_vector_table :: "buf \<Rightarrow> u32 \<Rightarrow> boot_arm_vector_table" where
  "read_vector_table m vt = \<lparr>msp = load32 m (unat vt), reset = load32 m (unat (vt + 4))\<rparr>"

text \<open>
  \<open>flash_dev_name\<close> is the driver that \<open>FLASH_DEV_NAME\<close> names, if the macro is defined where
  \<open>boot.c\<close> is compiled; \<open>v8m\<close> whether the architecture has a stack limit register; \<open>jump\<close>
  the code of \<open>boot_jump_to_next_image\<close>, which a platform may replace. Execution uses the
  main stack, so that \<open>__set_MSP\<close> sets R13. The result is the trace, the address jumped to and
  the machine state there; \<open>None\<close> is the endless loop, or a fault in the jump. The vector table
  is read as words; VTOR requires an aligned one.
\<close>

definition boot_platform_quit :: "hw ARM_DRIVER_FLASH option \<Rightarrow> bool \<Rightarrow> bool \<Rightarrow> instr list \<Rightarrow>
    u32 \<Rightarrow> hw \<Rightarrow> arm \<Rightarrow> (hw \<times> u32 \<times> arm) option" where
  "boot_platform_quit flash_dev_name v8m ua jump vt t a = do {
     (result, t) \<leftarrow> (case flash_dev_name of None \<Rightarrow> Some (ARM_DRIVER_OK, t)
                   | Some D \<Rightarrow> Uninitialize D t);
     if result \<noteq> ARM_DRIVER_OK then None
     else do {
       let vt_cpy = read_vector_table (ram a) vt;
       let t = t @ [Reg_Wr ''SCB->VTOR'' vt];
       let t = (if v8m then t @ [Reg_Wr ''MSPLIM'' 0] else t);
       let t = t @ [Reg_Wr ''MSP'' (msp vt_cpy), Bsp ''__DSB'' [], Bsp ''__ISB'' []];
       (target, a) \<leftarrow> arm_run ua jump 0 (set_reg (set_reg a 13 (msp vt_cpy)) 0 (reset vt_cpy));
       Some (t, target, a) } }"

section \<open>Steps\<close>

fun falls_through :: "instr \<Rightarrow> bool" where
  "falls_through (BLT _) = False"
| "falls_through (BR _) = False"
| "falls_through (BX _) = False"
| "falls_through (BL _) = False"
| "falls_through _ = True"

lemma arm_fall:
  assumes "pc < length P" "falls_through (P ! pc)" "q = pc + 1"
  shows "arm_run ua P pc a = do { b \<leftarrow> arm_exec ua (P ! pc) a; arm_run ua P q b }"
  using assms by (subst arm_run.simps) (cases "P ! pc"; simp)

fun arm_execs :: "bool \<Rightarrow> instr list \<Rightarrow> arm \<Rightarrow> arm option" where
  "arm_execs ua [] a = Some a"
| "arm_execs ua (i # xs) a = do { b \<leftarrow> arm_exec ua i a; arm_execs ua xs b }"

lemma arm_fall_list:
  assumes "drop pc P = xs @ ys" "\<forall>i \<in> set xs. falls_through i"
  shows "arm_run ua P pc a = do { b \<leftarrow> arm_execs ua xs a; arm_run ua P (pc + length xs) b }"
  using assms
proof (induction xs arbitrary: pc a)
  case (Cons x xs)
  then have pc: "pc < length P" by (metis append_Cons drop_eq_Nil2 list.distinct(1) not_less)
  then have "drop pc P = P ! pc # drop (Suc pc) P" by (rule Cons_nth_drop_Suc [symmetric])
  with Cons.prems have x: "P ! pc = x" "drop (pc + 1) P = xs @ ys" by simp_all
  then have "arm_run ua P pc a = do { b \<leftarrow> arm_exec ua x a; arm_run ua P (pc + 1) b }"
    using arm_fall [OF pc, of "pc + 1" ua a] Cons.prems(2) by simp
  then show ?case using Cons.IH [OF x(2)] Cons.prems(2) by (simp cong: bind_option_cong)
qed simp

lemma arm_BLT:
  assumes "pc < length P" "P ! pc = BLT target" "q = pc + 1"
  shows "arm_run ua P pc a = arm_run ua P (if flag_N a \<noteq> flag_V a then target else q) a"
  using assms by (subst arm_run.simps) simp

lemma arm_BR: "pc < length P \<Longrightarrow> P ! pc = BR target \<Longrightarrow> arm_run ua P pc a = arm_run ua P target a"
  by (subst arm_run.simps) simp

lemma arm_BX: "pc < length P \<Longrightarrow> P ! pc = BX r \<Longrightarrow> arm_run ua P pc a = Some (reg a r, a)"
  by (subst arm_run.simps) simp

lemma arm_BL:
  assumes "pc < length P" "P ! pc = BL sub" "pc + 1 < 2 ^ 32" "q = pc + 1"
    "arm_run ua sub 0 (set_reg a lr (of_nat (pc + 1))) = Some (of_nat (pc + 1), b)"
  shows "arm_run ua P pc a = arm_run ua P q b"
  using assms by (subst arm_run.simps) (simp add: unat_of_nat32 del: of_nat_Suc)

section \<open>The clearing loop\<close>

lemma set_reg_reg [step_simps]: "reg (set_reg a r v) x = (if x = r then v else reg a x)"
  "ram (set_reg a r v) = ram a"
  by (simp_all add: set_reg_def)

lemma subs_simps [step_simps]: "reg (subs a r x y) z = (if z = r then x - y else reg a z)"
  "ram (subs a r x y) = ram a" "flag_N (subs a r x y) \<noteq> flag_V (subs a r x y) \<longleftrightarrow> sint x < sint y"
proof -
  let ?d = "sint x - sint y" and ?M = "4294967296 :: int"
  have b: "- 2147483648 \<le> sint x" "sint x < 2147483648" "- 2147483648 \<le> sint y" "sint y < 2147483648"
    using sint_ge [of x] sint_lt [of x] sint_ge [of y] sint_lt [of y] by simp_all
  have s: "sint (x - y) = (?d + 2147483648) mod ?M - 2147483648"
    unfolding sint_word_ariths
    by (simp only: len_num1 signed_take_bit_eq_take_bit_shift take_bit_eq_mod) simp
  define q m where "q = (?d + 2147483648) div ?M" and "m = (?d + 2147483648) mod ?M"
  have qm: "?d + 2147483648 = ?M * q + m" "0 \<le> m" "m < ?M" by (simp_all add: q_def m_def)
  have "sint (x - y) < 0 \<longleftrightarrow> \<not> (?d < 0)" if "?d \<noteq> sint (x - y)"
  proof -
    have e: "sint (x - y) = m - 2147483648" unfolding m_def by (rule s)
    have "q \<noteq> 0"
    proof
      assume "q = 0"
      then have "m = ?d + 2147483648" using qm(1) by simp
      then show False using e that by linarith
    qed
    then have "q \<le> -1 \<or> 1 \<le> q" by arith
    then show ?thesis using b qm unfolding e by (elim disjE; linarith)
  qed
  then show "reg (subs a r x y) z = (if z = r then x - y else reg a z)" "ram (subs a r x y) = ram a"
    "flag_N (subs a r x y) \<noteq> flag_V (subs a r x y) \<longleftrightarrow> sint x < sint y"
    by (auto simp: subs_def set_reg_def)
qed

text \<open>The loop from position 4, with \<open>n\<close> bytes left to clear.\<close>

definition clear_bytes :: "buf \<Rightarrow> nat \<Rightarrow> nat \<Rightarrow> buf" where
  "clear_bytes m lo hi = (\<lambda>x. if lo \<le> x \<and> x < hi then 0 else m x)"

definition keeps_regs :: "nat set \<Rightarrow> arm \<Rightarrow> arm \<Rightarrow> bool" where
  "keeps_regs R a b \<longleftrightarrow> (\<forall>r. r \<notin> R \<longrightarrow> reg b r = reg a r)"

lemma bytes32_0 [simp]: "bytes32 0 k = 0"
  by (simp add: bytes32_def byte_of_def)

text \<open>One round of the loop, up to the store.\<close>

lemma clear_round:
  fixes ds st :: u32
  defines "P \<equiv> boot_clear_ram_area ds st"
  assumes "unat (reg a 2) = n" "n < 2 ^ 31"
  shows "arm_run ua P 4 a =
    (if n < 4 then Some (reg a lr, subs a 2 (reg a 2) 4)
     else do { b \<leftarrow> arm_exec ua (STR_reg 0 1 2) (subs a 2 (reg a 2) 4); arm_run ua P 4 b })"
proof -
  let ?a1 = "subs a 2 (reg a 2) 4"
  have sx: "sint (reg a 2) = int n" using assms(2,3) by (subst sint_of_small) simp_all
  have flags: "flag_N ?a1 \<noteq> flag_V ?a1 \<longleftrightarrow> n < 4"
    by (simp only: subs_simps sx) simp
  have L: "length P = 9" "P ! 4 = SUBS_imm 2 4" "P ! 5 = BLT 8" "P ! 6 = STR_reg 0 1 2"
    "P ! 7 = BR 4" "P ! 8 = BX lr"
    by (simp_all add: P_def boot_clear_ram_area_def)
  have s4: "arm_run ua P 4 a = arm_run ua P 5 ?a1" using arm_fall [of 4 P 5 ua a] L by simp
  have s5: "arm_run ua P 5 ?a1 = arm_run ua P (if n < 4 then 8 else 6) ?a1"
    using arm_BLT [of 5 P 8 6 ua ?a1] L unfolding flags by simp
  have s6: "arm_run ua P 6 ?a1 = do { b \<leftarrow> arm_exec ua (STR_reg 0 1 2) ?a1; arm_run ua P 7 b }"
    using arm_fall [of 6 P 7 ua ?a1] L by simp
  have s7: "arm_run ua P 7 b = arm_run ua P 4 b" for b using arm_BR [of 7 P 4 ua b] L by simp
  have s8: "arm_run ua P 8 ?a1 = Some (reg a lr, ?a1)"
    using arm_BX [of 8 P lr ua ?a1] L by (simp add: subs_simps)
  show ?thesis using s4 s5 s6 s7 s8 by simp
qed

text \<open>No store of the loop faults when the core does not mind, or the range ends at a word.\<close>

definition stores_ok :: "bool \<Rightarrow> nat \<Rightarrow> nat \<Rightarrow> bool" where
  "stores_ok ua n hi \<longleftrightarrow> ua \<or> 4 dvd hi \<or> n < 4"

lemma stores_ok_True [simp]: "stores_ok True n hi"
  by (simp add: stores_ok_def)

lemma clear_loop:
  fixes ds st :: u32
  defines "P \<equiv> boot_clear_ram_area ds st"
  assumes "reg a 0 = 0" "unat (reg a 2) = n" "n < 2 ^ 31" "unat (reg a 1) + n < 2 ^ 32"
    "stores_ok ua n (unat (reg a 1) + n)"
  shows "\<exists>b. arm_run ua P 4 a = Some (reg a lr, b) \<and> keeps_regs {2} a b
      \<and> ram b = clear_bytes (ram a) (unat (reg a 1) + n mod 4) (unat (reg a 1) + n)"
  using assms(2-)
proof (induction n arbitrary: a rule: less_induct)
  case (less n)
  let ?a1 = "subs a 2 (reg a 2) 4"
  note round = clear_round [OF less.prems(2,3), of ua ds st, folded P_def]
  show ?case
  proof (cases "n < 4")
    case True
    then show ?thesis
      using round by (auto simp: keeps_regs_def step_simps clear_bytes_def fun_eq_iff)
  next
    case False
    have u: "unat (reg a 2 - 4) = n - 4" using False less.prems(2) by (subst unat_sub32) (simp_all add: word_le_nat_alt)
    then have ad: "unat (reg a 1 + (reg a 2 - 4)) = unat (reg a 1) + (n - 4)"
      using less.prems(4) by (subst unat_add32) simp_all
    have al: "ua \<or> 4 dvd unat (reg a 1) + (n - 4)"
    proof -
      have "unat (reg a 1) + n = (unat (reg a 1) + (n - 4)) + 4" using False by simp
      then show ?thesis using less.prems(5) False unfolding stores_ok_def
        by (metis dvd_add_left_iff dvd_refl)
    qed
    define a2 where "a2 = ?a1\<lparr>ram := copy_bytes (ram a) (unat (reg a 1) + (n - 4)) (bytes32 0) 0 4\<rparr>"
    have "arm_exec ua (STR_reg 0 1 2) ?a1 = Some a2"
      using al less.prems(1) by (simp add: step_simps a2_def ad [simplified] Let_def)
    then have run: "arm_run ua P 4 a = arm_run ua P 4 a2" using round False by simp
    have r: "reg a2 0 = 0" "reg a2 1 = reg a 1" "reg a2 lr = reg a lr"
      "reg a2 2 = reg a 2 - 4" using less.prems(1) by (simp_all add: step_simps a2_def)
    have m: "ram a2 = clear_bytes (ram a) (unat (reg a 1) + (n - 4)) (unat (reg a 1) + n)"
      using False by (auto simp: a2_def copy_bytes_apply clear_bytes_def fun_eq_iff)
    obtain b where b: "arm_run ua P 4 a2 = Some (reg a2 lr, b)" "keeps_regs {2} a2 b"
      "ram b = clear_bytes (ram a2) (unat (reg a2 1) + (n - 4) mod 4) (unat (reg a2 1) + (n - 4))"
    proof -
      have "n - 4 < n" "unat (reg a2 2) = n - 4" "n - 4 < 2 ^ 31" "unat (reg a2 1) + (n - 4) < 2 ^ 32"
        "stores_ok ua (n - 4) (unat (reg a2 1) + (n - 4))"
        using False less.prems(3,4) u al unfolding r(2,4) stores_ok_def by auto
      from less.IH [OF this(1) r(1) this(2-)] show thesis using that by blast
    qed
    have md: "(n - 4) mod 4 = n mod 4" using False by (metis le_mod_geq not_less)
    have "n mod 4 \<le> n - 4" using mod_less_eq_dividend [of "n - 4" 4] unfolding md .
    then have "ram b = clear_bytes (ram a) (unat (reg a 1) + n mod 4) (unat (reg a 1) + n)"
      unfolding b(3) m r(2) md by (auto simp: clear_bytes_def fun_eq_iff)
    moreover have "keeps_regs {2} a b"
      using b(2) by (auto simp: keeps_regs_def step_simps a2_def)
    ultimately show ?thesis using b(1) run r(3) by auto
  qed
qed

text \<open>The state in which the loop starts.\<close>

definition loop_start :: "u32 \<Rightarrow> u32 \<Rightarrow> arm \<Rightarrow> arm \<Rightarrow> bool" where
  "loop_start ds st a b \<longleftrightarrow> reg b 0 = 0 \<and> reg b 1 = ds \<and> reg b 2 = st - ds \<and> ram b = ram a \<and> keeps_regs {0, 1, 2} a b"

lemma clear_start:
  "\<exists>b. arm_run ua (boot_clear_ram_area ds st) 0 a = arm_run ua (boot_clear_ram_area ds st) 4 b \<and> loop_start ds st a b"
proof -
  let ?P = "boot_clear_ram_area ds st" and ?xs = "[MOVS_imm 0 0, LDR_sym 1 ds, LDR_sym 2 st, SUBS_reg 2 2 1]"
  have drp: "drop 0 ?P = ?xs @ drop 4 ?P" by (simp add: boot_clear_ram_area_def)
  have len: "0 + length ?xs = 4" by simp
  obtain b where b: "arm_execs ua ?xs a = Some b" "loop_start ds st a b"
    by (auto simp: loop_start_def keeps_regs_def step_simps set_reg_def)
  have "arm_run ua ?P 0 a = arm_run ua ?P 4 b"
    using arm_fall_list [OF drp, of ua a, unfolded len b(1)] by simp
  then show ?thesis using b(2) by blast
qed

lemma clear_ram:
  assumes "unat ds \<le> unat st" "unat st - unat ds < 2 ^ 31" "stores_ok ua (unat st - unat ds) (unat st)"
  shows "\<exists>b. arm_run ua (boot_clear_ram_area ds st) 0 a = Some (reg a lr, b) \<and> keeps_regs {0, 1, 2} a b
      \<and> ram b = clear_bytes (ram a) (unat ds + (unat st - unat ds) mod 4) (unat st)"
proof -
  obtain c where c: "arm_run ua (boot_clear_ram_area ds st) 0 a = arm_run ua (boot_clear_ram_area ds st) 4 c"
    "loop_start ds st a c" using clear_start by blast
  note l = c(2) [unfolded loop_start_def]
  have n: "unat (reg c 2) = unat st - unat ds" using assms(1) l by (simp add: unat_sub32 word_le_nat_alt)
  have e: "unat (reg c 1) + (unat st - unat ds) = unat st" using assms(1) l by simp
  obtain b where b: "arm_run ua (boot_clear_ram_area ds st) 4 c = Some (reg c lr, b)" "keeps_regs {2} c b"
      "ram b = clear_bytes (ram c) (unat ds + (unat st - unat ds) mod 4) (unat st)"
    using clear_loop [of c _ ua ds st, OF _ n assms(2), unfolded e] assms(3) unat_less32 [of st] l by auto
  then show ?thesis using c(1) l by (auto simp: keeps_regs_def)
qed

text \<open>Otherwise the first store faults.\<close>

lemma clear_ram_fault:
  assumes "unat ds \<le> unat st" "unat st - unat ds < 2 ^ 31" "\<not> stores_ok ua (unat st - unat ds) (unat st)"
  shows "arm_run ua (boot_clear_ram_area ds st) 0 a = None"
proof -
  obtain c where c: "arm_run ua (boot_clear_ram_area ds st) 0 a = arm_run ua (boot_clear_ram_area ds st) 4 c"
    "loop_start ds st a c" using clear_start by blast
  note l = c(2) [unfolded loop_start_def]
  have s: "\<not> ua" "\<not> 4 dvd unat st" "\<not> unat st - unat ds < 4" using assms(3) by (simp_all add: stores_ok_def)
  have n: "unat (reg c 2) = unat st - unat ds" using assms(1) l by (simp add: unat_sub32 word_le_nat_alt)
  have ad: "unat (reg c (Suc 0) + (reg c 2 - 4)) = unat (st - 4)" using l by simp
  have st: "unat st = unat (st - 4) + 4" using s(3) by (subst unat_sub32) (simp_all add: word_le_nat_alt)
  then have "\<not> 4 dvd unat (st - 4)" using s(2) by simp
  then have "arm_exec ua (STR_reg 0 1 2) (subs c 2 (reg c 2) 4) = None"
    using s(1) by (simp add: step_simps Let_def ad)
  then show ?thesis using clear_round [OF n assms(2), of ua ds st] s(3) c(1) by simp
qed

section \<open>The jump\<close>

definition zero_regs :: "instr list" where
  "zero_regs = [MOVS_imm 0 0, MOV 1 0, MOV 2 0, MOV 3 0, MOV 4 0, MOV 5 0, MOV 6 0, MOV 8 0, MOV 9 0,
     MOV 10 0, MOV 11 0, MOV 12 0, MOV lr 0]"

text \<open>The state in which the next image starts: only R7 and the stack pointer are not 0.\<close>

definition entry_state :: "u32 \<Rightarrow> u32 \<Rightarrow> buf \<Rightarrow> arm \<Rightarrow> bool" where
  "entry_state target stack m c \<longleftrightarrow>
     (\<forall>r \<le> 14. reg c r = (if r = 7 then target else if r = 13 then stack else 0)) \<and> ram c = m"

lemma zero_regs_run:
  assumes "drop pc P = zero_regs @ [BX 7]"
  shows "\<exists>c. arm_run ua P pc b = Some (reg b 7, c) \<and> entry_state (reg b 7) (reg b 13) (ram b) c"
proof -
  have "length (drop pc P) = length (zero_regs @ [BX 7])" using assms by (rule arg_cong)
  then have len: "pc + length zero_regs < length P" by simp
  have "P ! (pc + length zero_regs) = drop pc P ! length zero_regs" using len by simp
  then have bx: "P ! (pc + length zero_regs) = BX 7" unfolding assms by simp
  obtain c where c: "arm_execs ua zero_regs b = Some c" "reg c 7 = reg b 7" "ram c = ram b" "reg c 13 = reg b 13"
    "\<forall>r \<le> 14. r \<noteq> 7 \<longrightarrow> r \<noteq> 13 \<longrightarrow> reg c r = 0"
    by (auto simp: zero_regs_def step_simps set_reg_def le_Suc_eq numeral_eq_Suc)
  have "arm_run ua P pc b = Some (reg c 7, c)"
    using arm_fall_list [OF assms, of ua b] arm_BX [OF len bx] c(1) by (simp add: zero_regs_def)
  then show ?thesis using c by (auto simp: entry_state_def)
qed

lemma jump_run:
  assumes "unat ds \<le> unat st" "unat st - unat ds < 2 ^ 31" "stores_ok ua (unat st - unat ds) (unat st)"
  shows "\<exists>c. arm_run ua (boot_jump_to_next_image (boot_clear_ram_area ds st)) 0 a = Some (reg a 0, c)
    \<and> entry_state (reg a 0) (reg a 13)
         (clear_bytes (ram a) (unat ds + (unat st - unat ds) mod 4) (unat st)) c"
proof -
  let ?clear = "boot_clear_ram_area ds st" let ?P = "boot_jump_to_next_image ?clear"
  let ?a1 = "set_reg a 7 (reg a 0)"
  have L: "length ?P = 16" "?P ! 0 = MOV 7 0" "?P ! 1 = BL ?clear" "drop 2 ?P = zero_regs @ [BX 7]"
    by (simp_all add: boot_jump_to_next_image_def zero_regs_def)
  obtain b where b: "arm_run ua ?clear 0 (set_reg ?a1 lr 2) = Some (2, b)"
    "keeps_regs {0, 1, 2} (set_reg ?a1 lr 2) b"
    "ram b = clear_bytes (ram a) (unat ds + (unat st - unat ds) mod 4) (unat st)"
    using clear_ram [OF assms, of "set_reg ?a1 lr 2"] by (auto simp: step_simps)
  have "arm_run ua ?P 0 a = arm_run ua ?P 1 ?a1" using arm_fall [of 0 ?P 1 ua a] L by simp
  also have "\<dots> = arm_run ua ?P 2 b" by (rule arm_BL [OF _ L(3)]) (use L(1) b(1) in simp_all)
  finally have run: "arm_run ua ?P 0 a = arm_run ua ?P 2 b" .
  have "reg b 7 = reg a 0" "reg b 13 = reg a 13"
    using b(2) by (simp_all add: keeps_regs_def step_simps)
  then show ?thesis using zero_regs_run [OF L(4), of ua b] run b(3) by auto
qed

end
