(* ===== verification/Boot_Hal.thy ===== *)
theory Boot_Hal
  imports Boot Flash_Layout
begin

text \<open>
  The eight \<open>boot_hal.c\<close>: \<open>boot_platform_init\<close> of every platform as the sequence of its
  accesses to the outside, the assertion handler of the M2351, the M261 and the M2L31, and the functions by which the M55M1 replaces the jump of \<open>boot.c\<close>. Calls of
  BSP functions and macros are events; their arguments are recorded as written.
  \<open>D\<close> is the driver \<open>FLASH_DEV_NAME\<close>, \<open>D2\<close> the driver \<open>FLASH_DEV_NAME_2\<close>. Proved here: the
  jump of the M55M1 clears both memories, \<open>abort\<close> never returns, and the digits that the
  assertion handler writes are the line number in decimal.
\<close>

abbreviation mac :: "bsp \<Rightarrow> string \<Rightarrow> u32" where
  "mac B name \<equiv> konst B (Konst name)"

section \<open>Platform initialisation\<close>

text \<open>\<open>result = FLASH_DEV_NAME.Initialize(NULL); if (result != ARM_DRIVER_OK) return 1;\<close>, then 0.\<close>

definition init_flash :: "hw ARM_DRIVER_FLASH \<Rightarrow> hw \<Rightarrow> (int \<times> hw) option" where
  "init_flash D t = do { (result, t) \<leftarrow> Initialize D t;
                         if result \<noteq> ARM_DRIVER_OK then Some (1, t) else Some (0, t) }"

definition boot_platform_init_m2351 :: "bsp \<Rightarrow> hw ARM_DRIVER_FLASH \<Rightarrow> hw \<Rightarrow> (int \<times> hw) option" where
  "boot_platform_init_m2351 B D t =
     (let t = t @ [Bsp ''SYS_UnlockReg'' []];
          (v, t) = ask B (Reg_Rd ''SYS->GPF_MFPL'') t;
          t = t @ [Reg_Wr ''SYS->GPF_MFPL''
                ((v AND NOT (mac B ''SYS_GPF_MFPL_PF2MFP_Msk'')) OR mac B ''SYS_GPF_MFPL_PF2MFP_XT1_OUT'')];
          (v, t) = ask B (Reg_Rd ''SYS->GPF_MFPL'') t;
          t = t @ [Reg_Wr ''SYS->GPF_MFPL''
                ((v AND NOT (mac B ''SYS_GPF_MFPL_PF3MFP_Msk'')) OR mac B ''SYS_GPF_MFPL_PF3MFP_XT1_IN''),
            Bsp ''CLK_EnableXtalRC'' [''CLK_PWRCTL_HIRCEN_Msk''],
            Bsp ''CLK_WaitClockReady'' [''CLK_STATUS_HIRCSTB_Msk''],
            Bsp ''CLK_SetHCLK'' [''CLK_CLKSEL0_HCLKSEL_HIRC'', ''CLK_CLKDIV0_HCLK(1)''],
            Bsp ''CLK_EnableXtalRC'' [''CLK_PWRCTL_HXTEN_Msk''],
            Bsp ''CLK_WaitClockReady'' [''CLK_STATUS_HXTSTB_Msk''],
            Reg_Wr ''CLK->PLLCTL'' (mac B ''CLK_PLLCTL_128MHz_HIRC''),
            Bsp ''CLK_WaitClockReady'' [''CLK_STATUS_PLLSTB_Msk''],
            Bsp ''CLK_SetHCLK'' [''CLK_CLKSEL0_HCLKSEL_PLL'', ''CLK_CLKDIV0_HCLK(2)''],
            Bsp ''CLK_EnableModuleClock'' [''UART0_MODULE''],
            Bsp ''CLK_SetModuleClock''
              [''UART0_MODULE'', ''CLK_CLKSEL1_UART0SEL_HXT'', ''CLK_CLKDIV0_UART0(1)'']];
          (v, t) = ask B (Reg_Rd ''SYS->GPB_MFPH'') t;
          t = t @ [Reg_Wr ''SYS->GPB_MFPH''
                ((v AND NOT (mac B ''UART0_RXD_PB12_Msk'' OR mac B ''UART0_TXD_PB13_Msk''))
                 OR mac B ''UART0_RXD_PB12'' OR mac B ''UART0_TXD_PB13''),
            Bsp ''UART_Open'' [''UART0'', ''115200'']]
      in init_flash D t)"

definition boot_platform_init_m2354 :: "bsp \<Rightarrow> hw ARM_DRIVER_FLASH \<Rightarrow> hw \<Rightarrow> (int \<times> hw) option" where
  "boot_platform_init_m2354 B D t =
     init_flash D (t @ [
        Bsp ''SYS_UnlockReg'' [],
        Bsp ''CLK_EnableXtalRC'' [''CLK_PWRCTL_HIRCEN_Msk''],
        Bsp ''CLK_WaitClockReady'' [''CLK_STATUS_HIRCSTB_Msk''],
        Bsp ''CLK_SetCoreClock'' [''96000000''],
        Bsp ''CLK_EnableModuleClock'' [''UART0_MODULE''],
        Bsp ''CLK_SetModuleClock''
          [''UART0_MODULE'', ''CLK_CLKSEL2_UART0SEL_HIRC'', ''CLK_CLKDIV0_UART0(1)''],
        Bsp ''SystemCoreClockUpdate'' [],
        Bsp ''SET_UART0_RXD_PA6'' [],
        Bsp ''SET_UART0_TXD_PA7'' [],
        Bsp ''UART_Open'' [''UART0'', ''115200'']])"

definition boot_platform_init_m261 :: "bsp \<Rightarrow> hw ARM_DRIVER_FLASH \<Rightarrow> hw \<Rightarrow> (int \<times> hw) option" where
  "boot_platform_init_m261 B D t =
     init_flash D (t @ [
        Bsp ''SYS_UnlockReg'' [],
        Bsp ''CLK_EnableXtalRC'' [''CLK_PWRCTL_HIRCEN_Msk''],
        Bsp ''CLK_WaitClockReady'' [''CLK_STATUS_HIRCSTB_Msk''],
        Bsp ''CLK_SetHCLK'' [''CLK_CLKSEL0_HCLKSEL_HIRC'', ''CLK_CLKDIV0_HCLK(1)''],
        Bsp ''CLK_EnableXtalRC'' [''CLK_PWRCTL_HXTEN_Msk''],
        Bsp ''CLK_WaitClockReady'' [''CLK_STATUS_HXTSTB_Msk''],
        Reg_Wr ''CLK->PLLCTL'' (mac B ''CLK_PLLCTL_128MHz_HIRC''),
        Bsp ''CLK_WaitClockReady'' [''CLK_STATUS_PLLSTB_Msk''],
        Bsp ''CLK_SetHCLK'' [''CLK_CLKSEL0_HCLKSEL_PLL'', ''CLK_CLKDIV0_HCLK(2)''],
        Bsp ''CLK_EnableModuleClock'' [''UART0_MODULE''],
        Bsp ''CLK_SetModuleClock''
          [''UART0_MODULE'', ''CLK_CLKSEL1_UART0SEL_HXT'', ''CLK_CLKDIV0_UART0(1)''],
        Bsp ''SystemCoreClockUpdate'' [],
        Bsp ''SET_UART0_RXD_PB12'' [],
        Bsp ''SET_UART0_TXD_PB13'' [],
        Bsp ''UART_Open'' [''UART0'', ''115200'']])"

definition boot_platform_init_m2l31 :: "bsp \<Rightarrow> hw ARM_DRIVER_FLASH \<Rightarrow> hw \<Rightarrow> (int \<times> hw) option" where
  "boot_platform_init_m2l31 B D t =
     (let t = t @ [Bsp ''SYS_UnlockReg'' []];
          (v, t) = ask B (Reg_Rd ''PF->MODE'') t;
          t = t @ [Reg_Wr ''PF->MODE''
                (v AND NOT (mac B ''GPIO_MODE_MODE2_Msk'' OR mac B ''GPIO_MODE_MODE3_Msk'')),
            Bsp ''CLK_EnableXtalRC'' [''CLK_PWRCTL_HIRCEN_Msk''],
            Bsp ''CLK_WaitClockReady'' [''CLK_STATUS_HIRCSTB_Msk''],
            Bsp ''CLK_SetCoreClock'' [''FREQ_72MHZ''],
            Reg_Wr ''CLK->PCLKDIV''
              (mac B ''CLK_PCLKDIV_APB0DIV_DIV2'' OR mac B ''CLK_PCLKDIV_APB1DIV_DIV2''),
            Bsp ''SystemCoreClockUpdate'' [],
            Bsp ''CLK_SetModuleClock''
              [''UART0_MODULE'', ''CLK_CLKSEL4_UART0SEL_HIRC'', ''CLK_CLKDIV0_UART0(1)''],
            Bsp ''CLK_EnableModuleClock'' [''UART0_MODULE''],
            Bsp ''Uart0DefaultMPF'' [],
            Bsp ''SYS_ResetModule'' [''UART0_RST''],
            Bsp ''UART_Open'' [''UART0'', ''115200'']]
      in init_flash D t)"

definition boot_platform_init_m3331 :: "bsp \<Rightarrow> hw ARM_DRIVER_FLASH \<Rightarrow> hw \<Rightarrow> (int \<times> hw) option" where
  "boot_platform_init_m3331 B D t =
     init_flash D (t @ [
        Bsp ''SYS_UnlockReg'' [],
        Bsp ''CLK_EnableXtalRC'' [''CLK_PWRCTL_HXTEN_Msk''],
        Bsp ''CLK_WaitClockReady'' [''CLK_STATUS_HXTSTB_Msk''],
        Bsp ''CLK_EnableModuleClock'' [''UART0_MODULE''],
        Bsp ''CLK_SetModuleClock''
          [''UART0_MODULE'', ''CLK_CLKSEL1_UART0SEL_HXT'', ''CLK_CLKDIV0_UART0(1)''],
        Bsp ''SET_UART0_RXD_PB12'' [],
        Bsp ''SET_UART0_TXD_PB13'' [],
        Bsp ''UART_Open'' [''UART0'', ''115200'']])"

text \<open>
  On the M460 the second driver is initialised when \<open>FLASH_DEVICE_ID_2 != FLASH_DEVICE_ID\<close>.
  \<open>FLASH_DEVICE_ID\<close> is no macro in this file and counts as 0, so that the condition is
  \<open>101 != 0\<close> with the secondary slot in SPI flash, and \<open>0 != 0\<close> without.
\<close>

definition boot_platform_init_m460 ::
    "bsp \<Rightarrow> bool \<Rightarrow> hw ARM_DRIVER_FLASH \<Rightarrow> hw ARM_DRIVER_FLASH \<Rightarrow> hw \<Rightarrow> (int \<times> hw) option" where
  "boot_platform_init_m460 B spi D D2 t = do {
     (result, t) \<leftarrow> Initialize D (t @ [
        Bsp ''SYS_UnlockReg'' [],
        Reg_Wr ''CLK->PCLKDIV'' (mac B ''CLK_PCLKDIV_APB0DIV_DIV2'' OR mac B ''CLK_PCLKDIV_APB1DIV_DIV2''),
        Bsp ''CLK_SetCoreClock'' [''200000000''],
        Bsp ''CLK_EnableModuleClock'' [''UART0_MODULE''],
        Bsp ''CLK_SetModuleClock''
          [''UART0_MODULE'', ''CLK_CLKSEL1_UART0SEL_HIRC'', ''CLK_CLKDIV0_UART0(1)''],
        Bsp ''SET_UART0_RXD_PB12'' [],
        Bsp ''SET_UART0_TXD_PB13'' [],
        Bsp ''UART_Open'' [''UART0'', ''115200'']]);
     if result \<noteq> ARM_DRIVER_OK then Some (1, t)
     else if spi then do {
       (result, t) \<leftarrow> Initialize D2 t;
       if result \<noteq> ARM_DRIVER_OK then Some (1, t) else Some (0, t) }
     else Some (0, t) }"

definition boot_platform_init_m480 :: "bsp \<Rightarrow> hw ARM_DRIVER_FLASH \<Rightarrow> hw \<Rightarrow> (int \<times> hw) option" where
  "boot_platform_init_m480 B D t =
     (let t = t @ [Bsp ''SYS_UnlockReg'' []];
          (v, t) = ask B (Reg_Rd ''PF->MODE'') t;
          t = t @ [Reg_Wr ''PF->MODE''
                (v AND NOT (mac B ''GPIO_MODE_MODE2_Msk'' OR mac B ''GPIO_MODE_MODE3_Msk'')),
            Bsp ''CLK_EnableXtalRC'' [''CLK_PWRCTL_HXTEN_Msk''],
            Bsp ''CLK_WaitClockReady'' [''CLK_STATUS_HXTSTB_Msk''],
            Bsp ''CLK_SetHCLK'' [''CLK_CLKSEL0_HCLKSEL_HXT'', ''CLK_CLKDIV0_HCLK(1)''],
            Bsp ''CLK_SetCoreClock'' [''FREQ_192MHZ''],
            Reg_Wr ''CLK->PCLKDIV''
              (mac B ''CLK_PCLKDIV_APB0DIV_DIV2'' OR mac B ''CLK_PCLKDIV_APB1DIV_DIV2''),
            Bsp ''CLK_EnableModuleClock'' [''UART0_MODULE''],
            Bsp ''CLK_SetModuleClock''
              [''UART0_MODULE'', ''CLK_CLKSEL1_UART0SEL_HXT'', ''CLK_CLKDIV0_UART0(1)''],
            Bsp ''SystemCoreClockUpdate'' []];
          (v, t) = ask B (Reg_Rd ''SYS->GPH_MFPH'') t;
          t = t @ [Reg_Wr ''SYS->GPH_MFPH''
                (v AND NOT (mac B ''SYS_GPH_MFPH_PH11MFP_UART0_RXD'' OR mac B ''SYS_GPH_MFPH_PH10MFP_UART0_TXD''))];
          (v, t) = ask B (Reg_Rd ''SYS->GPH_MFPH'') t;
          t = t @ [Reg_Wr ''SYS->GPH_MFPH''
                (v OR (mac B ''SYS_GPH_MFPH_PH11MFP_UART0_RXD'' OR mac B ''SYS_GPH_MFPH_PH10MFP_UART0_TXD'')),
            Bsp ''UART_Open'' [''UART0'', ''115200'']]
      in init_flash D t)"

definition boot_platform_init_m55m1 :: "bsp \<Rightarrow> hw ARM_DRIVER_FLASH \<Rightarrow> hw \<Rightarrow> (int \<times> hw) option" where
  "boot_platform_init_m55m1 B D t = do {
     (result, t) \<leftarrow> Initialize D (t @ [
        Bsp ''SYS_UnlockReg'' [],
        Bsp ''CLK_SetBusClock''
          [''CLK_SCLKSEL_SCLKSEL_APLL0'', ''CLK_APLLCTL_APLLSRC_HIRC'', ''FREQ_220MHZ''],
        Bsp ''SystemCoreClockUpdate'' [],
        Bsp ''CLK_EnableXtalRC'' [''CLK_SRCCTL_HXTEN_Msk''],
        Bsp ''CLK_WaitClockReady'' [''CLK_STATUS_HXTSTB_Msk''],
        Bsp ''CLK_SetModuleClock''
          [''UART3_MODULE'', ''CLK_UARTSEL0_UART3SEL_HXT'', ''CLK_UARTDIV0_UART3DIV(1)''],
        Bsp ''CLK_EnableModuleClock'' [''UART3_MODULE''],
        Bsp ''SYS_ResetModule'' [''SYS_UART3RST''],
        Bsp ''SET_UART3_RXD_PE0'' [],
        Bsp ''SET_UART3_TXD_PE1'' [],
        Bsp ''UART_Open'' [''UART3'', ''115200'']]);
     if result \<noteq> ARM_DRIVER_OK then Some (1, t)
     else Some (0, t @ [Printf ''Image$$RW_NOINIT$$Base=%x'',
                        Printf ''Image$$ARM_LIB_HEAP$$ZI$$Limit=%x'',
                        Printf ''Image$$DTCM$$Base=%x'',
                        Printf ''Image$$ARM_LIB_STACK$$ZI$$Limit=%x'']) }"

text \<open>The platform's own file is the one that is compiled.\<close>

fun boot_platform_init :: "platform \<Rightarrow> bsp \<Rightarrow> bool \<Rightarrow> hw ARM_DRIVER_FLASH \<Rightarrow> hw ARM_DRIVER_FLASH \<Rightarrow>
    hw \<Rightarrow> (int \<times> hw) option" where
  "boot_platform_init M2351 B spi D D2 t = boot_platform_init_m2351 B D t"
| "boot_platform_init M2354 B spi D D2 t = boot_platform_init_m2354 B D t"
| "boot_platform_init M261 B spi D D2 t = boot_platform_init_m261 B D t"
| "boot_platform_init M2L31 B spi D D2 t = boot_platform_init_m2l31 B D t"
| "boot_platform_init M3331 B spi D D2 t = boot_platform_init_m3331 B D t"
| "boot_platform_init M460 B spi D D2 t = boot_platform_init_m460 B spi D D2 t"
| "boot_platform_init M480 B spi D D2 t = boot_platform_init_m480 B D t"
| "boot_platform_init M55M1 B spi D D2 t = boot_platform_init_m55m1 B D t"

section \<open>The jump of the M55M1\<close>

definition boot_clear_sram_area :: "u32 \<Rightarrow> u32 \<Rightarrow> instr list" where
  "boot_clear_sram_area rw_noinit_base heap_limit =
     [MOVS_imm 0 0,
      LDR_sym 1 rw_noinit_base,
      LDR_sym 2 heap_limit,
      SUBS_reg 2 2 1,
      SUBS_imm 2 4,
      BLT 8,
      STR_reg 0 1 2,
      BR 4,
      BX lr]"

definition boot_clear_dtcm_area :: "u32 \<Rightarrow> u32 \<Rightarrow> instr list" where
  "boot_clear_dtcm_area dtcm_base stack_limit =
     [MOVS_imm 0 0,
      LDR_sym 1 dtcm_base,
      LDR_sym 2 stack_limit,
      SUBS_reg 2 2 1,
      SUBS_imm 2 4,
      BLT 8,
      STR_reg 0 1 2,
      BR 4,
      BX lr]"

definition boot_jump_to_next_image_m55m1 :: "instr list \<Rightarrow> instr list \<Rightarrow> instr list" where
  "boot_jump_to_next_image_m55m1 clear_sram clear_dtcm =
     [MOV 7 0,
      BL clear_sram,
      BL clear_dtcm,
      MOVS_imm 0 0,
      MOV 1 0, MOV 2 0, MOV 3 0, MOV 4 0, MOV 5 0, MOV 6 0,
      MOV 8 0, MOV 9 0, MOV 10 0, MOV 11 0, MOV 12 0,
      MOV lr 0,
      BX 7]"

section \<open>The assertion handler\<close>

text \<open>
  \<open>while (line > 0) { *--p = '0' + (line % 10); line /= 10; }\<close> with \<open>p\<close> an index of \<open>str\<close>.
  \<open>None\<close> is a write before the buffer.
\<close>

function assert_digits :: "int \<Rightarrow> nat \<Rightarrow> (nat \<Rightarrow> char) \<Rightarrow> (nat \<times> (nat \<Rightarrow> char)) option" where
  "assert_digits line p str =
     (if line > 0 then
        (if p = 0 then None
         else assert_digits (line div 10) (p - 1)
                (str(p - 1 := char_of (48 + nat (line mod 10)))))
      else Some (p, str))"
  by pat_completeness auto
termination
  by (relation "measure (\<lambda>(line, p, str). nat line)") auto

declare assert_digits.simps [simp del]

text \<open>The string that \<open>p\<close> points to, in a buffer of \<open>n\<close> characters.\<close>

definition c_string :: "(nat \<Rightarrow> char) \<Rightarrow> nat \<Rightarrow> nat \<Rightarrow> string" where
  "c_string str p n = takeWhile (\<lambda>c. c \<noteq> char_of (0 :: nat)) (map str [p..<n])"

text \<open>The trace when \<open>abort\<close> is called; \<open>ind\<close> is the indeterminate content of \<open>str\<close>.\<close>

definition assert_output :: "(nat \<Rightarrow> char) \<Rightarrow> string \<Rightarrow> string \<Rightarrow> int \<Rightarrow> hw \<Rightarrow> hw option" where
  "assert_output ind expr file line t = do {
     let t = t @ [Bsp ''fputs'' [''*** assertion failed: ''], Bsp ''fputs'' [expr],
                  Bsp ''fputs'' ['', file ''], Bsp ''fputs'' [file], Bsp ''fputs'' ['', line '']];
     let p = 12;
     let (p, str) = (p - 1, ind(p - 1 := char_of (0 :: nat)));
     let (p, str) = (p - 1, str(p - 1 := char_of (10 :: nat)));
     (p, str) \<leftarrow> assert_digits line p str;
     Some (t @ [Bsp ''fputs'' [c_string str p 12]]) }"

text \<open>\<open>for(;;);\<close>\<close>

partial_function (option) c_abort :: "hw \<Rightarrow> hw option" where
  "c_abort t = c_abort t"

definition aeabi_assert :: "(nat \<Rightarrow> char) \<Rightarrow> string \<Rightarrow> string \<Rightarrow> int \<Rightarrow> hw \<Rightarrow> hw option" where
  "aeabi_assert ind expr file line t = do { t \<leftarrow> assert_output ind expr file line t; c_abort t }"

text \<open>The copies of the handler, over the same text, in the files of the M261 and the M2L31.\<close>

definition aeabi_assert_m261 :: "(nat \<Rightarrow> char) \<Rightarrow> string \<Rightarrow> string \<Rightarrow> int \<Rightarrow> hw \<Rightarrow> hw option" where
  "aeabi_assert_m261 ind expr file line t = do { t \<leftarrow> assert_output ind expr file line t; c_abort t }"

definition aeabi_assert_m2l31 :: "(nat \<Rightarrow> char) \<Rightarrow> string \<Rightarrow> string \<Rightarrow> int \<Rightarrow> hw \<Rightarrow> hw option" where
  "aeabi_assert_m2l31 ind expr file line t = do { t \<leftarrow> assert_output ind expr file line t; c_abort t }"

section \<open>Lemmas\<close>

lemma c_abort_never: "c_abort t = None"
proof (cases "c_abort t")
  case (Some u)
  have False by (rule c_abort.raw_induct [OF _ Some]) blast
  then show ?thesis ..
qed

lemma m55m1_clear_same:
  "boot_clear_sram_area b l = boot_clear_ram_area b l" "boot_clear_dtcm_area b l = boot_clear_ram_area b l"
  by (simp_all add: boot_clear_sram_area_def boot_clear_dtcm_area_def boot_clear_ram_area_def)

definition clear_range :: "u32 \<Rightarrow> u32 \<Rightarrow> buf \<Rightarrow> buf" where
  "clear_range ds st m = clear_bytes m (unat ds + (unat st - unat ds) mod 4) (unat st)"

text \<open>The Cortex-M55 carries out unaligned stores.\<close>

lemma m55m1_jump_run:
  assumes "unat b1 \<le> unat l1" "unat l1 - unat b1 < 2 ^ 31" "unat b2 \<le> unat l2" "unat l2 - unat b2 < 2 ^ 31"
  shows "\<exists>c. arm_run True (boot_jump_to_next_image_m55m1 (boot_clear_sram_area b1 l1) (boot_clear_dtcm_area b2 l2)) 0 a
       = Some (reg a 0, c)
    \<and> entry_state (reg a 0) (reg a 13) (clear_range b2 l2 (clear_range b1 l1 (ram a))) c"
proof -
  let ?c1 = "boot_clear_ram_area b1 l1" and ?c2 = "boot_clear_ram_area b2 l2"
  let ?P = "boot_jump_to_next_image_m55m1 ?c1 ?c2" and ?a1 = "set_reg a 7 (reg a 0)"
  have L: "length ?P = 17" "?P ! 0 = MOV 7 0" "?P ! 1 = BL ?c1" "?P ! 2 = BL ?c2"
    "drop 3 ?P = zero_regs @ [BX 7]"
    by (simp_all add: boot_jump_to_next_image_m55m1_def zero_regs_def)
  obtain b where b: "arm_run True ?c1 0 (set_reg ?a1 lr 2) = Some (2, b)"
    "keeps_regs {0, 1, 2} (set_reg ?a1 lr 2) b" "ram b = clear_range b1 l1 (ram a)"
    using clear_ram [OF assms(1,2) stores_ok_True, of "set_reg ?a1 lr 2"] by (auto simp: step_simps clear_range_def)
  obtain c where c: "arm_run True ?c2 0 (set_reg b lr 3) = Some (3, c)"
    "keeps_regs {0, 1, 2} (set_reg b lr 3) c" "ram c = clear_range b2 l2 (ram b)"
    using clear_ram [OF assms(3,4) stores_ok_True, of "set_reg b lr 3"] by (auto simp: step_simps clear_range_def)
  have "arm_run True ?P 0 a = arm_run True ?P 1 ?a1" using arm_fall [of 0 ?P 1 True a] L by simp
  also have "\<dots> = arm_run True ?P 2 b" by (rule arm_BL [OF _ L(3)]) (use L(1) b(1) in simp_all)
  also have "\<dots> = arm_run True ?P 3 c" by (rule arm_BL [OF _ L(4)]) (use L(1) c(1) in simp_all)
  finally have run: "arm_run True ?P 0 a = arm_run True ?P 3 c" .
  have "reg c 7 = reg a 0" "reg c 13 = reg a 13"
    using b(2) c(2) by (simp_all add: keeps_regs_def step_simps)
  then show ?thesis
    using zero_regs_run [OF L(5), of True c] run b(3) c(3) by (auto simp: m55m1_clear_same)
qed

text \<open>The decimal digits of a number; the empty string for 0.\<close>

fun decimal :: "nat \<Rightarrow> string" where
  "decimal n = (if n = 0 then '''' else decimal (n div 10) @ [char_of (48 + n mod 10)])"

declare decimal.simps [simp del]

lemma decimal_0 [simp]: "decimal 0 = ''''"
  by (subst decimal.simps) simp

lemma decimal_step: "0 < n \<Longrightarrow> decimal n = decimal (n div 10) @ [char_of (48 + n mod 10)]"
  by (subst decimal.simps) simp

lemma length_decimal: "n < 10 ^ k \<Longrightarrow> length (decimal n) \<le> k"
proof (induction k arbitrary: n)
  case (Suc k)
  show ?case
  proof (cases "n = 0")
    case False
    have "n div 10 < 10 ^ k" using Suc.prems by (simp add: less_mult_imp_div_less mult.commute)
    then show ?thesis using Suc.IH [of "n div 10"] False by (simp add: decimal_step)
  qed simp
qed simp

lemma decimal_no_NUL: "c \<in> set (decimal n) \<Longrightarrow> c \<noteq> char_of (0 :: nat)"
proof (induction n rule: decimal.induct)
  case (1 n)
  have "char_of (48 + n mod 10) \<noteq> (char_of (0 :: nat) :: char)"
  proof
    assume "char_of (48 + n mod 10) = (char_of (0 :: nat) :: char)"
    then have "(48 + n mod 10) mod 256 = 0" by (simp add: char_of_eq_iff take_bit_eq_mod)
    moreover have "48 + n mod 10 < 256" by (simp add: less_trans [of _ 10])
    ultimately show False by simp
  qed
  then show ?case using 1 by (cases "n = 0") (auto simp: decimal_step)
qed

lemma assert_digits_eq:
  assumes "length (decimal n) \<le> p"
  shows "\<exists>str'. assert_digits (int n) p str = Some (p - length (decimal n), str')
    \<and> map str' [p - length (decimal n)..<p] = decimal n \<and> (\<forall>k \<ge> p. str' k = str k)"
  using assms
proof (induction n arbitrary: p str rule: less_induct)
  case (less n)
  show ?case
  proof (cases "n = 0")
    case True
    then show ?thesis by (subst assert_digits.simps) simp
  next
    case False
    let ?c = "char_of (48 + n mod 10) :: char" and ?d = "length (decimal (n div 10))"
    have l: "length (decimal n) = Suc ?d" using False by (simp add: decimal_step)
    then obtain q where q: "p = Suc q" "?d \<le> q" using less.prems by (cases p) auto
    have "n div 10 < n" using False by simp
    from less.IH [OF this q(2), of "str(q := ?c)"] obtain str' where
      s: "assert_digits (int (n div 10)) q (str(q := ?c)) = Some (q - ?d, str')"
      "map str' [q - ?d..<q] = decimal (n div 10)" "\<forall>k \<ge> q. str' k = (str(q := ?c)) k" by blast
    have "assert_digits (int n) p str = assert_digits (int (n div 10)) q (str(q := ?c))"
      using False q(1) by (subst assert_digits.simps) (simp add: zdiv_int zmod_int nat_mod_distrib)
    moreover have "map str' [p - length (decimal n)..<p] = decimal n"
      using s(2,3) q l False by (simp add: decimal_step)
    ultimately show ?thesis using s q l by auto
  qed
qed

end
