(* ===== verification/Bl2_Main.thy ===== *)
theory Bl2_Main
  imports Boot_Hal Flash_Map_Ext
begin

text \<open>
  \<open>ext/mcuboot/bl2_main.c\<close> with the logging macros of \<open>mcuboot_logging.h\<close>, the console stubs
  of \<open>uart_stdout.c\<close> and the library stubs of \<open>syscall.c\<close>. \<open>boot_go\<close>, \<open>FIH_SUCCESS\<close> and
  \<open>IMAGE_F_RAM_LOAD\<close> belong to the bootutil library and are parameters; so are the platform
  functions, which the linker chooses. \<open>None\<close> is an endless loop outside of the library's
  panic. Proved here: what \<open>do_boot\<close> does for the internal flash and for other devices, and
  the machine state when the next image starts.
\<close>

section \<open>Logging and stubs\<close>

definition MCUBOOT_LOG_LEVEL_OFF :: nat where "MCUBOOT_LOG_LEVEL_OFF = 0"
definition MCUBOOT_LOG_LEVEL_ERROR :: nat where "MCUBOOT_LOG_LEVEL_ERROR = 1"
definition MCUBOOT_LOG_LEVEL_WARNING :: nat where "MCUBOOT_LOG_LEVEL_WARNING = 2"
definition MCUBOOT_LOG_LEVEL_INFO :: nat where "MCUBOOT_LOG_LEVEL_INFO = 3"
definition MCUBOOT_LOG_LEVEL_DEBUG :: nat where "MCUBOOT_LOG_LEVEL_DEBUG = 4"

definition MCUBOOT_LOG_ERR :: "nat \<Rightarrow> string \<Rightarrow> hw \<Rightarrow> hw" where
  "MCUBOOT_LOG_ERR level fmt t =
     (if level \<ge> MCUBOOT_LOG_LEVEL_ERROR then t @ [Printf (''[ERR] '' @ fmt)] else t)"

definition MCUBOOT_LOG_WRN :: "nat \<Rightarrow> string \<Rightarrow> hw \<Rightarrow> hw" where
  "MCUBOOT_LOG_WRN level fmt t =
     (if level \<ge> MCUBOOT_LOG_LEVEL_WARNING then t @ [Printf (''[WRN] '' @ fmt)] else t)"

definition MCUBOOT_LOG_INF :: "nat \<Rightarrow> string \<Rightarrow> hw \<Rightarrow> hw" where
  "MCUBOOT_LOG_INF level fmt t =
     (if level \<ge> MCUBOOT_LOG_LEVEL_INFO then t @ [Printf (''[INF] '' @ fmt)] else t)"

definition MCUBOOT_LOG_DBG :: "nat \<Rightarrow> string \<Rightarrow> hw \<Rightarrow> hw" where
  "MCUBOOT_LOG_DBG level fmt t =
     (if level \<ge> MCUBOOT_LOG_LEVEL_DEBUG then t @ [Printf (''[DBG] '' @ fmt)] else t)"

definition stdio_init :: "hw \<Rightarrow> hw" where
  "stdio_init t = t"

definition stdio_uninit :: "hw \<Rightarrow> hw" where
  "stdio_uninit t = t"

definition stdio_output_string :: "string \<Rightarrow> u32 \<Rightarrow> hw \<Rightarrow> int \<times> hw" where
  "stdio_output_string str len t = (sint len, t)"

text \<open>The stubs of \<open>syscall.c\<close>: the result and \<open>errno\<close>; \<open>ENOSYS\<close> is a parameter.\<close>

definition sys_close :: "int \<Rightarrow> int \<Rightarrow> int \<times> int" where
  "sys_close ENOSYS fildes = (-1, ENOSYS)"

definition sys_fstat :: "int \<Rightarrow> int \<Rightarrow> int \<times> int" where
  "sys_fstat ENOSYS fildes = (-1, ENOSYS)"

definition sys_getpid :: "int \<Rightarrow> int \<times> int" where
  "sys_getpid ENOSYS = (-1, ENOSYS)"

definition sys_isatty :: "int \<Rightarrow> int \<Rightarrow> int \<times> int" where
  "sys_isatty ENOSYS file = (0, ENOSYS)"

definition sys_kill :: "int \<Rightarrow> int \<Rightarrow> int \<Rightarrow> int \<times> int" where
  "sys_kill ENOSYS pid sig = (-1, ENOSYS)"

definition sys_lseek :: "int \<Rightarrow> int \<Rightarrow> int \<Rightarrow> int \<Rightarrow> int \<times> int" where
  "sys_lseek ENOSYS file ptr dir = (-1, ENOSYS)"

text \<open>\<open>exit\<close>, which \<open>syscall.c\<close> defines for the other compiler: \<open>while(1);\<close>\<close>

partial_function (option) c_exit :: "hw \<Rightarrow> hw option" where
  "c_exit t = c_exit t"

lemma c_exit_never: "c_exit t = None"
proof (cases "c_exit t")
  case (Some u)
  have False by (rule c_exit.raw_induct [OF _ Some]) blast
  then show ?thesis ..
qed

section \<open>The boot loader\<close>

text \<open>The fields of the bootutil structures that \<open>bl2_main.c\<close> reads.\<close>

record image_header =
  ih_load_addr :: u32
  ih_hdr_size :: u16
  ih_flags :: u32

record boot_rsp =
  br_hdr :: image_header
  br_flash_dev_id :: u8
  br_image_off :: u32

datatype outcome =
    Panic hw
  | Assert_failed hw
  | Jump hw u32 arm

definition BL2_MBEDTLS_MEM_BUF_LEN :: "bool \<Rightarrow> string" where
  "BL2_MBEDTLS_MEM_BUF_LEN encrypt_rsa = (if encrypt_rsa then ''0x3000'' else ''0x2000'')"

text \<open>
  The configuration of a build: the layout, the log level, whether assertions are compiled
  out, the mask \<open>IMAGE_F_RAM_LOAD\<close>, and the result of \<open>boot_platform_quit\<close>.
\<close>

record bl2_config =
  cfg_layout :: flash_layout
  cfg_log_level :: nat
  cfg_ndebug :: bool
  cfg_encrypt_rsa :: bool
  cfg_ram_load :: u32
  cfg_fih_success :: int
  cfg_platform_init :: "hw \<Rightarrow> (int \<times> hw) option"
  cfg_boot_go :: "hw \<Rightarrow> arm \<Rightarrow> (int \<times> boot_rsp \<times> hw \<times> arm) option"
  cfg_platform_quit :: "u32 \<Rightarrow> hw \<Rightarrow> arm \<Rightarrow> (hw \<times> u32 \<times> arm) option"

text \<open>\<open>ind\<close> is the indeterminate value of \<open>flash_base\<close>.\<close>

definition do_boot :: "bl2_config \<Rightarrow> u32 \<Rightarrow> boot_rsp \<Rightarrow> hw \<Rightarrow> arm \<Rightarrow> outcome option" where
  "do_boot G ind rsp t a =
     (let (rc, flash_base) = flash_device_base (cfg_layout G) (br_flash_dev_id rsp) ind
      in if rc \<noteq> 0 \<and> \<not> cfg_ndebug G then Some (Assert_failed t)
         else
           let vt = (if ih_flags (br_hdr rsp) AND cfg_ram_load G \<noteq> 0
                     then ih_load_addr (br_hdr rsp) + ucast (ih_hdr_size (br_hdr rsp))
                     else flash_base + br_image_off rsp + ucast (ih_hdr_size (br_hdr rsp)));
               t = (if cfg_log_level G > MCUBOOT_LOG_LEVEL_OFF then stdio_uninit t else t)
           in do { (t, target, a) \<leftarrow> cfg_platform_quit G vt t a;
                   Some (Jump t target a) })"

definition bl2_main :: "bl2_config \<Rightarrow> u32 \<Rightarrow> hw \<Rightarrow> arm \<Rightarrow> outcome option" where
  "bl2_main G ind t a = do {
     let lv = cfg_log_level G;
     let t = t @ [Bsp ''mbedtls_memory_buffer_alloc_init''
                    [''mbedtls_mem_buf'', BL2_MBEDTLS_MEM_BUF_LEN (cfg_encrypt_rsa G)]];
     let t = (if lv > MCUBOOT_LOG_LEVEL_OFF then stdio_init t else t);
     (result, t) \<leftarrow> cfg_platform_init G t;
     if result \<noteq> 0 then Some (Panic (MCUBOOT_LOG_ERR lv ''Platform init failed'' t))
     else do {
       let t = MCUBOOT_LOG_INF lv ''Starting bootloader'' t;
       (fih_rc, rsp, t, a) \<leftarrow> cfg_boot_go G t a;
       if fih_rc \<noteq> cfg_fih_success G
       then Some (Panic (MCUBOOT_LOG_ERR lv ''Unable to find bootable image'' t))
       else do {
         let t = MCUBOOT_LOG_INF lv ''Bootloader chainload address offset: 0x%x'' t;
         let t = MCUBOOT_LOG_INF lv ''Jumping to the image slot @ %08x'' t;
         do_boot G ind rsp t a } } }"

section \<open>What is started\<close>

text \<open>The address of the vector table of the image that \<open>boot_go\<close> selected, in flash that starts at \<open>base\<close>.\<close>

definition vt_from :: "bl2_config \<Rightarrow> u32 \<Rightarrow> boot_rsp \<Rightarrow> u32" where
  "vt_from G base rsp =
     (if ih_flags (br_hdr rsp) AND cfg_ram_load G \<noteq> 0 then ih_load_addr (br_hdr rsp)
      else base + br_image_off rsp) + ucast (ih_hdr_size (br_hdr rsp))"

definition image_vt :: "bl2_config \<Rightarrow> boot_rsp \<Rightarrow> u32" where
  "image_vt G rsp = vt_from G (FLASH_BASE_ADDRESS (cfg_layout G)) rsp"

lemma do_boot_cases:
  "do_boot G ind rsp t a =
     (if br_flash_dev_id rsp \<noteq> FLASH_DEVICE_ID \<and> \<not> cfg_ndebug G then Some (Assert_failed t)
      else do { (t, target, a) \<leftarrow> cfg_platform_quit G
                  (if br_flash_dev_id rsp = FLASH_DEVICE_ID then image_vt G rsp else vt_from G ind rsp) t a;
                Some (Jump t target a) })"
  by (simp add: do_boot_def flash_device_base_def image_vt_def vt_from_def stdio_uninit_def)

text \<open>Starting an image whose vector table is at \<open>vt\<close>, on the platforms that use \<open>boot.c\<close> alone.\<close>

lemma platform_quit_jump:
  assumes "unat ds \<le> unat st" "unat st - unat ds < 2 ^ 31" "stores_ok ua (unat st - unat ds) (unat st)"
  shows "\<exists>c. boot_platform_quit None v8m ua (boot_jump_to_next_image (boot_clear_ram_area ds st)) vt t a
      = Some (t @ [Reg_Wr ''SCB->VTOR'' vt] @ (if v8m then [Reg_Wr ''MSPLIM'' 0] else [])
                @ [Reg_Wr ''MSP'' (load32 (ram a) (unat vt)), Bsp ''__DSB'' [], Bsp ''__ISB'' []],
              load32 (ram a) (unat (vt + 4)), c)
    \<and> entry_state (load32 (ram a) (unat (vt + 4))) (load32 (ram a) (unat vt)) (clear_range ds st (ram a)) c"
proof -
  let ?r = "load32 (ram a) (unat (vt + 4))" and ?sp = "load32 (ram a) (unat vt)"
  let ?a = "set_reg (set_reg a 13 ?sp) 0 ?r"
  from jump_run [OF assms, of ?a] obtain c where
    c: "arm_run ua (boot_jump_to_next_image (boot_clear_ram_area ds st)) 0 ?a = Some (?r, c)"
    "entry_state ?r ?sp (clear_range ds st (ram a)) c"
    by (auto simp: step_simps clear_range_def)
  then show ?thesis by (auto simp: boot_platform_quit_def read_vector_table_def)
qed

end
