(* ===== verification/Boot_System.thy ===== *)
theory Boot_System
  imports Bl2_Main Driver_Flash2
begin

text \<open>
  The boot loader as it is built for a board: \<open>main\<close> with the \<open>boot_platform_init\<close> of the
  platform over the CMSIS drivers of the repository, and with \<open>boot_platform_quit\<close> and the jump
  code of the platform. What remains a parameter is \<open>boot_go\<close> of the bootutil library.
  Proved here: initialising the driver of the internal flash succeeds, so that every
  platform reaches \<open>boot_go\<close> with that flash open, unless the driver of a serial flash
  comes next; and every way in which \<open>main\<close> goes on.
\<close>

section \<open>Initialisation\<close>

text \<open>What all platforms do with the flash drivers once the clocks and pins are set up.\<close>

definition flash_drivers :: "platform \<Rightarrow> bool \<Rightarrow> hw ARM_DRIVER_FLASH \<Rightarrow> hw ARM_DRIVER_FLASH \<Rightarrow> hw \<Rightarrow>
    hw \<Rightarrow> (int \<times> hw) option" where
  "flash_drivers p spi D D2 t final = do {
     (r, t) \<leftarrow> Initialize D t;
     if r \<noteq> 0 then Some (1, t)
     else if p = M460 \<and> spi then do { (r, t) \<leftarrow> Initialize D2 t; Some (if r \<noteq> 0 then 1 else 0, t) }
     else Some (0, t @ final) }"

lemma init_flash_drivers: "p \<noteq> M460 \<Longrightarrow> init_flash D t = flash_drivers p spi D D2 t []"
  by (cases "Initialize D t") (auto simp: init_flash_def flash_drivers_def)

lemma m460_flash_drivers:
  "do { (result, t) \<leftarrow> Initialize D t;
        if result \<noteq> ARM_DRIVER_OK then Some (1, t)
        else if spi then do {
          (result, t) \<leftarrow> Initialize D2 t;
          if result \<noteq> ARM_DRIVER_OK then Some (1, t) else Some (0, t) }
        else Some (0, t) } = flash_drivers M460 spi D D2 t []"
  by (cases "Initialize D t"; cases "Initialize D2 (snd (the (Initialize D t)))") (auto simp: flash_drivers_def)

lemma m55m1_flash_drivers:
  "do { (result, t) \<leftarrow> Initialize D t;
        if result \<noteq> ARM_DRIVER_OK then Some (1, t) else Some (0, t @ final) }
   = flash_drivers M55M1 spi D D2 t final"
  by (cases "Initialize D t") (auto simp: flash_drivers_def)

lemma platform_init_drivers:
  "\<exists>u final. boot_platform_init p B spi D D2 t
     = flash_drivers p spi D D2 (t @ Bsp ''SYS_UnlockReg'' [] # u) final"
proof (cases "p = M460 \<or> p = M55M1")
  case False
  then have "\<exists>u. boot_platform_init p B spi D D2 t = init_flash D (t @ Bsp ''SYS_UnlockReg'' [] # u)"
    by (cases p) (simp_all add: boot_platform_init_m2351_def boot_platform_init_m2354_def
        boot_platform_init_m261_def boot_platform_init_m2l31_def boot_platform_init_m3331_def
        boot_platform_init_m480_def Let_def split_beta, (rule exI, rule refl)+)
  then show ?thesis using False init_flash_drivers by metis
next
  case True
  then show ?thesis
    by (elim disjE; hypsubst; simp only: boot_platform_init.simps; intro exI)
      (simp only: boot_platform_init_m460_def m460_flash_drivers,
       unfold boot_platform_init_m55m1_def, rule m55m1_flash_drivers)
qed

text \<open>The driver of the internal flash, with the controller of the platform.\<close>

definition internal_flash :: "platform \<Rightarrow> bsp \<Rightarrow> buf \<Rightarrow> hw ARM_DRIVER_FLASH" where
  "internal_flash p B ind = Driver_FLASH0 B (p = M2L31) ind (linked_nvmc B (p = M2L31))"

text \<open>The event by which the controller is opened.\<close>

definition flash_opened :: "platform \<Rightarrow> ev" where
  "flash_opened p = Bsp (if p = M2L31 then ''RMC_Open'' else ''FMC_Open'') []"

lemma internal_flash_init:
  "\<exists>u. Initialize (internal_flash p B ind) t = Some (0, t @ flash_opened p # u)"
  by (cases "p = M2L31") (simp_all add: internal_flash_def Driver_FLASH0_def ARM_Flash_Initialize_def
      DriverCapabilities_def linked_nvmc_def rmc_entry fmc_entry NVT_RMC_Init_def NVT_FMC_Init_def flash_opened_def
      DATA_WIDTH_ENUM_SIZE_def)

lemma internal_flash_uninit: "Uninitialize (internal_flash p B ind) t = Some (0, t)"
  by (simp add: internal_flash_def Driver_FLASH0_def ARM_Flash_Uninitialize_def)

lemma internal_platform_init:
  assumes "\<not> (p = M460 \<and> spi)"
  shows "\<exists>t'. boot_platform_init p B spi (internal_flash p B ind) D2 t = Some (0, t') \<and> flash_opened p \<in> set t'"
proof -
  obtain u final where i: "boot_platform_init p B spi (internal_flash p B ind) D2 t
      = flash_drivers p spi (internal_flash p B ind) D2 (t @ Bsp ''SYS_UnlockReg'' [] # u) final"
    using platform_init_drivers by blast
  obtain v where "Initialize (internal_flash p B ind) (t @ Bsp ''SYS_UnlockReg'' [] # u)
      = Some (0, (t @ Bsp ''SYS_UnlockReg'' [] # u) @ flash_opened p # v)"
    using internal_flash_init by blast
  then show ?thesis using assms by (auto simp: i flash_drivers_def)
qed

section \<open>The jump\<close>

text \<open>
  The cores that carry out unaligned stores: not the Cortex-M23 (the core of a platform is in
  \<open>README.md\<close> and in its scatter file).
\<close>

definition unaligned_ok :: "platform \<Rightarrow> bool" where
  "unaligned_ok p \<longleftrightarrow> p \<notin> {M2351, M2354, M261, M2L31}"

text \<open>The memories that the platform clears: \<open>boot.c\<close> one range, the M55M1 two.\<close>

definition platform_jump :: "platform \<Rightarrow> u32 \<times> u32 \<Rightarrow> u32 \<times> u32 \<Rightarrow> instr list" where
  "platform_jump p r1 r2 = (case (r1, r2) of ((b1, l1), (b2, l2)) \<Rightarrow>
     if p = M55M1 then boot_jump_to_next_image_m55m1 (boot_clear_sram_area b1 l1) (boot_clear_dtcm_area b2 l2)
     else boot_jump_to_next_image (boot_clear_ram_area b1 l1))"

definition cleared :: "platform \<Rightarrow> u32 \<times> u32 \<Rightarrow> u32 \<times> u32 \<Rightarrow> buf \<Rightarrow> buf" where
  "cleared p r1 r2 m = (case (r1, r2) of ((b1, l1), (b2, l2)) \<Rightarrow>
     if p = M55M1 then clear_range b2 l2 (clear_range b1 l1 m) else clear_range b1 l1 m)"

text \<open>A range that the core can clear; the linker places its end at a word in practice.\<close>

definition range_ok :: "platform \<Rightarrow> u32 \<times> u32 \<Rightarrow> bool" where
  "range_ok p r \<longleftrightarrow> unat (fst r) \<le> unat (snd r) \<and> unat (snd r) - unat (fst r) < 2 ^ 31
     \<and> stores_ok (unaligned_ok p) (unat (snd r) - unat (fst r)) (unat (snd r))"

lemma platform_jump_run:
  assumes "range_ok p r1" and "range_ok p r2"
  shows "\<exists>c. arm_run (unaligned_ok p) (platform_jump p r1 r2) 0 a = Some (reg a 0, c)
    \<and> entry_state (reg a 0) (reg a 13) (cleared p r1 r2 (ram a)) c"
proof (cases "p = M55M1")
  case True
  then show ?thesis
    using assms m55m1_jump_run [of "fst r1" "snd r1" "fst r2" "snd r2" a]
    by (cases r1; cases r2) (simp add: platform_jump_def cleared_def range_ok_def unaligned_ok_def)
next
  case False
  then show ?thesis
    using assms jump_run [of "fst r1" "snd r1" "unaligned_ok p" a]
    by (cases r1; cases r2) (simp add: platform_jump_def cleared_def range_ok_def clear_range_def)
qed

lemma quit_jump:
  assumes "range_ok p r1" and "range_ok p r2" and "case D of None \<Rightarrow> True | Some d \<Rightarrow> Uninitialize d t = Some (0, t)"
  shows "\<exists>u c. boot_platform_quit D v8m (unaligned_ok p) (platform_jump p r1 r2) vt t a
      = Some (t @ Reg_Wr ''SCB->VTOR'' vt # u, load32 (ram a) (unat (vt + 4)), c)
    \<and> entry_state (load32 (ram a) (unat (vt + 4))) (load32 (ram a) (unat vt)) (cleared p r1 r2 (ram a)) c"
proof -
  let ?r = "load32 (ram a) (unat (vt + 4))" and ?sp = "load32 (ram a) (unat vt)"
  obtain c where "arm_run (unaligned_ok p) (platform_jump p r1 r2) 0 (set_reg (set_reg a 13 ?sp) 0 ?r) = Some (?r, c)"
    "entry_state ?r ?sp (cleared p r1 r2 (ram a)) c"
    using platform_jump_run [OF assms(1,2), of "set_reg (set_reg a 13 ?sp) 0 ?r"] by (auto simp: step_simps)
  then show ?thesis using assms(3) by (auto simp: boot_platform_quit_def read_vector_table_def Let_def split: option.splits)
qed

section \<open>The boot loader of a board\<close>

text \<open>
  A build for platform \<open>p\<close>: \<open>G\<close> contributes the options and \<open>boot_go\<close>. \<open>named\<close> says whether
  the macro \<open>FLASH_DEV_NAME\<close> is visible in \<open>boot.c\<close>.
\<close>

definition board_build :: "platform \<Rightarrow> bsp \<Rightarrow> buf \<Rightarrow> bool \<Rightarrow> hw ARM_DRIVER_FLASH \<Rightarrow> bool \<Rightarrow> bool \<Rightarrow>
    u32 \<times> u32 \<Rightarrow> u32 \<times> u32 \<Rightarrow> bl2_config \<Rightarrow> bl2_config" where
  "board_build p B ind spi D2 named v8m r1 r2 G = G\<lparr>
     cfg_layout := layout_of p spi,
     cfg_platform_init := boot_platform_init p B spi (internal_flash p B ind) D2,
     cfg_platform_quit := boot_platform_quit (if named then Some (internal_flash p B ind) else None) v8m
                            (unaligned_ok p) (platform_jump p r1 r2)\<rparr>"

lemma board_build_simps [simp]:
  "cfg_platform_init (board_build p B ind spi D2 named v8m r1 r2 G) = boot_platform_init p B spi (internal_flash p B ind) D2"
  "cfg_layout (board_build p B ind spi D2 named v8m r1 r2 G) = layout_of p spi"
  "cfg_log_level (board_build p B ind spi D2 named v8m r1 r2 G) = cfg_log_level G"
  "cfg_ndebug (board_build p B ind spi D2 named v8m r1 r2 G) = cfg_ndebug G"
  "cfg_boot_go (board_build p B ind spi D2 named v8m r1 r2 G) = cfg_boot_go G"
  "cfg_fih_success (board_build p B ind spi D2 named v8m r1 r2 G) = cfg_fih_success G"
  by (simp_all add: board_build_def)

lemma board_quit_jump:
  assumes "range_ok p r1" and "range_ok p r2"
  shows "\<exists>u c. cfg_platform_quit (board_build p B ind spi D2 named v8m r1 r2 G) vt t a
      = Some (t @ Reg_Wr ''SCB->VTOR'' vt # u, load32 (ram a) (unat (vt + 4)), c)
    \<and> entry_state (load32 (ram a) (unat (vt + 4))) (load32 (ram a) (unat vt)) (cleared p r1 r2 (ram a)) c"
  using quit_jump [OF assms, where D = "if named then Some (internal_flash p B ind) else None" and t = t
    and v8m = v8m and vt = vt and a = a]
  by (simp add: board_build_def internal_flash_uninit)

lemma layout_base: "FLASH_BASE_ADDRESS (layout_of p spi) = 0"
  by (cases p) (simp_all add: layout_defs)

text \<open>Once the platform is initialised, \<open>boot_go\<close> decides.\<close>

lemma main_after_init:
  assumes "cfg_platform_init G (t @ [Bsp ''mbedtls_memory_buffer_alloc_init''
             [''mbedtls_mem_buf'', BL2_MBEDTLS_MEM_BUF_LEN (cfg_encrypt_rsa G)]]) = Some (0, t1)"
    and "cfg_boot_go G (MCUBOOT_LOG_INF (cfg_log_level G) ''Starting bootloader'' t1) a = Some (rc, rsp, t2, a1)"
  shows "bl2_main G ind t a
    = (if rc \<noteq> cfg_fih_success G then Some (Panic (MCUBOOT_LOG_ERR (cfg_log_level G) ''Unable to find bootable image'' t2))
       else do_boot G ind rsp (MCUBOOT_LOG_INF (cfg_log_level G) ''Jumping to the image slot @ %08x''
         (MCUBOOT_LOG_INF (cfg_log_level G) ''Bootloader chainload address offset: 0x%x'' t2)) a1)"
  using assms by (simp add: bl2_main_def Let_def stdio_init_def)

text \<open>
  The outcome is the start of the image with its vector table at \<open>vt\<close>, from machine state \<open>a\<close>: a
  jump to its reset vector with the vector table register set, the stack pointer of the image, the
  other core registers zero except R7, and the memory changed by \<open>clear\<close>.
\<close>

definition starts_at :: "u32 \<Rightarrow> (buf \<Rightarrow> buf) \<Rightarrow> arm \<Rightarrow> outcome option \<Rightarrow> bool" where
  "starts_at vt clear a out \<longleftrightarrow> (\<exists>t' c. let start = load32 (ram a) (unat (vt + 4)) in
     out = Some (Jump t' start c) \<and> Reg_Wr ''SCB->VTOR'' vt \<in> set t'
   \<and> (\<forall>r \<le> 14. reg c r = (if r = 7 then start else if r = 13 then load32 (ram a) (unat vt) else 0))
   \<and> ram c = clear (ram a))"

text \<open>In particular of the image that \<open>boot_go\<close> reported in \<open>rsp\<close>, in the internal flash.\<close>

definition starts_image :: "bl2_config \<Rightarrow> (buf \<Rightarrow> buf) \<Rightarrow> boot_rsp \<Rightarrow> arm \<Rightarrow> outcome option \<Rightarrow> bool" where
  "starts_image C clear rsp a out \<longleftrightarrow> starts_at (image_vt C rsp) clear a out"

lemma board_do_boot:
  assumes "range_ok p r1" and "range_ok p r2"
    and "C = board_build p B ind spi D2 named v8m r1 r2 G"
  shows "if br_flash_dev_id rsp = FLASH_DEVICE_ID then starts_image C (cleared p r1 r2) rsp a (do_boot C junk rsp t a)
    else if cfg_ndebug C then starts_at (vt_from C junk rsp) (cleared p r1 r2) a (do_boot C junk rsp t a)
    else do_boot C junk rsp t a = Some (Assert_failed t)"
proof -
  have "starts_at vt (cleared p r1 r2) a (do { (t, target, a) \<leftarrow> cfg_platform_quit C vt t a; Some (Jump t target a) })" for vt
    using board_quit_jump [OF assms(1,2), of B ind spi D2 named v8m G vt t a]
    unfolding starts_at_def assms(3) Let_def entry_state_def by force
  then show ?thesis by (simp add: do_boot_cases starts_image_def)
qed

section \<open>The M460 with a slot behind the SPI driver\<close>

text \<open>A history in which the serial buses were not used yet, and the identification command after it.\<close>

definition buses_unused :: "hw \<Rightarrow> bool" where
  "buses_unused t \<longleftrightarrow> (\<forall>x. SPI x \<notin> set t \<and> QSPI x \<notin> set t)"

definition jedec_asked :: "bsp \<Rightarrow> hw \<Rightarrow> hw" where
  "jedec_asked B t = wait_SPI_IS_BUSY B (t @ [SPI SET_SS_LOW, SPI (WRITE_TX 0x9F), SPI (WRITE_TX 0),
     SPI (WRITE_TX 0), SPI (WRITE_TX 0), SPI (WRITE_TX 0)]) @ [SPI SET_SS_HIGH]"

lemma jedec_overflow:
  assumes "rx_fifo SPI B (jedec_asked B t) n" and "4 < n"
  shows "SpiFlash_ReadJedecID B rx t = None"
  using ser_drain_overflow [OF assms(1), of 0 rx] assms(2)
  by (simp add: SpiFlash_ReadJedecID_def Let_def jedec_asked_def)

lemma buses_unused_append [simp]: "buses_unused (t @ u) \<longleftrightarrow> buses_unused t \<and> buses_unused u"
  by (auto simp: buses_unused_def)

lemma m460_spi_init_undefined:
  assumes "\<And>u. buses_unused u \<Longrightarrow> \<exists>n > 4. rx_fifo SPI B (jedec_asked B u) n" and "buses_unused t"
  shows "boot_platform_init M460 B True (internal_flash M460 B ind) (Driver_FLASH2_SPI B rx) t = None"
proof -
  have j: "SpiFlash_ReadJedecID B rx u = None" if "buses_unused u" for u
    using assms(1) [OF that] jedec_overflow by blast
  have "NVT_NVSPI_Init B rx u = None" if "buses_unused u" for u
    using that by (simp add: NVT_NVSPI_Init_def Let_def ask_def j buses_unused_def)
  then have "Initialize (Driver_FLASH2_SPI B rx) u = None" if "buses_unused u" for u
    using that by (simp add: Driver_FLASH2_SPI_def ARM_Flash_Initialize_SPI_def init_serial_def DriverCapabilities_def
        DATA_WIDTH_ENUM_SIZE_def)
  then show ?thesis
    using assms(2) by (simp add: boot_platform_init_m460_def internal_flash_def Driver_FLASH0_def ARM_Flash_Initialize_def
        DriverCapabilities_def DATA_WIDTH_ENUM_SIZE_def linked_nvmc_def fmc_entry NVT_FMC_Init_def buses_unused_def)
qed

end
