(* ===== verification/Boot_Props.thy ===== *)
theory Boot_Props
  imports Boot_System Sim_Device Sim_Serial
begin

text \<open>
  Properties of the start of the boot loader and of the next image: platform initialisation, the
  decision to jump, the machine state at the entry of the image, and the assertion handler.
\<close>

section \<open>Clearing memory and jumping\<close>

text \<open>
  C26. \<open>boot_clear_ram_area\<close> clears the memory from the end downwards in words. On a core that
  carries out unaligned stores, or when the end of the range is word aligned or the range is shorter than
  a word, it returns to its caller, changes R0 to R2 only, clears everything
  from \<open>data_start\<close> to \<open>stack_top\<close> except the first (size mod 4) bytes, and nothing outside. In all other
  cases, so on a Cortex-M23 when \<open>stack_top\<close> is no multiple of 4, its first store faults and it does not return.
\<close>

theorem boot_clear_ram_area_clears:
  assumes "unat ds \<le> unat st" and "unat st - unat ds < 2 ^ 31"
  shows "if ua \<or> 4 dvd unat st \<or> unat st - unat ds < 4
    then \<exists>b. arm_run ua (boot_clear_ram_area ds st) 0 a = Some (reg a 14, b)
      \<and> (\<forall>r. r \<noteq> 0 \<and> r \<noteq> 1 \<and> r \<noteq> 2 \<longrightarrow> reg b r = reg a r)
      \<and> (\<forall>x. ram b x = (if unat ds + (unat st - unat ds) mod 4 \<le> x \<and> x < unat st then 0 else ram a x))
    else arm_run ua (boot_clear_ram_area ds st) 0 a = None"
proof (cases "stores_ok ua (unat st - unat ds) (unat st)")
  case True
  then show ?thesis
    using clear_ram [OF assms True, of a] by (auto simp: stores_ok_def keeps_regs_def clear_bytes_def)
next
  case False
  then show ?thesis using clear_ram_fault [OF assms False] by (simp add: stores_ok_def)
qed

definition sim_arm :: arm where
  "sim_arm = \<lparr>reg = (\<lambda>r. of_nat r), flag_N = False, flag_V = False, ram = (\<lambda>x. 0x5A)\<rparr>"

text \<open>A range of six bytes: on a Cortex-M4, on a Cortex-M23, and there with its end at a word.\<close>

theorem boot_clear_ram_area_clears_witness:
  "(\<exists>b. arm_run True (boot_clear_ram_area 0x20000000 0x20000006) 0 sim_arm = Some (14, b)
      \<and> ram b 0x20000001 = 0x5A \<and> ram b 0x20000002 = 0)
    \<and> arm_run False (boot_clear_ram_area 0x20000000 0x20000006) 0 sim_arm = None
    \<and> (\<exists>b. arm_run False (boot_clear_ram_area 0x20000002 0x20000008) 0 sim_arm = Some (14, b)
      \<and> ram b 0x20000003 = 0x5A \<and> ram b 0x20000004 = 0)"
  using boot_clear_ram_area_clears [of "0x20000000" "0x20000006" True sim_arm]
    boot_clear_ram_area_clears [of "0x20000000" "0x20000006" False sim_arm]
    boot_clear_ram_area_clears [of "0x20000002" "0x20000008" False sim_arm] by (auto simp: sim_arm_def)

text \<open>
  C27. The jump of the M55M1 clears its SRAM and then its DTCM like \<open>boot.c\<close> clears the RAM, and
  leaves for the address in R0 with all of R0 to R12 and LR zero except R7, which still holds
  that address; R13 keeps the stack pointer of the image. Its Cortex-M55 carries out unaligned stores.
\<close>

theorem m55m1_jump_state:
  assumes "unat b1 \<le> unat l1" and "unat l1 - unat b1 < 2 ^ 31" and "unat b2 \<le> unat l2"
    and "unat l2 - unat b2 < 2 ^ 31"
  shows "\<exists>c. arm_run True (boot_jump_to_next_image_m55m1 (boot_clear_sram_area b1 l1) (boot_clear_dtcm_area b2 l2)) 0 a
       = Some (reg a 0, c)
    \<and> (\<forall>r \<le> 14. reg c r = (if r = 7 then reg a 0 else if r = 13 then reg a 13 else 0))
    \<and> ram c = clear_range b2 l2 (clear_range b1 l1 (ram a))"
  using m55m1_jump_run [OF assms, of a] by (simp add: entry_state_def)

theorem m55m1_jump_state_witness:
  "\<exists>c. arm_run True (boot_jump_to_next_image_m55m1 (boot_clear_sram_area 0x20100000 0x20100100)
          (boot_clear_dtcm_area 0x20000000 0x20000100)) 0 sim_arm = Some (0, c)
    \<and> reg c 13 = 13 \<and> reg c 5 = 0 \<and> ram c 0x20100010 = 0"
  using m55m1_jump_state [of "0x20100000" "0x20100100" "0x20000000" "0x20000100" sim_arm]
  by (auto simp: sim_arm_def clear_range_def clear_bytes_def)

section \<open>The boot loader\<close>

text \<open>
  C6. An image is only started when the platform initialisation returned 0 and after it
  \<open>boot_go\<close> returned \<open>FIH_SUCCESS\<close>. For an image in the internal flash the start is from the vector
  table at the place that \<open>boot_go\<close> reported. The only other start is that of an image in another device,
  in a build without assertions: then, unless the image was loaded to RAM, the vector table is looked for
  relative to \<open>flash_base\<close>, a local that nothing has written (\<open>ind\<close>). No other path of \<open>main\<close> reaches the jump.
\<close>

theorem jump_only_after_success:
  assumes "bl2_main G ind t a = Some (Jump t' target c)"
  shows "\<exists>t0 t1 t2 rsp a1 vt t3.
      cfg_platform_init G t0 = Some (0, t1)
    \<and> cfg_boot_go G (MCUBOOT_LOG_INF (cfg_log_level G) ''Starting bootloader'' t1) a = Some (cfg_fih_success G, rsp, t2, a1)
    \<and> cfg_platform_quit G vt t3 a1 = Some (t', target, c)
    \<and> (br_flash_dev_id rsp = FLASH_DEVICE_ID \<and> vt = image_vt G rsp
       \<or> br_flash_dev_id rsp \<noteq> FLASH_DEVICE_ID \<and> cfg_ndebug G
         \<and> vt = (if ih_flags (br_hdr rsp) AND cfg_ram_load G \<noteq> 0 then ih_load_addr (br_hdr rsp)
                 else ind + br_image_off rsp) + ucast (ih_hdr_size (br_hdr rsp)))"
proof -
  let ?log = "MCUBOOT_LOG_INF (cfg_log_level G)"
  obtain t0 t1 rsp t2 a1 where p: "cfg_platform_init G t0 = Some (0, t1)"
    and g: "cfg_boot_go G (?log ''Starting bootloader'' t1) a = Some (cfg_fih_success G, rsp, t2, a1)"
    and d: "do_boot G ind rsp (?log ''Jumping to the image slot @ %08x''
        (?log ''Bootloader chainload address offset: 0x%x'' t2)) a1 = Some (Jump t' target c)"
    using assms by (auto simp: bl2_main_def Let_def bind_eq_Some_conv split: if_split_asm)
  let ?known = "br_flash_dev_id rsp = FLASH_DEVICE_ID"
  obtain t3 where "cfg_platform_quit G (if ?known then image_vt G rsp else vt_from G ind rsp) t3 a1 = Some (t', target, c)"
    "?known \<or> cfg_ndebug G"
    using d by (auto simp: do_boot_cases bind_eq_Some_conv split: prod.splits if_split_asm)
  then have "cfg_platform_quit G (if ?known then image_vt G rsp else vt_from G ind rsp) t3 a1 = Some (t', target, c)
    \<and> (?known \<and> (if ?known then image_vt G rsp else vt_from G ind rsp) = image_vt G rsp
       \<or> \<not> ?known \<and> cfg_ndebug G \<and> (if ?known then image_vt G rsp else vt_from G ind rsp) = vt_from G ind rsp)"
    by (cases ?known) simp_all
  then show ?thesis using p g unfolding vt_from_def by blast
qed

definition sim_cfg :: bl2_config where
  "sim_cfg = \<lparr>cfg_layout = flash_layout_m2351, cfg_log_level = 0, cfg_ndebug = False, cfg_encrypt_rsa = False,
     cfg_ram_load = 0x20, cfg_fih_success = 0, cfg_platform_init = (\<lambda>t. Some (0, t)),
     cfg_boot_go = (\<lambda>t a. Some (0, \<lparr>br_hdr = \<lparr>ih_load_addr = 0, ih_hdr_size = 0x400, ih_flags = 0\<rparr>,
        br_flash_dev_id = 100, br_image_off = 0x20000\<rparr>, t, a)),
     cfg_platform_quit = boot_platform_quit None True True (boot_jump_to_next_image (boot_clear_ram_area 0x20000000 0x20001000))\<rparr>"

lemma sim_cfg_starts:
  "\<exists>t' c. bl2_main sim_cfg 0 [] sim_arm = Some (Jump t' (load32 (ram sim_arm) 0x20404) c)"
proof -
  let ?G = sim_cfg and ?rsp = "\<lparr>br_hdr = \<lparr>ih_load_addr = 0, ih_hdr_size = 0x400, ih_flags = 0\<rparr>,
        br_flash_dev_id = 100, br_image_off = 0x20000\<rparr>"
  have vt: "image_vt ?G ?rsp = 0x20400" by (simp add: image_vt_def vt_from_def sim_cfg_def layout_defs)
  have "bl2_main ?G 0 [] sim_arm = do_boot ?G 0 ?rsp [Bsp ''mbedtls_memory_buffer_alloc_init''
             [''mbedtls_mem_buf'', BL2_MBEDTLS_MEM_BUF_LEN False]] sim_arm"
    by (simp add: bl2_main_def Let_def sim_cfg_def MCUBOOT_LOG_INF_def MCUBOOT_LOG_LEVEL_INFO_def
        MCUBOOT_LOG_LEVEL_OFF_def)
  moreover have "cfg_platform_quit ?G = boot_platform_quit None True True
      (boot_jump_to_next_image (boot_clear_ram_area 0x20000000 0x20001000))"
    by (simp add: sim_cfg_def)
  ultimately show ?thesis
    using platform_quit_jump [of "0x20000000" "0x20001000" True True "0x20400" "[Bsp ''mbedtls_memory_buffer_alloc_init''
             [''mbedtls_mem_buf'', BL2_MBEDTLS_MEM_BUF_LEN False]]" sim_arm]
    by (auto simp: do_boot_cases FLASH_DEVICE_ID_def vt)
qed

theorem jump_only_after_success_witness:
  "\<exists>t' target c t0 t1. bl2_main sim_cfg 0 [] sim_arm = Some (Jump t' target c)
    \<and> cfg_platform_init sim_cfg t0 = Some (0, t1)"
proof -
  obtain t' c where j: "bl2_main sim_cfg 0 [] sim_arm = Some (Jump t' (load32 (ram sim_arm) 0x20404) c)"
    using sim_cfg_starts by blast
  then show ?thesis using jump_only_after_success [OF j] by blast
qed

section \<open>The boot loader of a board\<close>

text \<open>
  C7. The boot loader as built for any platform whose slots are in the internal flash, with the
  drivers of the repository, for any behaviour of the hardware: its initialisation succeeds and leaves that flash
  open, and then \<open>boot_go\<close> decides. If it reports no image, \<open>main\<close> panics and nothing is started; if it
  reports an image in the internal flash, \<open>main\<close> starts it: it jumps to the reset vector of the image, with the
  vector table register set, the stack pointer of the image, the other core registers zero
  except R7, and the memories of the boot loader cleared.
\<close>

theorem board_starts_image:
  assumes "\<not> (p = M460 \<and> spi)" and "range_ok p r1" and "range_ok p r2"
    and "C = board_build p B ind spi D2 named v8m r1 r2 G"
  shows "\<exists>t1. flash_opened p \<in> set t1
    \<and> (\<forall>rc rsp t2 a1. cfg_boot_go C t1 a = Some (rc, rsp, t2, a1) \<longrightarrow>
        (rc \<noteq> cfg_fih_success C \<longrightarrow> (\<exists>t'. bl2_main C junk t a = Some (Panic t')))
      \<and> (rc = cfg_fih_success C \<and> br_flash_dev_id rsp = FLASH_DEVICE_ID \<longrightarrow>
          starts_image C (cleared p r1 r2) rsp a1 (bl2_main C junk t a)))"
proof -
  obtain t0 where t0: "cfg_platform_init C (t @ [Bsp ''mbedtls_memory_buffer_alloc_init''
             [''mbedtls_mem_buf'', BL2_MBEDTLS_MEM_BUF_LEN (cfg_encrypt_rsa C)]]) = Some (0, t0)" "flash_opened p \<in> set t0"
    using internal_platform_init [OF assms(1)] unfolding assms(4) board_build_simps by blast
  let ?t1 = "MCUBOOT_LOG_INF (cfg_log_level C) ''Starting bootloader'' t0"
  have "flash_opened p \<in> set ?t1" using t0(2) by (simp add: MCUBOOT_LOG_INF_def)
  moreover have "(rc \<noteq> cfg_fih_success C \<longrightarrow> (\<exists>t'. bl2_main C junk t a = Some (Panic t')))
      \<and> (rc = cfg_fih_success C \<and> br_flash_dev_id rsp = FLASH_DEVICE_ID \<longrightarrow>
          starts_image C (cleared p r1 r2) rsp a1 (bl2_main C junk t a))"
    if "cfg_boot_go C ?t1 a = Some (rc, rsp, t2, a1)" for rc rsp t2 a1
    using main_after_init [OF t0(1) that] board_do_boot [OF assms(2,3,4)] by simp
  ultimately show ?thesis by blast
qed

definition sim_go :: "hw \<Rightarrow> arm \<Rightarrow> (int \<times> boot_rsp \<times> hw \<times> arm) option" where
  "sim_go t a = Some (0, \<lparr>br_hdr = \<lparr>ih_load_addr = 0, ih_hdr_size = 0x400, ih_flags = 0\<rparr>,
     br_flash_dev_id = 100, br_image_off = 0x20000\<rparr>, t, a)"

theorem board_starts_image_witness:
  "\<exists>t' c. bl2_main (board_build M55M1 sim_bsp (\<lambda>_. 0) False (internal_flash M55M1 sim_bsp (\<lambda>_. 0)) True True
      (0x20100000, 0x20100100) (0x20000000, 0x20000100) (sim_cfg\<lparr>cfg_boot_go := sim_go\<rparr>)) 0 [] sim_arm
    = Some (Jump t' 0x5A5A5A5A c) \<and> reg c 13 = 0x5A5A5A5A \<and> ram c 0x20100010 = 0 \<and> ram c 0x20100200 = 0x5A"
proof -
  let ?D = "internal_flash M55M1 sim_bsp (\<lambda>_. 0)" let ?G = "sim_cfg\<lparr>cfg_boot_go := sim_go\<rparr>"
  let ?C = "board_build M55M1 sim_bsp (\<lambda>_. 0) False ?D True True (0x20100000, 0x20100100) (0x20000000, 0x20000100) ?G"
  let ?rsp = "\<lparr>br_hdr = \<lparr>ih_load_addr = 0, ih_hdr_size = 0x400, ih_flags = 0\<rparr>, br_flash_dev_id = 100, br_image_off = 0x20000\<rparr>"
  have ok: "\<not> (M55M1 = M460 \<and> False)" "range_ok M55M1 (0x20100000, 0x20100100)"
    "range_ok M55M1 (0x20000000, 0x20000100)" by (simp_all add: range_ok_def unaligned_ok_def)
  have go: "cfg_boot_go ?C t1 sim_arm = Some (cfg_fih_success ?C, ?rsp, t1, sim_arm)" for t1
    by (simp add: sim_go_def sim_cfg_def)
  have "br_flash_dev_id ?rsp = FLASH_DEVICE_ID" by (simp add: FLASH_DEVICE_ID_def)
  then have "starts_image ?C (cleared M55M1 (0x20100000, 0x20100100) (0x20000000, 0x20000100)) ?rsp sim_arm (bl2_main ?C 0 [] sim_arm)"
    using board_starts_image [OF ok refl, where B = sim_bsp and ind = "\<lambda>_. 0" and ?D2.0 = ?D and named = True
        and v8m = True and G = ?G and a = sim_arm and junk = 0 and t = "[]"] go by blast
  moreover have "load32 (ram sim_arm) n = 0x5A5A5A5A" for n by (simp add: load32_def sim_arm_def)
  ultimately show ?thesis
    by (auto simp: starts_image_def starts_at_def Let_def cleared_def clear_range_def clear_bytes_def) (simp add: sim_arm_def)
qed

definition sim_init :: "int \<Rightarrow> hw ARM_DRIVER_FLASH" where
  "sim_init r = (Driver_FLASH2_SPIM sim_bsp)\<lparr>Initialize := \<lambda>t. Some (r, [])\<rparr>"



text \<open>
  C17. The M460 with its secondary slot behind the SPI driver, started with the buses unused: when the
  receive FIFO holds more than four bytes after the identification command, which clocks five, the
  driver writes beyond its buffer of four bytes while the platform is initialised. The boot loader has no
  defined behaviour from there on, and the library is never reached.
\<close>

theorem m460_spi_boot_undefined:
  assumes "\<And>u. buses_unused u \<Longrightarrow> \<exists>n > 4. rx_fifo SPI B (jedec_asked B u) n" and "buses_unused t"
  shows "bl2_main (board_build M460 B ind True (Driver_FLASH2_SPI B rx) named v8m r1 r2 G) junk t a = None"
proof -
  have "buses_unused (t @ [Bsp ''mbedtls_memory_buffer_alloc_init'' xs])" for xs
    using assms(2) by (simp add: buses_unused_def)
  then show ?thesis using m460_spi_init_undefined [OF assms(1)] by (simp add: bl2_main_def Let_def stdio_init_def)
qed

lemma ss_unused: "buses_unused u \<Longrightarrow> ss_run u = ss_start"
proof (induction u rule: rev_induct)
  case (snoc e u)
  then have "buses_unused u" "\<forall>s. ss_ev e s = s" by (cases e; simp add: buses_unused_def)+
  then show ?case using snoc by simp
qed (simp add: ss_run_def)

theorem m460_spi_boot_undefined_witness:
  "bl2_main (board_build M460 ss_bsp (\<lambda>_. 0) True (Driver_FLASH2_SPI ss_bsp (\<lambda>_. 0)) True False
      (0x20000000, 0x20001000) (0, 0) sim_cfg) 0 [] sim_arm = None"
proof (rule m460_spi_boot_undefined)
  fix u :: hw assume u: "buses_unused u"
  have w: "wait_SPI_IS_BUSY ss_bsp t = t @ [SPI IS_BUSY]" for t
    unfolding wait_SPI_IS_BUSY_def by (subst ser_wait.simps) (simp add: ask_def)
  have "rx_fifo SPI ss_bsp (jedec_asked ss_bsp u) 5"
    unfolding jedec_asked_def w by (simp add: eval_nat_numeral rx_fifo_Suc)
      (simp add: rx_fifo_def ser_drained_def ss_bsp_def butlast_append ss_unused [OF u] ss_start_def ss_byte_def eval_nat_numeral)
  then show "\<exists>n > 4. rx_fifo SPI ss_bsp (jedec_asked ss_bsp u) n" by (intro exI [of _ 5]) simp
qed (simp add: buses_unused_def)

section \<open>Platform initialisation and failure\<close>

text \<open>
  C29. On every platform \<open>boot_platform_init\<close> initialises the driver of the internal flash after
  it has unlocked the protected registers. When the driver reports an error, the result is 1;
  when it reports success, the result is 0 - except on the M460 with the secondary slot in
  serial flash, where the driver of the serial flash comes next and decides.
\<close>

theorem platform_init_result:
  "\<exists>u. (\<forall>r t'. Initialize D (t @ Bsp ''SYS_UnlockReg'' [] # u) = Some (r, t') \<longrightarrow>
      (r \<noteq> 0 \<longrightarrow> boot_platform_init p B spi D D2 t = Some (1, t'))
    \<and> (r = 0 \<and> \<not> (p = M460 \<and> spi) \<longrightarrow> (\<exists>v. boot_platform_init p B spi D D2 t = Some (0, t' @ v)))
    \<and> (\<forall>r2 t2. r = 0 \<and> p = M460 \<and> spi \<and> Initialize D2 t' = Some (r2, t2) \<longrightarrow>
         boot_platform_init p B spi D D2 t = Some (if r2 \<noteq> 0 then 1 else 0, t2)))"
proof -
  obtain u final where
    "boot_platform_init p B spi D D2 t = flash_drivers p spi D D2 (t @ Bsp ''SYS_UnlockReg'' [] # u) final"
    using platform_init_drivers by blast
  then show ?thesis by (intro exI [of _ u]) (auto simp: flash_drivers_def)
qed

text \<open>
  C30. A failed assertion never returns, on the three platforms that have a handler: it prints the expression, the file and the
  line in decimal, for every line number without a write outside of its 12 byte buffer, and then
  \<open>abort\<close> loops forever.
\<close>

theorem assert_prints_line:
  assumes "line < 2 ^ 31"
  shows "assert_output ind expr file line t = Some (t @ [Bsp ''fputs'' [''*** assertion failed: ''],
      Bsp ''fputs'' [expr], Bsp ''fputs'' ['', file ''], Bsp ''fputs'' [file], Bsp ''fputs'' ['', line ''],
      Bsp ''fputs'' [decimal (nat line) @ [char_of (10 :: nat)]]])
    \<and> aeabi_assert ind expr file line t = None \<and> aeabi_assert_m261 ind expr file line t = None
    \<and> aeabi_assert_m2l31 ind expr file line t = None"
proof -
  let ?n = "nat line" and ?z = "char_of (0 :: nat) :: char" and ?nl = "char_of (10 :: nat) :: char"
  let ?str = "ind(11 := ?z, 10 := ?nl)"
  have len: "length (decimal ?n) \<le> 10" using assms by (intro length_decimal) simp
  have d: "assert_digits line 10 ?str = assert_digits (int ?n) 10 ?str"
    by (cases "0 \<le> line") (simp_all add: assert_digits.simps)
  from assert_digits_eq [OF len, of ?str] obtain str where
    s: "assert_digits line 10 ?str = Some (10 - length (decimal ?n), str)"
    "map str [10 - length (decimal ?n)..<10] = decimal ?n" "\<forall>k \<ge> 10. str k = ?str k" unfolding d by blast
  let ?p = "10 - length (decimal ?n)"
  have "[?p..<12] = [?p..<10] @ [10, 11]" using upt_add_eq_append [of ?p 10 2] by (simp add: upt_rec)
  then have m: "map str [?p..<12] = decimal ?n @ [?nl, ?z]" using s(2,3) by simp
  have "?nl \<noteq> ?z" by (simp add: char_of_eq_iff)
  then have c: "c_string str ?p 12 = decimal ?n @ [?nl]"
    unfolding c_string_def m using decimal_no_NUL [of _ ?n] by (subst takeWhile_append2) auto
  then show ?thesis
    using s(1) by (simp add: assert_output_def aeabi_assert_def aeabi_assert_m261_def aeabi_assert_m2l31_def c_abort_never)
qed

theorem assert_prints_line_witness:
  "\<exists>u. assert_output (\<lambda>_. CHR ''x'') ''p'' ''f.c'' 1 []
      = Some (u @ [Bsp ''fputs'' [''1'' @ [char_of (10 :: nat)]]])
    \<and> aeabi_assert (\<lambda>_. CHR ''x'') ''p'' ''f.c'' 1 [] = None"
proof -
  have "decimal 1 = ''1''" by code_simp
  then show ?thesis
    using assert_prints_line [of 1 "\<lambda>_. CHR ''x''" "''p''" "''f.c''" "[]"] by simp
qed

theorem platform_init_result_witness:
  "boot_platform_init M2354 sim_bsp False (sim_init 3) (sim_init 0) [] = Some (1, [])"
  using platform_init_result [of "sim_init 3" "[]" M2354 sim_bsp False "sim_init 0"]
  by (auto simp: sim_init_def)

end
