(* ===== verification/Keys.thy ===== *)
theory Keys
  imports Prelude
begin

text \<open>
  \<open>ext/mcuboot/keys.c\<close>: the keys compiled into the boot loader and the table through which
  the bootutil library finds them. The arrays of the four signature variants, which share
  their C names, carry the variant in theirs. Proved here: the length of every
  array, that it is exactly one DER value, and the sizes of the RSA keys.
\<close>

section \<open>The keys\<close>

definition enc_priv_key :: "u8 list" where
  "enc_priv_key = [
     0x30, 0x82, 0x04, 0xa4, 0x02, 0x01, 0x00, 0x02, 0x82, 0x01, 0x01, 0x00, 0xb4, 0x26, 0x14,
     0x49, 0x3d, 0x16, 0x13, 0x3a, 0x6d, 0x9c, 0x84, 0xa9, 0x8b, 0x6a, 0x10, 0x20, 0x61, 0xef,
     0x48, 0x04, 0xa4, 0x4b, 0x24, 0xf3, 0x00, 0x32, 0xac, 0x22, 0xe0, 0x30, 0x27, 0x70, 0x18,
     0xe5, 0x55, 0xc8, 0xb8, 0x05, 0x34, 0x03, 0xb0, 0xf8, 0xa5, 0x96, 0xd2, 0x48, 0x58, 0xef,
     0x70, 0xb0, 0x09, 0xdb, 0xe3, 0x58, 0x62, 0xef, 0x99, 0x63, 0x01, 0xb2, 0x89, 0xc4, 0xb3,
     0xf6, 0x9e, 0x62, 0xbf, 0x4d, 0xc2, 0x8a, 0xd0, 0xc9, 0x4d, 0x43, 0xa3, 0xd8, 0xe5, 0x1d,
     0xec, 0x62, 0x63, 0x08, 0xe2, 0x20, 0xa5, 0xfc, 0x78, 0xd0, 0x3e, 0x74, 0xc8, 0xa4, 0x1b,
     0x36, 0xad, 0x7b, 0xf5, 0x06, 0xae, 0x4d, 0x51, 0x9b, 0x40, 0xce, 0x30, 0x4f, 0x6c, 0xea,
     0xf9, 0xe9, 0x74, 0xea, 0x06, 0xee, 0x9c, 0xe4, 0x14, 0x68, 0x20, 0xb9, 0x3d, 0xe7, 0x11,
     0x14, 0x8b, 0x25, 0xa3, 0xff, 0x4c, 0x8a, 0xf3, 0x53, 0xee, 0x6b, 0x3e, 0xef, 0x34, 0xcd,
     0x6a, 0x3f, 0x62, 0x68, 0xc0, 0xff, 0x78, 0x4c, 0xb0, 0xc3, 0xe6, 0x96, 0x61, 0xfc, 0x1f,
     0x18, 0xf1, 0x7a, 0x82, 0xe2, 0x8f, 0x35, 0xa8, 0x2b, 0x86, 0x16, 0xa4, 0x46, 0xfb, 0xac,
     0x7e, 0x41, 0xdb, 0x02, 0x05, 0x91, 0x6d, 0xdf, 0xc1, 0xde, 0x13, 0x95, 0x9c, 0xf9, 0x9e,
     0x5e, 0x72, 0xba, 0xa7, 0x25, 0x93, 0xfb, 0xdc, 0xe8, 0xab, 0x86, 0x45, 0x88, 0x47, 0x2d,
     0xed, 0xee, 0xee, 0x97, 0x9e, 0xce, 0x5d, 0x9b, 0x04, 0x04, 0x40, 0x7c, 0xcb, 0x7c, 0x3d,
     0x2c, 0x74, 0xab, 0xa4, 0xcc, 0x64, 0xa3, 0x5c, 0x95, 0x3d, 0xd4, 0xa2, 0xdc, 0x92, 0xb2,
     0xc8, 0x18, 0xcb, 0xf9, 0x00, 0x39, 0x81, 0x8f, 0x8f, 0x40, 0xc2, 0xdf, 0x99, 0x29, 0xac,
     0x8a, 0xc2, 0x3b, 0xd8, 0xa4, 0xf2, 0xad, 0xaf, 0x74, 0xc0, 0x11, 0xc7, 0x99, 0x02, 0x03,
     0x01, 0x00, 0x01, 0x02, 0x82, 0x01, 0x00, 0x42, 0x47, 0x80, 0x4f, 0x31, 0xda, 0x5d, 0x58,
     0xb1, 0xdb, 0x54, 0x33, 0xcc, 0xc7, 0x49, 0x07, 0xa1, 0x00, 0x98, 0x4e, 0x9c, 0xe3, 0xc8,
     0xc4, 0x5e, 0xde, 0x45, 0xd6, 0xcf, 0x04, 0xe8, 0x7d, 0xa5, 0xab, 0x3a, 0xd4, 0x8e, 0x5f,
     0xdb, 0xb3, 0x3f, 0xf9, 0x3b, 0x73, 0x32, 0x0a, 0xcc, 0x2d, 0xcc, 0x17, 0xf8, 0x88, 0x9e,
     0x2c, 0x76, 0xba, 0x10, 0x85, 0x0c, 0xaa, 0xd3, 0x65, 0x3b, 0x91, 0x10, 0xd4, 0xe3, 0xed,
     0x88, 0x15, 0xea, 0x9b, 0x25, 0x82, 0x2d, 0x56, 0x2f, 0x75, 0xc2, 0xf2, 0xaf, 0xdd, 0x24,
     0xd5, 0x3e, 0x3c, 0x95, 0x76, 0x88, 0x84, 0x0f, 0x0d, 0xd1, 0xb5, 0x5c, 0x3e, 0xae, 0xf7,
     0xb6, 0x49, 0x5c, 0x2c, 0xf2, 0xba, 0xe9, 0xab, 0x4f, 0x37, 0x64, 0x9b, 0x30, 0x18, 0xaa,
     0x54, 0x40, 0x04, 0xea, 0x3d, 0x25, 0x4d, 0x02, 0x29, 0x71, 0x6f, 0x4d, 0x82, 0x9b, 0xc3,
     0x44, 0x2a, 0x9d, 0x0c, 0x98, 0xd3, 0xc8, 0x15, 0x0d, 0x04, 0x93, 0x60, 0x30, 0xc7, 0x5e,
     0x79, 0xea, 0x53, 0x9d, 0xc0, 0x0e, 0x81, 0xac, 0x90, 0xbc, 0x9e, 0x1e, 0xd2, 0x28, 0x0f,
     0x10, 0xf5, 0x1f, 0xdf, 0x38, 0x7f, 0x8a, 0x90, 0x8d, 0x49, 0x07, 0x7d, 0x78, 0xcb, 0xa7,
     0xef, 0x92, 0x6d, 0x3b, 0x13, 0x95, 0x9b, 0xba, 0x83, 0xc6, 0xb3, 0x71, 0x25, 0x27, 0x07,
     0x99, 0x54, 0x82, 0x3d, 0xec, 0xc5, 0xf8, 0xb4, 0xa0, 0x38, 0x7a, 0x59, 0x6a, 0x0b, 0xca,
     0x69, 0x6c, 0x17, 0xa4, 0x18, 0xe0, 0xb4, 0xaa, 0x89, 0x99, 0x8f, 0xcb, 0x71, 0x34, 0x09,
     0x1b, 0x6e, 0xe6, 0x87, 0x00, 0xb5, 0xba, 0x70, 0x8a, 0x29, 0x3d, 0x9a, 0x06, 0x18, 0x2d,
     0x66, 0x5e, 0x61, 0x37, 0xeb, 0xdd, 0x5e, 0xc8, 0x28, 0x92, 0x05, 0x30, 0xfd, 0xb8, 0x65,
     0xb1, 0x7f, 0xbf, 0x2d, 0x55, 0x12, 0x91, 0xc1, 0x02, 0x81, 0x81, 0x00, 0xda, 0x65, 0xda,
     0x38, 0x7c, 0x18, 0xfb, 0x00, 0x11, 0x60, 0xeb, 0x37, 0x65, 0xb8, 0x83, 0x62, 0x88, 0xc4,
     0x3a, 0x4e, 0x64, 0x6a, 0xf3, 0x3e, 0x4e, 0xc0, 0x34, 0x19, 0x8a, 0xcb, 0x4a, 0xca, 0x2f,
     0x5d, 0x50, 0x7a, 0xac, 0xf7, 0x9e, 0x87, 0x5a, 0xfc, 0x4d, 0x49, 0xd7, 0xf9, 0x21, 0xf5,
     0x0b, 0x6f, 0x57, 0x41, 0x3d, 0x8f, 0xb8, 0xec, 0x7f, 0xcc, 0x92, 0x09, 0xbe, 0xd3, 0xa4,
     0xc3, 0x14, 0x85, 0x21, 0x5d, 0x05, 0xa3, 0xaa, 0x20, 0xf6, 0x62, 0x44, 0x50, 0x03, 0x5e,
     0x53, 0x4a, 0xcd, 0x6a, 0xb6, 0x65, 0x8e, 0x4e, 0x4b, 0x3f, 0x25, 0xc6, 0x16, 0x31, 0xf5,
     0x99, 0x13, 0x77, 0x42, 0xda, 0xdc, 0x70, 0x4d, 0x65, 0xb0, 0x99, 0x0f, 0xdf, 0x5a, 0xb1,
     0x45, 0xf0, 0xb9, 0x8e, 0xa0, 0xae, 0x4f, 0x4d, 0x65, 0x09, 0x84, 0xb5, 0x38, 0x29, 0xbf,
     0x69, 0xe0, 0x88, 0x1f, 0x27, 0x02, 0x81, 0x81, 0x00, 0xd3, 0x2a, 0x59, 0xec, 0x28, 0xc3,
     0x0d, 0x4f, 0x92, 0x96, 0xca, 0x67, 0x94, 0xfc, 0x2e, 0xa6, 0x86, 0x68, 0x45, 0x53, 0x92,
     0xcc, 0x86, 0x7f, 0x8a, 0xe1, 0x5d, 0xe8, 0x1d, 0x9e, 0xbb, 0x1e, 0x00, 0x26, 0x1d, 0x80,
     0x12, 0xff, 0x9c, 0x11, 0x0a, 0xbd, 0xa6, 0xc3, 0x8d, 0x48, 0xda, 0xfc, 0x10, 0xf7, 0x7a,
     0x16, 0x07, 0x15, 0xa0, 0x3a, 0xd3, 0x94, 0xfb, 0x52, 0x87, 0x39, 0xee, 0xe7, 0xc4, 0x26,
     0x49, 0x16, 0xc6, 0xc0, 0x83, 0x25, 0xbf, 0x6a, 0x4e, 0x8c, 0x0b, 0x10, 0x85, 0x66, 0xab,
     0x7e, 0xae, 0xac, 0x4c, 0x69, 0x3c, 0x44, 0xeb, 0xcd, 0xe9, 0xf6, 0x64, 0x8b, 0x4a, 0xd8,
     0x6a, 0x4d, 0x6d, 0x47, 0xa9, 0xb8, 0x55, 0x72, 0xc1, 0xfd, 0xf4, 0x81, 0x4c, 0x66, 0xbe,
     0x49, 0xf2, 0x75, 0x4f, 0x80, 0xf1, 0x20, 0x38, 0xb8, 0x6a, 0x1b, 0x75, 0x41, 0x30, 0x0f,
     0x1b, 0x3f, 0x02, 0x81, 0x80, 0x09, 0x35, 0xfa, 0x7a, 0x1f, 0x61, 0xbe, 0x54, 0x46, 0x67,
     0x5c, 0x04, 0x3e, 0x1a, 0x06, 0x10, 0x85, 0xcc, 0x20, 0xd9, 0x65, 0x8a, 0xcd, 0x2f, 0x77,
     0x8a, 0xcb, 0xa7, 0xb8, 0x1e, 0xd2, 0xcc, 0xac, 0x2a, 0xb7, 0x56, 0x35, 0x2d, 0x4c, 0x56,
     0x51, 0x14, 0x0a, 0xfe, 0x6e, 0x49, 0x67, 0x91, 0x3a, 0x26, 0x3b, 0xfb, 0xd8, 0x68, 0xd3,
     0x57, 0xc6, 0x1c, 0x0e, 0x9c, 0xb2, 0x9b, 0xa2, 0x7b, 0x47, 0xc6, 0x45, 0x9d, 0xf2, 0xba,
     0xf0, 0x55, 0xeb, 0x8e, 0x41, 0x6b, 0x4e, 0x79, 0x0f, 0xf2, 0x3b, 0xaf, 0xa0, 0x79, 0xb0,
     0x02, 0xc5, 0x51, 0xa8, 0x7a, 0x2e, 0x3d, 0x75, 0x2a, 0x3b, 0x93, 0xf0, 0x11, 0xe2, 0xf2,
     0x29, 0x91, 0x7c, 0x5d, 0x38, 0x3a, 0x27, 0x4d, 0x0a, 0xb2, 0x18, 0x61, 0x57, 0x8d, 0x82,
     0x72, 0xb5, 0x2c, 0x2d, 0x98, 0xa7, 0x01, 0xbb, 0xbc, 0xef, 0x67, 0x4e, 0x49, 0x02, 0x81,
     0x81, 0x00, 0xb2, 0x70, 0x53, 0x54, 0x70, 0x8d, 0x82, 0xad, 0xff, 0x1d, 0x55, 0x24, 0x7a,
     0x8d, 0x2f, 0x8e, 0xa0, 0x7d, 0x74, 0x37, 0xcf, 0x10, 0xed, 0x86, 0xd1, 0x80, 0xe7, 0xad,
     0xc1, 0x79, 0xe4, 0x7c, 0xd1, 0x7b, 0x63, 0xea, 0x5a, 0x23, 0x8d, 0x6a, 0x09, 0x3d, 0x81,
     0xb2, 0x35, 0xad, 0x9e, 0xfe, 0xea, 0x07, 0x76, 0x2f, 0x2f, 0x05, 0x63, 0x44, 0xd2, 0x8e,
     0x4e, 0x61, 0xca, 0xcb, 0x75, 0xca, 0x7b, 0xc2, 0x2e, 0x79, 0x04, 0xb2, 0xa1, 0x20, 0x40,
     0xc4, 0x40, 0x63, 0xae, 0xe5, 0xe3, 0x14, 0x83, 0x4e, 0xa5, 0xa4, 0x0b, 0x5d, 0xd2, 0x04,
     0x1b, 0x8f, 0x01, 0x69, 0xa8, 0x44, 0xdc, 0x96, 0x4c, 0x1d, 0xe9, 0x7e, 0x69, 0x38, 0xcf,
     0x5c, 0x0d, 0xf9, 0xdf, 0xa7, 0x73, 0x3c, 0x4f, 0x08, 0x85, 0xce, 0x03, 0xc4, 0xdd, 0xfd,
     0x70, 0x70, 0xc5, 0x99, 0x36, 0x58, 0x43, 0x98, 0x40, 0x59, 0x02, 0x81, 0x81, 0x00, 0xd5,
     0xaa, 0xfb, 0xec, 0x8d, 0xc6, 0xdd, 0xfa, 0x2b, 0x5a, 0x24, 0xd0, 0xda, 0x58, 0xbd, 0x87,
     0x92, 0x1a, 0x29, 0x62, 0x13, 0x1d, 0x4b, 0x79, 0x1b, 0xbe, 0x79, 0x7d, 0xad, 0x79, 0xca,
     0x17, 0x75, 0xda, 0xe8, 0x32, 0xe8, 0xa0, 0x9e, 0xa8, 0x77, 0x53, 0xac, 0x38, 0xd6, 0xeb,
     0xe6, 0x22, 0x65, 0xc4, 0xaa, 0x4c, 0xc8, 0xd0, 0x33, 0x1a, 0x1e, 0xbe, 0xbd, 0x73, 0x09,
     0x4a, 0xfa, 0x85, 0x5c, 0xf3, 0x0c, 0x9c, 0x81, 0x56, 0x30, 0xa7, 0xf7, 0x9b, 0xf4, 0x92,
     0x9c, 0x6b, 0x93, 0x6a, 0x00, 0x33, 0xdc, 0x2f, 0x54, 0x1e, 0x78, 0xd4, 0x97, 0xec, 0x24,
     0xa2, 0xdb, 0x3d, 0x03, 0x33, 0x09, 0xb2, 0x2c, 0x03, 0x05, 0x40, 0xde, 0x52, 0xf2, 0x9b,
     0xfa, 0x00, 0x8d, 0x4b, 0xfe, 0x5b, 0x9b, 0x9c, 0x73, 0xad, 0xfb, 0x7a, 0x00, 0x42, 0x62,
     0x9e, 0xa0, 0x95, 0x55, 0x50, 0x32, 0x87]"

definition rsa2048_pub_key :: "u8 list" where
  "rsa2048_pub_key = [
     0x30, 0x82, 0x01, 0x0a, 0x02, 0x82, 0x01, 0x01, 0x00, 0xd1, 0x06, 0x08, 0x1a, 0x18, 0x44,
     0x2c, 0x18, 0xe8, 0xfb, 0xfd, 0xf7, 0x0d, 0xa3, 0x4f, 0x1f, 0xbb, 0xee, 0x5e, 0xf9, 0xaa,
     0xd2, 0x4b, 0x18, 0xd3, 0x5a, 0xe9, 0x6d, 0x18, 0x80, 0x19, 0xf9, 0xf0, 0x9c, 0x34, 0x1b,
     0xcb, 0xf3, 0xbc, 0x74, 0xdb, 0x42, 0xe7, 0x8c, 0x7f, 0x10, 0x53, 0x7e, 0x43, 0x5e, 0x0d,
     0x57, 0x2c, 0x44, 0xd1, 0x67, 0x08, 0x0f, 0x0d, 0xbb, 0x5c, 0xee, 0xec, 0xb3, 0x99, 0xdf,
     0xe0, 0x4d, 0x84, 0x0b, 0xaa, 0x77, 0x41, 0x60, 0xed, 0x15, 0x28, 0x49, 0xa7, 0x01, 0xb4,
     0x3c, 0x10, 0xe6, 0x69, 0x8c, 0x2f, 0x5f, 0xac, 0x41, 0x4d, 0x9e, 0x5c, 0x14, 0xdf, 0xf2,
     0xf8, 0xcf, 0x3d, 0x1e, 0x6f, 0xe7, 0x5b, 0xba, 0xb4, 0xa9, 0xc8, 0x88, 0x7e, 0x47, 0x3c,
     0x94, 0xc3, 0x77, 0x67, 0x54, 0x4b, 0xaa, 0x8d, 0x38, 0x35, 0xca, 0x62, 0x61, 0x7e, 0xb7,
     0xe1, 0x15, 0xdb, 0x77, 0x73, 0xd4, 0xbe, 0x7b, 0x72, 0x21, 0x89, 0x69, 0x24, 0xfb, 0xf8,
     0x65, 0x6e, 0x64, 0x3e, 0xc8, 0x0e, 0xd7, 0x85, 0xd5, 0x5c, 0x4a, 0xe4, 0x53, 0x0d, 0x2f,
     0xff, 0xb7, 0xfd, 0xf3, 0x13, 0x39, 0x83, 0x3f, 0xa3, 0xae, 0xd2, 0x0f, 0xa7, 0x6a, 0x9d,
     0xf9, 0xfe, 0xb8, 0xce, 0xfa, 0x2a, 0xbe, 0xaf, 0xb8, 0xe0, 0xfa, 0x82, 0x37, 0x54, 0xf4,
     0x3e, 0xe1, 0x2b, 0xd0, 0xd3, 0x08, 0x58, 0x18, 0xf6, 0x5e, 0x4c, 0xc8, 0x88, 0x81, 0x31,
     0xad, 0x5f, 0xb0, 0x82, 0x17, 0xf2, 0x8a, 0x69, 0x27, 0x23, 0xf3, 0xab, 0x87, 0x3e, 0x93,
     0x1a, 0x1d, 0xfe, 0xe8, 0xf8, 0x1a, 0x24, 0x66, 0x59, 0xf8, 0x1c, 0xab, 0xdc, 0xce, 0x68,
     0x1b, 0x66, 0x64, 0x35, 0xec, 0xfa, 0x0d, 0x11, 0x9d, 0xaf, 0x5c, 0x3a, 0xa7, 0xd1, 0x67,
     0xc6, 0x47, 0xef, 0xb1, 0x4b, 0x2c, 0x62, 0xe1, 0xd1, 0xc9, 0x02, 0x03, 0x01, 0x00, 0x01]"

definition rsa2048_pub_key_1 :: "u8 list" where
  "rsa2048_pub_key_1 = [
     0x30, 0x82, 0x01, 0x0a, 0x02, 0x82, 0x01, 0x01, 0x00, 0xac, 0xd2, 0x74, 0x93, 0x3e, 0x5f,
     0xe7, 0xaf, 0xf2, 0xc8, 0x6c, 0xe8, 0x58, 0x51, 0x63, 0x77, 0x0e, 0x52, 0xfe, 0x58, 0xd5,
     0xbb, 0xa5, 0xe3, 0x9c, 0x8a, 0xcd, 0x14, 0x0a, 0x89, 0xc6, 0x15, 0xae, 0x49, 0x04, 0x9f,
     0x5f, 0x3d, 0x2b, 0x89, 0x12, 0x1f, 0x3e, 0x7f, 0x05, 0xfc, 0x0b, 0x99, 0x26, 0x63, 0x5e,
     0x96, 0xef, 0x33, 0xbc, 0x8c, 0x27, 0x68, 0x4d, 0x46, 0x8d, 0x66, 0x33, 0x99, 0x3b, 0x38,
     0x11, 0x1b, 0xe3, 0xac, 0x18, 0x07, 0x95, 0x48, 0x87, 0xb2, 0xab, 0x4f, 0x2d, 0x0e, 0x12,
     0x51, 0x1b, 0x7f, 0x33, 0xba, 0x78, 0xb1, 0xd5, 0xfa, 0x7f, 0xbf, 0x71, 0x4b, 0xe4, 0x5f,
     0x67, 0x57, 0x67, 0xd5, 0xab, 0xbb, 0x64, 0x06, 0x17, 0x3d, 0x81, 0xeb, 0xd8, 0xc1, 0xf9,
     0x7a, 0x57, 0xd3, 0x29, 0x5c, 0x10, 0xff, 0xa7, 0xd3, 0x3a, 0x58, 0x3f, 0x25, 0x8a, 0xc5,
     0x84, 0x7b, 0x97, 0x27, 0xa5, 0xe4, 0x90, 0xe7, 0xdf, 0x1c, 0x33, 0xe6, 0x7c, 0xaf, 0x68,
     0x77, 0x5e, 0x1f, 0x09, 0x6e, 0xdd, 0x92, 0x60, 0x4e, 0xac, 0x73, 0x84, 0xb0, 0xf7, 0xb6,
     0x02, 0xc2, 0xce, 0x9f, 0xaf, 0xad, 0xb2, 0xb1, 0x57, 0xcc, 0xf9, 0x06, 0x1d, 0x6a, 0x25,
     0x2f, 0x72, 0x2a, 0x7d, 0xfe, 0x0d, 0xed, 0xb8, 0xc2, 0x95, 0x88, 0x41, 0xf2, 0x45, 0xa8,
     0x6e, 0x6a, 0x85, 0xee, 0xae, 0xfa, 0x8a, 0x79, 0xfa, 0xfe, 0x7e, 0x40, 0x49, 0x43, 0xec,
     0x2c, 0x8e, 0x8e, 0x82, 0x7e, 0xe2, 0xf8, 0x0f, 0xf2, 0xe9, 0x7d, 0xa3, 0x7f, 0xac, 0x23,
     0xbd, 0x0a, 0x42, 0xea, 0x18, 0xfb, 0x72, 0xa0, 0x9a, 0x24, 0x01, 0xc8, 0x27, 0x8c, 0x56,
     0x24, 0x93, 0x82, 0xdf, 0x23, 0x19, 0x96, 0x73, 0xf2, 0x11, 0xc3, 0x05, 0xe6, 0xa5, 0xb8,
     0x0b, 0xe0, 0x73, 0xce, 0x07, 0x9b, 0x57, 0xe6, 0x8e, 0xfb, 0x02, 0x03, 0x01, 0x00, 0x01]"

definition rsa3072_pub_key :: "u8 list" where
  "rsa3072_pub_key = [
     0x30, 0x82, 0x01, 0x8a, 0x02, 0x82, 0x01, 0x81, 0x00, 0x9c, 0xba, 0xc2, 0x5a, 0xbf, 0xcc,
     0xc5, 0x4f, 0x20, 0x0c, 0x4f, 0x6f, 0x6c, 0x51, 0x4f, 0x5c, 0x0a, 0xab, 0x80, 0xb8, 0x6b,
     0x10, 0xc4, 0x9b, 0x2b, 0xc4, 0x52, 0x32, 0x09, 0x4b, 0x3b, 0x27, 0x94, 0x6a, 0x1d, 0xd5,
     0x4c, 0xa8, 0x5c, 0xa0, 0xc0, 0x76, 0x95, 0x7b, 0x26, 0x04, 0xb1, 0x13, 0x7e, 0x78, 0x27,
     0xd6, 0x0c, 0xb4, 0xe8, 0xb0, 0x2d, 0x92, 0x52, 0x8a, 0xfb, 0x69, 0xff, 0x42, 0x10, 0xaa,
     0x56, 0x0c, 0x83, 0xc8, 0x65, 0x6e, 0xba, 0x0d, 0x5f, 0x8e, 0xf7, 0x2b, 0x29, 0x92, 0xfc,
     0x42, 0x2d, 0x2d, 0xf9, 0x80, 0xf5, 0x85, 0x21, 0x87, 0xea, 0xac, 0x40, 0xa8, 0xcb, 0xd0,
     0xa8, 0x3b, 0xe2, 0xd2, 0xec, 0xf0, 0x14, 0x48, 0x0e, 0xcf, 0x2b, 0x8a, 0x4b, 0xa4, 0xcd,
     0xa1, 0x05, 0x5b, 0x17, 0x66, 0x1d, 0xde, 0x6e, 0x44, 0xfe, 0x46, 0xa3, 0x0d, 0xd0, 0x69,
     0xbf, 0x8c, 0xad, 0xa9, 0x16, 0x68, 0x51, 0xeb, 0x79, 0x91, 0x20, 0xe6, 0x81, 0x03, 0x07,
     0x89, 0x40, 0x55, 0x4b, 0xeb, 0xcf, 0x67, 0xf8, 0x31, 0xc7, 0x1c, 0x54, 0x4e, 0x52, 0x0b,
     0x60, 0xe8, 0xa2, 0x50, 0x07, 0xd1, 0xcf, 0xce, 0x12, 0x26, 0xcd, 0x8e, 0x82, 0x8d, 0x4e,
     0x64, 0xa9, 0xf7, 0xc7, 0x21, 0x99, 0x25, 0x07, 0xdd, 0xc5, 0xd5, 0x5f, 0xf4, 0x63, 0xfa,
     0xcc, 0x2b, 0xda, 0x06, 0x5c, 0x59, 0x67, 0xb0, 0x06, 0x35, 0xe9, 0xaa, 0x92, 0x45, 0x35,
     0xe5, 0xa0, 0x03, 0xff, 0x1c, 0x02, 0xb5, 0xc7, 0x4e, 0x94, 0x4b, 0x6e, 0xad, 0x73, 0x9d,
     0xce, 0x6f, 0x09, 0xb3, 0xb1, 0x8f, 0x60, 0x6c, 0xa2, 0xfa, 0xcd, 0x77, 0x0f, 0xcc, 0x27,
     0xe6, 0x36, 0x58, 0xb3, 0x52, 0xf7, 0x8f, 0xbe, 0x49, 0x98, 0xb7, 0xe9, 0x60, 0xfd, 0x97,
     0x57, 0xcd, 0xea, 0xd3, 0x0b, 0xdf, 0xa2, 0x42, 0xf7, 0x44, 0xd3, 0x87, 0xde, 0xe0, 0x10,
     0x03, 0x94, 0xda, 0xfc, 0xbc, 0xdd, 0xbe, 0x93, 0xb3, 0x4a, 0x2b, 0x58, 0xdc, 0x96, 0x12,
     0xf2, 0x6f, 0x23, 0xba, 0x3b, 0x37, 0xfe, 0xfc, 0x18, 0x1f, 0x75, 0x7d, 0x54, 0x01, 0x0e,
     0xbe, 0x3d, 0x18, 0x13, 0xb3, 0x28, 0xb9, 0x34, 0x2c, 0xd5, 0xfb, 0xc5, 0x33, 0xbd, 0x87,
     0xbd, 0x3b, 0xe4, 0x1d, 0xd7, 0x02, 0x3d, 0x1c, 0x72, 0x65, 0x72, 0x43, 0x43, 0x36, 0xa8,
     0xfa, 0xe6, 0x73, 0x2d, 0xa4, 0x61, 0xe8, 0x02, 0x9c, 0x3a, 0x56, 0x4d, 0x1c, 0xd1, 0x76,
     0x9c, 0x8c, 0xaa, 0x5f, 0x1b, 0xeb, 0x1c, 0x4a, 0xf5, 0xb9, 0xb8, 0x6f, 0x41, 0x4b, 0x27,
     0x87, 0xde, 0xf6, 0x94, 0x1f, 0xdd, 0xe6, 0xf1, 0xa9, 0xc2, 0x02, 0xc2, 0x4f, 0xa3, 0xfc,
     0xa4, 0x03, 0x5a, 0xd9, 0x6f, 0x78, 0xfd, 0x84, 0xf0, 0xe5, 0xfd, 0x3d, 0xa5, 0x4d, 0x1b,
     0xad, 0x5b, 0x4b, 0x02, 0x03, 0x01, 0x00, 0x01]"

definition rsa3072_pub_key_1 :: "u8 list" where
  "rsa3072_pub_key_1 = [
     0x30, 0x82, 0x01, 0x8a, 0x02, 0x82, 0x01, 0x81, 0x00, 0xbf, 0xb7, 0xb0, 0x9f, 0xe8, 0xc8,
     0xd1, 0xfe, 0x16, 0x1d, 0x53, 0x87, 0x97, 0x79, 0x1c, 0x15, 0xc7, 0x99, 0x16, 0x6c, 0xca,
     0xb8, 0x2d, 0xca, 0xc2, 0x0d, 0x62, 0xf9, 0xeb, 0x8f, 0xe9, 0x3a, 0x18, 0x43, 0x47, 0xd7,
     0xbb, 0xd5, 0x62, 0xbc, 0xe3, 0x33, 0x63, 0xa7, 0xa3, 0xa8, 0x5c, 0xf3, 0x23, 0x78, 0xfd,
     0x2d, 0x07, 0x21, 0x1f, 0xb9, 0x54, 0x70, 0x28, 0xa9, 0x08, 0xda, 0x50, 0x7e, 0x9e, 0x8e,
     0xcc, 0x68, 0x4e, 0x7f, 0x48, 0x0d, 0xea, 0x27, 0xe8, 0xc6, 0xef, 0xad, 0x5f, 0x9d, 0x46,
     0x4a, 0xbc, 0x69, 0x9a, 0x30, 0x5f, 0x3b, 0xc1, 0x52, 0x92, 0xf8, 0xbc, 0x75, 0xd4, 0x3c,
     0x27, 0x70, 0x40, 0x00, 0xa6, 0x2e, 0x28, 0x7f, 0x59, 0xe5, 0x60, 0x43, 0x11, 0xdc, 0x31,
     0x09, 0x7d, 0xcf, 0x2f, 0x41, 0x3f, 0xb6, 0x52, 0x1a, 0xa3, 0x49, 0x16, 0xf2, 0xb5, 0xb3,
     0x9c, 0x3c, 0xfb, 0x5e, 0x2c, 0x1f, 0x22, 0x86, 0xbd, 0xae, 0xbe, 0x36, 0x52, 0xbd, 0xc4,
     0xf0, 0x58, 0x69, 0x36, 0xa7, 0x80, 0x3e, 0x81, 0xb3, 0x54, 0x98, 0xe4, 0x5d, 0x95, 0xed,
     0x21, 0xf0, 0xba, 0xae, 0x21, 0xfb, 0xc4, 0x19, 0x87, 0x55, 0xd1, 0x2b, 0x4f, 0x00, 0xd8,
     0x41, 0x58, 0xcb, 0xdb, 0xa9, 0x9a, 0x53, 0xe9, 0x6c, 0x67, 0xcb, 0x7c, 0x5d, 0xf6, 0x91,
     0x06, 0x75, 0x52, 0xf2, 0xc0, 0x7e, 0xb1, 0x6b, 0x5d, 0x30, 0x40, 0x40, 0x2f, 0xd8, 0x1e,
     0x95, 0x3c, 0x05, 0x97, 0x7f, 0xf0, 0x04, 0xf0, 0x4e, 0x2c, 0xd5, 0x39, 0x0e, 0x94, 0x3d,
     0x7c, 0x03, 0x08, 0x1d, 0x09, 0x08, 0xf2, 0x8d, 0x44, 0x0d, 0xcf, 0xb3, 0x96, 0x3d, 0x5a,
     0x76, 0xe8, 0xf6, 0xee, 0x93, 0x64, 0xe8, 0x57, 0xd1, 0xe2, 0xf5, 0x0b, 0x18, 0x69, 0x6f,
     0xe9, 0xe1, 0x3d, 0xf8, 0x89, 0x49, 0x28, 0xe6, 0xaf, 0xb8, 0xa8, 0xc6, 0x42, 0x55, 0x2d,
     0xc1, 0xdb, 0x8c, 0x5d, 0xb2, 0x6d, 0x7f, 0xfe, 0x26, 0xea, 0x75, 0xd9, 0xfd, 0x1f, 0xdc,
     0x22, 0x3b, 0xa4, 0x1b, 0xa7, 0xad, 0xeb, 0x71, 0xdf, 0xbd, 0xb4, 0x37, 0xd1, 0xeb, 0xbe,
     0x08, 0x10, 0x1c, 0x78, 0x84, 0x1c, 0x9a, 0x75, 0xc4, 0xad, 0xe5, 0xef, 0x73, 0x17, 0xac,
     0x69, 0x78, 0xbc, 0xd6, 0x37, 0x8c, 0x0c, 0x14, 0x21, 0x06, 0x47, 0xbd, 0xf8, 0x0a, 0xac,
     0x19, 0x09, 0x9d, 0x0d, 0x1d, 0x72, 0xe1, 0x3e, 0x1a, 0x74, 0xea, 0x86, 0xd9, 0x5c, 0x4a,
     0xcd, 0xcc, 0xc6, 0x94, 0xa7, 0xfe, 0xda, 0x0b, 0x87, 0x11, 0xbb, 0x6b, 0xf0, 0x3a, 0xe3,
     0x4f, 0x82, 0x4f, 0xb1, 0xe4, 0xa4, 0xcd, 0xbc, 0x70, 0x3c, 0x9d, 0x9c, 0x49, 0xf9, 0xcf,
     0x28, 0x6d, 0xb8, 0xda, 0x6f, 0x7d, 0x38, 0x57, 0x55, 0x43, 0x2a, 0x73, 0x8d, 0xb6, 0x18,
     0xfd, 0x70, 0xa7, 0x02, 0x03, 0x01, 0x00, 0x01]"

definition ec256_pub_key :: "u8 list" where
  "ec256_pub_key = [
     0x30, 0x59, 0x30, 0x13, 0x06, 0x07, 0x2a, 0x86, 0x48, 0xce, 0x3d, 0x02, 0x01, 0x06, 0x08,
     0x2a, 0x86, 0x48, 0xce, 0x3d, 0x03, 0x01, 0x07, 0x03, 0x42, 0x00, 0x04, 0x2a, 0xcb, 0x40,
     0x3c, 0xe8, 0xfe, 0xed, 0x5b, 0xa4, 0x49, 0x95, 0xa1, 0xa9, 0x1d, 0xae, 0xe8, 0xdb, 0xbe,
     0x19, 0x37, 0xcd, 0x14, 0xfb, 0x2f, 0x24, 0x57, 0x37, 0xe5, 0x95, 0x39, 0x88, 0xd9, 0x94,
     0xb9, 0xd6, 0x5a, 0xeb, 0xd7, 0xcd, 0xd5, 0x30, 0x8a, 0xd6, 0xfe, 0x48, 0xb2, 0x4a, 0x6a,
     0x81, 0x0e, 0xe5, 0xf0, 0x7d, 0x8b, 0x68, 0x34, 0xcc, 0x3a, 0x6a, 0xfc, 0x53, 0x8e, 0xfa,
     0xc1]"

definition ec256_pub_key_1 :: "u8 list" where
  "ec256_pub_key_1 = [
     0x30, 0x59, 0x30, 0x13, 0x06, 0x07, 0x2a, 0x86, 0x48, 0xce, 0x3d, 0x02, 0x01, 0x06, 0x08,
     0x2a, 0x86, 0x48, 0xce, 0x3d, 0x03, 0x01, 0x07, 0x03, 0x42, 0x00, 0x04, 0xe8, 0x09, 0x08,
     0x12, 0x3a, 0x0f, 0xad, 0x40, 0xe0, 0x33, 0x8a, 0xa6, 0x54, 0xf8, 0x83, 0x95, 0x41, 0x8e,
     0x44, 0x99, 0xa2, 0x0f, 0xae, 0x85, 0x69, 0x2b, 0xf9, 0x26, 0xb5, 0xe9, 0x9e, 0x16, 0x2c,
     0x87, 0x76, 0x62, 0x7f, 0x32, 0x6c, 0x9b, 0x70, 0x78, 0x06, 0x52, 0x52, 0x52, 0xca, 0x2b,
     0xd2, 0xb7, 0xc7, 0x50, 0x07, 0x66, 0x3b, 0x3b, 0xdf, 0xe1, 0x99, 0x69, 0x00, 0x26, 0x2c,
     0x33]"

definition ec384_pub_key :: "u8 list" where
  "ec384_pub_key = [
     0x30, 0x76, 0x30, 0x10, 0x06, 0x07, 0x2a, 0x86, 0x48, 0xce, 0x3d, 0x02, 0x01, 0x06, 0x05,
     0x2b, 0x81, 0x04, 0x00, 0x22, 0x03, 0x62, 0x00, 0x04, 0x0c, 0x76, 0xca, 0xae, 0x72, 0x3a,
     0xa5, 0xe8, 0xf0, 0xd4, 0xf1, 0x16, 0xb5, 0x02, 0xef, 0x77, 0xa1, 0x1b, 0x93, 0x61, 0x78,
     0xc0, 0x09, 0x26, 0x7b, 0x3b, 0x40, 0x9c, 0xee, 0x49, 0x85, 0xe0, 0xc9, 0x4f, 0xe7, 0xf2,
     0xba, 0x97, 0x6c, 0xf3, 0x82, 0x65, 0x14, 0x2c, 0xf5, 0x0c, 0x73, 0x33, 0x4d, 0x32, 0xe7,
     0x9b, 0xd3, 0x42, 0xcc, 0x95, 0x5a, 0xe5, 0xe2, 0xf5, 0xf4, 0x6e, 0x45, 0xe0, 0xed, 0x20,
     0x35, 0x5c, 0xaf, 0x52, 0x35, 0x81, 0xd4, 0xdc, 0x9c, 0xe3, 0x9e, 0x22, 0x3e, 0xfb, 0x3f,
     0x22, 0x10, 0xda, 0x70, 0x03, 0x37, 0xad, 0xa8, 0xf2, 0x48, 0xfe, 0x3a, 0x60, 0x69, 0xa5]"

definition ec384_pub_key_1 :: "u8 list" where
  "ec384_pub_key_1 = [
     0x30, 0x76, 0x30, 0x10, 0x06, 0x07, 0x2a, 0x86, 0x48, 0xce, 0x3d, 0x02, 0x01, 0x06, 0x05,
     0x2b, 0x81, 0x04, 0x00, 0x22, 0x03, 0x62, 0x00, 0x04, 0x34, 0x43, 0xad, 0x59, 0x83, 0xd9,
     0x41, 0x65, 0xdc, 0x20, 0xb8, 0x62, 0x35, 0xf8, 0x7d, 0x94, 0x13, 0x5e, 0x75, 0xe6, 0xa8,
     0x79, 0xe9, 0xcb, 0xfd, 0xa7, 0x2e, 0x92, 0x95, 0x82, 0xa6, 0xc5, 0xdd, 0x53, 0xc7, 0x3d,
     0x46, 0xed, 0x75, 0xd5, 0x20, 0xb5, 0xbe, 0x74, 0x2a, 0x6d, 0x30, 0xe2, 0x31, 0x50, 0x1c,
     0x7f, 0xc7, 0x7b, 0x4a, 0x73, 0x55, 0xf8, 0x92, 0x60, 0xff, 0x2f, 0x18, 0x04, 0xbc, 0xc7,
     0xd9, 0xce, 0xda, 0xa6, 0x36, 0x52, 0xec, 0x2b, 0x64, 0x6e, 0x7a, 0x97, 0x60, 0x9d, 0x8c,
     0xba, 0xfe, 0xec, 0x9a, 0xb0, 0xc2, 0x6e, 0x3d, 0x75, 0x2a, 0x98, 0xb2, 0xa3, 0x09, 0x84]"

definition enc_priv_key_len :: u32 where "enc_priv_key_len = 1192"
definition rsa2048_pub_key_len :: u32 where "rsa2048_pub_key_len = 270"
definition rsa2048_pub_key_len_1 :: u32 where "rsa2048_pub_key_len_1 = 270"
definition rsa3072_pub_key_len :: u32 where "rsa3072_pub_key_len = 398"
definition rsa3072_pub_key_len_1 :: u32 where "rsa3072_pub_key_len_1 = 398"
definition ec256_pub_key_len :: u32 where "ec256_pub_key_len = 91"
definition ec256_pub_key_len_1 :: u32 where "ec256_pub_key_len_1 = 91"
definition ec384_pub_key_len :: u32 where "ec384_pub_key_len = 120"
definition ec384_pub_key_len_1 :: u32 where "ec384_pub_key_len_1 = 120"

section \<open>The table\<close>

text \<open>\<open>bk_len\<close> is the number that the pointer \<open>len\<close> leads to; a null \<open>key\<close> is \<open>None\<close>.\<close>

record bootutil_key =
  bk_key :: "u8 list option"
  bk_len :: u32

definition bootutil_enc_key :: bootutil_key where
  "bootutil_enc_key = \<lparr>bk_key = Some enc_priv_key, bk_len = enc_priv_key_len\<rparr>"

text \<open>
  The configuration macros: \<open>MCUBOOT_SIGN_RSA\<close> with its length, \<open>MCUBOOT_SIGN_EC256\<close> and
  \<open>MCUBOOT_SIGN_EC384\<close>, or none of them.
\<close>

datatype sign_config = SIGN_RSA nat | SIGN_EC bool bool | SIGN_NONE

record key_config =
  kc_hw_key :: bool
  kc_builtin_key :: bool
  kc_sign :: sign_config
  kc_image_number :: nat

text \<open>The public keys and lengths in scope, if \<open>HAVE_KEYS\<close> is defined.\<close>

fun pub_keys :: "sign_config \<Rightarrow> (bootutil_key \<times> bootutil_key) option" where
  "pub_keys (SIGN_RSA n) =
     (if n = 2048 then Some (\<lparr>bk_key = Some rsa2048_pub_key, bk_len = rsa2048_pub_key_len\<rparr>,
                             \<lparr>bk_key = Some rsa2048_pub_key_1, bk_len = rsa2048_pub_key_len_1\<rparr>)
      else if n = 3072 then Some (\<lparr>bk_key = Some rsa3072_pub_key, bk_len = rsa3072_pub_key_len\<rparr>,
                                  \<lparr>bk_key = Some rsa3072_pub_key_1, bk_len = rsa3072_pub_key_len_1\<rparr>)
      else None)"
| "pub_keys (SIGN_EC ec256 ec384) =
     (if \<not> ec256 \<and> \<not> ec384 then None
      else if \<not> ec384 then Some (\<lparr>bk_key = Some ec256_pub_key, bk_len = ec256_pub_key_len\<rparr>,
                                 \<lparr>bk_key = Some ec256_pub_key_1, bk_len = ec256_pub_key_len_1\<rparr>)
      else Some (\<lparr>bk_key = Some ec384_pub_key, bk_len = ec384_pub_key_len\<rparr>,
                 \<lparr>bk_key = Some ec384_pub_key_1, bk_len = ec384_pub_key_len_1\<rparr>))"
| "pub_keys SIGN_NONE = None"

text \<open>The entry \<open>.len = &ecdsa_pub_key\<close>: the number is read from the first bytes of the key.\<close>

definition len_from_key :: "bootutil_key \<Rightarrow> bootutil_key" where
  "len_from_key k = \<lparr>bk_key = bk_key k,
     bk_len = (case bk_key k of None \<Rightarrow> 0 | Some bs \<Rightarrow> load32 (\<lambda>i. bs ! i) 0)\<rparr>"

definition rsa_bootutil_keys :: "nat \<Rightarrow> bootutil_key \<Rightarrow> bootutil_key \<Rightarrow> bootutil_key list option" where
  "rsa_bootutil_keys n k0 k1 =
     (if n > 9 then None
      else Some ([k0] @ (if n > 1 then [k1] else []) @ (if n > 2 then [k0] else [])
        @ (if n > 3 then [k0] else []) @ (if n > 4 then [k0] else []) @ (if n > 5 then [k0] else [])
        @ (if n > 6 then [k0] else []) @ (if n > 7 then [k0] else []) @ (if n > 8 then [k0] else [])))"

definition ec_bootutil_keys :: "nat \<Rightarrow> bootutil_key \<Rightarrow> bootutil_key \<Rightarrow> bootutil_key list option" where
  "ec_bootutil_keys n k0 k1 =
     Some ([k0] @ (if n > 1 then [k1] else []) @ (if n > 2 then [k0] else [])
        @ (if n > 3 then [len_from_key k0] else []))"

text \<open>\<open>None\<close>: the table does not exist in this configuration.\<close>

definition bootutil_keys :: "key_config \<Rightarrow> bootutil_key list option" where
  "bootutil_keys K =
     (if \<not> kc_hw_key K \<and> \<not> kc_builtin_key K
      then (case pub_keys (kc_sign K) of None \<Rightarrow> None
            | Some (k0, k1) \<Rightarrow> (case kc_sign K of
                SIGN_RSA _ \<Rightarrow> rsa_bootutil_keys (kc_image_number K) k0 k1
              | _ \<Rightarrow> ec_bootutil_keys (kc_image_number K) k0 k1))
      else if kc_hw_key K then Some [\<lparr>bk_key = None, bk_len = 0\<rparr>]
      else None)"

definition bootutil_key_cnt :: "key_config \<Rightarrow> nat option" where
  "bootutil_key_cnt K =
     (if \<not> kc_hw_key K \<and> \<not> kc_builtin_key K
      then (if bootutil_keys K = None then None else Some (kc_image_number K))
      else if kc_hw_key K then Some 1
      else Some (kc_image_number K))"

text \<open>With \<open>MCUBOOT_HW_KEY\<close>: the hash comes from the TF-M platform code, which is a parameter.\<close>

definition boot_retrieve_public_key_hash ::
    "(u8 \<Rightarrow> buf \<Rightarrow> u32 \<Rightarrow> 's \<Rightarrow> int \<times> buf \<times> u32 \<times> 's) \<Rightarrow> u8 \<Rightarrow> buf \<Rightarrow> u32 \<Rightarrow> 's \<Rightarrow> int \<times> buf \<times> u32 \<times> 's" where
  "boot_retrieve_public_key_hash tfm_plat_get_rotpk_hash image_index public_key_hash key_hash_size s =
     tfm_plat_get_rotpk_hash image_index public_key_hash key_hash_size s"

section \<open>DER values\<close>

text \<open>
  One DER value at the start of a byte string: its tag, its content and what follows, for the
  length forms with at most two length bytes.
\<close>

fun der_value :: "u8 list \<Rightarrow> (u8 \<times> u8 list \<times> u8 list) option" where
  "der_value (tag # l # bs) =
     (if l < 0x80
      then (if unat l \<le> length bs then Some (tag, take (unat l) bs, drop (unat l) bs) else None)
      else if l = 0x81
      then (case bs of l1 # bs \<Rightarrow>
              (if unat l1 \<le> length bs then Some (tag, take (unat l1) bs, drop (unat l1) bs) else None)
            | [] \<Rightarrow> None)
      else if l = 0x82
      then (case bs of l1 # l2 # bs \<Rightarrow>
              (let n = unat l1 * 256 + unat l2
               in if n \<le> length bs then Some (tag, take n bs, drop n bs) else None)
            | _ \<Rightarrow> None)
      else None)"
| "der_value _ = None"

text \<open>A byte string that is one SEQUENCE and nothing else.\<close>

definition der_sequence :: "u8 list \<Rightarrow> bool" where
  "der_sequence bs = (case der_value bs of Some (tag, _, rest) \<Rightarrow> tag = 0x30 \<and> rest = [] | None \<Rightarrow> False)"

lemma der_sequence_long:
  assumes "bs = 0x30 # 0x82 # l1 # l2 # cs" "length cs = unat l1 * 256 + unat l2"
  shows "der_sequence bs"
  using assms by (simp add: der_sequence_def)

lemma der_sequence_short:
  assumes "bs = 0x30 # l # cs" "l < 0x80" "length cs = unat l"
  shows "der_sequence bs"
  using assms by (simp add: der_sequence_def)

lemma length_enc_priv_key: "length enc_priv_key = 1192"
  by (simp add: enc_priv_key_def)

lemma length_rsa2048_pub_key: "length rsa2048_pub_key = 270"
  by (simp add: rsa2048_pub_key_def)

lemma length_rsa2048_pub_key_1: "length rsa2048_pub_key_1 = 270"
  by (simp add: rsa2048_pub_key_1_def)

lemma length_rsa3072_pub_key: "length rsa3072_pub_key = 398"
  by (simp add: rsa3072_pub_key_def)

lemma length_rsa3072_pub_key_1: "length rsa3072_pub_key_1 = 398"
  by (simp add: rsa3072_pub_key_1_def)

lemma length_ec256_pub_key: "length ec256_pub_key = 91"
  by (simp add: ec256_pub_key_def)

lemma length_ec256_pub_key_1: "length ec256_pub_key_1 = 91"
  by (simp add: ec256_pub_key_1_def)

lemma length_ec384_pub_key: "length ec384_pub_key = 120"
  by (simp add: ec384_pub_key_def)

lemma length_ec384_pub_key_1: "length ec384_pub_key_1 = 120"
  by (simp add: ec384_pub_key_1_def)

lemma der_enc_priv_key: "der_sequence enc_priv_key"
  by (rule der_sequence_long [OF enc_priv_key_def]) simp_all

lemma der_rsa2048_pub_key: "der_sequence rsa2048_pub_key"
  by (rule der_sequence_long [OF rsa2048_pub_key_def]) simp_all

lemma der_rsa2048_pub_key_1: "der_sequence rsa2048_pub_key_1"
  by (rule der_sequence_long [OF rsa2048_pub_key_1_def]) simp_all

lemma der_rsa3072_pub_key: "der_sequence rsa3072_pub_key"
  by (rule der_sequence_long [OF rsa3072_pub_key_def]) simp_all

lemma der_rsa3072_pub_key_1: "der_sequence rsa3072_pub_key_1"
  by (rule der_sequence_long [OF rsa3072_pub_key_1_def]) simp_all

lemma der_ec256_pub_key: "der_sequence ec256_pub_key"
  by (rule der_sequence_short [OF ec256_pub_key_def]) simp_all

lemma der_ec256_pub_key_1: "der_sequence ec256_pub_key_1"
  by (rule der_sequence_short [OF ec256_pub_key_1_def]) simp_all

lemma der_ec384_pub_key: "der_sequence ec384_pub_key"
  by (rule der_sequence_short [OF ec384_pub_key_def]) simp_all

lemma der_ec384_pub_key_1: "der_sequence ec384_pub_key_1"
  by (rule der_sequence_short [OF ec384_pub_key_1_def]) simp_all

text \<open>
  An RSA public key: the SEQUENCE of the modulus and the exponent. \<open>rsa_bits\<close> is the
  length of the modulus in bits when its first byte is the zero that marks a positive number
  with the top bit set.
\<close>

definition rsa_public_key :: "u8 list \<Rightarrow> (u8 list \<times> u8 list) option" where
  "rsa_public_key bs = do {
     (t, c, r) \<leftarrow> der_value bs;
     (tn, n, c) \<leftarrow> der_value c;
     (te, e, c) \<leftarrow> der_value c;
     if t = 0x30 \<and> r = [] \<and> tn = 0x02 \<and> te = 0x02 \<and> c = [] then Some (n, e) else None }"

definition rsa_bits :: "u8 list \<Rightarrow> nat option" where
  "rsa_bits n = (case n of z # m # _ \<Rightarrow> (if z = 0 \<and> m \<ge> 0x80 then Some (8 * (length n - 1)) else None)
                 | _ \<Rightarrow> None)"

definition rsa_key_ok :: "nat \<Rightarrow> u8 list \<Rightarrow> bool" where
  "rsa_key_ok bits bs \<longleftrightarrow>
     (case rsa_public_key bs of Some (n, e) \<Rightarrow> rsa_bits n = Some bits \<and> e = [1, 0, 1] | None \<Rightarrow> False)"

lemma rsa_rsa2048_pub_key: "rsa_key_ok 2048 rsa2048_pub_key"
  by (simp add: rsa_key_ok_def rsa_public_key_def rsa_bits_def rsa2048_pub_key_def)

lemma rsa_rsa2048_pub_key_1: "rsa_key_ok 2048 rsa2048_pub_key_1"
  by (simp add: rsa_key_ok_def rsa_public_key_def rsa_bits_def rsa2048_pub_key_1_def)

lemma rsa_rsa3072_pub_key: "rsa_key_ok 3072 rsa3072_pub_key"
  by (simp add: rsa_key_ok_def rsa_public_key_def rsa_bits_def rsa3072_pub_key_def)

lemma rsa_rsa3072_pub_key_1: "rsa_key_ok 3072 rsa3072_pub_key_1"
  by (simp add: rsa_key_ok_def rsa_public_key_def rsa_bits_def rsa3072_pub_key_1_def)

lemmas key_length =
  length_enc_priv_key length_rsa2048_pub_key length_rsa2048_pub_key_1 length_rsa3072_pub_key
  length_rsa3072_pub_key_1 length_ec256_pub_key length_ec256_pub_key_1 length_ec384_pub_key
  length_ec384_pub_key_1

lemmas key_der =
  der_enc_priv_key der_rsa2048_pub_key der_rsa2048_pub_key_1 der_rsa3072_pub_key
  der_rsa3072_pub_key_1 der_ec256_pub_key der_ec256_pub_key_1 der_ec384_pub_key
  der_ec384_pub_key_1

lemmas key_rsa =
  rsa_rsa2048_pub_key rsa_rsa2048_pub_key_1 rsa_rsa3072_pub_key rsa_rsa3072_pub_key_1

lemmas key_len_defs =
  enc_priv_key_len_def rsa2048_pub_key_len_def rsa2048_pub_key_len_1_def rsa3072_pub_key_len_def
  rsa3072_pub_key_len_1_def ec256_pub_key_len_def ec256_pub_key_len_1_def ec384_pub_key_len_def
  ec384_pub_key_len_1_def

end
