(* ===== verification/Crypto_Cfg.thy ===== *)
theory Crypto_Cfg
  imports Keys
begin

text \<open>
  \<open>ext/mcuboot/config/mcuboot-mbedtls-cfg.h\<close>: the modules of mbed TLS that a build with a given
  signature type has. The macros without a value are a list of names, in the order of the file.
  Proved here: what the public keys of \<open>keys.c\<close> ask for, by their DER encoding.
\<close>

section \<open>The configuration\<close>

fun sign_rsa :: "sign_config \<Rightarrow> bool" where
  "sign_rsa (SIGN_RSA _) = True"
| "sign_rsa _ = False"

fun sign_ec256 :: "sign_config \<Rightarrow> bool" where
  "sign_ec256 (SIGN_EC ec256 _) = ec256"
| "sign_ec256 _ = False"

fun sign_ec384 :: "sign_config \<Rightarrow> bool" where
  "sign_ec384 (SIGN_EC _ ec384) = ec384"
| "sign_ec384 _ = False"

fun MBEDTLS_MPI_MAX_SIZE :: "sign_config \<Rightarrow> nat option" where
  "MBEDTLS_MPI_MAX_SIZE (SIGN_RSA bits) = Some (if bits = 3072 then 384 else 256)"
| "MBEDTLS_MPI_MAX_SIZE _ = None"

definition mbedtls_cfg :: "sign_config \<Rightarrow> string list" where
  "mbedtls_cfg s =
     (if sign_rsa s then [''MBEDTLS_RSA_C'', ''MBEDTLS_PKCS1_V21''] else [])
     @ (if sign_ec384 s then [''MBEDTLS_ECP_DP_SECP384R1_ENABLED'', ''MBEDTLS_SHA512_C'', ''MBEDTLS_SHA384_C'']
        else [''MBEDTLS_SHA256_C''])
     @ (if sign_ec256 s then [''MBEDTLS_ECP_DP_SECP256R1_ENABLED''] else [])
     @ [''MBEDTLS_PLATFORM_C'', ''MBEDTLS_PLATFORM_MEMORY'', ''MBEDTLS_MEMORY_BUFFER_ALLOC_C'',
        ''MBEDTLS_NO_PLATFORM_ENTROPY'', ''MBEDTLS_NO_DEFAULT_ENTROPY_SOURCES'',
        ''MBEDTLS_PLATFORM_EXIT_ALT'', ''MBEDTLS_PLATFORM_PRINTF_ALT'',
        ''MBEDTLS_ASN1_PARSE_C'', ''MBEDTLS_ASN1_WRITE_C'', ''MBEDTLS_BIGNUM_C'', ''MBEDTLS_MD_C'',
        ''MBEDTLS_OID_C'', ''MBEDTLS_AES_C'', ''MBEDTLS_CIPHER_MODE_CTR'']
     @ (if sign_ec256 s \<or> sign_ec384 s
        then [''MBEDTLS_ECP_C'', ''MBEDTLS_ECP_NIST_OPTIM'', ''MBEDTLS_ECDSA_C''] else [])"

section \<open>What the keys need\<close>

text \<open>
  An elliptic curve public key: the SEQUENCE of the algorithm, which is \<open>id-ecPublicKey\<close> with a named
  curve, and of a BIT STRING with an uncompressed point. The result is the object identifier
  of the curve and the length of a coordinate.
\<close>

definition ec_public_key :: "u8 list \<Rightarrow> (u8 list \<times> nat) option" where
  "ec_public_key bs = do {
     (t, c, r) \<leftarrow> der_value bs;
     (ta, alg, c) \<leftarrow> der_value c;
     (t1, key_type, alg) \<leftarrow> der_value alg;
     (t2, curve, alg) \<leftarrow> der_value alg;
     (tp, point, c) \<leftarrow> der_value c;
     if t = 0x30 \<and> r = [] \<and> ta = 0x30 \<and> t1 = 0x06 \<and> key_type = [0x2A, 0x86, 0x48, 0xCE, 0x3D, 0x02, 0x01]
        \<and> t2 = 0x06 \<and> alg = [] \<and> tp = 0x03 \<and> take 2 point = [0x00, 0x04] \<and> c = []
     then Some (curve, (length point - 2) div 2) else None }"

definition secp256r1 :: "u8 list" where
  "secp256r1 = [0x2A, 0x86, 0x48, 0xCE, 0x3D, 0x03, 0x01, 0x07]"

definition secp384r1 :: "u8 list" where
  "secp384r1 = [0x2B, 0x81, 0x04, 0x00, 0x22]"

lemma ec_ec256_pub_key: "ec_public_key ec256_pub_key = Some (secp256r1, 32)"
  by (simp add: ec_public_key_def secp256r1_def ec256_pub_key_def)

lemma ec_ec256_pub_key_1: "ec_public_key ec256_pub_key_1 = Some (secp256r1, 32)"
  by (simp add: ec_public_key_def secp256r1_def ec256_pub_key_1_def)

lemma ec_ec384_pub_key: "ec_public_key ec384_pub_key = Some (secp384r1, 48)"
  by (simp add: ec_public_key_def secp384r1_def ec384_pub_key_def)

lemma ec_ec384_pub_key_1: "ec_public_key ec384_pub_key_1 = Some (secp384r1, 48)"
  by (simp add: ec_public_key_def secp384r1_def ec384_pub_key_1_def)

lemmas key_ec = ec_ec256_pub_key ec_ec256_pub_key_1 ec_ec384_pub_key ec_ec384_pub_key_1

lemma rsa_not_ec:
  "ec_public_key rsa2048_pub_key = None" "ec_public_key rsa2048_pub_key_1 = None"
  "ec_public_key rsa3072_pub_key = None" "ec_public_key rsa3072_pub_key_1 = None"
  by (simp_all add: ec_public_key_def rsa2048_pub_key_def rsa2048_pub_key_1_def rsa3072_pub_key_def rsa3072_pub_key_1_def)

text \<open>The size in bytes of the modulus of an RSA public key.\<close>

definition rsa_modulus_bytes :: "u8 list \<Rightarrow> nat option" where
  "rsa_modulus_bytes key = do { (n, e) \<leftarrow> rsa_public_key key; bits \<leftarrow> rsa_bits n; Some (bits div 8) }"

lemma ec_not_rsa:
  "rsa_modulus_bytes ec256_pub_key = None" "rsa_modulus_bytes ec256_pub_key_1 = None"
  "rsa_modulus_bytes ec384_pub_key = None" "rsa_modulus_bytes ec384_pub_key_1 = None"
  by (simp_all add: rsa_modulus_bytes_def rsa_public_key_def ec256_pub_key_def ec256_pub_key_1_def
      ec384_pub_key_def ec384_pub_key_1_def)

lemma rsa_key_ok_bytes: "rsa_key_ok bits key \<Longrightarrow> rsa_modulus_bytes key = Some (bits div 8)"
  by (auto simp: rsa_key_ok_def rsa_modulus_bytes_def split: option.splits)

end
