(* ===== verification/Key_Props.thy ===== *)
theory Key_Props
  imports Crypto_Cfg
begin

text \<open>
  Properties of the keys of \<open>keys.c\<close>: what the bootutil library finds through \<open>bootutil_keys\<close> for
  every number of images, and that the configuration of mbed TLS fits the keys.
\<close>

section \<open>The table\<close>

lemma nat_1_to_9: "1 \<le> (n :: nat) \<Longrightarrow> n \<le> 9 \<Longrightarrow> n \<in> set [1, 2, 3, 4, 5, 6, 7, 8, 9]"
  by (simp add: numeral_eq_Suc le_Suc_eq)

lemma rsa_table:
  assumes "1 \<le> n" "n \<le> 9"
  shows "\<exists>ks. rsa_bootutil_keys n k0 k1 = Some ks \<and> length ks = n \<and> (\<forall>i < n. ks ! i = (if i = 1 then k1 else k0))"
proof -
  have "rsa_bootutil_keys n k0 k1 = Some (take n [k0, k1, k0, k0, k0, k0, k0, k0, k0])"
    using nat_1_to_9 [OF assms] by (auto simp: rsa_bootutil_keys_def)
  moreover have "[k0, k1, k0, k0, k0, k0, k0, k0, k0] ! i = (if i = 1 then k1 else k0)" if "i < 9" for i
    using that by (auto simp: nth_Cons numeral_eq_Suc split: nat.splits)
  ultimately show ?thesis using assms by auto
qed

text \<open>
  C38. With RSA signatures and 1 to 9 images the table has one entry per image, as many as
  \<open>bootutil_key_cnt\<close> says, each with a key of the configured size and its true length; the
  second image has the second key and all the others the first. With more images there is no
  table.
\<close>

theorem rsa_key_table:
  assumes "\<not> kc_hw_key K" and "\<not> kc_builtin_key K" and "kc_sign K = SIGN_RSA bits"
    and "bits = 2048 \<or> bits = 3072" and "1 \<le> kc_image_number K"
  shows "(kc_image_number K \<le> 9 \<longrightarrow>
      (\<exists>ks k0 k1. bootutil_keys K = Some ks \<and> bootutil_key_cnt K = Some (length ks)
       \<and> length ks = kc_image_number K \<and> rsa_key_ok bits k0 \<and> rsa_key_ok bits k1 \<and> k0 \<noteq> k1
       \<and> (\<forall>i < length ks. let key = (if i = 1 then k1 else k0)
            in bk_key (ks ! i) = Some key \<and> unat (bk_len (ks ! i)) = length key)))
    \<and> (9 < kc_image_number K \<longrightarrow> bootutil_keys K = None \<and> bootutil_key_cnt K = None)"
proof -
  let ?n = "kc_image_number K"
  define a b where "a = (if bits = 2048 then rsa2048_pub_key else rsa3072_pub_key)"
    and "b = (if bits = 2048 then rsa2048_pub_key_1 else rsa3072_pub_key_1)"
  let ?a = "\<lparr>bk_key = Some a, bk_len = of_nat (length a)\<rparr>" and ?b = "\<lparr>bk_key = Some b, bk_len = of_nat (length b)\<rparr>"
  have p: "pub_keys (SIGN_RSA bits) = Some (?a, ?b)"
    using assms(4) by (auto simp: a_def b_def key_len_defs key_length)
  then have t: "bootutil_keys K = rsa_bootutil_keys ?n ?a ?b" using assms by (simp add: bootutil_keys_def)
  have ok: "rsa_key_ok bits a" "rsa_key_ok bits b" "length a < 2 ^ 32" "length b < 2 ^ 32"
    using assms(4) by (auto simp: a_def b_def key_rsa key_length)
  have "drop 9 a \<noteq> drop 9 b"
    using assms(4) by (auto simp: a_def b_def rsa2048_pub_key_def rsa2048_pub_key_1_def rsa3072_pub_key_def rsa3072_pub_key_1_def)
  then have d: "a \<noteq> b" by auto
  show ?thesis
  proof (cases "?n \<le> 9")
    case True
    obtain ks where ks: "rsa_bootutil_keys ?n ?a ?b = Some ks" "length ks = ?n"
      "\<forall>i < ?n. ks ! i = (if i = 1 then ?b else ?a)"
      using rsa_table [OF assms(5) True] by blast
    have "let key = (if i = 1 then b else a)
        in bk_key (ks ! i) = Some key \<and> unat (bk_len (ks ! i)) = length key" if "i < length ks" for i
      using ks that ok by (simp add: Let_def unat_of_nat32)
    then show ?thesis using True ok d assms ks
      by (intro conjI impI exI [of _ ks] exI [of _ a] exI [of _ b]) (simp_all add: t bootutil_key_cnt_def)
  next
    case False
    then show ?thesis using assms t by (auto simp: rsa_bootutil_keys_def bootutil_key_cnt_def)
  qed
qed

definition sim_rsa :: "nat \<Rightarrow> key_config" where
  "sim_rsa n = \<lparr>kc_hw_key = False, kc_builtin_key = False, kc_sign = SIGN_RSA 3072, kc_image_number = n\<rparr>"

theorem rsa_key_table_witness:
  "(\<exists>ks. bootutil_keys (sim_rsa 2) = Some ks \<and> length ks = 2) \<and> bootutil_keys (sim_rsa 10) = None"
  using rsa_key_table [of "sim_rsa 2" 3072] rsa_key_table [of "sim_rsa 10" 3072] by (auto simp: sim_rsa_def)

lemma ec_table:
  assumes "1 \<le> n"
  shows "\<exists>ks. ec_bootutil_keys n k0 k1 = Some ks \<and> length ks = min 4 n
    \<and> (\<forall>i < length ks. ks ! i = [k0, k1, k0, len_from_key k0] ! i)"
proof -
  have "n = 1 \<or> n = 2 \<or> n = 3 \<or> 4 \<le> n" using assms by linarith
  then have "ec_bootutil_keys n k0 k1 = Some (take n [k0, k1, k0, len_from_key k0])"
    by (auto simp: ec_bootutil_keys_def)
  then show ?thesis by simp
qed

text \<open>
  C39. With elliptic curve signatures the table is only right for up to three images: the fourth
  entry has the key, but not its length, which is read from the first four bytes of the key;
  for more than four images \<open>bootutil_key_cnt\<close> promises entries that are not in the table.
\<close>

theorem ec_key_table:
  assumes "\<not> kc_hw_key K" and "\<not> kc_builtin_key K" and "kc_sign K = SIGN_EC ec256 ec384"
    and "ec256 \<or> ec384" and "1 \<le> kc_image_number K"
  shows "\<exists>ks k0 k1. bootutil_keys K = Some ks \<and> bootutil_key_cnt K = Some (kc_image_number K)
    \<and> length ks = min 4 (kc_image_number K) \<and> der_sequence k0 \<and> der_sequence k1 \<and> k0 \<noteq> k1
    \<and> (\<forall>i < length ks. let key = (if i = 1 then k1 else k0)
         in bk_key (ks ! i) = Some key \<and> (unat (bk_len (ks ! i)) = length key \<longleftrightarrow> i < 3))"
proof -
  let ?n = "kc_image_number K"
  define a b where "a = (if \<not> ec384 then ec256_pub_key else ec384_pub_key)"
    and "b = (if \<not> ec384 then ec256_pub_key_1 else ec384_pub_key_1)"
  let ?a = "\<lparr>bk_key = Some a, bk_len = of_nat (length a)\<rparr>" and ?b = "\<lparr>bk_key = Some b, bk_len = of_nat (length b)\<rparr>"
  have p: "pub_keys (SIGN_EC ec256 ec384) = Some (?a, ?b)"
    using assms(4) by (auto simp: a_def b_def key_len_defs key_length)
  then have t: "bootutil_keys K = ec_bootutil_keys ?n ?a ?b" using assms by (simp add: bootutil_keys_def)
  have ok: "der_sequence a" "der_sequence b" "unat (of_nat (length a) :: u32) = length a"
    "unat (of_nat (length b) :: u32) = length b"
    by (simp_all add: a_def b_def key_der key_length)
  have "load32 (\<lambda>i. a ! i) 0 = (if \<not> ec384 then 0x13305930 else 0x10307630)"
    by (simp add: a_def load32_def ec256_pub_key_def ec384_pub_key_def)
  then have l: "unat (load32 (\<lambda>i. a ! i) 0) \<noteq> length a" by (simp add: a_def key_length)
  have "drop 40 a \<noteq> drop 40 b"
    by (simp add: a_def b_def ec256_pub_key_def ec256_pub_key_1_def ec384_pub_key_def ec384_pub_key_1_def)
  then have d: "a \<noteq> b" by auto
  obtain ks where ks: "ec_bootutil_keys ?n ?a ?b = Some ks" "length ks = min 4 ?n"
    "\<forall>i < length ks. ks ! i = [?a, ?b, ?a, len_from_key ?a] ! i"
    using ec_table [OF assms(5)] by blast
  have "let key = (if i = 1 then b else a)
         in bk_key (ks ! i) = Some key \<and> (unat (bk_len (ks ! i)) = length key \<longleftrightarrow> i < 3)" if "i < length ks" for i
  proof -
    have "i = 0 \<or> i = 1 \<or> i = 2 \<or> i = 3" using that ks(2) by linarith
    then show ?thesis using ks(3) that ok l by (elim disjE) (simp_all add: len_from_key_def)
  qed
  then show ?thesis
    using ks ok d assms by (intro exI [of _ ks] exI [of _ a] exI [of _ b]) (simp add: t bootutil_key_cnt_def)
qed

theorem ec_key_table_witness:
  "\<exists>ks k0. bootutil_keys \<lparr>kc_hw_key = False, kc_builtin_key = False, kc_sign = SIGN_EC True False,
        kc_image_number = 5\<rparr> = Some ks \<and> length ks = 4 \<and> bk_key (ks ! 3) = Some k0
    \<and> unat (bk_len (ks ! 3)) \<noteq> length k0"
proof -
  let ?K = "\<lparr>kc_hw_key = False, kc_builtin_key = False, kc_sign = SIGN_EC True False, kc_image_number = 5\<rparr>"
  obtain ks k0 k1 where "bootutil_keys ?K = Some ks" and l: "length ks = 4"
    and all: "\<forall>i < length ks. let key = (if i = 1 then k1 else k0)
         in bk_key (ks ! i) = Some key \<and> (unat (bk_len (ks ! i)) = length key \<longleftrightarrow> i < 3)"
    using ec_key_table [of ?K True False] by auto
  moreover have "bk_key (ks ! 3) = Some k0 \<and> unat (bk_len (ks ! 3)) \<noteq> length k0"
    using all [rule_format, of 3] l by (simp add: Let_def)
  ultimately show ?thesis by blast
qed

section \<open>The configuration of mbed TLS\<close>

text \<open>
  C40. In every configuration with public keys and one signature type, the modules of mbed TLS that the
  header makes depend on the signature type are exactly those for the keys, by their DER encoding. RSA
  and its PSS padding are there exactly for RSA keys, and the limit for big numbers is the size of
  the modulus; elliptic curves and ECDSA exactly for elliptic curve keys, of the curves exactly the one
  named in the key; SHA-384 (and SHA-512, which it is built on) exactly for P-384, and SHA-256 exactly otherwise.
\<close>

theorem crypto_config_matches_keys:
  assumes "pub_keys s = Some (k0, k1)" and "k = k0 \<or> k = k1" and "s \<noteq> SIGN_EC True True"
  shows "\<exists>key. bk_key k = Some key \<and> (let on = (\<lambda>mo. mo \<in> set (mbedtls_cfg s));
        ec = (\<lambda>curve. \<exists>n. ec_public_key key = Some (curve, n)) in
      MBEDTLS_MPI_MAX_SIZE s = rsa_modulus_bytes key
    \<and> (on ''MBEDTLS_RSA_C'' \<longleftrightarrow> rsa_modulus_bytes key \<noteq> None)
    \<and> (on ''MBEDTLS_PKCS1_V21'' \<longleftrightarrow> rsa_modulus_bytes key \<noteq> None)
    \<and> (on ''MBEDTLS_ECP_C'' \<longleftrightarrow> ec_public_key key \<noteq> None)
    \<and> (on ''MBEDTLS_ECP_NIST_OPTIM'' \<longleftrightarrow> ec_public_key key \<noteq> None)
    \<and> (on ''MBEDTLS_ECDSA_C'' \<longleftrightarrow> ec_public_key key \<noteq> None)
    \<and> (on ''MBEDTLS_ECP_DP_SECP256R1_ENABLED'' \<longleftrightarrow> ec secp256r1)
    \<and> (on ''MBEDTLS_ECP_DP_SECP384R1_ENABLED'' \<longleftrightarrow> ec secp384r1)
    \<and> (on ''MBEDTLS_SHA384_C'' \<longleftrightarrow> ec secp384r1) \<and> (on ''MBEDTLS_SHA512_C'' \<longleftrightarrow> ec secp384r1)
    \<and> (on ''MBEDTLS_SHA256_C'' \<longleftrightarrow> \<not> ec secp384r1))"
proof -
  have c: "secp256r1 \<noteq> secp384r1" by (simp add: secp256r1_def secp384r1_def)
  have r: "rsa_modulus_bytes rsa2048_pub_key = Some 256" "rsa_modulus_bytes rsa2048_pub_key_1 = Some 256"
    "rsa_modulus_bytes rsa3072_pub_key = Some 384" "rsa_modulus_bytes rsa3072_pub_key_1 = Some 384"
    using key_rsa rsa_key_ok_bytes by simp_all
  show ?thesis
  proof (cases s)
    case (SIGN_RSA n)
    then show ?thesis
      using assms r by (auto simp: rsa_not_ec mbedtls_cfg_def Let_def split: if_splits)
  next
    case (SIGN_EC e2 e3)
    then show ?thesis
      using assms c by (auto simp: key_ec ec_not_rsa mbedtls_cfg_def Let_def split: if_splits)
  qed (use assms in simp)
qed

theorem crypto_config_matches_keys_witness:
  "''MBEDTLS_ECP_DP_SECP384R1_ENABLED'' \<in> set (mbedtls_cfg (SIGN_EC False True))
   \<and> ''MBEDTLS_ECP_DP_SECP256R1_ENABLED'' \<notin> set (mbedtls_cfg (SIGN_EC False True))
   \<and> ''MBEDTLS_RSA_C'' \<notin> set (mbedtls_cfg (SIGN_EC False True)) \<and> MBEDTLS_MPI_MAX_SIZE (SIGN_RSA 3072) = Some 384"
proof -
  have c: "secp256r1 \<noteq> secp384r1" by (simp add: secp256r1_def secp384r1_def)
  have r: "rsa_modulus_bytes rsa3072_pub_key = Some 384" using key_rsa rsa_key_ok_bytes by simp
  let ?k = "\<lparr>bk_key = Some ec384_pub_key_1, bk_len = ec384_pub_key_len_1\<rparr>"
  let ?r = "\<lparr>bk_key = Some rsa3072_pub_key, bk_len = rsa3072_pub_key_len\<rparr>"
  have e: "pub_keys (SIGN_EC False True) = Some (\<lparr>bk_key = Some ec384_pub_key, bk_len = ec384_pub_key_len\<rparr>, ?k)"
    and e': "pub_keys (SIGN_RSA 3072) = Some (?r, \<lparr>bk_key = Some rsa3072_pub_key_1, bk_len = rsa3072_pub_key_len_1\<rparr>)"
    by simp_all
  show ?thesis
    using crypto_config_matches_keys [OF e disjI2 [OF refl]] crypto_config_matches_keys [OF e' disjI1 [OF refl]] c r
    by (simp add: Let_def key_ec ec_not_rsa)
qed

end
