(* ===== verification/Spec2Isabelle.thy ===== *)
theory Spec2Isabelle
  imports Flash_Props Serial_Props Spim_Props Map_Props Area_System Boot_Props Key_Props
begin

text \<open>
  The second-stage boot loader for NuMicro microcontrollers: MCUboot over CMSIS flash drivers, on
  eight platforms. This file holds the properties of whole flash areas and of slots, and the
  overview of the development. Paths are relative to \<open>bl2/\<close>.

  \<^bold>\<open>The program.\<close> \<open>main\<close> (\<open>ext/mcuboot/bl2_main.c\<close>) initialises the platform
  (\<open>platform/<p>/boot_hal.c\<close>), lets \<open>boot_go\<close> of the bootutil library choose an image, and jumps
  to it (\<open>platform/common/boot.c\<close>). The library reaches flash through flash areas
  (\<open>src/flash_map.c\<close>, \<open>ext/mcuboot/flash_map_*.c\<close>), which the layout of the platform defines
  (\<open>partition/flash_layout.h\<close>, \<open>src/default_flash_map.c\<close>). An area has a CMSIS driver
  (\<open>platform/common/Driver_Flash.c\<close>): \<open>Driver_FLASH0\<close> for the APROM and \<open>Driver_FLASH1\<close> for the
  LDROM go to the flash controller (\<open>fmc_drv.c\<close>, or \<open>rmc_drv.c\<close> on the M2L31), \<open>Driver_FLASH2\<close>
  to a serial flash (\<open>spi_drv.c\<close>, \<open>qspi_drv.c\<close> or \<open>spim_drv.c\<close>). \<open>keys.c\<close> holds the keys.

  \<^bold>\<open>The model.\<close> The state of the outside is the list of all events so far (\<open>Hw\<close>): register
  accesses, BSP calls, transfers on the bus. A device is any function \<open>resp B\<close> from that history
  to the answer of its last event, so a property that has no hypothesis about \<open>B\<close> holds for every
  device; the documented behaviour of a device is a hypothesis (\<open>nvmc_laws\<close>, \<open>ser_laws\<close>).
  Machine integers are words of their width, buffers are functions from positions to bytes, and
  an indeterminate value is an argument (\<open>ind\<close>, \<open>rx\<close>). A function that returns normally gives
  its C result; \<open>None\<close> stands for a loop without end, an access outside of an array, or a fault.

  \<^bold>\<open>Theories, from the bottom.\<close>
  \<^item> \<open>Prelude\<close>, \<open>Hw\<close>: types, little-endian words, addresses, alignment; events.
  \<^item> \<open>Nvmc\<close>, \<open>Fmc_Drv\<close>, \<open>Rmc_Drv\<close>: the controllers. The locale \<open>nvmc_device\<close> is what the CMSIS driver
    needs; both drivers are interpretations of it.
  \<^item> \<open>Driver_Types\<close>, \<open>Driver_Flash\<close>: the CMSIS interface. The locales \<open>cmsis_read\<close>,
    \<open>cmsis_erase\<close> and \<open>cmsis_flash\<close> extend each other; the on-chip driver interprets the last.
  \<^item> \<open>Serial\<close>, \<open>Spi_Drv\<close>, \<open>Qspi_Drv\<close>, \<open>Spim_Drv\<close>, \<open>Driver_Flash2\<close>, \<open>Spim_Flash\<close>: serial
    flash. The locale \<open>serial_read\<close> is reading, \<open>serial_flash\<close> adds erasing. SPI and QSPI interpret
    both, and their CMSIS drivers \<open>cmsis_erase\<close>: they read and erase, but programming does not
    return. SPIM interprets \<open>serial_read\<close>, its CMSIS driver \<open>cmsis_read\<close>; what it programs
    and erases is stated in \<open>Spim_Flash\<close>, for the device described by \<open>spim_laws\<close>.
  \<^item> \<open>Flash_Map\<close>, \<open>Flash_Map_Read\<close>, \<open>Flash_Map_Write\<close>, \<open>Flash_Map_Erase\<close>: \<open>flash_map.c\<close> over any
    driver that keeps the contract, proved in the locales. \<open>Board\<close> puts them on the APROM and
    the LDROM of a board with either controller (\<open>aprom\<close>, \<open>ldrom\<close>); \<open>Area_Spec\<close> is the abstract area and the simulation.
    \<open>Read_Bounds\<close> has the locale \<open>bounded_reads\<close>, which all five CMSIS drivers interpret without any
    hypothesis about the hardware.
  \<^item> \<open>Flash_Layout\<close>, \<open>Default_Flash_Map\<close>, \<open>Flash_Map_Ext\<close>: layouts, tables, slots, sectors.
    \<open>Area_System\<close>: all areas of a platform together, as a step relation whose steps are
    operations on areas opened by ID (\<open>map_step\<close>, \<open>map_runs\<close>).
  \<^item> \<open>Boot\<close>, \<open>Boot_Hal\<close>, \<open>Bl2_Main\<close>: the jump with an interpreter for its instructions, the
    platforms, \<open>main\<close>. \<open>Boot_System\<close> composes them with the drivers and the jump of a board.
  \<^item> \<open>Keys\<close>, \<open>Crypto_Cfg\<close>: the keys, their table, and the configuration of mbed TLS.
  \<^item> \<open>Sim_Device\<close>, \<open>Sim_Serial\<close>, \<open>Sim_Spim\<close>: concrete devices that show the hypotheses can hold.
  \<^item> \<open>Flash_Props\<close>, \<open>Serial_Props\<close>, \<open>Spim_Props\<close>, \<open>Map_Props\<close>, \<open>Boot_Props\<close>, \<open>Key_Props\<close> and
    this file: the properties, each with a concrete instance.

  \<^bold>\<open>What the properties show.\<close> Reads deliver the flash content; aligned writes, and erases from
  a sector boundary, do what they should and nothing else; sequences of operations refine an
  abstract area; the slots and the scratch area together refine independent abstract areas under
  every interleaving, no admissible operation is stuck, and the boot loader keeps its bytes.
  Unaligned writes of more than a unit program wrong data. Errors and ranges: exactly what is
  refused, and what the drivers fail to check. Reading stays inside the buffer of the caller for any
  hardware. Waiting for the FMC and for the SPI bus is bounded by their time-outs; the polling
  loops of the SPIM and the write loops of SPI and QSPI are not bounded, and the latter never end.
  A slot on the SPIM reads as it should and is written page by page; a short request that crosses
  a page boundary wraps inside its page, and erasing a sector of the CMSIS driver erases the 4 KiB
  around it. An image starts only after \<open>boot_go\<close> succeeded and then it does start, in the machine
  state described, on every board with internal slots; with an SPI flash on the M460 whose answer
  to the identification fills the receive FIFO beyond four bytes, the initialisation writes beyond
  its buffer. An image in the slot in serial flash is never started from its place: an assertion
  fails, or the jump uses a base that was not written. The clearing loop faults on a Cortex-M23
  unless the linker ends the range at a word. The areas of every platform are disjoint and
  correspond to the slot numbers, for one image. The table of the elliptic curve keys is wrong
  from the fourth image on. The configuration of mbed TLS follows the type and the curve of the
  keys.

  \<^bold>\<open>Bounds.\<close> No definition uses fuel: bounded loops are total functions with a measure, loops
  that may run forever are \<open>partial_function (option)\<close>, and where a property says that they
  return it says \<open>Some\<close>. The program unit of \<open>flash_area_write\<close> is the 8 bytes of every layout.

  \<^bold>\<open>Not modelled.\<close> The bootutil library, mbed TLS and the BSP are not in the repository:
  \<open>boot_go\<close>, \<open>boot_u32_safe_add\<close> and the BSP are parameters. Build files, linker scripts,
  prototypes and the configuration template have no behaviour of their own; their macros and
  symbols are arguments. Left out as well: cache maintenance, debug and error logging in the
  flash map (the messages of \<open>bl2_main.c\<close> are kept, without their arguments), and the address
  of a DMA buffer.
\<close>

section \<open>Reading, writing and erasing flash areas\<close>

text \<open>
  C1. Reading any offset and length inside an APROM area, aligned or not, returns 0 and
  delivers exactly the bytes that the flash holds there: nothing outside the destination
  range is written and the flash content is unchanged.
\<close>

theorem flash_area_read_delivers:
  assumes "board_ok B rmc F (ARM_FLASH0_DEV B rmc) t" and "aprom_area B rmc ind A"
    and "safe_add_spec safe_add" and "unat off + unat len \<le> unat (fa_size A)"
  shows "\<exists>t'. flash_area_read safe_add ind2 (Some A) off dst len t
      = Some (0, copy_bytes dst 0 (\<lambda>k. fd_mem F t (unat (fa_off A) + unat off + k)) 0 (unat len), t')
    \<and> board_ok B rmc F (ARM_FLASH0_DEV B rmc) t' \<and> fd_mem F t' = fd_mem F t"
  by (rule aprom.flash_area_read_ok [OF assms(1) aprom_area_ok [OF assms(2)] assms(3,4)])

theorem flash_area_read_delivers_witness:
  "\<exists>t'. flash_area_read sim_safe_add sim_ind (Some (sim_area False)) 3 sim_ind 10 []
      = Some (0, copy_bytes sim_ind 0 (\<lambda>k. fd_mem sim_fdev [] (0x20003 + k)) 0 10, t')"
  using flash_area_read_delivers [OF sim_board_ok sim_aprom_area sim_safe_add_spec,
      of 3 10 False sim_ind sim_ind "[]"]
  by (auto simp: sim_area_def)

text \<open>
  C2. Writing at an aligned offset returns 0 and programs exactly the \<open>len\<close> bytes of the
  request, of any length, from the start of \<open>src\<close>; every other byte of the flash keeps its
  content, those in the padded last unit included.
\<close>

theorem flash_area_write_aligned:
  assumes "board_ok B rmc F (ARM_FLASH0_DEV B rmc) t" and "aprom_area B rmc ind A"
    and "safe_add_spec safe_add" and "unat off + unat len \<le> unat (fa_size A)"
    and "8 dvd unat off"
  shows "\<exists>t'. flash_area_write safe_add 8 ind2 (Some A) off src len t = Some (0, t')
    \<and> board_ok B rmc F (ARM_FLASH0_DEV B rmc) t'
    \<and> fd_mem F t' = flash_program (fd_mem F t) (unat (fa_off A) + unat off) (unat len) src"
  using aprom.flash_area_write_ok [OF assms(1) assms(2) [unfolded aprom_area_def] nvmc_unit_dvd
      assms(3,4)] write_image_aligned [OF assms(5)] by simp

theorem flash_area_write_aligned_witness:
  "\<exists>t'. flash_area_write sim_safe_add 8 sim_ind (Some (sim_area False)) 8 of_nat 11 [] = Some (0, t')
    \<and> fd_mem sim_fdev t' = flash_program (fd_mem sim_fdev []) 0x20008 11 of_nat"
  using flash_area_write_aligned [OF sim_board_ok sim_aprom_area sim_safe_add_spec,
      of 8 11 False sim_ind of_nat "[]"]
  by (auto simp: sim_area_def)

section \<open>Sequences of operations\<close>

text \<open>
  C3. Any sequence of admissible operations on an area of the APROM - reads of any bytes, writes
  at program units, erases of whole sectors - returns exactly what the specification of an area
  returns, ends with the content that the specification computes, leaves every byte outside
  of the area as it was, and the board in order.
\<close>

theorem area_sequence_refines:
  assumes "board_ok B rmc F (ARM_FLASH0_DEV B rmc) t" and "aprom_area B rmc ind A"
    and "safe_add_spec safe_add" and "nvmc_page B rmc dvd unat (fa_off A)"
    and "\<forall>x \<in> set xs. op_ok (nvmc_page B rmc) A x"
  shows "\<exists>t'. run_ops safe_add junk A xs t = Some (spec_results xs (area_content A (fd_mem F t)), t')
    \<and> area_content A (fd_mem F t') = fold spec_op xs (area_content A (fd_mem F t))
    \<and> same_outside A (fd_mem F t) (fd_mem F t') \<and> board_ok B rmc F (ARM_FLASH0_DEV B rmc) t'"
  using aprom.run_ops_sim [OF assms(2) [unfolded aprom_area_def] nvmc_unit_dvd assms(3,4,1,5)] by blast

theorem area_sequence_refines_witness:
  "\<exists>t'. run_ops sim_safe_add sim_ind (sim_area True) [Op_write 8 of_nat 3, Op_read 8 2, Op_erase 0 0x1000] []
      = Some ([(0, []), (0, [0, 1]), (0, [])], t')"
  using area_sequence_refines [OF sim_board_ok sim_aprom_area sim_safe_add_spec, where rmc = True and t = "[]"
      and junk = sim_ind and xs = "[Op_write 8 of_nat 3, Op_read 8 2, Op_erase 0 0x1000]"]
  by (auto simp: sim_area_def nvmc_page_def rmc_page_def area_content_def flash_program_def sim_fdev_def
      sim_run_def sim_start_def upt_rec)

text \<open>
  C4. Erasing whole sectors, writing data over them and reading back returns 0 three times and
  delivers the data, whatever the flash held before.
\<close>

theorem erase_write_read:
  assumes "board_ok B rmc F (ARM_FLASH0_DEV B rmc) t" and "aprom_area B rmc ind A"
    and "safe_add_spec safe_add" and "nvmc_page B rmc dvd unat (fa_off A)"
    and "nvmc_page B rmc dvd unat off" and "nvmc_page B rmc dvd unat zone"
    and "unat off + unat zone \<le> unat (fa_size A)" and "8 dvd unat off" and "unat len \<le> unat zone"
  shows "\<exists>t'. run_ops safe_add junk A [Op_erase off zone, Op_write off src len, Op_read off len] t
      = Some ([(0, []), (0, []), (0, map src [0..<unat len])], t')"
proof -
  let ?xs = "[Op_erase off zone, Op_write off src len, Op_read off len]" and ?c = "area_content A (fd_mem F t)"
  have "\<forall>x \<in> set ?xs. op_ok (nvmc_page B rmc) A x" using assms(5-9) by simp
  moreover have "spec_results ?xs ?c = [(0, []), (0, []), (0, map src [0..<unat len])]"
    using assms(9) by (auto simp: program_erased)
  ultimately show ?thesis
    using aprom.run_ops_sim [OF assms(2) [unfolded aprom_area_def] nvmc_unit_dvd assms(3,4,1)] by metis
qed

theorem erase_write_read_witness:
  "\<exists>t'. run_ops sim_safe_add sim_ind (sim_area False)
      [Op_erase 0x1000 0x1000, Op_write 0x1000 of_nat 3, Op_read 0x1000 3] []
    = Some ([(0, []), (0, []), (0, [0, 1, 2])], t')"
proof -
  have "map of_nat [0..<3] = [0, 1, 2 :: u8]" by (simp add: upt_rec)
  then show ?thesis
    using erase_write_read [OF sim_board_ok sim_aprom_area sim_safe_add_spec, where rmc = False and t = "[]"
      and junk = sim_ind and off = "0x1000" and zone = "0x1000" and len = 3 and src = of_nat]
    by (simp add: sim_area_def nvmc_page_def fmc_page_def)
qed

section \<open>The whole flash map\<close>

text \<open>
  C5. The flash areas of a platform with internal slots, as a whole. Whatever the client
  does with the areas that it opens by ID - the two slots and the scratch area, with admissible
  operations in any interleaving - every result is the one that independent abstract areas would
  give, the contents found under all IDs are those of the abstract areas, the boot loader keeps
  every byte and the controller stays ready. The client never gets stuck: every
  admissible operation on an area has a next step, and it returns 0.
\<close>

theorem areas_refine:
  fixes m :: "hw flash_area list"
  assumes "board_fits B rmc F ind drivers (layout_of p False)" and "safe_add_spec safe_add"
    and "flash_map drivers 1 True (layout_of p False) = Some m" and "fd_ready F t"
    and "map_runs safe_add (nvmc_page B rmc) m t es t'"
  shows "spec_accepts es (map_contents m (fd_mem F t))
    \<and> map_contents m (fd_mem F t') = fold spec_event es (map_contents m (fd_mem F t))
    \<and> (\<forall>k < bl2_end (layout_of p False). fd_mem F t' k = fd_mem F t k) \<and> fd_ready F t'
    \<and> (\<forall>x A op. flash_area_open m x None = (0, Some A) \<and> op_ok (nvmc_page B rmc) A op \<longrightarrow>
         (\<exists>r t''. map_step safe_add (nvmc_page B rmc) m t' (x, op, r) t'' \<and> fst r = 0))"
  using map_runs_sim [OF assms(5,1-4)] map_step_enabled [OF assms(1-3)] by blast

text \<open>A run on the concrete board: the scratch area is erased and written, then read.\<close>

theorem areas_refine_witness:
  "\<exists>m t'. flash_map (sim_drivers True) 1 True (layout_of M2L31 False) = Some m
    \<and> map_runs sim_safe_add 0x1000 m []
        [(255, Op_erase 0 0x1000, (0, [])), (255, Op_write 8 of_nat 2, (0, [])), (255, Op_read 9 1, (0, [1]))] t'"
proof -
  obtain m where m: "flash_map (sim_drivers True) 1 True (layout_of M2L31 False) = Some m"
    by (simp add: flash_map_def)
  have pg: "nvmc_page sim_bsp True = 0x1000" by (simp add: nvmc_page_def rmc_page_def)
  have ready: "fd_ready sim_fdev t" for t by (simp add: sim_fdev_def)
  note run = areas_refine [OF sim_board_fits sim_safe_add_spec m ready, where t = "[]", unfolded pg]
  have A: "fa_size (m ! 2) = 0x1000" by (simp add: flash_map_table [OF m] map_entry_def layout_defs)
  note o = flash_map_scratch [OF m, of None]
  have stp: "\<exists>r t''. map_step sim_safe_add 0x1000 m t' (255, op, r) t''"
    if "map_runs sim_safe_add 0x1000 m [] es t'" "op_ok 0x1000 (m ! 2) op" for es t' op
    using run [OF that(1)] o that(2) by blast
  have r0: "map_runs sim_safe_add 0x1000 m [] [] []" by (rule run_start)
  obtain r1 t1 where s1: "map_step sim_safe_add 0x1000 m [] (255, Op_erase 0 0x1000, r1) t1"
    using stp [OF r0, of "Op_erase 0 0x1000"] A by auto
  note r1 = run_step [OF r0 s1]
  obtain r2 t2 where s2: "map_step sim_safe_add 0x1000 m t1 (255, Op_write 8 of_nat 2, r2) t2"
    using stp [OF r1, of "Op_write 8 of_nat 2"] A by auto
  note r2 = run_step [OF r1 s2]
  obtain r3 t3 where s3: "map_step sim_safe_add 0x1000 m t2 (255, Op_read 9 1, r3) t3"
    using stp [OF r2, of "Op_read 9 1"] A by auto
  note r3 = run_step [OF r2 s3]
  have "r1 = (0, [])" "r2 = (0, [])" "r3 = (0, [1])"
    using run [OF r3] by (simp_all add: program_erased)
  then show ?thesis using r3 m by auto
qed

end
